(* ===== verification/PyBase.thy ===== *)
theory PyBase imports Main "HOL-Library.Char_ord" "HOL-Library.List_Lexorder" "HOL-Library.Product_Lexorder" begin

text \<open>
  The prelude shared by every component: exceptions as values of a sum type, the combinators
  that stop at the first exception as Python statements do, and the decimal text of integers.
  A Python call that may raise has the type \<open>'a py\<close>; \<open>Inl\<close> carries the exception.
\<close>

section \<open>Exceptions\<close>

text \<open>
  The exception classes the modelled code raises or handles. A message is the fixed text of
  the source's string; where the source interpolates values into it, the interpolated text is
  part of the message only if the definition says so.
\<close>

datatype pyexn =
    RuntimeError string
  | ValueError string
  | KeyError string
  | TypeError
  | IndexError
  | AttributeError
  | ArgumentError
  | AssertionError
  | ZeroDivisionError
  | OverflowError
  | JSONDecodeError
  | OSError string
  | TimeoutExpired
  | MicroLLMError string
  | SystemExit int

type_synonym 'a py = "pyexn + 'a"

named_theorems py_ok \<open>what a computation that returned tells about its parts\<close>

named_theorems py_defs \<open>unfoldings that evaluate a model on a concrete input\<close>

section \<open>Sequencing\<close>

definition bindE :: "'e + 'a \<Rightarrow> ('a \<Rightarrow> 'e + 'b) \<Rightarrow> 'e + 'b" where
  "bindE m f = (case m of Inl e \<Rightarrow> Inl e | Inr x \<Rightarrow> f x)"

definition raise_if :: "bool \<Rightarrow> 'e \<Rightarrow> 'e + unit" where
  "raise_if b e = (if b then Inl e else Inr ())"

abbreviation thenE :: "'e + unit \<Rightarrow> 'e + 'b \<Rightarrow> 'e + 'b" where
  "thenE m k \<equiv> bindE m (\<lambda>_. k)"

lemma bindE_simps [simp]:
  "bindE (Inl e) f = Inl e"
  "bindE (Inr x) f = f x"
  by (simp_all add: bindE_def)

lemma bindE_Inr_iff [py_ok]: "bindE m k = Inr v \<longleftrightarrow> (\<exists>u. m = Inr u \<and> k u = Inr v)"
  by (cases m) simp_all

lemma bindE_Inl_iff: "bindE m f = Inl e \<longleftrightarrow> m = Inl e \<or> (\<exists>x. m = Inr x \<and> f x = Inl e)"
  by (cases m) simp_all

lemma bindE_assoc: "bindE (bindE m f) g = bindE m (\<lambda>x. bindE (f x) g)"
  by (cases m) simp_all

lemma bindE_Inr_right [simp]: "bindE m Inr = m"
  by (cases m) simp_all

lemma bindE_cong [fundef_cong]:
  assumes "m = m'" and "\<And>x. m' = Inr x \<Longrightarrow> f x = g x"
  shows "bindE m f = bindE m' g"
  using assms by (cases m') simp_all

lemma raise_if_Inr [simp, py_ok]: "raise_if b e = Inr u \<longleftrightarrow> \<not> b"
  by (simp add: raise_if_def)

lemma raise_if_Inl [simp]: "raise_if b e = Inl e' \<longleftrightarrow> b \<and> e' = e"
  by (auto simp: raise_if_def)

lemma raise_if_bool [simp]: "raise_if True e = Inl e" "raise_if False e = Inr ()"
  by (simp_all add: raise_if_def)

section \<open>Boolean operators and comprehensions that may raise\<close>

text \<open>
  \<open>or\<close>, \<open>and\<close>, \<open>not\<close>, \<open>any\<close> and \<open>all\<close> evaluate
  left to right and stop as soon as the answer is known; a raise in an operand that is reached
  ends the evaluation.
\<close>

definition orM :: "'e + bool \<Rightarrow> 'e + bool \<Rightarrow> 'e + bool" where
  "orM a b = bindE a (\<lambda>x. if x then Inr True else b)"

definition andM :: "'e + bool \<Rightarrow> 'e + bool \<Rightarrow> 'e + bool" where
  "andM a b = bindE a (\<lambda>x. if x then b else Inr False)"

definition notM :: "'e + bool \<Rightarrow> 'e + bool" where
  "notM a = bindE a (\<lambda>x. Inr (\<not> x))"

fun orsM :: "('e + bool) list \<Rightarrow> 'e + bool" where
  "orsM [] = Inr False"
| "orsM (a # as) = orM a (orsM as)"

fun anyM :: "('a \<Rightarrow> 'e + bool) \<Rightarrow> 'a list \<Rightarrow> 'e + bool" where
  "anyM p [] = Inr False"
| "anyM p (x # xs) = bindE (p x) (\<lambda>b. if b then Inr True else anyM p xs)"

fun allM :: "('a \<Rightarrow> 'e + bool) \<Rightarrow> 'a list \<Rightarrow> 'e + bool" where
  "allM p [] = Inr True"
| "allM p (x # xs) = bindE (p x) (\<lambda>b. if b then allM p xs else Inr False)"

fun mapM :: "('x \<Rightarrow> 'e + 'y) \<Rightarrow> 'x list \<Rightarrow> 'e + 'y list" where
  "mapM f [] = Inr []"
| "mapM f (x # xs) = bindE (f x) (\<lambda>y. bindE (mapM f xs) (\<lambda>ys. Inr (y # ys)))"

fun foldM :: "('s \<Rightarrow> 'a \<Rightarrow> 'e + 's) \<Rightarrow> 's \<Rightarrow> 'a list \<Rightarrow> 'e + 's" where
  "foldM f s [] = Inr s"
| "foldM f s (x # xs) = bindE (f s x) (\<lambda>t. foldM f t xs)"

fun filterM :: "('a \<Rightarrow> 'e + bool) \<Rightarrow> 'a list \<Rightarrow> 'e + 'a list" where
  "filterM p [] = Inr []"
| "filterM p (x # xs) =
     bindE (p x) (\<lambda>b. bindE (filterM p xs) (\<lambda>ys. Inr (if b then x # ys else ys)))"

lemma orM_Inr_False [simp, py_ok]: "orM a b = Inr False \<longleftrightarrow> a = Inr False \<and> b = Inr False"
  by (cases a) (auto simp: orM_def)

lemma orM_Inr_True [py_ok]: "orM a b = Inr True \<longleftrightarrow> a = Inr True \<or> a = Inr False \<and> b = Inr True"
  by (cases a) (auto simp: orM_def)

lemma orM_simps [simp]:
  "orM (Inr True) b = Inr True" "orM (Inr False) b = b" "orM (Inl e) b = Inl e"
  by (simp_all add: orM_def)

lemma andM_simps [simp]:
  "andM (Inr True) b = b" "andM (Inr False) b = Inr False" "andM (Inl e) b = Inl e"
  by (simp_all add: andM_def)

lemma andM_Inr_True [simp, py_ok]: "andM a b = Inr True \<longleftrightarrow> a = Inr True \<and> b = Inr True"
  by (cases a) (auto simp: andM_def)

lemma andM_Inr_False [py_ok]:
  "andM a b = Inr False \<longleftrightarrow> a = Inr False \<or> a = Inr True \<and> b = Inr False"
  by (cases a) (auto simp: andM_def)

lemma notM_simps [simp]: "notM (Inr b) = Inr (\<not> b)" "notM (Inl e) = Inl e"
  by (simp_all add: notM_def)

lemma notM_Inr [simp, py_ok]: "notM a = Inr b \<longleftrightarrow> a = Inr (\<not> b)"
  by (cases a) (auto simp: notM_def)

lemma orsM_Inr_False [simp, py_ok]: "orsM as = Inr False \<longleftrightarrow> (\<forall>a \<in> set as. a = Inr False)"
  by (induction as) auto

lemma anyM_Inr_False [simp, py_ok]: "anyM p xs = Inr False \<longleftrightarrow> (\<forall>x \<in> set xs. p x = Inr False)"
  by (induction xs) (auto simp: bindE_Inr_iff split: if_splits)

lemma anyM_Inr_TrueD: "anyM p xs = Inr True \<Longrightarrow> \<exists>x \<in> set xs. p x = Inr True"
  by (induction xs) (auto simp: bindE_Inr_iff split: if_splits)

lemma allM_Inr_True [simp, py_ok]: "allM p xs = Inr True \<longleftrightarrow> (\<forall>x \<in> set xs. p x = Inr True)"
  by (induction xs) (auto simp: bindE_Inr_iff split: if_splits)

lemma anyM_pure [simp]: "anyM (\<lambda>x. Inr (p x)) xs = Inr (\<exists>x \<in> set xs. p x)"
  by (induction xs) auto

lemma allM_pure [simp]: "allM (\<lambda>x. Inr (p x)) xs = Inr (\<forall>x \<in> set xs. p x)"
  by (induction xs) auto

lemma mapM_pure [simp]: "mapM (\<lambda>x. Inr (f x)) xs = Inr (map f xs)"
  by (induction xs) auto

lemma mapM_Inr_iff [py_ok]: "mapM f xs = Inr ys \<longleftrightarrow> list_all2 (\<lambda>x y. f x = Inr y) xs ys"
  by (induction xs arbitrary: ys) (auto simp: bindE_Inr_iff list_all2_Cons1)

lemma mapM_length: "mapM f xs = Inr ys \<Longrightarrow> length ys = length xs"
  by (auto simp: mapM_Inr_iff dest: list_all2_lengthD)

lemma mapM_nth: "mapM f xs = Inr ys \<Longrightarrow> i < length xs \<Longrightarrow> f (xs ! i) = Inr (ys ! i)"
  by (auto simp: mapM_Inr_iff list_all2_conv_all_nth)

lemma mapM_setD: "mapM f xs = Inr ys \<Longrightarrow> y \<in> set ys \<Longrightarrow> \<exists>x \<in> set xs. f x = Inr y"
  by (metis in_set_conv_nth mapM_length mapM_nth)

lemma mapM_setI: "mapM f xs = Inr ys \<Longrightarrow> x \<in> set xs \<Longrightarrow> \<exists>y \<in> set ys. f x = Inr y"
  by (metis in_set_conv_nth mapM_length mapM_nth)

lemma mapM_append: "mapM f (xs @ ys) = bindE (mapM f xs) (\<lambda>us. bindE (mapM f ys) (\<lambda>vs. Inr (us @ vs)))"
  by (induction xs) (simp_all add: bindE_assoc)

lemma mapM_cong [fundef_cong]:
  "xs = ys \<Longrightarrow> (\<And>x. x \<in> set ys \<Longrightarrow> f x = g x) \<Longrightarrow> mapM f xs = mapM g ys"
  by (induction xs arbitrary: ys) auto

lemma anyM_cong [fundef_cong]:
  "xs = ys \<Longrightarrow> (\<And>x. x \<in> set ys \<Longrightarrow> p x = q x) \<Longrightarrow> anyM p xs = anyM q ys"
  by (induction xs arbitrary: ys) (auto intro!: bindE_cong)

lemma foldM_append: "foldM f s (xs @ ys) = bindE (foldM f s xs) (\<lambda>t. foldM f t ys)"
  by (induction xs arbitrary: s) (simp_all add: bindE_assoc)

lemma foldM_pure [simp]: "foldM (\<lambda>s x. Inr (f s x)) s xs = Inr (foldl f s xs)"
  by (induction xs arbitrary: s) simp_all

text \<open>An invariant of a loop body is an invariant of the loop.\<close>

lemma foldM_invariant:
  assumes "foldM f s xs = Inr t" and "P s"
    and "\<And>u x v. x \<in> set xs \<Longrightarrow> P u \<Longrightarrow> f u x = Inr v \<Longrightarrow> P v"
  shows "P t"
  using assms by (induction xs arbitrary: s) (auto simp: bindE_Inr_iff)

text \<open>Chained conditions: a validator is a list of guarded raises run in order.\<close>

fun checksE :: "('e + unit) list \<Rightarrow> 'e + unit" where
  "checksE [] = Inr ()"
| "checksE (c # cs) = thenE c (checksE cs)"

lemma checksE_Inr [simp, py_ok]: "checksE cs = Inr u \<longleftrightarrow> (\<forall>c \<in> set cs. c = Inr ())"
  by (induction cs) (auto simp: bindE_Inr_iff)

definition raise_ifM :: "'e + bool \<Rightarrow> 'e \<Rightarrow> 'e + unit" where
  "raise_ifM c e = bindE c (\<lambda>b. raise_if b e)"

lemma raise_ifM_simps [simp]:
  "raise_ifM (Inr True) e = Inl e" "raise_ifM (Inr False) e = Inr ()" "raise_ifM (Inl x) e = Inl x"
  by (simp_all add: raise_ifM_def)

lemma raise_ifM_Inr [simp, py_ok]: "raise_ifM c e = Inr u \<longleftrightarrow> c = Inr False"
  by (cases c) (auto simp: raise_ifM_def)

section \<open>Options and association lists\<close>

definition need :: "'e \<Rightarrow> 'a option \<Rightarrow> 'e + 'a" where
  "need e x = (case x of None \<Rightarrow> Inl e | Some v \<Rightarrow> Inr v)"

lemma need_simps [simp]: "need e None = Inl e" "need e (Some v) = Inr v"
  by (simp_all add: need_def)

lemma need_Inr [simp, py_ok]: "need e x = Inr v \<longleftrightarrow> x = Some v"
  by (cases x) auto

text \<open>
  A Python dict keeps insertion order: storing under a present key keeps its place and
  replaces the value, storing under a new key appends.
\<close>

fun dict_set :: "'k \<Rightarrow> 'v \<Rightarrow> ('k \<times> 'v) list \<Rightarrow> ('k \<times> 'v) list" where
  "dict_set k v [] = [(k, v)]"
| "dict_set k v ((k', v') # d) = (if k' = k then (k, v) # d else (k', v') # dict_set k v d)"

lemma map_of_dict_set [simp]: "map_of (dict_set k v d) = (map_of d)(k \<mapsto> v)"
  by (induction d) (auto simp: fun_eq_iff)

lemma keys_dict_set: "map fst (dict_set k v d) = (if k \<in> set (map fst d) then map fst d else map fst d @ [k])"
  by (induction d) force+

lemma set_keys_dict_set [simp]: "fst ` set (dict_set k v d) = insert k (fst ` set d)"
  by (metis keys_dict_set insert_absorb list.set_map list.simps(15) rotate1.simps(2) set_rotate1)

lemma distinct_dict_set [simp]: "distinct (map fst d) \<Longrightarrow> distinct (map fst (dict_set k v d))"
  by (auto simp: keys_dict_set)

lemma length_dict_set: "length (dict_set k v d) = (if k \<in> set (map fst d) then length d else Suc (length d))"
  by (metis keys_dict_set length_map length_append_singleton)

text \<open>\<open>d.update(e)\<close> and \<open>{**d, **e}\<close>: the pairs of \<open>e\<close> stored in order.\<close>

definition dict_update :: "('k \<times> 'v) list \<Rightarrow> ('k \<times> 'v) list \<Rightarrow> ('k \<times> 'v) list" where
  "dict_update d e = foldl (\<lambda>d (k, v). dict_set k v d) d e"

lemma dict_update_simps [simp]:
  "dict_update d [] = d"
  "dict_update d ((k, v) # e) = dict_update (dict_set k v d) e"
  by (simp_all add: dict_update_def)

lemma map_of_dict_update:
  "map_of (dict_update d e) k = (case map_of (rev e) k of None \<Rightarrow> map_of d k | Some v \<Rightarrow> Some v)"
  by (induction e arbitrary: d) (auto simp: map_add_def split: option.splits)

section \<open>Decimal text of integers\<close>

definition digit_char :: "nat \<Rightarrow> char" where
  "digit_char d = char_of (48 + d)"

fun str_nat :: "nat \<Rightarrow> string" where
  "str_nat n = (if n < 10 then [digit_char n] else str_nat (n div 10) @ [digit_char (n mod 10)])"

declare str_nat.simps [simp del]

definition str_int :: "int \<Rightarrow> string" where
  "str_int i = (if i < 0 then CHR ''-'' # str_nat (nat (- i)) else str_nat (nat i))"

definition is_digit :: "char \<Rightarrow> bool" where
  "is_digit c \<longleftrightarrow> 48 \<le> (of_char c :: nat) \<and> (of_char c :: nat) \<le> 57"

definition digit_val :: "char \<Rightarrow> nat" where
  "digit_val c = of_char c - 48"

definition nat_of_digits :: "string \<Rightarrow> nat" where
  "nat_of_digits s = foldl (\<lambda>a c. 10 * a + digit_val c) 0 s"

lemma digit_char_ok: "d < 10 \<Longrightarrow> is_digit (digit_char d) \<and> digit_val (digit_char d) = d"
  by (simp add: is_digit_def digit_val_def digit_char_def of_char_of)

lemma str_nat_ok: "str_nat n \<noteq> [] \<and> (\<forall>c \<in> set (str_nat n). is_digit c) \<and> nat_of_digits (str_nat n) = n"
proof (induction n rule: str_nat.induct)
  case (1 n)
  show ?case
  proof (cases "n < 10")
    case True
    then show ?thesis
      using digit_char_ok [of n] by (simp add: str_nat.simps [of n] nat_of_digits_def)
  next
    case False
    have "n mod 10 < 10" by simp
    then show ?thesis
      using False "1.IH" digit_char_ok [of "n mod 10"]
      by (auto simp: str_nat.simps [of n] nat_of_digits_def)
  qed
qed

lemma str_nat_inj: "str_nat m = str_nat n \<longleftrightarrow> m = n"
  by (metis str_nat_ok)

end
