(* ===== verification/PyOrder.thy ===== *)
theory PyOrder imports PyBase "HOL-Library.Multiset" begin

text \<open>
  The comparison-driven builtins \<open>max\<close>, \<open>min\<close> and \<open>sorted\<close> over an
  arbitrary comparison \<open>lt\<close>, exactly as CPython runs them: the first of several equal
  elements wins, sorting is stable, and nothing is assumed of \<open>lt\<close> in the definitions.
  What the results mean is proved once, in a locale that states which values the comparison
  orders (all integers; all floats but NaN).
\<close>

definition max_by :: "('a \<Rightarrow> 'a \<Rightarrow> bool) \<Rightarrow> 'a \<Rightarrow> 'a list \<Rightarrow> 'a" where
  "max_by lt x xs = foldl (\<lambda>m y. if lt m y then y else m) x xs"

definition min_by :: "('a \<Rightarrow> 'a \<Rightarrow> bool) \<Rightarrow> 'a \<Rightarrow> 'a list \<Rightarrow> 'a" where
  "min_by lt x xs = foldl (\<lambda>m y. if lt y m then y else m) x xs"

fun insert_by :: "('a \<Rightarrow> 'a \<Rightarrow> bool) \<Rightarrow> 'a \<Rightarrow> 'a list \<Rightarrow> 'a list" where
  "insert_by lt x [] = [x]"
| "insert_by lt x (y # ys) = (if lt x y then x # y # ys else y # insert_by lt x ys)"

definition sort_by :: "('a \<Rightarrow> 'a \<Rightarrow> bool) \<Rightarrow> 'a list \<Rightarrow> 'a list" where
  "sort_by lt xs = foldl (\<lambda>acc x. insert_by lt x acc) [] xs"

text \<open>\<open>reverse=True\<close> keeps the order of equal elements.\<close>

definition sort_desc_by :: "('a \<Rightarrow> 'a \<Rightarrow> bool) \<Rightarrow> 'a list \<Rightarrow> 'a list" where
  "sort_desc_by lt xs = rev (sort_by lt (rev xs))"

lemma max_by_simps [simp]:
  "max_by lt x [] = x"
  "max_by lt x (y # ys) = max_by lt (if lt x y then y else x) ys"
  by (simp_all add: max_by_def)

lemma min_by_simps [simp]:
  "min_by lt x [] = x"
  "min_by lt x (y # ys) = min_by lt (if lt y x then y else x) ys"
  by (simp_all add: min_by_def)

lemma max_by_in: "max_by lt x xs \<in> insert x (set xs)"
  by (induction xs arbitrary: x) (simp_all, metis insert_iff)

lemma min_by_in: "min_by lt x xs \<in> insert x (set xs)"
  by (induction xs arbitrary: x) (simp_all, metis insert_iff)

lemma mset_insert_by [simp]: "mset (insert_by lt x ys) = add_mset x (mset ys)"
  by (induction ys) auto

lemma mset_sort_by [simp]: "mset (sort_by lt xs) = mset xs"
proof -
  have "mset (foldl (\<lambda>acc x. insert_by lt x acc) a xs) = mset a + mset xs" for a
    by (induction xs arbitrary: a) auto
  then show ?thesis by (simp add: sort_by_def)
qed

lemma mset_sort_desc_by [simp]: "mset (sort_desc_by lt xs) = mset xs"
  by (simp add: sort_desc_by_def)

lemma set_insert_by [simp]: "set (insert_by lt x ys) = insert x (set ys)"
  by (induction ys) auto

lemma set_sort_by [simp]: "set (sort_by lt xs) = set xs"
  by (metis mset_sort_by set_mset_mset)

lemma set_sort_desc_by [simp]: "set (sort_desc_by lt xs) = set xs"
  by (simp add: sort_desc_by_def)

lemma length_sort_by [simp]: "length (sort_by lt xs) = length xs"
  by (metis mset_sort_by size_mset)

lemma length_sort_desc_by [simp]: "length (sort_desc_by lt xs) = length xs"
  by (simp add: sort_desc_by_def)

lemma sort_by_Nil [simp]: "sort_by lt [] = []"
  by (simp add: sort_by_def)

section \<open>The contract of a comparison\<close>

text \<open>
  A comparison orders the values that are \<open>good\<close>: on those it is asymmetric, and an
  element below another is below or above any third. This is what \<open>max\<close>, \<open>min\<close>
  and \<open>sorted\<close> need; NaN is the float for which it fails.
\<close>

locale comparison =
  fixes lt :: "'a \<Rightarrow> 'a \<Rightarrow> bool" and good :: "'a \<Rightarrow> bool"
  assumes lt_asym: "good a \<Longrightarrow> good b \<Longrightarrow> lt a b \<Longrightarrow> \<not> lt b a"
    and lt_cotrans: "good a \<Longrightarrow> good b \<Longrightarrow> good c \<Longrightarrow> lt a b \<Longrightarrow> lt a c \<or> lt c b"
begin

lemma not_lt_trans:
  "good a \<Longrightarrow> good b \<Longrightarrow> good c \<Longrightarrow> \<not> lt a b \<Longrightarrow> \<not> lt b c \<Longrightarrow> \<not> lt a c"
  using lt_cotrans by blast

lemma lt_irrefl: "good a \<Longrightarrow> \<not> lt a a"
  using lt_asym by blast

lemma max_by_upper:
  "good x \<Longrightarrow> (\<And>y. y \<in> set xs \<Longrightarrow> good y) \<Longrightarrow> z \<in> insert x (set xs) \<Longrightarrow> \<not> lt (max_by lt x xs) z"
proof (induction xs arbitrary: x z)
  case Nil
  then show ?case by (simp add: lt_irrefl)
next
  case (Cons y ys)
  let ?w = "if lt x y then y else x"
  have good_w: "good ?w" using Cons.prems by auto
  have good_m: "good (max_by lt ?w ys)"
    using max_by_in [of lt ?w ys] good_w Cons.prems(2) by auto
  have upper: "\<not> lt (max_by lt ?w ys) v" if "v \<in> insert ?w (set ys)" for v
    using Cons.IH [OF good_w _ that] Cons.prems(2) by simp
  show ?case
  proof (cases "z \<in> insert ?w (set ys)")
    case True
    then show ?thesis using upper by simp
  next
    case False
    then have "z = x \<and> lt x y \<or> z = y \<and> \<not> lt x y"
      using Cons.prems(3) by (auto split: if_splits)
    then have "good z" and "\<not> lt ?w z"
      using Cons.prems(1,2) lt_asym [of x y] by (auto split: if_splits)
    then have "\<not> lt (max_by lt ?w ys) z"
      using not_lt_trans [OF good_m good_w] upper by blast
    then show ?thesis by simp
  qed
qed

lemma insert_by_sorted:
  "good x \<Longrightarrow> (\<And>y. y \<in> set ys \<Longrightarrow> good y) \<Longrightarrow> sorted_wrt (\<lambda>a b. \<not> lt b a) ys \<Longrightarrow>
   sorted_wrt (\<lambda>a b. \<not> lt b a) (insert_by lt x ys)"
proof (induction ys)
  case Nil
  then show ?case by simp
next
  case (Cons y ys)
  show ?case
  proof (cases "lt x y")
    case True
    have "\<not> lt z x" if "z \<in> set ys" for z
    proof -
      have "good z" "good y" "\<not> lt z y" using Cons.prems that by auto
      then show ?thesis using True lt_asym lt_cotrans Cons.prems(1) by metis
    qed
    then show ?thesis using True Cons.prems lt_asym by auto
  next
    case False
    then show ?thesis using Cons by auto
  qed
qed

lemma sort_by_sorted:
  assumes "\<And>x. x \<in> set xs \<Longrightarrow> good x"
  shows "sorted_wrt (\<lambda>a b. \<not> lt b a) (sort_by lt xs)"
proof -
  have "sorted_wrt (\<lambda>a b. \<not> lt b a) (foldl (\<lambda>acc x. insert_by lt x acc) acc xs)"
    if "sorted_wrt (\<lambda>a b. \<not> lt b a) acc" and "\<And>y. y \<in> set acc \<Longrightarrow> good y" for acc
    using that assms
  proof (induction xs arbitrary: acc)
    case Nil
    then show ?case by simp
  next
    case (Cons x xs)
    then show ?case
      by (simp, intro Cons.IH) (auto intro!: insert_by_sorted)
  qed
  from this [of "[]"] show ?thesis by (simp add: sort_by_def)
qed

lemma sort_desc_by_sorted:
  assumes "\<And>x. x \<in> set xs \<Longrightarrow> good x"
  shows "sorted_wrt (\<lambda>a b. \<not> lt a b) (sort_desc_by lt xs)"
  unfolding sort_desc_by_def sorted_wrt_rev
  using sort_by_sorted [of "rev xs"] assms by simp

lemma sort_by_nth_mono:
  assumes "\<And>x. x \<in> set xs \<Longrightarrow> good x" and "i \<le> j" and "j < length xs"
  shows "\<not> lt (sort_by lt xs ! j) (sort_by lt xs ! i)"
proof (cases "i = j")
  case True
  have "sort_by lt xs ! j \<in> set xs"
    using assms(3) by (metis length_sort_by nth_mem set_sort_by)
  then show ?thesis using True assms(1) lt_irrefl by simp
next
  case False
  then show ?thesis
    using sort_by_sorted [OF assms(1)] assms(2,3) by (simp add: sorted_wrt_iff_nth_less)
qed

end

text \<open>The reversed comparison satisfies the same contract, and gives \<open>min\<close> from \<open>max\<close>.\<close>

lemma min_by_max_by: "min_by lt x xs = max_by (\<lambda>a b. lt b a) x xs"
  by (simp add: min_by_def max_by_def)

sublocale comparison \<subseteq> reversed: comparison "\<lambda>a b. lt b a" good
  by unfold_locales (use lt_asym lt_cotrans in blast)+

context comparison begin

lemma min_by_lower:
  "good x \<Longrightarrow> (\<And>y. y \<in> set xs \<Longrightarrow> good y) \<Longrightarrow> z \<in> insert x (set xs) \<Longrightarrow> \<not> lt z (min_by lt x xs)"
  unfolding min_by_max_by by (rule reversed.max_by_upper)

end

text \<open>Comparing by a key, as \<open>key=\<close> does.\<close>

locale keyed_comparison = comparison lt good
  for lt :: "'a \<Rightarrow> 'a \<Rightarrow> bool" and good :: "'a \<Rightarrow> bool" +
  fixes key :: "'b \<Rightarrow> 'a"

sublocale keyed_comparison \<subseteq> keyed: comparison "\<lambda>a b. lt (key a) (key b)" "\<lambda>a. good (key a)"
  by unfold_locales (use lt_asym lt_cotrans in blast)+

interpretation int_order: comparison "(<) :: int \<Rightarrow> int \<Rightarrow> bool" "\<lambda>_. True"
  by unfold_locales auto

end
