(* ===== verification/PyFloat.thy ===== *)
theory PyFloat imports PyOrder Complex_Main begin

text \<open>
  Python's \<open>float\<close> (IEEE 754 binary64) with its rounding to nearest, ties to even, as
  exact rationals: \<open>Fin q\<close> is a finite value, and every operation computes the exact
  rational result and rounds it once with \<open>rnd\<close>. The format is written out: 53 bits of
  precision, subnormals down to \<open>2\<^sup>-\<^sup>1\<^sup>0\<^sup>7\<^sup>4\<close>, overflow to an infinity at
  \<open>2\<^sup>1\<^sup>0\<^sup>2\<^sup>4\<close>. The sign of a zero is not kept: no modelled code distinguishes
  \<open>-0.0\<close> from \<open>0.0\<close>.
\<close>

datatype pyfloat = Fin rat | PInf | NInf | NaN

section \<open>Powers of two and binary logarithms\<close>

definition pow2 :: "int \<Rightarrow> rat" where
  "pow2 e = (if 0 \<le> e then 2 ^ nat e else 1 / 2 ^ nat (- e))"

fun bits :: "nat \<Rightarrow> nat" where
  "bits n = (if n = 0 then 0 else Suc (bits (n div 2)))"

declare bits.simps [simp del]

definition ilog2 :: "rat \<Rightarrow> int" where
  "ilog2 a =
     (if 1 \<le> a then int (bits (nat \<lfloor>a\<rfloor>)) - 1
      else let k = int (bits (nat \<lfloor>1 / a\<rfloor>)) - 1
           in if a * pow2 k = 1 then - k else - (k + 1))"

lemma pow2_pos [simp]: "0 < pow2 e"
  by (simp add: pow2_def)

lemma pow2_nonneg [simp]: "0 \<le> pow2 e" and pow2_nonzero [simp]: "pow2 e \<noteq> 0"
  using pow2_pos [of e] by linarith+

lemma pow2_powi: "pow2 e = 2 powi e"
  by (simp add: pow2_def power_int_def inverse_eq_divide power_one_over)

lemma pow2_add: "pow2 (a + b) = pow2 a * pow2 b"
  by (simp add: pow2_powi power_int_add)

lemma pow2_diff: "pow2 (a - b) = pow2 a / pow2 b"
  by (simp add: pow2_powi power_int_diff)

lemma pow2_0 [simp]: "pow2 0 = 1"
  by (simp add: pow2_def)

lemma pow2_1 [simp]: "pow2 1 = 2"
  by (simp add: pow2_def)

lemma pow2_less: "pow2 a < pow2 b \<longleftrightarrow> a < b"
proof -
  have mono: "pow2 c < pow2 d" if "c < d" for c d
    using that by (simp add: pow2_powi power_int_strict_increasing)
  show ?thesis using mono [of a b] mono [of b a] by (cases a b rule: linorder_cases) auto
qed

lemma pow2_le: "pow2 a \<le> pow2 b \<longleftrightarrow> a \<le> b"
  using pow2_less [of b a] by (simp add: not_less [symmetric])

lemma pow2_nat: "0 \<le> e \<Longrightarrow> pow2 e = of_int (2 ^ nat e)"
  by (simp add: pow2_def)

lemma bits_bounds: "0 < n \<Longrightarrow> 2 ^ (bits n - 1) \<le> n \<and> n < 2 ^ bits n \<and> 0 < bits n"
proof (induction n rule: bits.induct)
  case (1 n)
  show ?case
  proof (cases "n div 2 = 0")
    case True
    then have "n = 1" using "1.prems" by auto
    then show ?thesis using bits.simps [of 1] bits.simps [of 0] by simp
  next
    case False
    then have IH: "2 ^ (bits (n div 2) - 1) \<le> n div 2" "n div 2 < 2 ^ bits (n div 2)" "0 < bits (n div 2)"
      using "1.IH" "1.prems" by auto
    have eq: "bits n = Suc (bits (n div 2))"
      using "1.prems" by (simp add: bits.simps [of n])
    have "2 ^ bits (n div 2) = (2::nat) * 2 ^ (bits (n div 2) - 1)"
      using IH(3) by (simp add: power_eq_if)
    moreover have "2 * (n div 2) \<le> n" "n \<le> 2 * (n div 2) + 1" by linarith+
    ultimately show ?thesis using IH eq by simp linarith
  qed
qed

lemma ilog2_big: "1 \<le> a \<Longrightarrow> pow2 (ilog2 a) \<le> a \<and> a < pow2 (ilog2 a + 1)"
proof -
  assume a: "1 \<le> a"
  let ?n = "nat \<lfloor>a\<rfloor>"
  have fl: "1 \<le> \<lfloor>a\<rfloor>" using a by linarith
  then have n: "0 < ?n" by simp
  have b: "2 ^ (bits ?n - 1) \<le> ?n" "?n < 2 ^ bits ?n" "0 < bits ?n"
    using bits_bounds [OF n] by auto
  have lo: "(of_nat (2 ^ (bits ?n - 1)) :: rat) \<le> of_nat ?n" using b(1) by (simp only: of_nat_le_iff)
  have "?n + 1 \<le> 2 ^ bits ?n" using b(2) by linarith
  then have hi: "(of_nat (?n + 1) :: rat) \<le> of_nat (2 ^ bits ?n)" by (simp only: of_nat_le_iff)
  then have hi': "of_int \<lfloor>a\<rfloor> + 1 \<le> (of_nat (2 ^ bits ?n) :: rat)" using fl by simp
  have q: "(of_nat ?n :: rat) = of_int \<lfloor>a\<rfloor>" using fl by simp
  have il: "ilog2 a = int (bits ?n) - 1" using a by (simp add: ilog2_def)
  have e1: "pow2 (ilog2 a) = of_nat (2 ^ (bits ?n - 1))"
    using il b(3) by (simp add: pow2_def nat_diff_distrib)
  have e2: "pow2 (ilog2 a + 1) = of_nat (2 ^ bits ?n)"
    using il by (simp add: pow2_def)
  have "of_int \<lfloor>a\<rfloor> \<le> a" "a < of_int \<lfloor>a\<rfloor> + 1" by linarith+
  then show ?thesis using e1 e2 lo hi' q by (intro conjI; linarith)
qed

lemma ilog2_bounds: "0 < a \<Longrightarrow> pow2 (ilog2 a) \<le> a \<and> a < pow2 (ilog2 a + 1)"
proof (cases "1 \<le> a")
  case True
  then show ?thesis by (rule ilog2_big)
next
  case False
  assume a: "0 < a"
  define k where "k = ilog2 (1 / a)"
  have "1 \<le> 1 / a" using a False by simp
  then have k: "pow2 k \<le> 1 / a" "1 / a < pow2 (k + 1)"
    and kd: "int (bits (nat \<lfloor>1 / a\<rfloor>)) - 1 = k"
    using ilog2_big [of "1 / a"] by (auto simp: k_def ilog2_def)
  have le: "a * pow2 k \<le> 1" using k(1) a by (simp add: field_simps)
  have gt: "1 < a * pow2 (k + 1)" using k(2) a by (simp add: field_simps)
  have inv: "pow2 (- i) = 1 / pow2 i" for i using pow2_diff [of 0 i] by simp
  show ?thesis
  proof (cases "a * pow2 k = 1")
    case True
    then have "ilog2 a = - k" using False kd by (simp add: ilog2_def)
    moreover have "a = pow2 (- k)" using True inv [of k] pow2_pos [of k] by (metis eq_divide_eq less_irrefl)
    ultimately show ?thesis by (simp add: pow2_less)
  next
    case nt: False
    then have il: "ilog2 a = - (k + 1)" using False kd by (simp add: ilog2_def)
    have "a * pow2 k < 1" using le nt by simp
    then have "a < pow2 (- k)" unfolding inv by (simp add: pos_less_divide_eq)
    moreover have "pow2 (- (k + 1)) \<le> a"
      using gt unfolding inv by (simp add: pos_divide_le_eq)
    ultimately show ?thesis using il by simp
  qed
qed

lemma ilog2_mono: "0 < a \<Longrightarrow> a \<le> b \<Longrightarrow> ilog2 a \<le> ilog2 b"
proof -
  assume "0 < a" "a \<le> b"
  then have "pow2 (ilog2 a) < pow2 (ilog2 b + 1)"
    using ilog2_bounds [of a] ilog2_bounds [of b] by auto
  then show ?thesis by (simp add: pow2_less)
qed

section \<open>Rounding\<close>

definition round_half_even :: "rat \<Rightarrow> int" where
  "round_half_even q =
     (let f = \<lfloor>q\<rfloor>; d = q - of_int f
      in if d < 1 / 2 then f else if 1 / 2 < d then f + 1 else if even f then f else f + 1)"

text \<open>The weight of the last place of a positive number's result.\<close>

definition ulp_exp :: "rat \<Rightarrow> int" where
  "ulp_exp a = max (ilog2 a - 52) (- 1074)"

definition round_mag :: "rat \<Rightarrow> rat" where
  "round_mag a = of_int (round_half_even (a / pow2 (ulp_exp a))) * pow2 (ulp_exp a)"

definition rnd :: "rat \<Rightarrow> pyfloat" where
  "rnd q =
     (if q = 0 then Fin 0
      else let m = round_mag \<bar>q\<bar>
           in if pow2 1024 \<le> m then (if 0 < q then PInf else NInf)
              else Fin (if 0 < q then m else - m))"

lemma round_half_even_of_int [simp]: "round_half_even (of_int i) = i"
  by (simp add: round_half_even_def)

lemma round_half_even_bounds: "\<lfloor>q\<rfloor> \<le> round_half_even q" "round_half_even q \<le> \<lfloor>q\<rfloor> + 1"
  by (auto simp: round_half_even_def Let_def)

lemma round_half_even_error: "\<bar>of_int (round_half_even q) - q\<bar> \<le> 1 / 2"
proof -
  define f where "f = \<lfloor>q\<rfloor>"
  have "of_int f \<le> q" "q < of_int f + 1" unfolding f_def by linarith+
  then show ?thesis
    unfolding round_half_even_def Let_def f_def [symmetric] by (auto simp: abs_if)
qed

lemma round_half_even_mono: "p \<le> q \<Longrightarrow> round_half_even p \<le> round_half_even q"
proof -
  assume pq: "p \<le> q"
  then have fl: "\<lfloor>p\<rfloor> \<le> \<lfloor>q\<rfloor>" by (rule floor_mono)
  show ?thesis
  proof (cases "\<lfloor>p\<rfloor> = \<lfloor>q\<rfloor>")
    case True
    then show ?thesis using pq by (auto simp: round_half_even_def Let_def)
  next
    case False
    then have "\<lfloor>p\<rfloor> + 1 \<le> \<lfloor>q\<rfloor>" using fl by linarith
    then show ?thesis
      using round_half_even_bounds [of p] round_half_even_bounds [of q] by linarith
  qed
qed

lemma round_half_even_le: "q \<le> of_int i \<Longrightarrow> round_half_even q \<le> i"
  using round_half_even_mono [of q "of_int i"] by simp

lemma round_half_even_ge: "of_int i \<le> q \<Longrightarrow> i \<le> round_half_even q"
  using round_half_even_mono [of "of_int i" q] by simp

lemma round_mag_nonneg: "0 < a \<Longrightarrow> 0 \<le> round_mag a"
proof -
  assume "0 < a"
  then have "of_int 0 \<le> a / pow2 (ulp_exp a)" by simp
  then have "0 \<le> round_half_even (a / pow2 (ulp_exp a))" by (rule round_half_even_ge)
  then show ?thesis by (simp add: round_mag_def)
qed

text \<open>A power of two at or above the last place is a grid point, so rounding does not cross it.\<close>

lemma round_mag_below: "ulp_exp a \<le> e \<Longrightarrow> a \<le> pow2 e \<Longrightarrow> round_mag a \<le> pow2 e"
proof -
  assume e: "ulp_exp a \<le> e" and a: "a \<le> pow2 e"
  have p: "pow2 e = pow2 (e - ulp_exp a) * pow2 (ulp_exp a)" by (simp add: pow2_diff)
  have g: "pow2 (e - ulp_exp a) = of_int (2 ^ nat (e - ulp_exp a))" using e by (simp add: pow2_nat)
  have "a / pow2 (ulp_exp a) \<le> of_int (2 ^ nat (e - ulp_exp a))"
    using a unfolding g [symmetric] pow2_diff by (simp add: divide_right_mono)
  then have "round_half_even (a / pow2 (ulp_exp a)) \<le> 2 ^ nat (e - ulp_exp a)"
    by (rule round_half_even_le)
  then have "(of_int (round_half_even (a / pow2 (ulp_exp a))) :: rat) \<le> of_int (2 ^ nat (e - ulp_exp a))"
    by (simp only: of_int_le_iff)
  then show ?thesis
    unfolding round_mag_def p g by (rule mult_right_mono) simp
qed

lemma round_mag_above: "ulp_exp a \<le> e \<Longrightarrow> pow2 e \<le> a \<Longrightarrow> pow2 e \<le> round_mag a"
proof -
  assume e: "ulp_exp a \<le> e" and a: "pow2 e \<le> a"
  have p: "pow2 e = pow2 (e - ulp_exp a) * pow2 (ulp_exp a)" by (simp add: pow2_diff)
  have g: "pow2 (e - ulp_exp a) = of_int (2 ^ nat (e - ulp_exp a))" using e by (simp add: pow2_nat)
  have "of_int (2 ^ nat (e - ulp_exp a)) \<le> a / pow2 (ulp_exp a)"
    using a unfolding g [symmetric] pow2_diff by (simp add: divide_right_mono)
  then have "2 ^ nat (e - ulp_exp a) \<le> round_half_even (a / pow2 (ulp_exp a))"
    by (rule round_half_even_ge)
  then have "(of_int (2 ^ nat (e - ulp_exp a)) :: rat) \<le> of_int (round_half_even (a / pow2 (ulp_exp a)))"
    by (simp only: of_int_le_iff)
  then show ?thesis
    unfolding round_mag_def p g by (rule mult_right_mono) simp
qed

lemma round_mag_mono: "0 < a \<Longrightarrow> a \<le> b \<Longrightarrow> round_mag a \<le> round_mag b"
proof -
  assume a: "0 < a" and ab: "a \<le> b"
  have il: "ilog2 a \<le> ilog2 b" using a ab by (rule ilog2_mono)
  show ?thesis
  proof (cases "ulp_exp a = ulp_exp b")
    case True
    have "a / pow2 (ulp_exp b) \<le> b / pow2 (ulp_exp b)"
      using ab by (simp add: divide_right_mono)
    then have "round_half_even (a / pow2 (ulp_exp b)) \<le> round_half_even (b / pow2 (ulp_exp b))"
      by (rule round_half_even_mono)
    then show ?thesis unfolding round_mag_def True by (simp add: mult_right_mono)
  next
    case False
    then have lt: "ilog2 a < ilog2 b" and ub: "ulp_exp b \<le> ilog2 b" and ua: "ulp_exp a \<le> ilog2 b"
      using il by (auto simp: ulp_exp_def max_def split: if_splits)
    have "a < pow2 (ilog2 a + 1)" using ilog2_bounds [OF a] by simp
    also have "\<dots> \<le> pow2 (ilog2 b)" using lt by (simp add: pow2_le)
    finally have "round_mag a \<le> pow2 (ilog2 b)" using ua by (intro round_mag_below) auto
    moreover have "pow2 (ilog2 b) \<le> round_mag b"
      using ub ilog2_bounds [of b] a ab by (intro round_mag_above) auto
    ultimately show ?thesis by linarith
  qed
qed

lemma rnd_0 [simp]: "rnd 0 = Fin 0"
  by (simp add: rnd_def)

lemma rnd_not_NaN [simp]: "rnd q \<noteq> NaN" "NaN \<noteq> rnd q"
  by (auto simp: rnd_def Let_def)

text \<open>Integers of up to 53 bits are exact.\<close>

lemma round_mag_of_int: "0 < i \<Longrightarrow> i < 2 ^ 53 \<Longrightarrow> round_mag (of_int i) = of_int i"
proof -
  assume i: "0 < i" "i < 2 ^ 53"
  let ?a = "of_int i :: rat"
  have a: "0 < ?a" using i by simp
  have "?a < of_int (2 ^ 53)" using i(2) by (simp only: of_int_less_iff)
  then have "pow2 (ilog2 ?a) < pow2 53" using ilog2_bounds [OF a] by (simp add: pow2_def)
  then have u: "ulp_exp ?a \<le> 0" by (simp add: pow2_less ulp_exp_def)
  have g: "?a / pow2 (ulp_exp ?a) = of_int (i * 2 ^ nat (- ulp_exp ?a))"
    using u by (auto simp: pow2_def)
  show ?thesis
    unfolding round_mag_def g round_half_even_of_int
    unfolding g [symmetric] by simp
qed

lemma rnd_of_int: "\<bar>i\<bar> < 2 ^ 53 \<Longrightarrow> rnd (of_int i) = Fin (of_int i)"
proof -
  assume i: "\<bar>i\<bar> < 2 ^ 53"
  show ?thesis
  proof (cases "i = 0")
    case True
    then show ?thesis by simp
  next
    case False
    have ab: "\<bar>of_int i\<bar> = (of_int \<bar>i\<bar> :: rat)" by simp
    have m: "round_mag \<bar>of_int i\<bar> = of_int \<bar>i\<bar>"
      unfolding ab using False i by (intro round_mag_of_int) auto
    have "(of_int \<bar>i\<bar> :: rat) < of_int (2 ^ 53)" using i by (simp only: of_int_less_iff)
    also have "\<dots> \<le> pow2 53" by (simp add: pow2_def)
    also have "\<dots> \<le> pow2 1024" by (simp add: pow2_le)
    finally show ?thesis using False m by (simp add: rnd_def Let_def)
  qed
qed

section \<open>Comparison\<close>

fun flt :: "pyfloat \<Rightarrow> pyfloat \<Rightarrow> bool" where
  "flt (Fin a) (Fin b) = (a < b)"
| "flt (Fin a) PInf = True"
| "flt NInf (Fin b) = True"
| "flt NInf PInf = True"
| "flt _ _ = False"

fun feq :: "pyfloat \<Rightarrow> pyfloat \<Rightarrow> bool" where
  "feq (Fin a) (Fin b) = (a = b)"
| "feq PInf PInf = True"
| "feq NInf NInf = True"
| "feq _ _ = False"

definition fle :: "pyfloat \<Rightarrow> pyfloat \<Rightarrow> bool" where
  "fle x y \<longleftrightarrow> flt x y \<or> feq x y"

fun is_finite_float :: "pyfloat \<Rightarrow> bool" where
  "is_finite_float (Fin _) = True"
| "is_finite_float _ = False"

lemma flt_NaN [simp]: "\<not> flt NaN x" "\<not> flt x NaN"
  by (cases x; simp)+

lemma feq_NaN [simp]: "\<not> feq NaN x" "\<not> feq x NaN"
  by (cases x; simp)+

lemma fle_simps [simp]:
  "fle (Fin a) (Fin b) \<longleftrightarrow> a \<le> b"
  "\<not> fle NaN x" "\<not> fle x NaN"
  "fle PInf PInf" "fle NInf NInf" "fle (Fin a) PInf" "fle NInf (Fin a)" "fle NInf PInf"
  "\<not> fle PInf (Fin a)" "\<not> fle PInf NInf" "\<not> fle (Fin a) NInf"
  by (auto simp: fle_def)

lemma feq_iff: "feq x y \<longleftrightarrow> x = y \<and> x \<noteq> NaN"
  by (cases x; cases y) auto

lemma flt_irrefl [simp]: "\<not> flt x x"
  by (cases x) auto

lemma flt_not_sym: "flt x y \<Longrightarrow> \<not> flt y x"
  by (cases x; cases y) auto

lemma flt_trans: "flt x y \<Longrightarrow> flt y z \<Longrightarrow> flt x z"
  by (cases x; cases y; cases z) auto

lemma fle_trans: "fle x y \<Longrightarrow> fle y z \<Longrightarrow> fle x z"
  by (cases x; cases y; cases z) auto

lemma not_flt_iff: "x \<noteq> NaN \<Longrightarrow> y \<noteq> NaN \<Longrightarrow> \<not> flt x y \<longleftrightarrow> fle y x"
  by (cases x; cases y) auto

interpretation float_order: comparison flt "\<lambda>x. x \<noteq> NaN"
proof
  fix a b c
  show "flt a b \<Longrightarrow> \<not> flt b a" by (rule flt_not_sym)
  show "a \<noteq> NaN \<Longrightarrow> b \<noteq> NaN \<Longrightarrow> c \<noteq> NaN \<Longrightarrow> flt a b \<Longrightarrow> flt a c \<or> flt c b"
    by (cases a; cases b; cases c) auto
qed

lemma rnd_mono: "p \<le> q \<Longrightarrow> fle (rnd p) (rnd q)"
proof -
  assume pq: "p \<le> q"
  have pos: "fle (rnd a) (rnd b)" if "0 < a" "a \<le> b" for a b
    using that round_mag_mono [of a b] by (auto simp: rnd_def Let_def)
  have nonneg: "fle (Fin 0) (rnd a)" if "0 < a" for a
    using that round_mag_nonneg [of a] by (auto simp: rnd_def Let_def)
  have nonpos: "fle (rnd a) (Fin 0)" if "a < 0" for a
    using that round_mag_nonneg [of "- a"] by (auto simp: rnd_def Let_def)
  have neg: "fle (rnd a) (rnd b)" if "a \<le> b" "b < 0" for a b
    using that round_mag_mono [of "- b" "- a"] by (auto simp: rnd_def Let_def)
  consider "p = 0" "q = 0" | "0 < p" | "q < 0" | "p < 0" "q = 0" | "p = 0" "0 < q" | "p < 0" "0 < q"
    using pq by linarith
  then show ?thesis
  proof cases
    case 6
    then show ?thesis using nonpos [of p] nonneg [of q] fle_trans by blast
  qed (use pq pos neg nonpos nonneg in auto)
qed

lemma rnd_nonneg: "0 \<le> q \<Longrightarrow> fle (Fin 0) (rnd q)"
  using rnd_mono [of 0 q] by simp

lemma rnd_nonpos: "q \<le> 0 \<Longrightarrow> fle (rnd q) (Fin 0)"
  using rnd_mono [of q 0] by simp

section \<open>Arithmetic\<close>

fun fneg :: "pyfloat \<Rightarrow> pyfloat" where
  "fneg (Fin a) = Fin (- a)"
| "fneg PInf = NInf"
| "fneg NInf = PInf"
| "fneg NaN = NaN"

fun fabs :: "pyfloat \<Rightarrow> pyfloat" where
  "fabs (Fin a) = Fin \<bar>a\<bar>"
| "fabs PInf = PInf"
| "fabs NInf = PInf"
| "fabs NaN = NaN"

fun fadd :: "pyfloat \<Rightarrow> pyfloat \<Rightarrow> pyfloat" where
  "fadd (Fin a) (Fin b) = rnd (a + b)"
| "fadd NaN _ = NaN"
| "fadd _ NaN = NaN"
| "fadd PInf NInf = NaN"
| "fadd NInf PInf = NaN"
| "fadd PInf _ = PInf"
| "fadd _ PInf = PInf"
| "fadd NInf _ = NInf"
| "fadd _ NInf = NInf"

definition fsub :: "pyfloat \<Rightarrow> pyfloat \<Rightarrow> pyfloat" where
  "fsub x y = fadd x (fneg y)"

definition finf :: "bool \<Rightarrow> pyfloat" where
  "finf neg = (if neg then NInf else PInf)"

fun fmul :: "pyfloat \<Rightarrow> pyfloat \<Rightarrow> pyfloat" where
  "fmul (Fin a) (Fin b) = rnd (a * b)"
| "fmul NaN _ = NaN"
| "fmul _ NaN = NaN"
| "fmul (Fin a) PInf = (if a = 0 then NaN else finf (a < 0))"
| "fmul (Fin a) NInf = (if a = 0 then NaN else finf (0 < a))"
| "fmul PInf (Fin a) = (if a = 0 then NaN else finf (a < 0))"
| "fmul NInf (Fin a) = (if a = 0 then NaN else finf (0 < a))"
| "fmul PInf PInf = PInf"
| "fmul PInf NInf = NInf"
| "fmul NInf PInf = NInf"
| "fmul NInf NInf = PInf"

text \<open>\<open>x / y\<close> raises on a zero divisor, whatever \<open>x\<close> is.\<close>

fun fdiv :: "pyfloat \<Rightarrow> pyfloat \<Rightarrow> pyfloat py" where
  "fdiv x (Fin b) =
     (if b = 0 then Inl ZeroDivisionError
      else case x of Fin a \<Rightarrow> Inr (rnd (a / b)) | PInf \<Rightarrow> Inr (finf (b < 0))
           | NInf \<Rightarrow> Inr (finf (0 < b)) | NaN \<Rightarrow> Inr NaN)"
| "fdiv x NaN = Inr NaN"
| "fdiv (Fin a) _ = Inr (Fin 0)"
| "fdiv _ _ = Inr NaN"

text \<open>
  The conversion of an \<open>int\<close> (\<open>float(n)\<close>, and mixed arithmetic) and the true
  division of two \<open>int\<close>s round the exact value once and raise when it is out of range.
\<close>

definition finite_or_overflow :: "pyfloat \<Rightarrow> pyfloat py" where
  "finite_or_overflow x = (case x of Fin q \<Rightarrow> Inr (Fin q) | _ \<Rightarrow> Inl OverflowError)"

definition float_of_int :: "int \<Rightarrow> pyfloat py" where
  "float_of_int i = finite_or_overflow (rnd (of_int i))"

definition int_truediv :: "int \<Rightarrow> int \<Rightarrow> pyfloat py" where
  "int_truediv a b =
     (if b = 0 then Inl ZeroDivisionError else finite_or_overflow (rnd (of_int a / of_int b)))"

text \<open>\<open>x ** 2\<close>: the C library's \<open>pow\<close>, correctly rounded here; overflow raises.\<close>

fun fsquare :: "pyfloat \<Rightarrow> pyfloat py" where
  "fsquare (Fin a) = finite_or_overflow (rnd (a * a))"
| "fsquare NaN = Inr NaN"
| "fsquare _ = Inr PInf"

text \<open>\<open>int(x)\<close> truncates, \<open>round(x)\<close> rounds half to even, both to an \<open>int\<close>.\<close>

fun int_of_float :: "pyfloat \<Rightarrow> int py" where
  "int_of_float (Fin q) = Inr (if 0 \<le> q then \<lfloor>q\<rfloor> else \<lceil>q\<rceil>)"
| "int_of_float NaN = Inl (ValueError ''cannot convert float NaN to integer'')"
| "int_of_float _ = Inl OverflowError"

fun round_float :: "pyfloat \<Rightarrow> int py" where
  "round_float (Fin q) = Inr (round_half_even q)"
| "round_float NaN = Inl (ValueError ''cannot convert float NaN to integer'')"
| "round_float _ = Inl OverflowError"

section \<open>Square root\<close>

fun isqrt :: "nat \<Rightarrow> nat" where
  "isqrt n =
     (if n < 2 then n
      else let r = 2 * isqrt (n div 4) in if (r + 1) * (r + 1) \<le> n then r + 1 else r)"

declare isqrt.simps [simp del]

text \<open>
  The square root of a positive rational to at least 56 bits, with a half unit added when it
  is not exact, so that rounding it to 53 bits gives the correctly rounded root.
\<close>

definition sqrt_approx :: "rat \<Rightarrow> rat" where
  "sqrt_approx q =
     (let k = nat (max 0 (57 - ilog2 q div 2)); s = q * 4 ^ k; r = isqrt (nat \<lfloor>s\<rfloor>)
      in (if of_nat (r * r) = s then of_nat r else of_nat r + 1 / 2) / 2 ^ k)"

fun fsqrt :: "pyfloat \<Rightarrow> pyfloat py" where
  "fsqrt (Fin q) =
     (if q < 0 then Inl (ValueError ''math domain error'')
      else if q = 0 then Inr (Fin 0) else Inr (rnd (sqrt_approx q)))"
| "fsqrt PInf = Inr PInf"
| "fsqrt NInf = Inl (ValueError ''math domain error'')"
| "fsqrt NaN = Inr NaN"

lemma isqrt_bounds: "isqrt n * isqrt n \<le> n \<and> n < (isqrt n + 1) * (isqrt n + 1)"
proof (induction n rule: isqrt.induct)
  case (1 n)
  show ?case
  proof (cases "n < 2")
    case True
    then have "n = 0 \<or> n = 1" by linarith
    then show ?thesis by (auto simp: isqrt.simps [of n])
  next
    case False
    define s where "s = isqrt (n div 4)"
    have IH: "s * s \<le> n div 4" "n div 4 < (s + 1) * (s + 1)"
      using "1.IH" [OF False] by (auto simp: s_def)
    have lo: "4 * (s * s) \<le> n" using IH(1) by linarith
    have "n div 4 + 1 \<le> (s + 1) * (s + 1)" using IH(2) by linarith
    then have hi: "n < 4 * ((s + 1) * (s + 1))" by linarith
    have eq: "isqrt n = (if (2 * s + 1) * (2 * s + 1) \<le> n then 2 * s + 1 else 2 * s)"
      using False by (simp add: isqrt.simps [of n] Let_def s_def)
    show ?thesis using lo hi unfolding eq by (auto simp: algebra_simps)
  qed
qed

section \<open>Facts the components use\<close>

lemma fabs_NaN_iff [simp]: "fabs x = NaN \<longleftrightarrow> x = NaN"
  by (cases x) auto

lemma fabs_nonneg: "x \<noteq> NaN \<Longrightarrow> fle (Fin 0) (fabs x)"
  by (cases x) auto

lemma fadd_commute: "fadd x y = fadd y x"
  by (cases x; cases y) (auto simp: add.commute)

lemma fmul_commute: "fmul x y = fmul y x"
  by (cases x; cases y) (auto simp: mult.commute)

lemma fsub_self: "is_finite_float x \<Longrightarrow> fsub x x = Fin 0"
  by (cases x) (auto simp: fsub_def)

lemma float_of_int_exact: "\<bar>i\<bar> < 2 ^ 53 \<Longrightarrow> float_of_int i = Inr (Fin (of_int i))"
  by (simp add: float_of_int_def rnd_of_int finite_or_overflow_def)

lemma finite_or_overflow_Inr [simp]: "finite_or_overflow x = Inr y \<longleftrightarrow> x = y \<and> is_finite_float x"
  by (cases x) (auto simp: finite_or_overflow_def)

lemma float_of_int_mono:
  "i \<le> j \<Longrightarrow> float_of_int i = Inr x \<Longrightarrow> float_of_int j = Inr y \<Longrightarrow> fle x y"
  by (auto simp: float_of_int_def intro: rnd_mono)

lemma int_truediv_self: "b \<noteq> 0 \<Longrightarrow> int_truediv b b = Inr (Fin 1)"
  using rnd_of_int [of 1] by (simp add: int_truediv_def)

text \<open>Integers that occur in concrete inputs, for the simplifier.\<close>

lemma rnd_numeral [simp]:
  "(numeral k :: int) < 2 ^ 53 \<Longrightarrow> rnd (numeral k) = Fin (numeral k)"
  "(numeral k :: int) < 2 ^ 53 \<Longrightarrow> rnd (- numeral k) = Fin (- numeral k)"
  "rnd 1 = Fin 1" "rnd (- 1) = Fin (- 1)"
  using rnd_of_int [of "numeral k"] rnd_of_int [of "- numeral k"] rnd_of_int [of 1] rnd_of_int [of "- 1"] by simp_all

lemma round_half_even_numeral [simp]:
  "round_half_even (numeral k) = numeral k" "round_half_even (- numeral k) = - numeral k"
  "round_half_even 0 = 0" "round_half_even 1 = 1"
  using round_half_even_of_int [of "numeral k"] round_half_even_of_int [of "- numeral k"]
    round_half_even_of_int [of 0] round_half_even_of_int [of 1] by simp_all

lemma float_of_int_numeral [simp]:
  "(numeral k :: int) < 2 ^ 53 \<Longrightarrow> float_of_int (numeral k) = Inr (Fin (numeral k))"
  "(numeral k :: int) < 2 ^ 53 \<Longrightarrow> float_of_int (- numeral k) = Inr (Fin (- numeral k))"
  "float_of_int 0 = Inr (Fin 0)" "float_of_int 1 = Inr (Fin 1)"
  by (simp_all add: float_of_int_def finite_or_overflow_def)

end
