(* ===== verification/PyVal.thy ===== *)
theory PyVal imports PyFloat begin

text \<open>
  The dynamically typed values a JSON document holds, with the operators and builtins the
  modelled code applies to them: cross-type numeric equality and order, arithmetic with
  int-to-float conversion, subscripts, truth values, \<open>isinstance\<close>, \<open>sum\<close> and
  \<open>max\<close>. Every operation raises where Python raises. A dict is its list of pairs in
  insertion order; \<open>json.loads\<close> keeps one pair per key. Lists are never compared with
  \<open><\<close> by the code, so that case is left a \<open>TypeError\<close>.
\<close>

datatype pyval =
    VNone
  | VBool bool
  | VInt int
  | VFloat pyfloat
  | VStr string
  | VList "pyval list"
  | VDict "(string \<times> pyval) list"

type_synonym pydict = "(string \<times> pyval) list"

section \<open>Numbers\<close>

text \<open>\<open>bool\<close> is a subclass of \<open>int\<close>: \<open>True\<close> is 1 in every numeric context.\<close>

datatype num = NI int | NF pyfloat

fun as_num :: "pyval \<Rightarrow> num option" where
  "as_num (VBool b) = Some (NI (if b then 1 else 0))"
| "as_num (VInt i) = Some (NI i)"
| "as_num (VFloat x) = Some (NF x)"
| "as_num _ = None"

fun of_num :: "num \<Rightarrow> pyval" where
  "of_num (NI i) = VInt i"
| "of_num (NF x) = VFloat x"

text \<open>Comparison of an int with a float is exact in Python: no rounding of the int.\<close>

fun num_val :: "num \<Rightarrow> pyfloat" where
  "num_val (NI i) = Fin (of_int i)"
| "num_val (NF x) = x"

fun to_float :: "num \<Rightarrow> pyfloat py" where
  "to_float (NI i) = float_of_int i"
| "to_float (NF x) = Inr x"

definition num_arith ::
  "(int \<Rightarrow> int \<Rightarrow> num py) \<Rightarrow> (pyfloat \<Rightarrow> pyfloat \<Rightarrow> pyfloat py) \<Rightarrow> pyval \<Rightarrow> pyval \<Rightarrow> pyval py" where
  "num_arith fi ff v w =
     (case (as_num v, as_num w) of
        (Some (NI i), Some (NI j)) \<Rightarrow> bindE (fi i j) (\<lambda>n. Inr (of_num n))
      | (Some a, Some b) \<Rightarrow>
          bindE (to_float a) (\<lambda>x. bindE (to_float b) (\<lambda>y. bindE (ff x y) (\<lambda>z. Inr (VFloat z))))
      | _ \<Rightarrow> Inl TypeError)"

definition py_add :: "pyval \<Rightarrow> pyval \<Rightarrow> pyval py" where
  "py_add = num_arith (\<lambda>i j. Inr (NI (i + j))) (\<lambda>x y. Inr (fadd x y))"

definition py_sub :: "pyval \<Rightarrow> pyval \<Rightarrow> pyval py" where
  "py_sub = num_arith (\<lambda>i j. Inr (NI (i - j))) (\<lambda>x y. Inr (fsub x y))"

definition py_mul :: "pyval \<Rightarrow> pyval \<Rightarrow> pyval py" where
  "py_mul = num_arith (\<lambda>i j. Inr (NI (i * j))) (\<lambda>x y. Inr (fmul x y))"

definition py_truediv :: "pyval \<Rightarrow> pyval \<Rightarrow> pyval py" where
  "py_truediv = num_arith (\<lambda>i j. bindE (int_truediv i j) (\<lambda>x. Inr (NF x))) fdiv"

text \<open>\<open>//\<close> between ints rounds towards minus infinity, as \<open>div\<close> does.\<close>

definition py_floordiv_int :: "pyval \<Rightarrow> int \<Rightarrow> pyval py" where
  "py_floordiv_int v j =
     (case as_num v of
        Some (NI i) \<Rightarrow> if j = 0 then Inl ZeroDivisionError else Inr (VInt (i div j))
      | Some (NF x) \<Rightarrow>
          bindE (float_of_int j) (\<lambda>y. bindE (fdiv x y) (\<lambda>z.
            case z of Fin q \<Rightarrow> Inr (VFloat (rnd (of_int \<lfloor>q\<rfloor>))) | _ \<Rightarrow> Inr (VFloat NaN)))
      | None \<Rightarrow> Inl TypeError)"

definition py_abs :: "pyval \<Rightarrow> pyval py" where
  "py_abs v =
     (case as_num v of None \<Rightarrow> Inl TypeError
      | Some (NI i) \<Rightarrow> Inr (VInt \<bar>i\<bar>) | Some (NF x) \<Rightarrow> Inr (VFloat (fabs x)))"

definition py_isfinite :: "pyval \<Rightarrow> bool py" where
  "py_isfinite v =
     (case as_num v of None \<Rightarrow> Inl TypeError
      | Some a \<Rightarrow> bindE (to_float a) (\<lambda>x. Inr (is_finite_float x)))"

section \<open>Equality and order\<close>

function py_eq :: "pyval \<Rightarrow> pyval \<Rightarrow> bool"
  and py_eqs :: "pyval list \<Rightarrow> pyval list \<Rightarrow> bool"
  and py_eq_items :: "pydict \<Rightarrow> pydict \<Rightarrow> bool" where
  "py_eq VNone w = (w = VNone)"
| "py_eq (VBool b) w = (case as_num w of None \<Rightarrow> False | Some n \<Rightarrow> feq (Fin (if b then 1 else 0)) (num_val n))"
| "py_eq (VInt i) w = (case as_num w of None \<Rightarrow> False | Some n \<Rightarrow> feq (Fin (of_int i)) (num_val n))"
| "py_eq (VFloat x) w = (case as_num w of None \<Rightarrow> False | Some n \<Rightarrow> feq x (num_val n))"
| "py_eq (VStr s) w = (w = VStr s)"
| "py_eq (VList xs) w = (case w of VList ys \<Rightarrow> py_eqs xs ys | _ \<Rightarrow> False)"
| "py_eq (VDict d) w = (case w of VDict e \<Rightarrow> length d = length e \<and> py_eq_items d e | _ \<Rightarrow> False)"
| "py_eqs [] ys = (ys = [])"
| "py_eqs (x # xs) ys = (case ys of [] \<Rightarrow> False | y # zs \<Rightarrow> py_eq x y \<and> py_eqs xs zs)"
| "py_eq_items [] e = True"
| "py_eq_items (kx # d) e =
     ((case map_of e (fst kx) of None \<Rightarrow> False | Some y \<Rightarrow> py_eq (snd kx) y) \<and> py_eq_items d e)"
  by pat_completeness auto

termination
  by (relation "measure (\<lambda>x. case x of Inl (v, _) \<Rightarrow> size v
                | Inr (Inl (xs, _)) \<Rightarrow> size_list size xs
                | Inr (Inr (d, _)) \<Rightarrow> size_list (\<lambda>x. Suc (size (snd x))) d)")
     (auto simp: size_prod_simp)

definition py_ne :: "pyval \<Rightarrow> pyval \<Rightarrow> bool" where
  "py_ne v w \<longleftrightarrow> \<not> py_eq v w"

definition py_lt :: "pyval \<Rightarrow> pyval \<Rightarrow> bool py" where
  "py_lt v w =
     (case (as_num v, as_num w) of
        (Some a, Some b) \<Rightarrow> Inr (flt (num_val a) (num_val b))
      | _ \<Rightarrow> (case (v, w) of (VStr s, VStr t) \<Rightarrow> Inr (s < t) | _ \<Rightarrow> Inl TypeError))"

definition py_le :: "pyval \<Rightarrow> pyval \<Rightarrow> bool py" where
  "py_le v w =
     (case (as_num v, as_num w) of
        (Some a, Some b) \<Rightarrow> Inr (fle (num_val a) (num_val b))
      | _ \<Rightarrow> (case (v, w) of (VStr s, VStr t) \<Rightarrow> Inr (s \<le> t) | _ \<Rightarrow> Inl TypeError))"

definition py_gt :: "pyval \<Rightarrow> pyval \<Rightarrow> bool py" where
  "py_gt v w = py_lt w v"

section \<open>Containers\<close>

definition py_getitem :: "pyval \<Rightarrow> string \<Rightarrow> pyval py" where
  "py_getitem v k =
     (case v of VDict d \<Rightarrow> need (KeyError k) (map_of d k) | _ \<Rightarrow> Inl TypeError)"

definition py_get :: "pyval \<Rightarrow> string \<Rightarrow> pyval \<Rightarrow> pyval py" where
  "py_get v k dflt =
     (case v of VDict d \<Rightarrow> Inr (case map_of d k of None \<Rightarrow> dflt | Some x \<Rightarrow> x)
      | _ \<Rightarrow> Inl AttributeError)"

definition list_index :: "'a list \<Rightarrow> int \<Rightarrow> 'a py" where
  "list_index xs i =
     (if - int (length xs) \<le> i \<and> i < int (length xs)
      then Inr (xs ! nat (if 0 \<le> i then i else int (length xs) + i))
      else Inl IndexError)"

definition py_index :: "pyval \<Rightarrow> int \<Rightarrow> pyval py" where
  "py_index v i =
     (case v of VList xs \<Rightarrow> list_index xs i
      | VStr s \<Rightarrow> bindE (list_index s i) (\<lambda>c. Inr (VStr [c]))
      | VDict d \<Rightarrow> Inl (KeyError (str_int i))
      | _ \<Rightarrow> Inl TypeError)"

definition py_len :: "pyval \<Rightarrow> int py" where
  "py_len v =
     (case v of VList xs \<Rightarrow> Inr (int (length xs)) | VStr s \<Rightarrow> Inr (int (length s))
      | VDict d \<Rightarrow> Inr (int (length d)) | _ \<Rightarrow> Inl TypeError)"

definition py_iter :: "pyval \<Rightarrow> pyval list py" where
  "py_iter v =
     (case v of VList xs \<Rightarrow> Inr xs | VStr s \<Rightarrow> Inr (map (\<lambda>c. VStr [c]) s)
      | VDict d \<Rightarrow> Inr (map (\<lambda>kx. VStr (fst kx)) d) | _ \<Rightarrow> Inl TypeError)"

fun py_truthy :: "pyval \<Rightarrow> bool" where
  "py_truthy VNone = False"
| "py_truthy (VBool b) = b"
| "py_truthy (VInt i) = (i \<noteq> 0)"
| "py_truthy (VFloat x) = (x \<noteq> Fin 0)"
| "py_truthy (VStr s) = (s \<noteq> [])"
| "py_truthy (VList xs) = (xs \<noteq> [])"
| "py_truthy (VDict d) = (d \<noteq> [])"

fun is_int :: "pyval \<Rightarrow> bool" where
  "is_int (VInt _) = True"
| "is_int (VBool _) = True"
| "is_int _ = False"

fun is_number :: "pyval \<Rightarrow> bool" where
  "is_number (VFloat _) = True"
| "is_number v = is_int v"

fun is_list :: "pyval \<Rightarrow> bool" where
  "is_list (VList _) = True"
| "is_list _ = False"

fun is_dict :: "pyval \<Rightarrow> bool" where
  "is_dict (VDict _) = True"
| "is_dict _ = False"

fun is_str :: "pyval \<Rightarrow> bool" where
  "is_str (VStr _) = True"
| "is_str _ = False"

text \<open>\<open>sum\<close> starts at the int 0 and adds from the left.\<close>

definition py_sum :: "pyval list \<Rightarrow> pyval py" where
  "py_sum xs = foldM py_add (VInt 0) xs"

text \<open>\<open>max\<close> and \<open>min\<close> keep the first of several extreme elements.\<close>

definition py_max_from :: "pyval \<Rightarrow> pyval list \<Rightarrow> pyval py" where
  "py_max_from x xs = foldM (\<lambda>m y. bindE (py_lt m y) (\<lambda>b. Inr (if b then y else m))) x xs"

definition py_max :: "pyval list \<Rightarrow> pyval py" where
  "py_max xs = (case xs of [] \<Rightarrow> Inl (ValueError ''max() iterable argument is empty'')
                | y # ys \<Rightarrow> py_max_from y ys)"

definition py_max_default :: "pyval \<Rightarrow> pyval list \<Rightarrow> pyval py" where
  "py_max_default d xs = (case xs of [] \<Rightarrow> Inr d | y # ys \<Rightarrow> py_max_from y ys)"

section \<open>Conversions\<close>

definition is_space :: "char \<Rightarrow> bool" where
  "is_space c \<longleftrightarrow> c \<in> set [CHR '' '', CHR 0x09, CHR 0x0A, CHR 0x0B, CHR 0x0C, CHR 0x0D, CHR 0x1C, CHR 0x1D, CHR 0x1E, CHR 0x1F]"

definition strip :: "string \<Rightarrow> string" where
  "strip s = rev (dropWhile is_space (rev (dropWhile is_space s)))"

text \<open>The digits of an integer literal, single underscores allowed between digits.\<close>

fun digits_ok :: "bool \<Rightarrow> string \<Rightarrow> bool" where
  "digits_ok prev [] = prev"
| "digits_ok prev (c # s) =
     (if is_digit c then digits_ok True s
      else c = CHR ''_'' \<and> prev \<and> digits_ok False s)"

definition parse_nat :: "string \<Rightarrow> nat option" where
  "parse_nat s = (if digits_ok False s then Some (nat_of_digits (filter is_digit s)) else None)"

definition parse_int :: "string \<Rightarrow> int option" where
  "parse_int s =
     (case strip s of
        [] \<Rightarrow> None
      | c # t \<Rightarrow>
          if c = CHR ''-'' then map_option (\<lambda>n. - int n) (parse_nat t)
          else if c = CHR ''+'' then map_option int (parse_nat t)
          else map_option int (parse_nat (c # t)))"

definition int_of_str :: "string \<Rightarrow> int py" where
  "int_of_str s = need (ValueError ''invalid literal for int()'') (parse_int s)"

lemma is_digit_not_space: "is_digit c \<Longrightarrow> \<not> is_space c"
  by (auto simp: is_space_def is_digit_def)

lemma strip_id: "s \<noteq> [] \<Longrightarrow> \<not> is_space (hd s) \<Longrightarrow> \<not> is_space (last s) \<Longrightarrow> strip s = s"
proof -
  assume s: "s \<noteq> []" "\<not> is_space (hd s)" "\<not> is_space (last s)"
  have "dropWhile is_space s = s" using s by (cases s) auto
  moreover have "dropWhile is_space (rev s) = rev s" using s by (cases s rule: rev_cases) auto
  ultimately show ?thesis by (simp add: strip_def)
qed

lemma digits_ok_digits: "s \<noteq> [] \<Longrightarrow> \<forall>c \<in> set s. is_digit c \<Longrightarrow> digits_ok b s"
proof (induction s arbitrary: b)
  case (Cons c s)
  then show ?case by (cases s) auto
qed simp

lemma parse_nat_str_nat: "parse_nat (str_nat n) = Some n"
  using str_nat_ok [of n] by (simp add: parse_nat_def digits_ok_digits)

lemma int_of_str_str_int: "int_of_str (str_int i) = Inr i"
proof (cases "i < 0")
  case True
  have ends: "\<not> is_space (hd (str_int i))" "\<not> is_space (last (str_int i))"
    using True str_nat_ok [of "nat (- i)"] by (auto simp: str_int_def is_digit_not_space) (simp add: is_space_def)
  have "strip (str_int i) = str_int i" using ends True by (intro strip_id) (simp_all add: str_int_def)
  then show ?thesis using True by (simp add: int_of_str_def parse_int_def str_int_def parse_nat_str_nat)
next
  case False
  obtain c s where cs: "str_nat (nat i) = c # s" using str_nat_ok [of "nat i"] by (cases "str_nat (nat i)") auto
  have c: "is_digit c" and l: "is_digit (last (c # s))" using str_nat_ok [of "nat i"] cs by auto
  have "strip (c # s) = c # s" using c l is_digit_not_space by (intro strip_id) auto
  moreover have "c \<noteq> CHR ''-''" "c \<noteq> CHR ''+''" using c by (auto simp: is_digit_def)
  ultimately show ?thesis using False parse_nat_str_nat [of "nat i"] cs
    by (simp add: int_of_str_def parse_int_def str_int_def)
qed

lemma str_int_inj: "str_int i = str_int j \<longleftrightarrow> i = j"
  by (metis int_of_str_str_int sum.inject(2))

definition py_int :: "pyval \<Rightarrow> int py" where
  "py_int v =
     (case v of VInt i \<Rightarrow> Inr i | VBool b \<Rightarrow> Inr (if b then 1 else 0)
      | VFloat x \<Rightarrow> int_of_float x | VStr s \<Rightarrow> int_of_str s | _ \<Rightarrow> Inl TypeError)"

text \<open>\<open>json.dumps(v, allow_nan=False)\<close> refuses a document with a NaN or an infinity.\<close>

fun json_ok :: "pyval \<Rightarrow> bool" where
  "json_ok (VFloat x) = is_finite_float x"
| "json_ok (VList xs) = list_all json_ok xs"
| "json_ok (VDict d) = list_all (\<lambda>kx. json_ok (snd kx)) d"
| "json_ok _ = True"

definition dumps_strict :: "pyval \<Rightarrow> unit py" where
  "dumps_strict v = raise_if (\<not> json_ok v) (ValueError ''Out of range float values are not JSON compliant'')"

section \<open>Facts about the operators\<close>

text \<open>A document without NaN and with one pair per key is equal to itself.\<close>

fun plain :: "pyval \<Rightarrow> bool" where
  "plain (VFloat x) = (x \<noteq> NaN)"
| "plain (VList xs) = list_all plain xs"
| "plain (VDict d) = (distinct (map fst d) \<and> list_all (\<lambda>kx. plain (snd kx)) d)"
| "plain _ = True"

lemma py_eq_refl_aux: "plain v \<Longrightarrow> w = v \<Longrightarrow> py_eq v w"
  and py_eqs_refl_aux: "list_all plain xs \<Longrightarrow> ys = xs \<Longrightarrow> py_eqs xs ys"
  and py_eq_items_refl:
    "distinct (map fst e) \<Longrightarrow> set d \<subseteq> set e \<Longrightarrow> list_all (\<lambda>kx. plain (snd kx)) d \<Longrightarrow> py_eq_items d e"
proof (induction v w and xs ys and d e rule: py_eq_py_eqs_py_eq_items.induct)
  case (11 kx d e)
  then have m: "map_of e (fst kx) = Some (snd kx)"
    by (cases kx) (auto simp: map_of_eq_Some_iff)
  show ?case using 11 unfolding py_eq_items.simps m by simp
qed (auto simp: feq_iff list_all_iff split: list.splits)

lemma py_eq_refl: "plain v \<Longrightarrow> py_eq v v"
  by (rule py_eq_refl_aux) simp_all

lemma py_eq_str [simp]: "py_eq v (VStr s) \<longleftrightarrow> v = VStr s"
  by (cases v) auto

lemma py_eq_int: "py_eq v (VInt i) \<longleftrightarrow> (\<exists>n. as_num v = Some n \<and> num_val n = Fin (of_int i))"
  by (cases v) (auto simp: feq_iff)

lemma num_val_int [simp]: "num_val (NI i) = Fin (of_int j) \<longleftrightarrow> i = j"
  by simp

lemma as_num_simps [simp]: "as_num v = Some (NI i) \<Longrightarrow> is_int v"
  by (cases v) auto

lemma list_index_nonneg [simp]: "list_index xs (int i) = (if i < length xs then Inr (xs ! i) else Inl IndexError)"
  by (simp add: list_index_def)

lemma list_index_0 [simp]: "list_index (x # xs) 0 = Inr x"
  by (simp add: list_index_def)

lemma py_add_int [simp]: "py_add (VInt i) (VInt j) = Inr (VInt (i + j))"
  by (simp add: py_add_def num_arith_def)

lemma py_sum_ints [simp]: "py_sum (map VInt is) = Inr (VInt (sum_list is))"
proof -
  have "foldM py_add (VInt a) (map VInt is) = Inr (VInt (a + sum_list is))" for a
    by (induction "is" arbitrary: a) (auto simp: add.assoc)
  then show ?thesis by (simp add: py_sum_def)
qed

lemma py_truthy_int_like: "is_int v \<Longrightarrow> py_truthy v \<longleftrightarrow> \<not> py_eq v (VInt 0)"
  by (cases v) auto

text \<open>Numbers other than NaN are ordered by their exact values.\<close>

definition val_num :: "pyval \<Rightarrow> pyfloat" where
  "val_num v = (case as_num v of None \<Rightarrow> NaN | Some n \<Rightarrow> num_val n)"

definition val_lt :: "pyval \<Rightarrow> pyval \<Rightarrow> bool" where
  "val_lt v w \<longleftrightarrow> flt (val_num v) (val_num w)"

interpretation num_order: keyed_comparison flt "\<lambda>x. x \<noteq> NaN" val_num
  by unfold_locales

lemma val_num_simps [simp]:
  "val_num (VInt i) = Fin (of_int i)" "val_num (VFloat x) = x" "val_num VNone = NaN"
  "val_num (VStr s) = NaN" "val_num (VList xs) = NaN" "val_num (VDict d) = NaN"
  "val_num (VBool b) = Fin (if b then 1 else 0)"
  by (simp_all add: val_num_def)

lemma py_lt_num: "is_number v \<Longrightarrow> is_number w \<Longrightarrow> py_lt v w = Inr (val_lt v w)"
  by (cases v; cases w) (auto simp: py_lt_def val_lt_def)

lemma is_number_as_num: "is_number v \<longleftrightarrow> as_num v \<noteq> None"
  by (cases v) auto

lemma val_num_is_number: "val_num v \<noteq> NaN \<Longrightarrow> is_number v"
  by (cases v) auto

lemma py_max_from_num:
  "is_number x \<Longrightarrow> (\<And>y. y \<in> set xs \<Longrightarrow> is_number y) \<Longrightarrow> py_max_from x xs = Inr (max_by val_lt x xs)"
  by (induction xs arbitrary: x) (auto simp: py_max_from_def py_lt_num)

lemma py_max_from_in: "py_max_from x xs = Inr m \<Longrightarrow> m \<in> insert x (set xs)"
  unfolding py_max_from_def
  by (induction xs arbitrary: x) (auto simp: bindE_Inr_iff split: if_splits)

text \<open>The largest of some numbers bounds them all, if none of them is NaN.\<close>

lemma py_max_from_upper:
  assumes "py_max_from x xs = Inr m" and "\<And>y. y \<in> insert x (set xs) \<Longrightarrow> val_num y \<noteq> NaN"
    and "z \<in> insert x (set xs)"
  shows "fle (val_num z) (val_num m)"
proof -
  have m: "m = max_by val_lt x xs"
    using assms(1) py_max_from_num [of x xs] assms(2) val_num_is_number by auto
  have lt: "val_lt = (\<lambda>a b. flt (val_num a) (val_num b))" by (simp add: val_lt_def fun_eq_iff)
  have "\<not> flt (val_num m) (val_num z)"
    using num_order.keyed.max_by_upper [of x xs z] assms(2,3) by (simp add: m lt)
  moreover have "val_num m \<noteq> NaN" using assms(2) py_max_from_in [OF assms(1)] by blast
  ultimately show ?thesis using assms(2,3) not_flt_iff by blast
qed

end
