(* ===== verification/PyState.thy ===== *)
theory PyState imports PyBase begin

text \<open>
  Statements that read or change state and may raise: an \<open>action\<close> takes the state and
  returns the outcome with the state it left. State changed before a raise stays changed, as in
  Python.
\<close>

type_synonym ('w, 'a) action = "'w \<Rightarrow> 'a py \<times> 'w"

definition retS :: "'a \<Rightarrow> ('w, 'a) action" where
  "retS x w = (Inr x, w)"

definition liftS :: "'a py \<Rightarrow> ('w, 'a) action" where
  "liftS r w = (r, w)"

definition bindS :: "('w, 'a) action \<Rightarrow> ('a \<Rightarrow> ('w, 'b) action) \<Rightarrow> ('w, 'b) action" where
  "bindS m f w = (case m w of (Inl e, w1) \<Rightarrow> (Inl e, w1) | (Inr x, w1) \<Rightarrow> f x w1)"

abbreviation thenS :: "('w, unit) action \<Rightarrow> ('w, 'b) action \<Rightarrow> ('w, 'b) action" where
  "thenS m k \<equiv> bindS m (\<lambda>_. k)"

fun mapS :: "('a \<Rightarrow> ('w, 'b) action) \<Rightarrow> 'a list \<Rightarrow> ('w, 'b list) action" where
  "mapS f [] = retS []"
| "mapS f (x # xs) = bindS (f x) (\<lambda>y. bindS (mapS f xs) (\<lambda>ys. retS (y # ys)))"

text \<open>\<open>try: m except (classes): h\<close>.\<close>

definition catchS :: "(pyexn \<Rightarrow> bool) \<Rightarrow> ('w, 'a) action \<Rightarrow> (pyexn \<Rightarrow> ('w, 'a) action) \<Rightarrow> ('w, 'a) action" where
  "catchS caught m h w =
     (case m w of (Inl e, w1) \<Rightarrow> if caught e then h e w1 else (Inl e, w1) | (Inr x, w1) \<Rightarrow> (Inr x, w1))"

text \<open>\<open>try: m finally: f\<close>: \<open>f\<close> runs in either case; its own exception wins.\<close>

definition finallyS :: "('w, 'a) action \<Rightarrow> ('w, unit) action \<Rightarrow> ('w, 'a) action" where
  "finallyS m f w =
     (case m w of (r, w1) \<Rightarrow> (case f w1 of (Inl e, w2) \<Rightarrow> (Inl e, w2) | (Inr u, w2) \<Rightarrow> (r, w2)))"

lemma retS_simps [simp]: "retS x w = (Inr x, w)" "fst (retS x w) = Inr x" "snd (retS x w) = w"
  by (simp_all add: retS_def)

lemma liftS_simps [simp]: "liftS r w = (r, w)"
  by (simp add: liftS_def)

lemma bindS_retS [simp]: "bindS (retS x) f = f x"
  by (simp add: bindS_def fun_eq_iff)

lemma bindS_liftS [simp]: "bindS (liftS (Inr x)) f = f x" "bindS (liftS (Inl e)) f w = (Inl e, w)"
  by (simp_all add: bindS_def fun_eq_iff)

lemma bindS_Inr: "bindS m f w = (Inr y, w') \<longleftrightarrow> (\<exists>x w1. m w = (Inr x, w1) \<and> f x w1 = (Inr y, w'))"
  by (auto simp: bindS_def split: prod.splits sum.splits)

lemma bindS_Inl:
  "bindS m f w = (Inl e, w') \<longleftrightarrow> m w = (Inl e, w') \<or> (\<exists>x w1. m w = (Inr x, w1) \<and> f x w1 = (Inl e, w'))"
  by (auto simp: bindS_def split: prod.splits sum.splits)

lemma bindS_step: "m w = (Inr x, w1) \<Longrightarrow> bindS m f w = f x w1"
  by (simp add: bindS_def)

lemma bindS_stop: "m w = (Inl e, w1) \<Longrightarrow> bindS m f w = (Inl e, w1)"
  by (simp add: bindS_def)

lemma bindS_assoc: "bindS (bindS m f) g = bindS m (\<lambda>x. bindS (f x) g)"
  by (auto simp: bindS_def fun_eq_iff split: prod.splits sum.splits)

text \<open>A relation that every part respects is respected by the sequence.\<close>

lemma bindS_rel:
  assumes "\<And>r w1. m w = (r, w1) \<Longrightarrow> R w w1" and "\<And>x w1 r w2. m w = (Inr x, w1) \<Longrightarrow> f x w1 = (r, w2) \<Longrightarrow> R w1 w2"
    and "\<And>a b c. R a b \<Longrightarrow> R b c \<Longrightarrow> R a c" and "bindS m f w = (r, w')"
  shows "R w w'"
  using assms by (fastforce simp: bindS_def split: prod.splits sum.splits)

end
