(* ===== verification/ProfileScopes.thy ===== *)
theory ProfileScopes imports PyVal PyState begin

text \<open>
  \<open>python/microllm/profiling.py\<close>, the span profiler: the ROCTX range runtime and its
  lazy creation, \<open>ProfileScope\<close> with its enter and exit, and the \<open>profile\<close>
  decorator. The state is the process's: the context variable \<open>_DEPTH\<close>, the JSONL
  files (path to the list of records appended), the global \<open>_ROCTX_RUNTIME\<close> and the
  monotonic clock, whose readings are an arbitrary function of how often it was read. The
  ROCTX shared library is not part of the repository: its loading and its two calls are the
  record \<open>foreign\<close>, a parameter.
\<close>

section \<open>The process state and the foreign library\<close>

record foreign =
  fx_load :: "string \<Rightarrow> unit py"
  fx_push :: "nat \<Rightarrow> string \<Rightarrow> int py"
  fx_pop :: "nat \<Rightarrow> int py"
  fx_write :: "nat \<Rightarrow> string \<Rightarrow> unit py"
  fx_clock :: "nat \<Rightarrow> int"
  fx_pid :: int
  fx_thread :: int
  fx_native_thread :: int

record roctx =
  rx_library :: "string option"

record world =
  depth_var :: int
  lines_of :: "string \<Rightarrow> pyval list"
  roctx_global :: "roctx option"
  reads :: nat

definition read_clock :: "foreign \<Rightarrow> 'z world_scheme \<Rightarrow> int \<times> 'z world_scheme" where
  "read_clock fx w = (fx_clock fx (reads w), w\<lparr>reads := Suc (reads w)\<rparr>)"

section \<open>The ROCTX runtime\<close>

definition roctx_names :: "string list" where
  "roctx_names = [''librocprofiler-sdk-roctx.so'', ''libroctx64.so'']"

fun load_first :: "foreign \<Rightarrow> string list \<Rightarrow> roctx py" where
  "load_first fx [] = Inr \<lparr>rx_library = None\<rparr>"
| "load_first fx (n # ns) =
     (case fx_load fx n of
        Inr _ \<Rightarrow> Inr \<lparr>rx_library = Some n\<rparr>
      | Inl AttributeError \<Rightarrow> load_first fx ns
      | Inl (OSError m) \<Rightarrow> load_first fx ns
      | Inl e \<Rightarrow> Inl e)"

definition roctx_init :: "foreign \<Rightarrow> roctx py" where
  "roctx_init fx = load_first fx roctx_names"

definition roctx_is_available :: "roctx \<Rightarrow> bool" where
  "roctx_is_available r \<longleftrightarrow> rx_library r \<noteq> None"

definition roctx_push :: "foreign \<Rightarrow> 'z world_scheme \<Rightarrow> roctx \<Rightarrow> string \<Rightarrow> bool py" where
  "roctx_push fx w r name =
     (if roctx_is_available r then bindE (fx_push fx (reads w) name) (\<lambda>s. Inr (0 \<le> s)) else Inr False)"

definition roctx_pop :: "foreign \<Rightarrow> 'z world_scheme \<Rightarrow> roctx \<Rightarrow> bool py" where
  "roctx_pop fx w r =
     (if roctx_is_available r then bindE (fx_pop fx (reads w)) (\<lambda>s. Inr (0 \<le> s)) else Inr False)"

text \<open>The global runtime is created on first use and kept.\<close>

definition roctx_runtime :: "foreign \<Rightarrow> 'z world_scheme \<Rightarrow> roctx py \<times> 'z world_scheme" where
  "roctx_runtime fx w =
     (case roctx_global w of
        Some r \<Rightarrow> (Inr r, w)
      | None \<Rightarrow> (case roctx_init fx of Inl e \<Rightarrow> (Inl e, w)
                 | Inr r \<Rightarrow> (Inr r, w\<lparr>roctx_global := Some r\<rparr>)))"

definition roctx_available :: "foreign \<Rightarrow> 'z world_scheme \<Rightarrow> bool py \<times> 'z world_scheme" where
  "roctx_available fx w =
     (let (r, w') = roctx_runtime fx w in (bindE r (\<lambda>x. Inr (roctx_is_available x)), w'))"

text \<open>\<open>(OSError, ValueError)\<close> around a push or a pop count as a failed call.\<close>

fun caught_as_false :: "bool py \<Rightarrow> bool py" where
  "caught_as_false (Inl (OSError m)) = Inr False"
| "caught_as_false (Inl (ValueError m)) = Inr False"
| "caught_as_false r = r"

section \<open>Range names\<close>

definition is_alnum :: "char \<Rightarrow> bool" where
  "is_alnum c \<longleftrightarrow> is_digit c \<or> 65 \<le> (of_char c :: nat) \<and> (of_char c :: nat) \<le> 90
     \<or> 97 \<le> (of_char c :: nat) \<and> (of_char c :: nat) \<le> 122"

definition range_char :: "char \<Rightarrow> char" where
  "range_char c = (if is_alnum c \<or> c \<in> set ''.-_'' then c else CHR ''_'')"

definition roctx_range_name :: "string \<Rightarrow> string \<Rightarrow> string" where
  "roctx_range_name name span_id =
     (let readable = take 64 (map range_char name)
      in ''microllm.python.'' @ span_id @ ''.'' @ (if readable = [] then ''span'' else readable))"

section \<open>ProfileScope\<close>

text \<open>A \<open>contextvars\<close> token remembers the value to restore and can be used once.\<close>

record token =
  token_old :: int
  token_used :: bool

record pscope =
  sc_name :: string
  sc_output :: string
  sc_phase :: string
  sc_run_id :: string
  sc_metadata :: pydict
  sc_emit_roctx :: bool
  sc_span_id :: string
  sc_token :: "token option"
  sc_depth :: int
  sc_start_ns :: int
  sc_roctx_emitted :: bool
  sc_roctx_status :: string
  sc_range_name :: "string option"
  sc_push_before :: "int option"
  sc_push_after :: "int option"
  sc_pop_before :: "int option"
  sc_pop_after :: "int option"

definition str_or :: "string option \<Rightarrow> string \<Rightarrow> string" where
  "str_or s d = (case s of None \<Rightarrow> d | Some t \<Rightarrow> if t = [] then d else t)"

definition scope_init ::
  "string \<Rightarrow> string \<Rightarrow> string \<Rightarrow> string option \<Rightarrow> pydict option \<Rightarrow> bool \<Rightarrow> string \<Rightarrow> string \<Rightarrow> pscope py" where
  "scope_init name output phase run_id metadata emit run_uuid span_uuid =
     thenE (raise_if (name = [] \<or> phase = []) (ValueError ''profile name and phase must be non-empty''))
     (let md = (case metadata of None \<Rightarrow> [] | Some m \<Rightarrow> m)
      in thenE (dumps_strict (VDict md))
         (Inr \<lparr>sc_name = name, sc_output = output, sc_phase = phase, sc_run_id = str_or run_id run_uuid,
               sc_metadata = md, sc_emit_roctx = emit, sc_span_id = span_uuid, sc_token = None,
               sc_depth = 0, sc_start_ns = 0, sc_roctx_emitted = False, sc_roctx_status = ''disabled'',
               sc_range_name = None, sc_push_before = None, sc_push_after = None,
               sc_pop_before = None, sc_pop_after = None\<rparr>))"

text \<open>
  The ROCTX part of \<open>__enter__\<close>: the range is pushed only when it was asked for and the
  library is there. An exception other than the two that are caught leaves the scope.
\<close>

definition enter_roctx :: "foreign \<Rightarrow> 'z world_scheme \<Rightarrow> pscope \<Rightarrow> pscope py \<times> 'z world_scheme" where
  "enter_roctx fx w s =
     (if \<not> sc_emit_roctx s then (Inr s, w)
      else let (r, w1) = roctx_runtime fx w in
        case r of
          Inl e \<Rightarrow> (Inl e, w1)
        | Inr rt \<Rightarrow>
            if \<not> roctx_is_available rt then (Inr (s\<lparr>sc_roctx_status := ''unavailable''\<rparr>), w1)
            else
              let rn = roctx_range_name (sc_name s) (sc_span_id s);
                  (before, w2) = read_clock fx w1
              in case caught_as_false (roctx_push fx w2 rt rn) of
                   Inl e \<Rightarrow> (Inl e, w2)
                 | Inr emitted \<Rightarrow>
                     let (after, w3) = read_clock fx w2
                     in (Inr (s\<lparr>sc_range_name := Some rn, sc_push_before := Some before,
                               sc_roctx_emitted := emitted, sc_push_after := Some after,
                               sc_roctx_status := (if emitted then ''emitted'' else ''push_error'')\<rparr>), w3))"

definition scope_enter :: "foreign \<Rightarrow> 'z world_scheme \<Rightarrow> pscope \<Rightarrow> pscope py \<times> 'z world_scheme" where
  "scope_enter fx w s =
     (let d = depth_var w;
          (start, w1) = read_clock fx (w\<lparr>depth_var := d + 1\<rparr>)
      in enter_roctx fx w1
           (s\<lparr>sc_depth := d, sc_token := Some \<lparr>token_old = d, token_used = False\<rparr>, sc_start_ns := start\<rparr>))"

text \<open>\<open>_DEPTH.reset(token)\<close>.\<close>

definition reset_depth :: "'z world_scheme \<Rightarrow> token \<Rightarrow> 'z world_scheme py" where
  "reset_depth w t =
     (if token_used t then Inl (RuntimeError ''Token has already been used once'')
      else Inr (w\<lparr>depth_var := token_old t\<rparr>))"

fun opt_int :: "int option \<Rightarrow> pyval" where
  "opt_int None = VNone"
| "opt_int (Some i) = VInt i"

fun opt_str :: "string option \<Rightarrow> pyval" where
  "opt_str None = VNone"
| "opt_str (Some s) = VStr s"

text \<open>The record one exit appends; \<open>json.dumps\<close> sorts its keys only in the text.\<close>

definition scope_record :: "foreign \<Rightarrow> pscope \<Rightarrow> string option \<Rightarrow> int \<Rightarrow> pyval" where
  "scope_record fx s exc finish =
     VDict [(''schema_version'', VInt 1),
            (''framework'', VStr ''microllm-python''),
            (''record_type'', VStr ''python_profile_span''),
            (''run_id'', VStr (sc_run_id s)),
            (''phase'', VStr (sc_phase s)),
            (''kind'', VStr ''python_span''),
            (''name'', VStr (sc_name s)),
            (''span_id'', VStr (sc_span_id s)),
            (''depth'', VInt (sc_depth s)),
            (''process_id'', VInt (fx_pid fx)),
            (''thread_id'', VInt (fx_thread fx)),
            (''native_thread_id'', VInt (fx_native_thread fx)),
            (''start_ns'', VInt (sc_start_ns s)),
            (''duration_ns'', VInt (finish - sc_start_ns s)),
            (''status'', VStr (if exc \<noteq> None then ''error'' else ''pass'')),
            (''exception_type'', opt_str exc),
            (''metadata'', VDict (sc_metadata s)),
            (''roctx_requested'', VBool (sc_emit_roctx s)),
            (''roctx_emitted'', VBool (sc_roctx_emitted s)),
            (''roctx_status'', VStr (sc_roctx_status s)),
            (''roctx_range_name'', opt_str (sc_range_name s)),
            (''roctx_push_before_ns'', opt_int (sc_push_before s)),
            (''roctx_push_after_ns'', opt_int (sc_push_after s)),
            (''roctx_pop_before_ns'', opt_int (sc_pop_before s)),
            (''roctx_pop_after_ns'', opt_int (sc_pop_after s))]"

definition exit_roctx :: "foreign \<Rightarrow> 'z world_scheme \<Rightarrow> pscope \<Rightarrow> pscope py \<times> 'z world_scheme" where
  "exit_roctx fx w s =
     (if \<not> sc_roctx_emitted s then (Inr s, w)
      else let (before, w1) = read_clock fx w;
               (r, w2) = roctx_runtime fx w1
           in case caught_as_false (bindE r (\<lambda>rt. roctx_pop fx w2 rt)) of
                Inl e \<Rightarrow> (Inl e, w2)
              | Inr popped \<Rightarrow>
                  let (after, w3) = read_clock fx w2
                  in (Inr (s\<lparr>sc_pop_before := Some before, sc_pop_after := Some after,
                            sc_roctx_status := (if popped then sc_roctx_status s else ''pop_error'')\<rparr>), w3))"

text \<open>\<open>mkdir\<close>, \<open>json.dumps\<close>, then one line appended under the lock.\<close>

definition append_line :: "foreign \<Rightarrow> 'z world_scheme \<Rightarrow> string \<Rightarrow> pyval \<Rightarrow> unit py \<times> 'z world_scheme" where
  "append_line fx w path v =
     (case thenE (dumps_strict v) (fx_write fx (reads w) path) of
        Inl e \<Rightarrow> (Inl e, w)
      | Inr _ \<Rightarrow> (Inr (), w\<lparr>lines_of := (lines_of w)(path := lines_of w path @ [v])\<rparr>))"

text \<open>\<open>__exit__\<close> returns \<open>False\<close>: the exception of the body, if any, goes on.\<close>

definition scope_exit :: "foreign \<Rightarrow> 'z world_scheme \<Rightarrow> pscope \<Rightarrow> string option \<Rightarrow> (bool \<times> pscope) py \<times> 'z world_scheme" where
  "scope_exit fx w s exc =
     (case sc_token s of
        None \<Rightarrow> (Inl (RuntimeError ''profile scope exited before entering''), w)
      | Some t \<Rightarrow>
          let (r, w1) = exit_roctx fx w s in
          case r of
            Inl e \<Rightarrow> (Inl e, w1)
          | Inr s1 \<Rightarrow>
              let (finish, w2) = read_clock fx w1 in
              case reset_depth w2 t of
                Inl e \<Rightarrow> (Inl e, w2)
              | Inr w3 \<Rightarrow>
                  let s2 = s1\<lparr>sc_token := Some (t\<lparr>token_used := True\<rparr>)\<rparr>;
                      (u, w4) = append_line fx w3 (sc_output s2) (scope_record fx s2 exc finish)
                  in (bindE u (\<lambda>_. Inr (False, s2)), w4))"

section \<open>The with statement and the decorator\<close>

fun exn_name :: "pyexn \<Rightarrow> string" where
  "exn_name (RuntimeError _) = ''RuntimeError''"
| "exn_name (ValueError _) = ''ValueError''"
| "exn_name (KeyError _) = ''KeyError''"
| "exn_name TypeError = ''TypeError''"
| "exn_name IndexError = ''IndexError''"
| "exn_name AttributeError = ''AttributeError''"
| "exn_name ArgumentError = ''ArgumentError''"
| "exn_name AssertionError = ''AssertionError''"
| "exn_name ZeroDivisionError = ''ZeroDivisionError''"
| "exn_name OverflowError = ''OverflowError''"
| "exn_name JSONDecodeError = ''JSONDecodeError''"
| "exn_name (OSError _) = ''OSError''"
| "exn_name TimeoutExpired = ''TimeoutExpired''"
| "exn_name (MicroLLMError _) = ''MicroLLMError''"
| "exn_name (SystemExit _) = ''SystemExit''"

text \<open>
  \<open>with scope: body\<close>: enter, run the body, leave with the body's exception (its class
  name is all the scopes look at), and re-raise it. Both scopes' \<open>__exit__\<close> return
  \<open>False\<close>, so the suppressing case of the statement is not needed.
\<close>

definition with_stmt ::
  "('w \<Rightarrow> 's \<Rightarrow> 's py \<times> 'w) \<Rightarrow> ('w \<Rightarrow> 's \<Rightarrow> string option \<Rightarrow> (bool \<times> 's) py \<times> 'w)
   \<Rightarrow> 's \<Rightarrow> ('w, 'a) action \<Rightarrow> ('w, 'a) action" where
  "with_stmt enter leave s body w =
     (case enter w s of
        (Inl e, w1) \<Rightarrow> (Inl e, w1)
      | (Inr s1, w1) \<Rightarrow>
          (case body w1 of
             (Inl e, w2) \<Rightarrow>
               (case leave w2 s1 (Some (exn_name e)) of
                  (Inl e', w3) \<Rightarrow> (Inl e', w3)
                | (Inr _, w3) \<Rightarrow> (Inl e, w3))
           | (Inr x, w2) \<Rightarrow>
               (case leave w2 s1 None of
                  (Inl e', w3) \<Rightarrow> (Inl e', w3)
                | (Inr _, w3) \<Rightarrow> (Inr x, w3))))"

definition with_scope :: "foreign \<Rightarrow> pscope \<Rightarrow> ('z world_scheme, 'a) action \<Rightarrow> ('z world_scheme, 'a) action" where
  "with_scope fx = with_stmt (scope_enter fx) (scope_exit fx)"

text \<open>
  \<open>profile(...)\<close> wraps a callable: one scope per call, named \<open>name or
  target.__qualname__\<close>. The coroutine wrapper runs the same block around \<open>await\<close>.
\<close>

definition profiled ::
  "foreign \<Rightarrow> string option \<Rightarrow> string \<Rightarrow> string \<Rightarrow> string \<Rightarrow> string option \<Rightarrow> pydict option \<Rightarrow> bool
   \<Rightarrow> string \<Rightarrow> string \<Rightarrow> ('z world_scheme, 'a) action \<Rightarrow> ('z world_scheme, 'a) action" where
  "profiled fx name qualname output phase run_id metadata emit run_uuid span_uuid target w =
     (case scope_init (str_or name qualname) output phase run_id metadata emit run_uuid span_uuid of
        Inl e \<Rightarrow> (Inl e, w)
      | Inr s \<Rightarrow> with_scope fx s target w)"

section \<open>What the foreign calls may do\<close>

text \<open>
  The exceptions \<open>ctypes\<close> documents for these calls: loading a library or a symbol
  fails with \<open>OSError\<close> or \<open>AttributeError\<close>, a call whose argument cannot be
  encoded with \<open>ValueError\<close>.
\<close>

definition load_failure :: "pyexn \<Rightarrow> bool" where
  "load_failure e \<longleftrightarrow> e = AttributeError \<or> (\<exists>m. e = OSError m)"

definition call_failure :: "pyexn \<Rightarrow> bool" where
  "call_failure e \<longleftrightarrow> (\<exists>m. e = ValueError m) \<or> (\<exists>m. e = OSError m)"

definition tame :: "foreign \<Rightarrow> bool" where
  "tame fx \<longleftrightarrow> (\<forall>n e. fx_load fx n = Inl e \<longrightarrow> load_failure e) \<and>
     (\<forall>i n e. fx_push fx i n = Inl e \<longrightarrow> call_failure e) \<and>
     (\<forall>i e. fx_pop fx i = Inl e \<longrightarrow> call_failure e)"

lemma load_first_tame: "tame fx \<Longrightarrow> \<exists>r. load_first fx ns = Inr r"
proof (induction ns)
  case Nil
  then show ?case by simp
next
  case (Cons n ns)
  then obtain r where r: "load_first fx ns = Inr r" by blast
  show ?case
  proof (cases "fx_load fx n")
    case (Inl e)
    then have "load_failure e" using Cons.prems by (auto simp: tame_def)
    then show ?thesis using Inl r by (auto simp: load_failure_def)
  qed simp
qed

lemma roctx_runtime_tame:
  "tame fx \<Longrightarrow> \<exists>rt w1. roctx_runtime fx w = (Inr rt, w1) \<and> depth_var w1 = depth_var w \<and>
     lines_of w1 = lines_of w \<and> reads w1 = reads w"
  using load_first_tame [of fx roctx_names]
  by (cases "roctx_global w") (auto simp: roctx_runtime_def roctx_init_def)

lemma caught_as_false_tame:
  "(\<And>e. r = Inl e \<Longrightarrow> call_failure e) \<Longrightarrow> \<exists>b. caught_as_false r = Inr b"
  by (cases r) (auto simp: call_failure_def)

lemma roctx_push_tame: "tame fx \<Longrightarrow> \<exists>b. caught_as_false (roctx_push fx w rt name) = Inr b"
  by (rule caught_as_false_tame) (auto simp: roctx_push_def tame_def bindE_Inl_iff split: if_splits)

lemma roctx_pop_tame: "tame fx \<Longrightarrow> \<exists>b. caught_as_false (roctx_pop fx w rt) = Inr b"
  by (rule caught_as_false_tame) (auto simp: roctx_pop_def tame_def bindE_Inl_iff split: if_splits)

lemma read_clock_simps [simp]:
  "fst (read_clock fx w) = fx_clock fx (reads w)"
  "snd (read_clock fx w) = w\<lparr>reads := Suc (reads w)\<rparr>"
  by (simp_all add: read_clock_def)

text \<open>What the two ROCTX steps leave alone, when the library is tame.\<close>

definition scope_frame :: "'z world_scheme \<Rightarrow> pscope \<Rightarrow> 'z world_scheme \<Rightarrow> pscope \<Rightarrow> bool" where
  "scope_frame w s w' s' \<longleftrightarrow> depth_var w' = depth_var w \<and> lines_of w' = lines_of w \<and> reads w \<le> reads w'
     \<and> sc_token s' = sc_token s \<and> sc_depth s' = sc_depth s \<and> sc_start_ns s' = sc_start_ns s
     \<and> sc_output s' = sc_output s \<and> sc_name s' = sc_name s \<and> sc_metadata s' = sc_metadata s
     \<and> sc_span_id s' = sc_span_id s \<and> sc_run_id s' = sc_run_id s \<and> sc_phase s' = sc_phase s
     \<and> sc_emit_roctx s' = sc_emit_roctx s"

lemma enter_roctx_frame:
  assumes "tame fx"
  shows "\<exists>s' w'. enter_roctx fx w s = (Inr s', w') \<and> scope_frame w s w' s'"
proof (cases "sc_emit_roctx s")
  case False
  then show ?thesis by (simp add: enter_roctx_def scope_frame_def)
next
  case True
  obtain rt w1 where rt: "roctx_runtime fx w = (Inr rt, w1)" "depth_var w1 = depth_var w"
    "lines_of w1 = lines_of w" "reads w1 = reads w"
    using roctx_runtime_tame [OF assms] by blast
  obtain b where b: "caught_as_false (roctx_push fx (w1\<lparr>reads := Suc (reads w1)\<rparr>) rt
      (roctx_range_name (sc_name s) (sc_span_id s))) = Inr b"
    using roctx_push_tame [OF assms] by blast
  show ?thesis
    using True rt b by (cases "roctx_is_available rt")
      (simp_all add: enter_roctx_def Let_def read_clock_def scope_frame_def)
qed

lemma exit_roctx_frame:
  assumes "tame fx"
  shows "\<exists>s' w'. exit_roctx fx w s = (Inr s', w') \<and> scope_frame w s w' s'"
proof (cases "sc_roctx_emitted s")
  case False
  then show ?thesis by (simp add: exit_roctx_def scope_frame_def)
next
  case True
  obtain rt w2 where rt: "roctx_runtime fx (w\<lparr>reads := Suc (reads w)\<rparr>) = (Inr rt, w2)"
    "depth_var w2 = depth_var w" "lines_of w2 = lines_of w" "reads w2 = Suc (reads w)"
    using roctx_runtime_tame [OF assms, of "w\<lparr>reads := Suc (reads w)\<rparr>"] by auto
  obtain b where b: "caught_as_false (roctx_pop fx w2 rt) = Inr b"
    using roctx_pop_tame [OF assms] by blast
  show ?thesis
    using True rt b by (simp add: exit_roctx_def Let_def read_clock_def scope_frame_def)
qed

lemma append_line_depth [simp]: "depth_var (snd (append_line fx w path v)) = depth_var w"
  by (auto simp: append_line_def split: sum.splits)

lemma append_line_ok:
  "json_ok v \<Longrightarrow> fx_write fx (reads w) path = Inr u \<Longrightarrow>
   append_line fx w path v = (Inr (), w\<lparr>lines_of := (lines_of w)(path := lines_of w path @ [v])\<rparr>)"
  by (simp add: append_line_def dumps_strict_def)

section \<open>The contract of a depth-tracking scope\<close>

text \<open>
  What a \<open>with\<close> block relies on: entering makes the scope owe the depth it found, a
  failed enter changes no depth, leaving pays the debt whatever the body did to the depth, and
  leaving never swallows an exception.
\<close>

locale depth_guard =
  fixes depth :: "'w \<Rightarrow> int"
    and enter :: "'w \<Rightarrow> 's \<Rightarrow> 's py \<times> 'w"
    and leave :: "'w \<Rightarrow> 's \<Rightarrow> string option \<Rightarrow> (bool \<times> 's) py \<times> 'w"
    and ready :: "'s \<Rightarrow> bool"
    and owes :: "'s \<Rightarrow> int \<Rightarrow> bool"
  assumes enter_owes: "ready s \<Longrightarrow> enter w s = (Inr s', w') \<Longrightarrow> owes s' (depth w) \<and> depth w' = depth w + 1"
    and enter_fails: "ready s \<Longrightarrow> enter w s = (Inl e, w') \<Longrightarrow> depth w' = depth w"
    and leave_pays: "owes s d \<Longrightarrow> depth (snd (leave w s exc)) = d"
    and leave_propagates: "leave w s exc = (Inr (b, s'), w') \<Longrightarrow> \<not> b"
begin

lemma with_restores: "ready s \<Longrightarrow> depth (snd (with_stmt enter leave s body w)) = depth w"
proof -
  assume s: "ready s"
  obtain r w1 where e: "enter w s = (r, w1)" by fastforce
  show ?thesis
  proof (cases r)
    case (Inl x)
    then show ?thesis using e enter_fails [OF s] by (simp add: with_stmt_def)
  next
    case (Inr s1)
    then have owes: "owes s1 (depth w)" using e enter_owes [OF s] by blast
    obtain q w2 where q: "body w1 = (q, w2)" by fastforce
    have pays: "depth (snd (leave w2 s1 exc)) = depth w" for exc
      using leave_pays [OF owes] by blast
    show ?thesis
      using e Inr q pays [of None] pays [of "Some (exn_name (projl q))"]
      by (cases q) (auto simp: with_stmt_def split: prod.splits sum.splits)
  qed
qed

lemma with_raises:
  "fst (with_stmt enter leave s body w) = Inr x \<Longrightarrow>
   \<exists>s1 w1. enter w s = (Inr s1, w1) \<and> fst (body w1) = Inr x"
  by (auto simp: with_stmt_def split: prod.splits sum.splits)

lemma with_body_one_deeper:
  "ready s \<Longrightarrow> enter w s = (Inr s1, w1) \<Longrightarrow> depth w1 = depth w + 1"
  using enter_owes by blast

end

definition scope_owes :: "foreign \<Rightarrow> pscope \<Rightarrow> int \<Rightarrow> bool" where
  "scope_owes fx s d \<longleftrightarrow> tame fx \<and> sc_token s = Some \<lparr>token_old = d, token_used = False\<rparr>"

lemma scope_enter_ok:
  assumes "tame fx"
  shows "\<exists>s' w'. scope_enter fx w s = (Inr s', w') \<and>
    scope_frame (w\<lparr>depth_var := depth_var w + 1, reads := Suc (reads w)\<rparr>)
      (s\<lparr>sc_depth := depth_var w, sc_token := Some \<lparr>token_old = depth_var w, token_used = False\<rparr>,
         sc_start_ns := fx_clock fx (reads w)\<rparr>) w' s'"
  using enter_roctx_frame [OF assms] by (simp add: scope_enter_def read_clock_def Let_def)

lemma scope_exit_depth:
  assumes "scope_owes fx s d"
  shows "depth_var (snd (scope_exit fx w s exc)) = d"
proof -
  have tame: "tame fx" and tok: "sc_token s = Some \<lparr>token_old = d, token_used = False\<rparr>"
    using assms by (auto simp: scope_owes_def)
  obtain s1 w1 where e: "exit_roctx fx w s = (Inr s1, w1)"
    using exit_roctx_frame [OF tame] by metis
  show ?thesis
    by (simp add: scope_exit_def tok e Let_def read_clock_def reset_depth_def case_prod_beta)
qed

interpretation profile_guard: depth_guard depth_var "scope_enter fx" "scope_exit fx" "\<lambda>_. tame fx" "scope_owes fx"
  for fx :: foreign
proof
  fix s s' :: pscope and w w' :: "'z world_scheme" and e exc d b
  show "tame fx \<Longrightarrow> scope_enter fx w s = (Inr s', w') \<Longrightarrow> scope_owes fx s' (depth_var w) \<and> depth_var w' = depth_var w + 1"
    using scope_enter_ok [of fx w s] by (auto simp: scope_owes_def scope_frame_def)
  show "tame fx \<Longrightarrow> scope_enter fx w s = (Inl e, w') \<Longrightarrow> depth_var w' = depth_var w"
    using scope_enter_ok [of fx w s] by auto
  show "scope_owes fx s d \<Longrightarrow> depth_var (snd (scope_exit fx w s exc)) = d"
    by (rule scope_exit_depth)
  show "scope_exit fx w s exc = (Inr (b, s'), w') \<Longrightarrow> \<not> b"
    by (auto simp: scope_exit_def Let_def bindE_Inr_iff split: option.splits sum.splits prod.splits)
qed

section \<open>What one with block does\<close>

lemma scope_record_ok: "json_ok (VDict (sc_metadata s)) \<Longrightarrow> json_ok (scope_record fx s exc finish)"
  by (cases exc; cases "sc_range_name s"; cases "sc_push_before s"; cases "sc_push_after s";
      cases "sc_pop_before s"; cases "sc_pop_after s") (simp_all add: scope_record_def)

text \<open>The scope whose record \<open>__exit__\<close> writes, and the moment it read last.\<close>

lemma scope_exit_ok:
  assumes tame: "tame fx" and tok: "sc_token s = Some \<lparr>token_old = d, token_used = False\<rparr>"
    and writes: "\<And>i path. fx_write fx i path = Inr ()" and md: "json_ok (VDict (sc_metadata s))"
  shows "\<exists>s1 w1. exit_roctx fx w s = (Inr s1, w1) \<and> scope_frame w s w1 s1 \<and>
    scope_exit fx w s exc =
      (Inr (False, s1\<lparr>sc_token := Some \<lparr>token_old = d, token_used = True\<rparr>\<rparr>),
       w1\<lparr>reads := Suc (reads w1), depth_var := d,
          lines_of := (lines_of w)(sc_output s := lines_of w (sc_output s) @
            [scope_record fx s1 exc (fx_clock fx (reads w1))])\<rparr>)"
proof -
  obtain s1 w1 where e: "exit_roctx fx w s = (Inr s1, w1)" "scope_frame w s w1 s1"
    using exit_roctx_frame [OF tame] by blast
  let ?s2 = "s1\<lparr>sc_token := Some \<lparr>token_old = d, token_used = True\<rparr>\<rparr>"
  have rec: "scope_record fx ?s2 exc t = scope_record fx s1 exc t" for t
    by (simp add: scope_record_def)
  have "json_ok (scope_record fx ?s2 exc (fx_clock fx (reads w1)))"
    using e md by (intro scope_record_ok) (simp add: scope_frame_def)
  then show ?thesis
    using e writes tok
    by (simp add: scope_exit_def Let_def read_clock_def reset_depth_def append_line_ok rec scope_frame_def)
qed

fun outcome_name :: "'a py \<Rightarrow> string option" where
  "outcome_name (Inl e) = Some (exn_name e)"
| "outcome_name (Inr _) = None"

lemma with_scope_run:
  assumes tame: "tame fx" and writes: "\<And>i path. fx_write fx i path = Inr ()"
    and md: "json_ok (VDict (sc_metadata s))"
  shows "\<exists>s1 w1. scope_enter fx w s = (Inr s1, w1) \<and> depth_var w1 = depth_var w + 1 \<and> lines_of w1 = lines_of w \<and>
    (\<exists>s2 w2. exit_roctx fx (snd (body w1)) s1 = (Inr s2, w2) \<and> scope_frame (snd (body w1)) s1 w2 s2 \<and>
      sc_depth s2 = depth_var w \<and> sc_name s2 = sc_name s \<and> sc_start_ns s2 = fx_clock fx (reads w) \<and>
      with_scope fx s body w = (fst (body w1), w2\<lparr>reads := Suc (reads w2), depth_var := depth_var w,
        lines_of := (lines_of (snd (body w1)))(sc_output s := lines_of (snd (body w1)) (sc_output s) @
          [scope_record fx s2 (outcome_name (fst (body w1))) (fx_clock fx (reads w2))])\<rparr>))"
proof -
  obtain s1 w1 where e: "scope_enter fx w s = (Inr s1, w1)"
    and frame: "scope_frame (w\<lparr>depth_var := depth_var w + 1, reads := Suc (reads w)\<rparr>)
      (s\<lparr>sc_depth := depth_var w, sc_token := Some \<lparr>token_old = depth_var w, token_used = False\<rparr>,
         sc_start_ns := fx_clock fx (reads w)\<rparr>) w1 s1"
    using scope_enter_ok [OF tame] by blast
  obtain r w2 where b: "body w1 = (r, w2)" by fastforce
  have tok: "sc_token s1 = Some \<lparr>token_old = depth_var w, token_used = False\<rparr>"
    and md1: "json_ok (VDict (sc_metadata s1))" using frame md by (simp_all add: scope_frame_def)
  obtain s2 w3 where x: "exit_roctx fx w2 s1 = (Inr s2, w3)" "scope_frame w2 s1 w3 s2"
    using exit_roctx_frame [OF tame] by blast
  show ?thesis
    using e b frame x scope_exit_ok [OF tame tok writes md1, of w2 "outcome_name r"]
    by (cases r) (auto simp: with_scope_def with_stmt_def scope_frame_def)
qed

text \<open>
  C2. A \<open>with profile_scope(...)\<close> block is transparent: with a tame ROCTX library and a
  writable output, it ends exactly as its body does (the body's value, or the body's exception,
  never swallowed and never replaced), the nesting depth is what it was before, and exactly one
  record is appended to the scope's output, after the lines of the body, carrying the depth found on
  entry, the name, and the status and exception class of the body's outcome.
\<close>

theorem with_scope_transparent:
  assumes "tame fx" and "\<And>i path. fx_write fx i path = Inr ()" and "json_ok (VDict (sc_metadata s))"
    and "scope_enter fx w s = (Inr s1, w1)" and "body w1 = (r, w2)" and "with_scope fx s body w = (q, w3)"
  shows "q = r \<and> depth_var w3 = depth_var w \<and>
    (\<exists>s2 t. lines_of w3 = (lines_of w2)(sc_output s := lines_of w2 (sc_output s) @ [scope_record fx s2 (outcome_name r) t])
      \<and> sc_depth s2 = depth_var w \<and> sc_name s2 = sc_name s \<and> sc_start_ns s2 = fx_clock fx (reads w))"
proof -
  obtain s2 w4 where "with_scope fx s body w = (r, w4\<lparr>reads := Suc (reads w4), depth_var := depth_var w,
        lines_of := (lines_of w2)(sc_output s := lines_of w2 (sc_output s) @
          [scope_record fx s2 (outcome_name r) (fx_clock fx (reads w4))])\<rparr>)"
    and s2: "sc_depth s2 = depth_var w" "sc_name s2 = sc_name s" "sc_start_ns s2 = fx_clock fx (reads w)"
    using with_scope_run [OF assms(1-3), of w body] assms(4,5) by auto
  then have "q = r" "depth_var w3 = depth_var w" "lines_of w3 = (lines_of w2)(sc_output s := lines_of w2 (sc_output s) @
          [scope_record fx s2 (outcome_name r) (fx_clock fx (reads w4))])"
    using assms(6) by auto
  then show ?thesis using s2 by blast
qed

section \<open>Nested spans\<close>

text \<open>
  A program that only profiles: a span runs its children one after the other inside its
  \<open>with\<close> block, stops at the first that raises, and may raise itself at the end.
\<close>

datatype span = Span (span_scope: pscope) (span_kids: "span list") (span_raise: "pyexn option")

fun run_span :: "foreign \<Rightarrow> span \<Rightarrow> ('z world_scheme, unit) action"
  and run_spans :: "foreign \<Rightarrow> span list \<Rightarrow> ('z world_scheme, unit) action" where
  "run_span fx (Span s kids fail) w = with_scope fx s (\<lambda>w1.
     (case run_spans fx kids w1 of
        (Inl e, w2) \<Rightarrow> (Inl e, w2)
      | (Inr u, w2) \<Rightarrow> (case fail of None \<Rightarrow> (Inr (), w2) | Some e \<Rightarrow> (Inl e, w2)))) w"
| "run_spans fx [] w = (Inr (), w)"
| "run_spans fx (t # ts) w =
     (case run_span fx t w of (Inl e, w1) \<Rightarrow> (Inl e, w1) | (Inr u, w1) \<Rightarrow> run_spans fx ts w1)"

text \<open>What such a program logs: its spans in post-order, each with its nesting depth.\<close>

fun span_outcome :: "span \<Rightarrow> unit py" and spans_outcome :: "span list \<Rightarrow> unit py" where
  "span_outcome (Span s kids fail) =
     thenE (spans_outcome kids) (case fail of None \<Rightarrow> Inr () | Some e \<Rightarrow> Inl e)"
| "spans_outcome [] = Inr ()"
| "spans_outcome (t # ts) = thenE (span_outcome t) (spans_outcome ts)"

fun span_log :: "int \<Rightarrow> span \<Rightarrow> (string \<times> int \<times> string option) list"
  and spans_log :: "int \<Rightarrow> span list \<Rightarrow> (string \<times> int \<times> string option) list" where
  "span_log d (Span s kids fail) =
     spans_log (d + 1) kids @ [(sc_name s, d, outcome_name (span_outcome (Span s kids fail)))]"
| "spans_log d [] = []"
| "spans_log d (t # ts) = span_log d t @ (case span_outcome t of Inl e \<Rightarrow> [] | Inr u \<Rightarrow> spans_log d ts)"

fun spans_ready :: "string \<Rightarrow> span \<Rightarrow> bool" where
  "spans_ready out (Span s kids fail) \<longleftrightarrow> sc_output s = out \<and> json_ok (VDict (sc_metadata s)) \<and>
     list_all (spans_ready out) kids"

definition logged :: "string \<times> int \<times> string option \<Rightarrow> pyval \<Rightarrow> bool" where
  "logged x v = (case x of (name, depth, exc) \<Rightarrow>
     py_getitem v ''name'' = Inr (VStr name) \<and> py_getitem v ''depth'' = Inr (VInt depth) \<and>
     py_getitem v ''exception_type'' = Inr (opt_str exc) \<and>
     py_getitem v ''status'' = Inr (VStr (if exc = None then ''pass'' else ''error'')))"

lemma logged_scope_record: "logged (sc_name s, sc_depth s, exc) (scope_record fx s exc t)"
  by (simp add: logged_def scope_record_def py_getitem_def)

lemma span_list_induct [case_names Span Nil Cons]:
  assumes "\<And>s kids fail. Q kids \<Longrightarrow> P (Span s kids fail)" and "Q []" and "\<And>t ts. P t \<Longrightarrow> Q ts \<Longrightarrow> Q (t # ts)"
  shows "P t" and "Q ts"
proof -
  show P: "P t" for t
  proof (induction t)
    case (Span s kids fail)
    have "Q ts" if "\<And>t. t \<in> set ts \<Longrightarrow> P t" for ts
      using that by (induction ts) (auto intro: assms)
    then show ?case using Span by (intro assms(1)) blast
  qed
  show "Q ts" by (induction ts) (auto intro: assms P)
qed

lemma run_spans_log:
  assumes tame: "tame fx" and writes: "\<And>i path. fx_write fx i path = Inr ()"
  shows "spans_ready out t \<Longrightarrow> \<exists>rs w'. run_span fx t w = (span_outcome t, w') \<and> depth_var w' = depth_var w \<and>
      lines_of w' = (lines_of w)(out := lines_of w out @ rs) \<and> list_all2 logged (span_log (depth_var w) t) rs"
    and "list_all (spans_ready out) ts \<Longrightarrow> \<exists>rs w'. run_spans fx ts w = (spans_outcome ts, w') \<and> depth_var w' = depth_var w \<and>
      lines_of w' = (lines_of w)(out := lines_of w out @ rs) \<and> list_all2 logged (spans_log (depth_var w) ts) rs"
proof (induction t and ts arbitrary: w and w rule: span_list_induct)
  case (Span s kids fail)
  define body where "body = (\<lambda>w1 :: 'a world_scheme. (case run_spans fx kids w1 of
        (Inl e, w2) \<Rightarrow> (Inl e :: unit py, w2)
      | (Inr u, w2) \<Rightarrow> (case fail of None \<Rightarrow> (Inr (), w2) | Some e \<Rightarrow> (Inl e, w2))))"
  have md: "json_ok (VDict (sc_metadata s))" and out: "sc_output s = out" and kids: "list_all (spans_ready out) kids"
    using Span.prems by auto
  obtain s1 w1 s2 w2 where d1: "depth_var w1 = depth_var w + 1" "lines_of w1 = lines_of w"
    and s2: "sc_depth s2 = depth_var w" "sc_name s2 = sc_name s"
    and run: "with_scope fx s body w = (fst (body w1), w2\<lparr>reads := Suc (reads w2), depth_var := depth_var w,
        lines_of := (lines_of (snd (body w1)))(sc_output s := lines_of (snd (body w1)) (sc_output s) @
          [scope_record fx s2 (outcome_name (fst (body w1))) (fx_clock fx (reads w2))])\<rparr>)"
    using with_scope_run [OF tame writes md, of w body] by blast
  obtain rs w3 where rs: "run_spans fx kids w1 = (spans_outcome kids, w3)" "depth_var w3 = depth_var w1"
      "lines_of w3 = (lines_of w1)(out := lines_of w1 out @ rs)" "list_all2 logged (spans_log (depth_var w1) kids) rs"
    using Span.IH [OF kids] by blast
  have b: "body w1 = (span_outcome (Span s kids fail), w3)"
    using rs(1) by (auto simp: body_def split: sum.splits option.splits)
  have "run_span fx (Span s kids fail) w = with_scope fx s body w"
    by (simp add: body_def)
  moreover define rs' where
    "rs' = rs @ [scope_record fx s2 (outcome_name (span_outcome (Span s kids fail))) (fx_clock fx (reads w2))]"
  moreover have "list_all2 logged (span_log (depth_var w) (Span s kids fail)) rs'"
    using rs(4) d1(1) logged_scope_record [of s2] s2 by (simp add: list_all2_appendI rs'_def)
  moreover obtain w4 where "with_scope fx s body w = (span_outcome (Span s kids fail), w4)"
      "depth_var w4 = depth_var w" "lines_of w4 = (lines_of w)(out := lines_of w out @ rs')"
    using run b rs(3) d1(2) out by (simp add: rs'_def del: span_outcome.simps)
  ultimately show ?case by metis
next
  case Nil
  then show ?case by (auto intro!: exI [of _ "[]"])
next
  case (Cons t ts)
  obtain rs w1 where t: "run_span fx t w = (span_outcome t, w1)" "depth_var w1 = depth_var w"
      "lines_of w1 = (lines_of w)(out := lines_of w out @ rs)" "list_all2 logged (span_log (depth_var w) t) rs"
    using Cons.IH(1) [of w] Cons.prems by (metis list.pred_inject(2))
  obtain rs' w2 where ts: "run_spans fx ts w1 = (spans_outcome ts, w2)" "depth_var w2 = depth_var w1"
      "lines_of w2 = (lines_of w1)(out := lines_of w1 out @ rs')" "list_all2 logged (spans_log (depth_var w1) ts) rs'"
    using Cons.IH(2) [of w1] Cons.prems by (metis list.pred_inject(2))
  show ?case
  proof (cases "span_outcome t")
    case (Inl e)
    then show ?thesis using t by (intro exI [of _ rs] exI [of _ w1]) simp
  next
    case (Inr u)
    have "list_all2 logged (spans_log (depth_var w) (t # ts)) (rs @ rs')"
      using Inr t ts by (auto intro: list_all2_appendI)
    then show ?thesis using Inr t ts by (intro exI [of _ "rs @ rs'"] exI [of _ w2]) simp
  qed
qed

text \<open>
  C3. A program of nested \<open>profile_scope\<close> blocks that all write to one file logs its spans
  in post-order, each record with the span's name, its nesting depth counted from the depth the program
  started at, and the exception that ended it; spans after one that raised are not entered, the
  program ends with that exception, and the depth at the end is the depth at the start.
\<close>

theorem nested_spans_logged:
  assumes "tame fx" and "\<And>i path. fx_write fx i path = Inr ()" and "spans_ready out t"
    and "run_span fx t w = (r, w')"
  shows "r = span_outcome t \<and> depth_var w' = depth_var w \<and>
    (\<exists>rs. lines_of w' out = lines_of w out @ rs \<and> list_all2 logged (span_log (depth_var w) t) rs)"
  using run_spans_log(1) [OF assms(1-3), of w] assms(4) by auto

section \<open>The time stamps of a record\<close>

text \<open>
  The five states a scope can end in. \<open>merge_rocprof_perfetto\<close> joins a record with a
  trace marker on these stamps.
\<close>

definition stamps_ok :: "pscope \<Rightarrow> int \<Rightarrow> bool" where
  "stamps_ok s finish \<longleftrightarrow> sc_start_ns s \<le> finish \<and>
     (if sc_roctx_emitted s
      then sc_emit_roctx s \<and> sc_roctx_status s \<in> {''emitted'', ''pop_error''} \<and>
           sc_range_name s = Some (roctx_range_name (sc_name s) (sc_span_id s)) \<and>
           (\<exists>a b c d. sc_push_before s = Some a \<and> sc_push_after s = Some b \<and>
              sc_pop_before s = Some c \<and> sc_pop_after s = Some d \<and>
              sc_start_ns s \<le> a \<and> a \<le> b \<and> b \<le> c \<and> c \<le> d \<and> d \<le> finish)
      else sc_pop_before s = None \<and> sc_pop_after s = None \<and>
           (if sc_roctx_status s = ''push_error''
            then sc_emit_roctx s \<and> (\<exists>a b. sc_push_before s = Some a \<and> sc_push_after s = Some b \<and>
                   sc_start_ns s \<le> a \<and> a \<le> b \<and> b \<le> finish)
            else sc_roctx_status s = (if sc_emit_roctx s then ''unavailable'' else ''disabled'') \<and>
                 sc_range_name s = None \<and> sc_push_before s = None \<and> sc_push_after s = None))"

definition fresh_scope :: "pscope \<Rightarrow> bool" where
  "fresh_scope s \<longleftrightarrow> \<not> sc_roctx_emitted s \<and> sc_roctx_status s = ''disabled'' \<and> sc_range_name s = None \<and>
     sc_push_before s = None \<and> sc_push_after s = None \<and> sc_pop_before s = None \<and> sc_pop_after s = None"

lemma scope_init_fresh: "scope_init n out ph rid md emit u v = Inr s \<Longrightarrow> fresh_scope s \<and> json_ok (VDict (sc_metadata s))"
  by (auto simp: scope_init_def bindE_Inr_iff fresh_scope_def dumps_strict_def Let_def)

text \<open>Between enter and exit: the push stamps are there and no later than the clock.\<close>

definition entered_stamps :: "foreign \<Rightarrow> pscope \<Rightarrow> 'z world_scheme \<Rightarrow> bool" where
  "entered_stamps fx s w \<longleftrightarrow> (\<forall>i\<ge>reads w. stamps_ok (s\<lparr>sc_roctx_emitted := False,
       sc_roctx_status := (if sc_roctx_emitted s then ''push_error'' else sc_roctx_status s)\<rparr>) (fx_clock fx i)) \<and>
     (sc_roctx_emitted s \<longrightarrow> sc_roctx_status s = ''emitted'' \<and> sc_range_name s = Some (roctx_range_name (sc_name s) (sc_span_id s)))"

lemma enter_roctx_stamps:
  assumes tame: "tame fx" and clock: "mono (fx_clock fx)" and fresh: "fresh_scope s"
    and start: "\<forall>i\<ge>reads w. sc_start_ns s \<le> fx_clock fx i" and enter: "enter_roctx fx w s = (Inr s', w')"
  shows "entered_stamps fx s' w'"
proof (cases "sc_emit_roctx s")
  case False
  then show ?thesis using enter fresh start
    by (auto simp: enter_roctx_def entered_stamps_def stamps_ok_def fresh_scope_def)
next
  case True
  obtain rt w1 where rt: "roctx_runtime fx w = (Inr rt, w1)" "reads w1 = reads w"
    using roctx_runtime_tame [OF tame] by blast
  obtain b where b: "caught_as_false (roctx_push fx (w1\<lparr>reads := Suc (reads w1)\<rparr>) rt
      (roctx_range_name (sc_name s) (sc_span_id s))) = Inr b"
    using roctx_push_tame [OF tame] by blast
  have mono: "fx_clock fx i \<le> fx_clock fx j" if "i \<le> j" for i j using clock that by (rule monoD)
  show ?thesis
  proof (cases "roctx_is_available rt")
    case False
    then have "s' = s\<lparr>sc_roctx_status := ''unavailable''\<rparr>" "w' = w1"
      using enter True rt by (simp_all add: enter_roctx_def)
    then show ?thesis using fresh start True rt
      by (simp add: entered_stamps_def stamps_ok_def fresh_scope_def)
  next
    case av: True
    have "s' = s\<lparr>sc_range_name := Some (roctx_range_name (sc_name s) (sc_span_id s)),
        sc_push_before := Some (fx_clock fx (reads w1)), sc_roctx_emitted := b,
        sc_push_after := Some (fx_clock fx (Suc (reads w1))),
        sc_roctx_status := (if b then ''emitted'' else ''push_error'')\<rparr>"
      and "reads w' = Suc (Suc (reads w1))"
      using enter True rt b av by (auto simp: enter_roctx_def Let_def read_clock_def)
    then show ?thesis using fresh start True rt mono
      by (simp add: entered_stamps_def stamps_ok_def fresh_scope_def)
  qed
qed

lemma exit_roctx_stamps:
  assumes tame: "tame fx" and clock: "mono (fx_clock fx)" and ent: "entered_stamps fx s w"
    and later: "reads w \<le> reads w1" and leave: "exit_roctx fx w1 s = (Inr s', w')"
  shows "stamps_ok s' (fx_clock fx (reads w'))"
proof (cases "sc_roctx_emitted s")
  case False
  then show ?thesis using leave ent later
    by (auto simp: exit_roctx_def entered_stamps_def stamps_ok_def)
next
  case True
  obtain rt w2 where rt: "roctx_runtime fx (w1\<lparr>reads := Suc (reads w1)\<rparr>) = (Inr rt, w2)" "reads w2 = Suc (reads w1)"
    using roctx_runtime_tame [OF tame, of "w1\<lparr>reads := Suc (reads w1)\<rparr>"] by auto
  obtain b where b: "caught_as_false (roctx_pop fx w2 rt) = Inr b"
    using roctx_pop_tame [OF tame] by blast
  have mono: "fx_clock fx i \<le> fx_clock fx j" if "i \<le> j" for i j using clock that by (rule monoD)
  have s': "s' = s\<lparr>sc_pop_before := Some (fx_clock fx (reads w1)), sc_pop_after := Some (fx_clock fx (Suc (reads w1))),
      sc_roctx_status := (if b then sc_roctx_status s else ''pop_error'')\<rparr>" and w': "reads w' = Suc (Suc (reads w1))"
    using leave True rt b by (auto simp: exit_roctx_def Let_def read_clock_def)
  have "stamps_ok (s\<lparr>sc_roctx_emitted := False, sc_roctx_status := ''push_error''\<rparr>) (fx_clock fx (reads w1))"
    using ent later True by (simp add: entered_stamps_def)
  moreover have "sc_roctx_status s = ''emitted''" "sc_range_name s = Some (roctx_range_name (sc_name s) (sc_span_id s))"
    using ent True by (simp_all add: entered_stamps_def)
  ultimately show ?thesis
    unfolding s' w' using True mono [of "reads w1" "Suc (reads w1)"] mono [of "Suc (reads w1)" "Suc (Suc (reads w1))"]
    by (auto simp: stamps_ok_def)
qed

text \<open>
  C4. With a clock that never runs backwards, the stamps in the record of a
  \<open>profile_scope\<close> block are ordered: start, push-before, push-after, pop-before, pop-after,
  finish. The four range stamps are all present exactly when the push succeeded, the two push stamps
  alone when it failed, and none when no range was asked for or no library is available.
\<close>

theorem scope_stamps_ordered:
  assumes "tame fx" and "\<And>i path. fx_write fx i path = Inr ()" and "mono (fx_clock fx)"
    and "scope_init name out phase rid md emit u v = Inr s"
    and "scope_enter fx w s = (Inr s1, w1)" and "body w1 = (r, w2)" and "reads w1 \<le> reads w2"
    and "with_scope fx s body w = (q, w3)"
  shows "\<exists>s2 t. last (lines_of w3 (sc_output s)) = scope_record fx s2 (outcome_name r) t \<and> stamps_ok s2 t"
proof -
  have md: "json_ok (VDict (sc_metadata s))" and fresh: "fresh_scope s"
    using scope_init_fresh [OF assms(4)] by auto
  obtain s2 w4 where x: "exit_roctx fx w2 s1 = (Inr s2, w4)"
    and run: "lines_of w3 = (lines_of w2)(sc_output s := lines_of w2 (sc_output s) @
          [scope_record fx s2 (outcome_name r) (fx_clock fx (reads w4))])"
    using with_scope_run [OF assms(1,2) md, of w body] assms(5,6,8) by auto
  define s0 where "s0 = s\<lparr>sc_depth := depth_var w,
    sc_token := Some \<lparr>token_old = depth_var w, token_used = False\<rparr>, sc_start_ns := fx_clock fx (reads w)\<rparr>"
  have "enter_roctx fx (w\<lparr>depth_var := depth_var w + 1, reads := Suc (reads w)\<rparr>) s0 = (Inr s1, w1)"
    using assms(5) by (simp add: scope_enter_def read_clock_def Let_def s0_def)
  moreover have "fresh_scope s0" using fresh by (simp add: fresh_scope_def s0_def)
  moreover have "\<forall>i\<ge>Suc (reads w). sc_start_ns s0 \<le> fx_clock fx i"
    using assms(3) by (auto simp: s0_def intro: monoD)
  ultimately have "entered_stamps fx s1 w1"
    using enter_roctx_stamps [OF assms(1,3)] by (metis world.select_convs(4) world.simps(4) world.surjective world.update_convs(1,4))
  then have "stamps_ok s2 (fx_clock fx (reads w4))"
    using exit_roctx_stamps [OF assms(1,3) _ assms(7) x] by blast
  then show ?thesis using run by auto
qed

text \<open>
  Range names keep spans apart: two spans whose ids are equally long but different never get
  the same ROCTX range name, whatever their names are, and the readable part is at most 64 characters,
  never empty, and free of anything but letters, digits, dots, dashes and underscores.
\<close>

theorem range_names_distinct:
  "(length i = length j \<and> roctx_range_name m i = roctx_range_name n j \<longrightarrow> i = j) \<and>
   (\<exists>readable. roctx_range_name m i = ''microllm.python.'' @ i @ ''.'' @ readable \<and> readable \<noteq> [] \<and>
      length readable \<le> 64 \<and> list_all (\<lambda>c. is_alnum c \<or> c \<in> set ''.-_'') readable)"
proof (intro conjI)
  show "length i = length j \<and> roctx_range_name m i = roctx_range_name n j \<longrightarrow> i = j"
    by (auto simp: roctx_range_name_def Let_def)
  have part: "list_all (\<lambda>c. is_alnum c \<or> c \<in> set ''.-_'') (take 64 (map range_char m))"
    by (auto simp: list_all_iff range_char_def dest!: in_set_takeD)
  have span: "list_all (\<lambda>c. is_alnum c \<or> c \<in> set ''.-_'') ''span''"
    by (simp add: is_alnum_def)
  show "\<exists>readable. roctx_range_name m i = ''microllm.python.'' @ i @ ''.'' @ readable \<and> readable \<noteq> [] \<and>
      length readable \<le> 64 \<and> list_all (\<lambda>c. is_alnum c \<or> c \<in> set ''.-_'') readable"
  proof (cases "take 64 (map range_char m) = []")
    case True
    then show ?thesis using span by (intro exI [of _ "''span''"]) (auto simp: roctx_range_name_def Let_def)
  next
    case False
    then show ?thesis using part
      by (intro exI [of _ "take 64 (map range_char m)"]) (simp add: roctx_range_name_def Let_def)
  qed
qed

section \<open>Creating the runtime from several threads\<close>

text \<open>
  \<open>_roctx_runtime()\<close> as its threads see it: the check without the lock, the lock, the
  check under it, the construction, the assignment, the release, and the final read of the global.
  Runtimes are numbered in the order they are constructed. A construction may raise; the
  \<open>with\<close> statement then releases the lock.
\<close>

datatype lazy_pc = Calling | Waiting | Holding | Building | Built nat | Releasing | Reading | Returned nat | Raised

record lazy_state =
  lz_global :: "nat option"
  lz_lock :: "nat option"
  lz_made :: nat
  lz_pc :: "nat \<Rightarrow> lazy_pc"

abbreviation goto :: "lazy_state \<Rightarrow> nat \<Rightarrow> lazy_pc \<Rightarrow> lazy_state" where
  "goto \<sigma> t p \<equiv> \<sigma>\<lparr>lz_pc := (lz_pc \<sigma>)(t := p)\<rparr>"

inductive lazy_step :: "lazy_state \<Rightarrow> lazy_state \<Rightarrow> bool" where
  fast_path: "lz_pc \<sigma> t = Calling \<Longrightarrow> lz_global \<sigma> = Some r \<Longrightarrow> lazy_step \<sigma> (goto \<sigma> t Reading)"
| slow_path: "lz_pc \<sigma> t = Calling \<Longrightarrow> lz_global \<sigma> = None \<Longrightarrow> lazy_step \<sigma> (goto \<sigma> t Waiting)"
| acquire: "lz_pc \<sigma> t = Waiting \<Longrightarrow> lz_lock \<sigma> = None \<Longrightarrow> lazy_step \<sigma> (goto (\<sigma>\<lparr>lz_lock := Some t\<rparr>) t Holding)"
| second_check_set: "lz_pc \<sigma> t = Holding \<Longrightarrow> lz_global \<sigma> = Some r \<Longrightarrow> lazy_step \<sigma> (goto \<sigma> t Releasing)"
| second_check_none: "lz_pc \<sigma> t = Holding \<Longrightarrow> lz_global \<sigma> = None \<Longrightarrow> lazy_step \<sigma> (goto \<sigma> t Building)"
| construct: "lz_pc \<sigma> t = Building \<Longrightarrow>
    lazy_step \<sigma> (goto (\<sigma>\<lparr>lz_made := Suc (lz_made \<sigma>)\<rparr>) t (Built (lz_made \<sigma>)))"
| construct_raises: "lz_pc \<sigma> t = Building \<Longrightarrow> lazy_step \<sigma> (goto (\<sigma>\<lparr>lz_lock := None\<rparr>) t Raised)"
| assign: "lz_pc \<sigma> t = Built r \<Longrightarrow> lazy_step \<sigma> (goto (\<sigma>\<lparr>lz_global := Some r\<rparr>) t Releasing)"
| release: "lz_pc \<sigma> t = Releasing \<Longrightarrow> lazy_step \<sigma> (goto (\<sigma>\<lparr>lz_lock := None\<rparr>) t Reading)"
| read_global: "lz_pc \<sigma> t = Reading \<Longrightarrow> lz_global \<sigma> = Some r \<Longrightarrow> lazy_step \<sigma> (goto \<sigma> t (Returned r))"

inductive_cases lazy_stepE: "lazy_step \<sigma> \<tau>"

definition lazy_start :: lazy_state where
  "lazy_start = \<lparr>lz_global = None, lz_lock = None, lz_made = 0, lz_pc = (\<lambda>_. Calling)\<rparr>"

definition inside :: "lazy_pc \<Rightarrow> bool" where
  "inside p \<longleftrightarrow> p \<in> {Holding, Building, Releasing} \<or> (\<exists>r. p = Built r)"

definition lazy_inv :: "lazy_state \<Rightarrow> bool" where
  "lazy_inv \<sigma> \<longleftrightarrow>
     (\<forall>t. inside (lz_pc \<sigma> t) \<longleftrightarrow> lz_lock \<sigma> = Some t) \<and>
     (\<forall>t. lz_pc \<sigma> t = Building \<longrightarrow> lz_global \<sigma> = None \<and> lz_made \<sigma> = 0) \<and>
     (\<forall>t r. lz_pc \<sigma> t = Built r \<longrightarrow> lz_global \<sigma> = None \<and> r = 0 \<and> lz_made \<sigma> = 1) \<and>
     (\<forall>t. lz_pc \<sigma> t \<in> {Releasing, Reading} \<longrightarrow> lz_global \<sigma> \<noteq> None) \<and>
     (\<forall>t r. lz_pc \<sigma> t = Returned r \<longrightarrow> lz_global \<sigma> = Some r) \<and>
     (lz_global \<sigma> = None \<longrightarrow> lz_made \<sigma> = 0 \<or> (case lz_lock \<sigma> of None \<Rightarrow> False | Some t \<Rightarrow> lz_pc \<sigma> t = Built 0)) \<and>
     (lz_global \<sigma> \<noteq> None \<longrightarrow> lz_global \<sigma> = Some 0 \<and> lz_made \<sigma> = 1)"

lemma lazy_inv_start: "lazy_inv lazy_start"
  by (simp add: lazy_inv_def lazy_start_def inside_def)

lemma inside_simps [simp]:
  "inside Holding" "inside Building" "inside (Built r)" "inside Releasing"
  "\<not> inside Calling" "\<not> inside Waiting" "\<not> inside Reading" "\<not> inside (Returned r)" "\<not> inside Raised"
  by (simp_all add: inside_def)

lemma lazy_inv_step:
  assumes "lazy_step \<sigma> \<tau>" and inv: "lazy_inv \<sigma>"
  shows "lazy_inv \<tau>"
proof -
  have lock: "lz_lock \<sigma> = Some t" if "inside (lz_pc \<sigma> t)" for t
    using inv that by (simp add: lazy_inv_def)
  have alone: "u = t" if "inside (lz_pc \<sigma> t)" "inside (lz_pc \<sigma> u)" for t u
    using lock [OF that(1)] lock [OF that(2)] by simp
  have outside: "lz_lock \<sigma> \<noteq> Some t" if "\<not> inside (lz_pc \<sigma> t)" for t
    using inv that by (simp add: lazy_inv_def)
  from assms(1) show ?thesis
  proof cases
    case (fast_path t r)
    then show ?thesis using inv outside [of t] by (auto simp: lazy_inv_def split: option.splits)
  next
    case (slow_path t)
    then show ?thesis using inv outside [of t] by (auto simp: lazy_inv_def split: option.splits)
  next
    case (acquire t)
    then have "lz_pc \<sigma> u \<noteq> Built r" "lz_pc \<sigma> u \<noteq> Building" for u r
      using lock [of u] by auto
    then show ?thesis using inv acquire by (auto simp: lazy_inv_def split: option.splits)
  next
    case (second_check_set t r)
    then show ?thesis using inv lock [of t] by (auto simp: lazy_inv_def split: option.splits)
  next
    case (second_check_none t)
    then have "lz_pc \<sigma> u \<noteq> Built r" "lz_lock \<sigma> = Some t" for u r
      using alone [of t u] lock [of t] by auto
    then show ?thesis using inv second_check_none by (auto simp: lazy_inv_def)
  next
    case (construct t)
    then have "u \<noteq> t \<Longrightarrow> lz_pc \<sigma> u \<noteq> Building" "lz_lock \<sigma> = Some t" for u
      using alone [of t u] lock [of t] by auto
    then show ?thesis using inv construct by (auto simp: lazy_inv_def)
  next
    case (construct_raises t)
    then show ?thesis using inv alone [of t] by (auto simp: lazy_inv_def)
  next
    case (assign t r)
    then have "lz_pc \<sigma> u \<noteq> Building" "u \<noteq> t \<Longrightarrow> lz_pc \<sigma> u \<noteq> Built q" for u q
      using alone [of t u] by auto
    then show ?thesis using inv assign by (auto simp: lazy_inv_def)
  next
    case (release t)
    then show ?thesis using inv alone [of t] by (auto simp: lazy_inv_def)
  next
    case (read_global t r)
    then show ?thesis using inv outside [of t] by (auto simp: lazy_inv_def split: option.splits)
  qed
qed

text \<open>
  However the threads that ask for the ROCTX runtime are scheduled, at most one runtime is
  constructed and kept, every call that returns gets that one, and at most one thread is between the
  acquire and the release of the lock.
\<close>

theorem roctx_runtime_once:
  assumes "lazy_step\<^sup>*\<^sup>* lazy_start \<sigma>"
  shows "lz_made \<sigma> \<le> 1 \<and> (\<forall>t u r q. lz_pc \<sigma> t = Returned r \<longrightarrow> lz_pc \<sigma> u = Returned q \<longrightarrow> r = q \<and> lz_global \<sigma> = Some r)
    \<and> (\<forall>t u. inside (lz_pc \<sigma> t) \<longrightarrow> inside (lz_pc \<sigma> u) \<longrightarrow> t = u)"
proof -
  have "lazy_inv \<sigma>"
    using assms by (induction rule: rtranclp_induct) (auto intro: lazy_inv_start lazy_inv_step)
  note inv = this [unfolded lazy_inv_def]
  have lock: "lz_lock \<sigma> = Some t" if "inside (lz_pc \<sigma> t)" for t using inv that by blast
  have ret: "lz_global \<sigma> = Some r" if "lz_pc \<sigma> t = Returned r" for t r using inv that by blast
  have built: "lz_made \<sigma> = 1" if "lz_pc \<sigma> t = Built r" for t r using inv that by blast
  have made: "lz_made \<sigma> \<le> 1"
  proof (cases "lz_global \<sigma>")
    case None
    then have "lz_made \<sigma> = 0 \<or> (\<exists>t. lz_pc \<sigma> t = Built 0)" using inv by (auto split: option.splits)
    then show ?thesis using built by auto
  next
    case (Some r)
    then have "lz_made \<sigma> = 1" using inv by blast
    then show ?thesis by simp
  qed
  have "t = u" if "inside (lz_pc \<sigma> t)" "inside (lz_pc \<sigma> u)" for t u
    using lock [OF that(1)] lock [OF that(2)] by simp
  moreover have "r = q" if "lz_pc \<sigma> t = Returned r" "lz_pc \<sigma> u = Returned q" for t u r q
    using ret [OF that(1)] ret [OF that(2)] by simp
  ultimately show ?thesis using made ret by blast
qed

section \<open>The properties at concrete inputs\<close>

definition sample_fx :: foreign where
  "sample_fx = \<lparr>fx_load = (\<lambda>n. if n = ''libroctx64.so'' then Inr () else Inl (OSError ''not found'')),
     fx_push = (\<lambda>i n. Inr 0), fx_pop = (\<lambda>i. Inr 0), fx_write = (\<lambda>i p. Inr ()), fx_clock = (\<lambda>i. 5 * int i),
     fx_pid = 7, fx_thread = 8, fx_native_thread = 9\<rparr>"

definition sample_world :: world where
  "sample_world = \<lparr>depth_var = 0, lines_of = (\<lambda>_. []), roctx_global = None, reads = 0\<rparr>"

definition sample_scope :: "string \<Rightarrow> pscope" where
  "sample_scope n = projr (scope_init n ''t.jsonl'' ''python'' None None True ''run'' ''id'')"

lemma sample_tame: "tame sample_fx"
  by (auto simp: tame_def sample_fx_def load_failure_def)

lemma sample_writes: "fx_write sample_fx i path = Inr ()"
  by (simp add: sample_fx_def)

lemma sample_scope_init:
  "n \<noteq> [] \<Longrightarrow> scope_init n ''t.jsonl'' ''python'' None None True ''run'' ''id'' = Inr (sample_scope n)"
  by (simp add: sample_scope_def scope_init_def dumps_strict_def)

lemma sample_scope_facts: "n \<noteq> [] \<Longrightarrow> sc_output (sample_scope n) = ''t.jsonl'' \<and> sc_name (sample_scope n) = n \<and>
    sc_metadata (sample_scope n) = []"
  by (simp add: sample_scope_def scope_init_def dumps_strict_def)

theorem with_scope_transparent_witness:
  "\<exists>w3. with_scope sample_fx (sample_scope ''step'') (\<lambda>w. (Inl TypeError :: unit py, w)) sample_world = (Inl TypeError, w3) \<and>
     depth_var w3 = 0 \<and> (\<exists>s2 t. lines_of w3 ''t.jsonl'' = [scope_record sample_fx s2 (Some ''TypeError'') t])"
proof -
  let ?body = "\<lambda>w. (Inl TypeError :: unit py, w)"
  obtain s1 w1 where e: "scope_enter sample_fx sample_world (sample_scope ''step'') = (Inr s1, w1)" and l: "lines_of w1 = lines_of sample_world"
    using scope_enter_ok [OF sample_tame, of sample_world "sample_scope ''step''"] by (auto simp: scope_frame_def)
  obtain q w3 where r: "with_scope sample_fx (sample_scope ''step'') ?body sample_world = (q, w3)" by fastforce
  have md: "json_ok (VDict (sc_metadata (sample_scope ''step'')))" using sample_scope_facts [of "''step''"] by simp
  obtain s2 t where "q = Inl TypeError" "depth_var w3 = depth_var sample_world"
      "lines_of w3 = (lines_of w1)(''t.jsonl'' := lines_of w1 ''t.jsonl'' @ [scope_record sample_fx s2 (Some ''TypeError'') t])"
    using with_scope_transparent [OF sample_tame sample_writes md e refl r] sample_scope_facts [of "''step''"] by auto
  then have "with_scope sample_fx (sample_scope ''step'') ?body sample_world = (Inl TypeError, w3)"
      "depth_var w3 = 0" "lines_of w3 ''t.jsonl'' = [scope_record sample_fx s2 (Some ''TypeError'') t]"
    using r l by (simp_all add: sample_world_def)
  then show ?thesis by blast
qed

theorem nested_spans_logged_witness:
  "\<exists>w rs. run_span sample_fx (Span (sample_scope ''outer'') [Span (sample_scope ''inner'') [] (Some TypeError),
        Span (sample_scope ''never'') [] None] None) sample_world = (Inl TypeError, w) \<and> depth_var w = 0 \<and> lines_of w ''t.jsonl'' = rs \<and>
     list_all2 logged [(''inner'', 1, Some ''TypeError''), (''outer'', 0, Some ''TypeError'')] rs"
proof -
  let ?t = "Span (sample_scope ''outer'') [Span (sample_scope ''inner'') [] (Some TypeError),
        Span (sample_scope ''never'') [] None] None"
  have ready: "spans_ready ''t.jsonl'' ?t"
    using sample_scope_facts [of "''outer''"] sample_scope_facts [of "''inner''"] sample_scope_facts [of "''never''"] by simp
  obtain r w where r: "run_span sample_fx ?t sample_world = (r, w)" by fastforce
  show ?thesis
    using nested_spans_logged [OF sample_tame sample_writes ready r] r sample_scope_facts [of "''outer''"] sample_scope_facts [of "''inner''"]
    by (auto simp: sample_world_def)
qed

theorem scope_stamps_ordered_witness:
  "\<exists>s2 t. last (lines_of (snd (with_scope sample_fx (sample_scope ''step'') (\<lambda>w. (Inr 3 :: int py, w)) sample_world)) ''t.jsonl'')
     = scope_record sample_fx s2 None t \<and> stamps_ok s2 t"
proof -
  let ?body = "\<lambda>w. (Inr 3 :: int py, w)"
  obtain s1 w1 where e: "scope_enter sample_fx sample_world (sample_scope ''step'') = (Inr s1, w1)"
    using scope_enter_ok [OF sample_tame] by blast
  obtain q w3 where r: "with_scope sample_fx (sample_scope ''step'') ?body sample_world = (q, w3)" by fastforce
  have mono: "mono (fx_clock sample_fx)" by (auto simp: sample_fx_def intro: monoI)
  show ?thesis
    using scope_stamps_ordered [OF sample_tame sample_writes mono sample_scope_init e refl _ r] r sample_scope_facts [of "''step''"]
    by auto
qed

theorem range_names_distinct_witness:
  "length ''aa'' = length ''ab'' \<and> roctx_range_name ''x'' ''aa'' \<noteq> roctx_range_name ''x'' ''ab''"
  using range_names_distinct [of "''aa''" "''ab''" "''x''" "''x''"] by auto

theorem roctx_runtime_once_witness:
  "\<exists>\<sigma>. lazy_step\<^sup>*\<^sup>* lazy_start \<sigma> \<and> lz_pc \<sigma> 0 = Holding \<and> lz_pc \<sigma> 1 = Waiting \<and> lz_made \<sigma> \<le> 1"
proof -
  let ?a = "goto lazy_start 0 Waiting"
  let ?b = "goto ?a 1 Waiting"
  let ?c = "goto (?b\<lparr>lz_lock := Some 0\<rparr>) 0 Holding"
  have a: "lazy_step lazy_start ?a" by (rule slow_path) (simp_all add: lazy_start_def)
  have b: "lazy_step ?a ?b" by (rule slow_path) (simp_all add: lazy_start_def)
  have c: "lazy_step ?b ?c" by (rule acquire) (simp_all add: lazy_start_def)
  have abc: "lazy_step\<^sup>*\<^sup>* lazy_start ?c"
    using a b c by (meson r_into_rtranclp rtranclp_trans)
  have "lz_made ?c \<le> 1" using roctx_runtime_once [OF abc] by blast
  then show ?thesis using abc by (intro exI [of _ ?c]) (simp add: lazy_start_def)
qed

end
