(* ===== verification/ProfileTrace.thy ===== *)
theory ProfileTrace imports ProfileScopes begin

text \<open>
  The trace export of \<open>profiling.py\<close>: reading span records back, the Perfetto export,
  the clock calibration between Python and rocprof, and the merge of marker, kernel, HIP-API and Python
  spans into one trace. Files are modelled at the level of their documents: a JSONL file is the list
  of what \<open>json.loads\<close> gives for its non-empty lines, a CSV file the list of the dicts of
  \<open>csv.DictReader\<close>.
\<close>

section \<open>Fields\<close>

definition get_int :: "pyval \<Rightarrow> string \<Rightarrow> int \<Rightarrow> int py" where
  "get_int row k d = bindE (py_get row k (VInt d)) py_int"

definition item_int :: "pyval \<Rightarrow> string \<Rightarrow> int py" where
  "item_int row k = bindE (py_getitem row k) py_int"

definition py_keys :: "pyval \<Rightarrow> string list" where
  "py_keys v = (case v of VDict d \<Rightarrow> map fst d | _ \<Rightarrow> [])"

definition div1000 :: "int \<Rightarrow> pyfloat py" where
  "div1000 i = bindE (float_of_int i) (\<lambda>x. fdiv x (Fin 1000))"

text \<open>\<open>required - row.keys()\<close> is not empty.\<close>

definition lacks :: "string list \<Rightarrow> pyval \<Rightarrow> bool" where
  "lacks required row \<longleftrightarrow> (\<exists>k \<in> set required. k \<notin> set (py_keys row))"

section \<open>Reading span records\<close>

definition profile_row_bad :: "pyval \<Rightarrow> bool py" where
  "profile_row_bad row = orsM
    [bindE (py_get row ''schema_version'' VNone) (\<lambda>v. Inr (py_ne v (VInt 1))),
     bindE (py_get row ''record_type'' VNone) (\<lambda>v. Inr (py_ne v (VStr ''python_profile_span''))),
     bindE (get_int row ''start_ns'' (- 1)) (\<lambda>i. Inr (i < 0)),
     bindE (get_int row ''duration_ns'' (- 1)) (\<lambda>i. Inr (i < 0)),
     bindE (py_get row ''metadata'' VNone) (\<lambda>v. Inr (\<not> is_dict v))]"

fun check_rows :: "pyval list \<Rightarrow> unit py" where
  "check_rows [] = Inr ()"
| "check_rows (row # rows) =
     thenE (raise_ifM (profile_row_bad row) (ValueError ''profile JSONL contains an incompatible record'')) (check_rows rows)"

definition profile_rows :: "pyval py list \<Rightarrow> pyval list py" where
  "profile_rows lines =
     bindE (mapM id lines) (\<lambda>rows.
     thenE (raise_if (rows = []) (ValueError ''profile JSONL is empty''))
    (thenE (check_rows rows) (Inr rows)))"

section \<open>Writing a document\<close>

text \<open>
  A file holds a complete document or what an interrupted write left. \<open>mkdir\<close>, the write of the
  temporary and the rename may each fail.
\<close>

datatype content = Whole pyval | Torn

type_synonym files = "string \<Rightarrow> content option"

record file_io =
  io_mkdir :: "unit py"
  io_write :: "unit py"
  io_replace :: "unit py"

definition write_json_atomic :: "file_io \<Rightarrow> pyval \<Rightarrow> string \<Rightarrow> (files, unit) action" where
  "write_json_atomic io document destination fs =
     (let temporary = destination @ ''.tmp'' in
      case io_mkdir io of
        Inl e \<Rightarrow> (Inl e, fs)
      | Inr _ \<Rightarrow>
          (case io_write io of
             Inl e \<Rightarrow> (Inl e, fs(temporary \<mapsto> Torn))
           | Inr _ \<Rightarrow>
               (let fs1 = fs(temporary \<mapsto> Whole document) in
                case io_replace io of
                  Inl e \<Rightarrow> (Inl e, fs1)
                | Inr _ \<Rightarrow> (Inr (), (fs1(destination := fs1 temporary))(temporary := None)))))"

section \<open>Event arguments\<close>

definition event_arg_names :: "string list" where
  "event_arg_names =
    [''kind'', ''span_id'', ''submission_duration_ns'', ''completion_observed_ns'',
     ''completion_observer_native_thread_id'', ''device_elapsed_ns'', ''event_ready_at_submit'',
     ''synchronization_scope'', ''roctx_emitted'']"

definition dict_items :: "pyval \<Rightarrow> pydict py" where
  "dict_items v = (case v of VDict d \<Rightarrow> Inr d | _ \<Rightarrow> Inl TypeError)"

definition copy_present :: "pyval \<Rightarrow> pydict \<Rightarrow> string \<Rightarrow> pydict" where
  "copy_present row arguments name =
     (case row of VDict d \<Rightarrow> (case map_of d name of None \<Rightarrow> arguments | Some v \<Rightarrow> dict_set name v arguments)
      | _ \<Rightarrow> arguments)"

definition profile_event_args :: "pyval \<Rightarrow> pyval py" where
  "profile_event_args row =
     bindE (py_getitem row ''status'') (\<lambda>status.
     bindE (py_getitem row ''depth'') (\<lambda>depth.
     bindE (py_getitem row ''run_id'') (\<lambda>run_id.
     bindE (py_get row ''exception_type'' VNone) (\<lambda>exception_type.
     bindE (bindE (py_getitem row ''metadata'') dict_items) (\<lambda>metadata.
     Inr (VDict (foldl (copy_present row)
       (dict_update [(''status'', status), (''depth'', depth), (''run_id'', run_id), (''exception_type'', exception_type)] metadata)
       event_arg_names)))))))"

section \<open>The Perfetto export\<close>

definition span_event :: "int \<Rightarrow> pyval \<Rightarrow> pyval py" where
  "span_event origin row =
     bindE (py_getitem row ''name'') (\<lambda>name.
     bindE (py_getitem row ''phase'') (\<lambda>phase.
     bindE (item_int row ''start_ns'') (\<lambda>start.
     bindE (div1000 (start - origin)) (\<lambda>ts.
     bindE (item_int row ''duration_ns'') (\<lambda>duration.
     bindE (div1000 duration) (\<lambda>dur.
     bindE (get_int row ''thread_id'' 0) (\<lambda>tid.
     bindE (profile_event_args row) (\<lambda>args.
     Inr (VDict [(''name'', name), (''cat'', phase), (''ph'', VStr ''X''), (''ts'', VFloat ts), (''dur'', VFloat dur),
                 (''pid'', VInt 0), (''tid'', VInt tid), (''args'', args)])))))))))"

definition list_min :: "int list \<Rightarrow> int py" where
  "list_min xs = (case xs of [] \<Rightarrow> Inl (ValueError ''min() iterable argument is empty'') | _ \<Rightarrow> Inr (Min (set xs)))"

definition export_document :: "pyval list \<Rightarrow> pyval" where
  "export_document events =
     VDict [(''traceEvents'', VList events), (''displayTimeUnit'', VStr ''ms''),
            (''metadata'', VDict [(''source'', VStr ''microllm-python''), (''schema_version'', VInt 1)])]"

definition export_perfetto :: "file_io \<Rightarrow> pyval py list \<Rightarrow> string \<Rightarrow> (files, pyval) action" where
  "export_perfetto io lines output =
     bindS (liftS (profile_rows lines)) (\<lambda>rows.
     bindS (liftS (mapM (\<lambda>row. item_int row ''start_ns'') rows)) (\<lambda>starts.
     bindS (liftS (list_min starts)) (\<lambda>origin.
     bindS (liftS (mapM (span_event origin) rows)) (\<lambda>events.
     bindS (write_json_atomic io (export_document events) output) (\<lambda>_.
     retS (VDict [(''events'', VInt (int (length events))), (''output'', VStr output), (''origin_ns'', VInt origin)]))))))"

section \<open>Clock calibration\<close>

record calibration =
  cal_matched_spans :: int
  cal_boundary_points :: int
  cal_python_origin :: int
  cal_rocprof_origin :: int
  cal_scale :: pyfloat
  cal_max_boundary_width :: int
  cal_max_abs_residual :: pyfloat
  cal_rms_residual :: pyfloat

definition boundary_width_gate :: int where "boundary_width_gate = 100000"

definition residual_gate :: int where "residual_gate = 50000"

definition calibration_doc :: "calibration \<Rightarrow> pydict" where
  "calibration_doc c =
     [(''schema_version'', VInt 1), (''status'', VStr ''pass''), (''clock_model'', VStr ''affine_midpoint''),
      (''matched_spans'', VInt (cal_matched_spans c)), (''boundary_points'', VInt (cal_boundary_points c)),
      (''python_origin_ns'', VInt (cal_python_origin c)), (''rocprof_origin_ns'', VInt (cal_rocprof_origin c)),
      (''scale'', VFloat (cal_scale c)), (''max_boundary_width_ns'', VInt (cal_max_boundary_width c)),
      (''max_abs_residual_ns'', VFloat (cal_max_abs_residual c)), (''rms_residual_ns'', VFloat (cal_rms_residual c)),
      (''boundary_width_gate_ns'', VInt boundary_width_gate), (''residual_gate_ns'', VInt residual_gate)]"

text \<open>
  The marker index: every marker under the key of its process and function. A lookup gives the
  markers of the key in file order. A key of a list or a dict cannot be looked up.
\<close>

definition index_marker :: "pyval \<Rightarrow> ((int \<times> pyval) \<times> pyval) py" where
  "index_marker marker =
     bindE (item_int marker ''End_Timestamp'') (\<lambda>end_ts.
     bindE (item_int marker ''Start_Timestamp'') (\<lambda>start_ts.
     thenE (raise_if (end_ts < start_ts) (ValueError ''rocprof marker CSV contains a negative duration''))
    (bindE (item_int marker ''Process_Id'') (\<lambda>process.
     bindE (py_getitem marker ''Function'') (\<lambda>fn. Inr ((process, fn), marker))))))"

fun hashable :: "pyval \<Rightarrow> bool" where
  "hashable (VList _) = False"
| "hashable (VDict _) = False"
| "hashable _ = True"

definition lookup_markers :: "((int \<times> pyval) \<times> pyval) list \<Rightarrow> int \<Rightarrow> pyval \<Rightarrow> pyval list py" where
  "lookup_markers ix process name =
     thenE (raise_if (\<not> hashable name) TypeError)
       (Inr (map snd (filter (\<lambda>((p, f), m). p = process \<and> py_eq f name) ix)))"

definition boundary_point :: "pyval \<Rightarrow> pyval \<Rightarrow> string \<times> string \<times> string \<Rightarrow> (int \<times> (int \<times> int)) py" where
  "boundary_point row marker names =
     (case names of (before_name, after_name, marker_name) \<Rightarrow>
      bindE (get_int row before_name (- 1)) (\<lambda>before.
      bindE (get_int row after_name (- 1)) (\<lambda>after.
      thenE (raise_if (before < 0 \<or> after < before) (ValueError ''profile JSONL contains an invalid ROCTX boundary''))
     (bindE (item_int marker marker_name) (\<lambda>m. Inr (after - before, ((before + after) div 2, m)))))))"

definition boundary_names :: "(string \<times> string \<times> string) list" where
  "boundary_names = [(''roctx_push_before_ns'', ''roctx_push_after_ns'', ''Start_Timestamp''),
                     (''roctx_pop_before_ns'', ''roctx_pop_after_ns'', ''End_Timestamp'')]"

text \<open>The points of one span: none when it emitted no range.\<close>

definition row_points :: "((int \<times> pyval) \<times> pyval) list \<Rightarrow> pyval \<Rightarrow> (int \<times> (int \<times> int)) list option py" where
  "row_points ix row =
     bindE (py_get row ''roctx_emitted'' VNone) (\<lambda>emitted.
     if \<not> py_truthy emitted then Inr None
     else
       bindE (py_get row ''roctx_range_name'' VNone) (\<lambda>name.
       bindE (get_int row ''process_id'' (- 1)) (\<lambda>process.
       bindE (lookup_markers ix process name) (\<lambda>matches.
       case matches of
         [marker] \<Rightarrow> bindE (mapM (boundary_point row marker) boundary_names) (\<lambda>ps. Inr (Some ps))
       | _ \<Rightarrow> Inl (ValueError ''ROCTX range matched other than one marker'')))))"

text \<open>\<open>sum\<close> adds from left to right, as Python before 3.12 does.\<close>

definition floats_sum :: "pyfloat list \<Rightarrow> pyfloat" where
  "floats_sum xs = foldl fadd (Fin 0) xs"

definition floats_mean :: "pyfloat list \<Rightarrow> pyfloat py" where
  "floats_mean xs = bindE (float_of_int (int (length xs))) (\<lambda>n. fdiv (floats_sum xs) n)"

definition scale_ok :: "pyfloat \<Rightarrow> bool" where
  "scale_ok s \<longleftrightarrow> fle (rnd (99 / 100)) s \<and> fle s (rnd (101 / 100))"

text \<open>The least-squares scale and the anchor it implies.\<close>

definition fit_clock :: "(int \<times> int) list \<Rightarrow> (int \<times> int) \<Rightarrow> (pyfloat \<times> int) py" where
  "fit_clock points anchor =
     (case anchor of (python_anchor, rocprof_anchor) \<Rightarrow>
      bindE (mapM (\<lambda>(s, t). float_of_int (s - python_anchor)) points) (\<lambda>x.
      bindE (mapM (\<lambda>(s, t). float_of_int (t - rocprof_anchor)) points) (\<lambda>y.
      bindE (floats_mean x) (\<lambda>x_mean.
      bindE (floats_mean y) (\<lambda>y_mean.
      bindE (mapM (\<lambda>v. fsquare (fsub v x_mean)) x) (\<lambda>squares.
      let denominator = floats_sum squares in
      thenE (raise_if (fle denominator (Fin 0)) (ValueError ''clock calibration boundaries do not span time''))
     (bindE (fdiv (floats_sum (map2 (\<lambda>s t. fmul (fsub s x_mean) (fsub t y_mean)) x y)) denominator) (\<lambda>scale.
      thenE (raise_if (\<not> scale_ok scale) (ValueError ''rocprof clock scale is outside the nanosecond gate''))
     (let delta = fsub y_mean (fmul scale x_mean) in
      bindE (float_of_int rocprof_anchor) (\<lambda>r.
      bindE (round_float (fadd r delta)) (\<lambda>origin. Inr (scale, origin))))))))))))"

definition affine :: "int \<Rightarrow> pyfloat \<Rightarrow> int \<Rightarrow> pyfloat py" where
  "affine origin scale d = bindE (float_of_int d) (\<lambda>x. bindE (float_of_int origin) (\<lambda>r. Inr (fadd r (fmul scale x))))"

definition residual :: "int \<Rightarrow> pyfloat \<Rightarrow> int \<Rightarrow> int \<times> int \<Rightarrow> pyfloat py" where
  "residual origin scale python_anchor p =
     (case p of (source, target) \<Rightarrow>
      bindE (affine origin scale (source - python_anchor)) (\<lambda>z.
      bindE (float_of_int target) (\<lambda>t. Inr (fsub t z))))"

definition floats_max :: "pyfloat list \<Rightarrow> pyfloat py" where
  "floats_max xs = (case xs of [] \<Rightarrow> Inl (ValueError ''max() iterable argument is empty'') | x # ys \<Rightarrow> Inr (max_by flt x ys))"

text \<open>The fit, its residuals, and the two gates, from the points that were collected.\<close>

definition calibrate_points :: "nat \<Rightarrow> int \<Rightarrow> (int \<times> int) list \<Rightarrow> calibration py" where
  "calibrate_points spans width points =
     bindE (fit_clock points (hd points)) (\<lambda>(scale, origin).
     bindE (mapM (residual origin scale (fst (hd points))) points) (\<lambda>residuals.
     bindE (floats_max (map fabs residuals)) (\<lambda>max_abs.
     bindE (float_of_int (int (length residuals))) (\<lambda>n.
     bindE (fdiv (floats_sum (map (\<lambda>v. fmul v v) residuals)) n) (\<lambda>mean_square.
     bindE (fsqrt mean_square) (\<lambda>rms.
     thenE (raise_if (boundary_width_gate < width) (ValueError ''ROCTX boundary width exceeds the calibration gate''))
    (thenE (raise_if (flt (Fin (of_int residual_gate)) max_abs) (ValueError ''clock residual exceeds the calibration gate''))
    (Inr \<lparr>cal_matched_spans = int spans, cal_boundary_points = int (length points),
          cal_python_origin = fst (hd points), cal_rocprof_origin = origin, cal_scale = scale,
          cal_max_boundary_width = width, cal_max_abs_residual = max_abs, cal_rms_residual = rms\<rparr>))))))))"

definition clock_calibration :: "pyval list \<Rightarrow> pyval list \<Rightarrow> calibration py" where
  "clock_calibration rows markers =
     bindE (mapM (\<lambda>m. item_int m ''Process_Id'') markers) (\<lambda>pids.
     thenE (raise_if (card (set pids) \<noteq> 1) (ValueError ''clock calibration currently requires one rocprof process''))
    (bindE (mapM index_marker markers) (\<lambda>ix.
     bindE (mapM (row_points ix) rows) (\<lambda>found.
     let spans = [ps. Some ps \<leftarrow> found]; boundaries = concat spans; width = foldl max 0 (map fst boundaries)
     in thenE (raise_if (length spans < 2) (ValueError ''clock calibration requires at least two captured ROCTX spans''))
       (calibrate_points (length spans) width (map snd boundaries))))))"

definition marker_required :: "string list" where
  "marker_required = [''Function'', ''Process_Id'', ''Start_Timestamp'', ''End_Timestamp'']"

definition calibrate_clock ::
  "file_io \<Rightarrow> pyval py list \<Rightarrow> pyval list \<Rightarrow> string option \<Rightarrow> (files, pyval) action" where
  "calibrate_clock io lines markers output =
     bindS (liftS (profile_rows lines)) (\<lambda>rows.
     bindS (liftS (raise_if (markers = [] \<or> lacks marker_required (hd markers)) (ValueError ''rocprof marker CSV schema is incompatible''))) (\<lambda>_.
     bindS (liftS (clock_calibration rows markers)) (\<lambda>c.
     case output of
       None \<Rightarrow> retS (VDict (calibration_doc c))
     | Some path \<Rightarrow> bindS (write_json_atomic io (VDict (calibration_doc c)) path) (\<lambda>_.
                     retS (VDict (dict_update (calibration_doc c) [(''output'', VStr path)]))))))"

definition python_to_rocprof :: "calibration option \<Rightarrow> int \<Rightarrow> int py" where
  "python_to_rocprof cal timestamp =
     (case cal of
        None \<Rightarrow> Inl (RuntimeError ''Python clock calibration is unavailable'')
      | Some c \<Rightarrow> bindE (affine (cal_rocprof_origin c) (cal_scale c) (timestamp - cal_python_origin c)) round_float)"

section \<open>Time stamps\<close>

lemma div1000_nonneg: "0 \<le> i \<Longrightarrow> div1000 i = Inr x \<Longrightarrow> fle (Fin 0) x"
proof -
  assume i: "0 \<le> i" and d: "div1000 i = Inr x"
  then obtain y where y: "float_of_int i = Inr y" "fdiv y (Fin 1000) = Inr x" by (auto simp: div1000_def bindE_Inr_iff)
  then obtain a where a: "y = Fin a" by (cases y) (auto simp: float_of_int_def)
  have "0 \<le> a" using float_of_int_mono [OF i _ y(1)] float_of_int_exact [of 0] a by simp
  then show ?thesis using y a by (auto intro: rnd_nonneg)
qed

lemma div1000_mono: "i \<le> j \<Longrightarrow> div1000 i = Inr x \<Longrightarrow> div1000 j = Inr y \<Longrightarrow> fle x y"
proof -
  assume ij: "i \<le> j" and d: "div1000 i = Inr x" "div1000 j = Inr y"
  obtain a b where ab: "float_of_int i = Inr (Fin a)" "float_of_int j = Inr (Fin b)" "x = rnd (a / 1000)" "y = rnd (b / 1000)"
    using d by (auto simp: div1000_def bindE_Inr_iff float_of_int_def elim!: is_finite_float.elims)
  have "a \<le> b" using float_of_int_mono [OF ij ab(1,2)] by simp
  then show ?thesis using ab by (auto intro!: rnd_mono divide_right_mono)
qed

lemma div1000_0: "div1000 0 = Inr (Fin 0)"
  using float_of_int_exact [of 0] by (simp add: div1000_def)

section \<open>Monotone clock map\<close>

lemma scale_ok_Fin: "scale_ok s \<Longrightarrow> \<exists>q. s = Fin q \<and> 0 < q"
proof -
  assume s: "scale_ok s"
  have "rnd (1 / 2) = Fin (1 / 2)" and hi: "rnd 2 = Fin 2" by code_simp+
  then have "fle (Fin (1 / 2)) (rnd (99 / 100))" "fle (rnd (101 / 100)) (Fin 2)"
    using rnd_mono [of "1 / 2" "99 / 100"] rnd_mono [of "101 / 100" 2] by simp_all
  then have "fle (Fin (1 / 2)) s" "fle s (Fin 2)" using s fle_trans by (auto simp: scale_ok_def)
  then show ?thesis by (cases s) (auto simp: fle_def)
qed

lemma fadd_mono: "fle z z' \<Longrightarrow> fle (fadd (Fin r) z) (fadd (Fin r) z')"
proof -
  assume zz: "fle z z'"
  have top: "fle x PInf" and bot: "fle NInf x" if "x \<noteq> NaN" for x using that by (cases x; simp)+
  show ?thesis
  proof (cases "\<exists>a b. z = Fin a \<and> z' = Fin b")
    case True
    then obtain a b where "z = Fin a" "z' = Fin b" by blast
    moreover have "a \<le> b" using zz \<open>z = Fin a\<close> \<open>z' = Fin b\<close> by simp
    ultimately show ?thesis by (simp add: rnd_mono)
  next
    case False
    then show ?thesis
      using zz top [of "fadd (Fin r) z"] bot [of "fadd (Fin r) z'"] by (cases z; cases z') (simp_all add: fle_def)
  qed
qed

lemma affine_mono:
  assumes "scale_ok scale" and "d \<le> d'" and "affine r scale d = Inr x" and "affine r scale d' = Inr y"
  shows "fle x y"
proof -
  obtain q where q: "scale = Fin q" "0 < q" using scale_ok_Fin [OF assms(1)] by blast
  obtain a b c where abc: "float_of_int d = Inr (Fin a)" "float_of_int d' = Inr (Fin b)"
      "x = fadd (Fin c) (rnd (q * a))" "y = fadd (Fin c) (rnd (q * b))"
    using assms(3,4) q by (auto simp: affine_def bindE_Inr_iff float_of_int_def elim!: is_finite_float.elims)
  have "a \<le> b" using float_of_int_mono [OF assms(2) abc(1,2)] by simp
  then show ?thesis unfolding abc using q by (intro fadd_mono rnd_mono) simp
qed

lemma round_float_mono: "fle x y \<Longrightarrow> round_float x = Inr i \<Longrightarrow> round_float y = Inr j \<Longrightarrow> i \<le> j"
  by (cases x; cases y) (auto intro: round_half_even_mono)

lemma python_to_rocprof_mono_aux:
  assumes "scale_ok (cal_scale c)" and "s \<le> t"
    and "python_to_rocprof (Some c) s = Inr i" and "python_to_rocprof (Some c) t = Inr j"
  shows "i \<le> j"
proof -
  obtain x y where "affine (cal_rocprof_origin c) (cal_scale c) (s - cal_python_origin c) = Inr x" "round_float x = Inr i"
      "affine (cal_rocprof_origin c) (cal_scale c) (t - cal_python_origin c) = Inr y" "round_float y = Inr j"
    using assms(3,4) by (auto simp: python_to_rocprof_def bindE_Inr_iff)
  moreover have "s - cal_python_origin c \<le> t - cal_python_origin c" using assms(2) by simp
  ultimately show ?thesis using affine_mono [OF assms(1)] round_float_mono by blast
qed

section \<open>What a calibration that passed guarantees\<close>

lemma residual_not_NaN: "scale_ok scale \<Longrightarrow> residual r scale a p = Inr x \<Longrightarrow> x \<noteq> NaN"
proof -
  assume s: "scale_ok scale" and x: "residual r scale a p = Inr x"
  obtain q where q: "scale = Fin q" using scale_ok_Fin [OF s] by blast
  obtain u v w where "x = fsub (Fin u) (fadd (Fin v) (rnd (q * w)))"
    using x q by (auto simp: residual_def affine_def bindE_Inr_iff float_of_int_def split: prod.splits elim!: is_finite_float.elims)
  moreover have "fadd (Fin a) y \<noteq> NaN" if "y \<noteq> NaN" for a y using that by (cases y) auto
  moreover have "fneg y \<noteq> NaN" if "y \<noteq> NaN" for y using that by (cases y) auto
  ultimately show ?thesis by (simp add: fsub_def)
qed

lemma floats_max_upper:
  assumes "floats_max xs = Inr m" and "\<And>x. x \<in> set xs \<Longrightarrow> x \<noteq> NaN" and "x \<in> set xs"
  shows "fle x m"
proof -
  obtain y ys where xs: "xs = y # ys" "m = max_by flt y ys" using assms(1) by (cases xs) (auto simp: floats_max_def)
  have "\<not> flt m x" using float_order.max_by_upper [of y ys x] assms xs by auto
  moreover have "m \<noteq> NaN" using max_by_in [of flt y ys] assms(2) xs by auto
  ultimately show ?thesis using not_flt_iff assms(2,3) by blast
qed

lemma fit_clock_scale: "fit_clock points anchor = Inr (scale, origin) \<Longrightarrow> scale_ok scale"
  by (auto simp: fit_clock_def bindE_Inr_iff Let_def split: prod.splits)

definition found_points :: "pyval list \<Rightarrow> pyval list \<Rightarrow> (int \<times> (int \<times> int)) list py" where
  "found_points rows markers =
     bindE (mapM index_marker markers) (\<lambda>ix. bindE (mapM (row_points ix) rows) (\<lambda>found. Inr (concat [ps. Some ps \<leftarrow> found])))"

lemma foldl_max_upper: "(x :: int) \<in> insert a (set xs) \<Longrightarrow> x \<le> foldl max a xs"
proof (induction xs arbitrary: a x)
  case (Cons y ys)
  have "max a y \<le> foldl max (max a y) ys" using Cons.IH by blast
  then show ?case using Cons by auto
qed simp

lemma row_points_length: "row_points ix row = Inr (Some ps) \<Longrightarrow> length ps = 2"
proof -
  assume "row_points ix row = Inr (Some ps)"
  then obtain marker where "mapM (boundary_point row marker) boundary_names = Inr ps"
    by (auto simp del: mapM.simps simp: row_points_def bindE_Inr_iff split: if_splits) (auto simp: bindE_Inr_iff simp del: mapM.simps split: list.split_asm)
  from mapM_length [OF this] show ?thesis by (simp add: boundary_names_def)
qed

lemma concat_length_two: "(\<And>ps. ps \<in> set xss \<Longrightarrow> length ps = 2) \<Longrightarrow> length (concat xss) = 2 * length xss"
  by (induction xss) auto

lemma calibrate_points_gates:
  assumes "calibrate_points n width points = Inr c"
  shows "scale_ok (cal_scale c) \<and> width \<le> boundary_width_gate \<and> cal_matched_spans c = int n \<and>
    cal_boundary_points c = int (length points) \<and> cal_max_boundary_width c = width \<and>
    (\<forall>p \<in> set points. \<exists>x. residual (cal_rocprof_origin c) (cal_scale c) (cal_python_origin c) p = Inr x \<and>
       fle (fabs x) (Fin (of_int residual_gate)))"
proof -
  obtain scale origin rs m ms rms where fit: "fit_clock points (hd points) = Inr (scale, origin)"
    and rs: "mapM (residual origin scale (fst (hd points))) points = Inr rs"
    and m: "floats_max (map fabs rs) = Inr m" and gates: "width \<le> boundary_width_gate" "\<not> flt (Fin (of_int residual_gate)) m"
    and c: "c = \<lparr>cal_matched_spans = int n, cal_boundary_points = int (length points),
          cal_python_origin = fst (hd points), cal_rocprof_origin = origin, cal_scale = scale,
          cal_max_boundary_width = width, cal_max_abs_residual = m, cal_rms_residual = rms\<rparr>"
    using assms by (auto simp: calibrate_points_def bindE_Inr_iff not_less split: prod.splits)
  have ok: "scale_ok scale" by (rule fit_clock_scale [OF fit])
  have "\<exists>x. residual origin scale (fst (hd points)) p = Inr x \<and> fle (fabs x) (Fin (of_int residual_gate))" if "p \<in> set points" for p
  proof -
    note p = that
    obtain x where x: "x \<in> set rs" "residual origin scale (fst (hd points)) p = Inr x"
      using mapM_setI [OF rs p] by blast
    have nn: "y \<noteq> NaN" if "y \<in> set (map fabs rs)" for y
    proof -
      note y = that
      obtain z where z: "z \<in> set rs" "y = fabs z" using y by auto
      obtain p where "residual origin scale (fst (hd points)) p = Inr z" using mapM_setD [OF rs z(1)] by blast
      then show ?thesis using residual_not_NaN [OF ok] z(2) by simp
    qed
    have "fle (fabs x) m" using floats_max_upper [OF m nn] x(1) by auto
    moreover have "m \<noteq> NaN" using calculation by auto
    then have "fle m (Fin (of_int residual_gate))" using gates(2) not_flt_iff by blast
    ultimately show ?thesis using x(2) fle_trans by blast
  qed
  then show ?thesis using ok gates(1) by (simp add: c)
qed

text \<open>
  C16. A clock calibration that is returned is trustworthy: its scale is finite, positive and within
  1 percent of 1, it rests on at least two spans with two boundary points each, every boundary
  interval is at most 100 microseconds wide, and the fitted map misses every collected point by at
  most 50 microseconds (no residual is NaN).
\<close>

theorem calibration_gates:
  assumes "clock_calibration rows markers = Inr c"
  shows "\<exists>bs. found_points rows markers = Inr bs \<and> 2 \<le> cal_matched_spans c \<and> cal_boundary_points c = 2 * cal_matched_spans c \<and>
    int (length bs) = cal_boundary_points c \<and> scale_ok (cal_scale c) \<and> (\<exists>q > 0. cal_scale c = Fin q) \<and>
    (\<forall>(w, p) \<in> set bs. w \<le> 100000 \<and>
       (\<exists>x. residual (cal_rocprof_origin c) (cal_scale c) (cal_python_origin c) p = Inr x \<and> fle (fabs x) (Fin 50000)))"
proof -
  obtain ix found where ix: "mapM index_marker markers = Inr ix" and found: "mapM (row_points ix) rows = Inr found"
    and two: "2 \<le> length [ps. Some ps \<leftarrow> found]"
    and c: "calibrate_points (length [ps. Some ps \<leftarrow> found]) (foldl max 0 (map fst (concat [ps. Some ps \<leftarrow> found])))
        (map snd (concat [ps. Some ps \<leftarrow> found])) = Inr c"
    using assms by (auto simp: clock_calibration_def bindE_Inr_iff Let_def not_less)
  define spans where "spans = [ps. Some ps \<leftarrow> found]"
  note c = c [folded spans_def] and two = two [folded spans_def]
  have "length ps = 2" if "ps \<in> set spans" for ps
  proof -
    have "Some ps \<in> set found" using that by (auto simp: spans_def split: option.splits)
    from mapM_setD [OF found this] show ?thesis using row_points_length by blast
  qed
  then have len: "length (concat spans) = 2 * length spans" by (rule concat_length_two)
  note g = calibrate_points_gates [OF c]
  have wide: "w \<le> 100000" if "(w, p) \<in> set (concat spans)" for w p
  proof -
    have "w \<in> set (map fst (concat spans))" using that by force
    then have "w \<le> foldl max 0 (map fst (concat spans))" using foldl_max_upper [of w 0] by blast
    then show ?thesis using g by (simp add: boundary_width_gate_def)
  qed
  have near: "\<exists>x. residual (cal_rocprof_origin c) (cal_scale c) (cal_python_origin c) p = Inr x \<and> fle (fabs x) (Fin 50000)"
    if "(w, p) \<in> set (concat spans)" for w p
  proof -
    have "p \<in> set (map snd (concat spans))" using that by force
    then show ?thesis using g by (simp only: residual_gate_def of_int_numeral)
  qed
  have fp: "found_points rows markers = Inr (concat spans)" using ix found by (simp add: found_points_def spans_def)
  have ok: "scale_ok (cal_scale c)" using g by blast
  obtain q where q: "0 < q" "cal_scale c = Fin q" using scale_ok_Fin [OF ok] by blast
  have each: "\<forall>(w, p) \<in> set (concat spans). w \<le> 100000 \<and>
       (\<exists>x. residual (cal_rocprof_origin c) (cal_scale c) (cal_python_origin c) p = Inr x \<and> fle (fabs x) (Fin 50000))"
  proof (rule ballI, unfold split_paired_all prod.case)
    fix w p q assume "(w, p, q) \<in> set (concat spans)"
    from wide [OF this] near [OF this] show "w \<le> 100000 \<and> (\<exists>x. residual (cal_rocprof_origin c) (cal_scale c) (cal_python_origin c) (p, q) = Inr x \<and> fle (fabs x) (Fin 50000))"
      by (rule conjI)
  qed
  have "2 \<le> cal_matched_spans c" "cal_boundary_points c = 2 * cal_matched_spans c" "int (length (concat spans)) = cal_boundary_points c"
    using g two len by simp_all
  then show ?thesis using fp ok q each by blast
qed

lemma clock_calibration_scale: "clock_calibration rows markers = Inr c \<Longrightarrow> scale_ok (cal_scale c)"
  by (auto simp: clock_calibration_def bindE_Inr_iff Let_def dest: calibrate_points_gates)

text \<open>
  The fitted clock map preserves order: with a calibration that passed its gates, a later Python
  time stamp is never mapped before an earlier one, so spans keep their order and no duration turns
  negative.
\<close>

theorem clock_map_monotone:
  assumes "clock_calibration rows markers = Inr c" and "s \<le> t"
    and "python_to_rocprof (Some c) s = Inr i" and "python_to_rocprof (Some c) t = Inr j"
  shows "i \<le> j"
  by (rule python_to_rocprof_mono_aux [OF clock_calibration_scale [OF assms(1)] assms(2-4)])

section \<open>Reading back what the scopes wrote\<close>

lemma item_int_simps: "item_int (VDict d) k = bindE (need (KeyError k) (map_of d k)) py_int"
  by (simp add: item_int_def py_getitem_def)

lemma scope_record_accepted:
  "0 \<le> sc_start_ns s \<Longrightarrow> sc_start_ns s \<le> t \<Longrightarrow> profile_row_bad (scope_record fx s exc t) = Inr False"
  by (auto simp: profile_row_bad_def scope_record_def py_get_def get_int_def py_int_def py_ne_def)

lemma check_rows_ok: "(\<And>v. v \<in> set rows \<Longrightarrow> profile_row_bad v = Inr False) \<Longrightarrow> check_rows rows = Inr ()"
  by (induction rows) auto

text \<open>
  C17. What \<open>ProfileScope\<close> writes, the exporters accept: a file of records whose stamps are
  ordered and not negative is read back unchanged, and a record of a successful range yields its
  two boundary points from the one marker of its range, never an invalid-boundary error.
\<close>

theorem profile_records_accepted:
  assumes "rows \<noteq> []"
    and "\<And>v. v \<in> set rows \<Longrightarrow> \<exists>fx s exc t. v = scope_record fx s exc t \<and> 0 \<le> sc_start_ns s \<and> stamps_ok s t"
  shows "profile_rows (map Inr rows) = Inr rows \<and>
    (\<forall>fx s exc t ix m p q. scope_record fx s exc t \<in> set rows \<and> sc_roctx_emitted s \<and> 0 \<le> sc_start_ns s \<and> stamps_ok s t \<and>
       lookup_markers ix (fx_pid fx) (opt_str (sc_range_name s)) = Inr [m] \<and> item_int m ''Start_Timestamp'' = Inr p \<and>
       item_int m ''End_Timestamp'' = Inr q \<longrightarrow>
       (\<exists>w1 x1 w2 x2. row_points ix (scope_record fx s exc t) = Inr (Some [(w1, x1, p), (w2, x2, q)]) \<and> 0 \<le> w1 \<and> 0 \<le> w2 \<and> x1 \<le> x2))"
proof (intro conjI allI impI)
  have "mapM id (map Inr rows) = (Inr rows :: pyval list py)" by (induction rows) auto
  moreover have "check_rows rows = Inr ()"
    using assms(2) scope_record_accepted by (intro check_rows_ok) (fastforce simp: stamps_ok_def)
  ultimately show "profile_rows (map Inr rows) = Inr rows" using assms(1) by (simp add: profile_rows_def)
next
  fix fx s exc t ix m p q
  assume a: "scope_record fx s exc t \<in> set rows \<and> sc_roctx_emitted s \<and> 0 \<le> sc_start_ns s \<and> stamps_ok s t \<and>
       lookup_markers ix (fx_pid fx) (opt_str (sc_range_name s)) = Inr [m] \<and> item_int m ''Start_Timestamp'' = Inr p \<and>
       item_int m ''End_Timestamp'' = Inr q"
  then obtain a b c d where st: "sc_push_before s = Some a" "sc_push_after s = Some b" "sc_pop_before s = Some c" "sc_pop_after s = Some d"
      "0 \<le> a" "a \<le> b" "b \<le> c" "c \<le> d" by (auto simp: stamps_ok_def)
  let ?r = "scope_record fx s exc t"
  have get: "get_int ?r ''roctx_push_before_ns'' (- 1) = Inr a" "get_int ?r ''roctx_push_after_ns'' (- 1) = Inr b"
    "get_int ?r ''roctx_pop_before_ns'' (- 1) = Inr c" "get_int ?r ''roctx_pop_after_ns'' (- 1) = Inr d"
    "py_get ?r ''roctx_emitted'' VNone = Inr (VBool True)" "py_get ?r ''roctx_range_name'' VNone = Inr (opt_str (sc_range_name s))"
    "get_int ?r ''process_id'' (- 1) = Inr (fx_pid fx)"
    using a st by (simp_all add: get_int_def py_get_def scope_record_def py_int_def)
  have "row_points ix ?r = Inr (Some [(b - a, (a + b) div 2, p), (d - c, (c + d) div 2, q)])"
    using a st by (simp add: row_points_def get boundary_names_def boundary_point_def not_less)
  moreover have "(a + b) div 2 \<le> (c + d) div 2" using st by (intro zdiv_mono1) auto
  ultimately show "\<exists>w1 x1 w2 x2. row_points ix ?r = Inr (Some [(w1, x1, p), (w2, x2, q)]) \<and> 0 \<le> w1 \<and> 0 \<le> w2 \<and> x1 \<le> x2"
    using st by auto
qed

section \<open>Writing atomically, exporting\<close>

text \<open>
  C18. \<open>_write_json_atomic\<close> never leaves a half-written destination: whatever step fails,
  the destination holds its old content or the whole new document, the new one exactly when the call
  returned; no file other than the destination and its temporary changes, and after a return the
  temporary is gone.
\<close>

theorem write_json_atomic_safe:
  assumes "write_json_atomic io document destination fs = (r, fs')"
  shows "(fs' destination = fs destination \<or> fs' destination = Some (Whole document)) \<and>
    (r = Inr () \<longrightarrow> fs' destination = Some (Whole document) \<and> fs' (destination @ ''.tmp'') = None) \<and>
    (\<forall>e. r = Inl e \<longrightarrow> fs' destination = fs destination) \<and>
    (\<forall>f. f \<noteq> destination \<and> f \<noteq> destination @ ''.tmp'' \<longrightarrow> fs' f = fs f)"
  using assms by (auto simp: write_json_atomic_def Let_def split: sum.splits)

lemma write_json_replaces: "write_json_atomic io document destination fs = (Inr (), fs') \<Longrightarrow> fs' destination = Some (Whole document)"
  by (auto simp: write_json_atomic_def Let_def split: sum.splits)

lemma get_int_item: "item_int row k = Inr d \<Longrightarrow> get_int row k dflt = Inr d"
  by (cases row) (auto simp: item_int_def get_int_def py_getitem_def py_get_def bindE_Inr_iff split: option.splits)

lemma check_rows_bad: "check_rows rows = Inr () \<Longrightarrow> row \<in> set rows \<Longrightarrow> profile_row_bad row = Inr False"
  by (induction rows) (auto simp: bindE_Inr_iff)

lemma profile_rows_duration: "profile_rows lines = Inr rows \<Longrightarrow> row \<in> set rows \<Longrightarrow> item_int row ''duration_ns'' = Inr d \<Longrightarrow> 0 \<le> d"
proof -
  assume "profile_rows lines = Inr rows" "row \<in> set rows" and d: "item_int row ''duration_ns'' = Inr d"
  then have "profile_row_bad row = Inr False" by (auto simp: profile_rows_def bindE_Inr_iff intro: check_rows_bad)
  then show "0 \<le> d" using get_int_item [OF d, of "- 1"] by (auto simp: profile_row_bad_def bindE_Inr_iff)
qed

lemma span_event_fields:
  "span_event origin row = Inr v \<Longrightarrow> \<exists>start ts dur duration args. item_int row ''start_ns'' = Inr start \<and> div1000 (start - origin) = Inr ts \<and>
     item_int row ''duration_ns'' = Inr duration \<and> div1000 duration = Inr dur \<and> profile_event_args row = Inr args \<and>
     py_getitem v ''ts'' = Inr (VFloat ts) \<and> py_getitem v ''dur'' = Inr (VFloat dur) \<and>
     py_getitem v ''name'' = py_getitem row ''name'' \<and> py_getitem v ''args'' = Inr args"
  by (auto simp: span_event_def bindE_Inr_iff py_getitem_def)


section \<open>The properties at concrete inputs\<close>

definition sample_span :: "int \<Rightarrow> string \<Rightarrow> pyval" where
  "sample_span t name =
     VDict [(''schema_version'', VInt 1), (''record_type'', VStr ''python_profile_span''), (''name'', VStr name),
            (''phase'', VStr ''python''), (''status'', VStr ''pass''), (''depth'', VInt 0), (''run_id'', VStr ''run''),
            (''start_ns'', VInt (t - 100)), (''duration_ns'', VInt 1400), (''process_id'', VInt 7), (''metadata'', VDict []),
            (''roctx_emitted'', VBool True), (''roctx_range_name'', VStr name),
            (''roctx_push_before_ns'', VInt t), (''roctx_push_after_ns'', VInt (t + 200)),
            (''roctx_pop_before_ns'', VInt (t + 1000)), (''roctx_pop_after_ns'', VInt (t + 1200))]"

definition sample_marker :: "int \<Rightarrow> string \<Rightarrow> string \<Rightarrow> pyval" where
  "sample_marker t name correlation =
     VDict [(''Function'', VStr name), (''Process_Id'', VStr ''7''), (''Thread_Id'', VStr ''8''),
            (''Correlation_Id'', VStr correlation), (''Start_Timestamp'', VStr (str_int t)), (''End_Timestamp'', VStr (str_int (t + 1000)))]"

definition sample_rows :: "pyval list" where
  "sample_rows = [sample_span 900 ''range-a'', sample_span 2900 ''range-b'']"

definition sample_markers :: "pyval list" where
  "sample_markers = [sample_marker 10000 ''range-a'' ''2'', sample_marker 12000 ''range-b'' ''3'']"

lemma scale_one: "scale_ok (Fin 1)"
  unfolding scale_ok_def by code_simp

lemma sample_points:
  "found_points sample_rows sample_markers = Inr [(200, 1000, 10000), (200, 2000, 11000), (200, 3000, 12000), (200, 4000, 13000)]"
proof -
  have "int_of_str ''7'' = Inr 7" by code_simp
  then show ?thesis
    by (simp add: found_points_def sample_rows_def sample_markers_def sample_span_def sample_marker_def index_marker_def
        item_int_simps py_int_def int_of_str_str_int py_getitem_def row_points_def py_get_def get_int_def lookup_markers_def
        boundary_names_def boundary_point_def)
qed

lemma sample_fit: "fit_clock [(1000, 10000), (2000, 11000), (3000, 12000), (4000, 13000)] (1000, 10000) = Inr (Fin 1, 10000)"
  by (simp add: fit_clock_def floats_mean_def floats_sum_def finite_or_overflow_def fsub_def scale_one Let_def)

lemma sample_calibrates: "\<exists>c. clock_calibration sample_rows sample_markers = Inr c \<and> cal_scale c = Fin 1 \<and>
    cal_python_origin c = 1000 \<and> cal_rocprof_origin c = 10000 \<and> cal_matched_spans c = 2"
proof -
  have "int_of_str ''7'' = Inr 7" by code_simp
  then show ?thesis
    by (simp add: clock_calibration_def sample_rows_def sample_markers_def sample_span_def sample_marker_def index_marker_def
        item_int_simps py_int_def int_of_str_str_int py_getitem_def row_points_def py_get_def get_int_def lookup_markers_def
        boundary_names_def boundary_point_def Let_def calibrate_points_def sample_fit residual_def affine_def fsub_def
        floats_max_def floats_sum_def boundary_width_gate_def residual_gate_def)
qed

theorem calibration_gates_witness:
  "\<exists>c bs. clock_calibration sample_rows sample_markers = Inr c \<and> found_points sample_rows sample_markers = Inr bs \<and>
     length bs = 4 \<and> scale_ok (cal_scale c) \<and> (\<forall>(w, p) \<in> set bs. w \<le> 100000)"
proof -
  obtain c where c: "clock_calibration sample_rows sample_markers = Inr c" using sample_calibrates by blast
  obtain bs where "found_points sample_rows sample_markers = Inr bs" "scale_ok (cal_scale c)" "\<forall>(w, p) \<in> set bs. w \<le> 100000"
    using calibration_gates [OF c] by fast
  then show ?thesis using c sample_points by auto
qed

theorem clock_map_monotone_witness:
  "\<exists>c i j. clock_calibration sample_rows sample_markers = Inr c \<and> python_to_rocprof (Some c) 1500 = Inr i \<and>
     python_to_rocprof (Some c) 1700 = Inr j \<and> i \<le> j"
proof -
  obtain c where c: "clock_calibration sample_rows sample_markers = Inr c" "cal_scale c = Fin 1"
    "cal_python_origin c = 1000" "cal_rocprof_origin c = 10000" using sample_calibrates by blast
  have "python_to_rocprof (Some c) 1500 = Inr 10500" "python_to_rocprof (Some c) 1700 = Inr 10700"
    by (simp_all add: python_to_rocprof_def affine_def c)
  then show ?thesis using c(1) clock_map_monotone [OF c(1), of 1500 1700] by auto
qed

definition plain_scope :: pscope where
  "plain_scope = projr (scope_init ''step'' ''t.jsonl'' ''python'' None None False ''run'' ''id'')"

theorem profile_records_accepted_witness:
  "profile_rows [Inr (scope_record sample_fx plain_scope None 7)] = Inr [scope_record sample_fx plain_scope None 7]"
proof -
  have "stamps_ok plain_scope 7 \<and> 0 \<le> sc_start_ns plain_scope"
    by (simp add: plain_scope_def scope_init_def dumps_strict_def stamps_ok_def)
  then show ?thesis
    using profile_records_accepted [of "[scope_record sample_fx plain_scope None 7]"] by fastforce
qed

definition good_io :: file_io where
  "good_io = \<lparr>io_mkdir = Inr (), io_write = Inr (), io_replace = Inr ()\<rparr>"

theorem write_json_atomic_safe_witness:
  "\<exists>fs'. write_json_atomic (good_io\<lparr>io_replace := Inl (OSError ''busy'')\<rparr>) VNone ''out.json'' (\<lambda>_. None) = (Inl (OSError ''busy''), fs') \<and>
     fs' ''out.json'' = None"
proof -
  obtain fs' where w: "write_json_atomic (good_io\<lparr>io_replace := Inl (OSError ''busy'')\<rparr>) VNone ''out.json'' (\<lambda>_. None) = (Inl (OSError ''busy''), fs')"
    by (simp add: write_json_atomic_def good_io_def Let_def)
  from write_json_atomic_safe [OF w] w show ?thesis by blast
qed


end
