(* ===== verification/TraceMerge.thy ===== *)
theory TraceMerge imports ProfileTrace begin

text \<open>
  \<open>merge_rocprof_perfetto\<close> of \<open>profiling.py\<close>: the checks on the CSV files, the
  pairing of each kernel with the HIP API call of its correlation id and the tightest marker around it,
  and the events of the merged trace.
\<close>

section \<open>Checks\<close>

fun check_durations :: "string \<Rightarrow> pyval list \<Rightarrow> unit py" where
  "check_durations msg [] = Inr ()"
| "check_durations msg (row # rows) =
     bindE (item_int row ''End_Timestamp'') (\<lambda>e.
     bindE (item_int row ''Start_Timestamp'') (\<lambda>s.
     thenE (raise_if (e < s) (ValueError msg)) (check_durations msg rows)))"

definition required_marker :: "string list" where
  "required_marker = [''Function'', ''Process_Id'', ''Thread_Id'', ''Correlation_Id'', ''Start_Timestamp'', ''End_Timestamp'']"

definition required_kernel :: "string list" where
  "required_kernel = [''Agent_Id'', ''Queue_Id'', ''Kernel_Name'', ''Correlation_Id'', ''Start_Timestamp'', ''End_Timestamp'']"

definition check_traces :: "pyval list \<Rightarrow> pyval list \<Rightarrow> unit py" where
  "check_traces markers kernels =
     thenE (raise_if (markers = [] \<or> kernels = []) (ValueError ''rocprof marker and kernel traces must both be non-empty''))
    (thenE (raise_if (lacks required_marker (hd markers) \<or> lacks required_kernel (hd kernels)) (ValueError ''rocprof CSV schema is incompatible''))
    (bindE (mapM (\<lambda>m. item_int m ''Process_Id'') markers) (\<lambda>pids.
     thenE (raise_if (card (set pids) \<noteq> 1) (ValueError ''Perfetto merge currently requires one rocprof process''))
    (bindE (mapM (\<lambda>m. item_int m ''Correlation_Id'') markers) (\<lambda>ids.
     thenE (raise_if (card (set ids) \<noteq> length markers) (ValueError ''rocprof marker correlations must be unique in one process''))
    (check_durations ''rocprof CSV contains a negative duration'' (markers @ kernels)))))))"

definition check_apis :: "pyval list option \<Rightarrow> pyval list py" where
  "check_apis hip_api_csv =
     (case hip_api_csv of
        None \<Rightarrow> Inr []
      | Some apis \<Rightarrow>
          thenE (raise_if (apis = [] \<or> lacks required_marker (hd apis)) (ValueError ''rocprof HIP API CSV schema is incompatible''))
         (thenE (check_durations ''rocprof HIP API CSV contains a negative duration'' apis) (Inr apis)))"

definition load_python :: "pyval py list option \<Rightarrow> pyval list \<Rightarrow> (pyval list \<times> calibration option) py" where
  "load_python python_jsonl markers =
     (case python_jsonl of
        None \<Rightarrow> Inr ([], None)
      | Some lines \<Rightarrow>
          bindE (profile_rows lines) (\<lambda>rows.
          bindE (clock_calibration rows markers) (\<lambda>c. Inr (rows, Some c))))"

section \<open>Pairing kernels\<close>

definition contains_api :: "pyval \<Rightarrow> int \<Rightarrow> int \<Rightarrow> pyval \<Rightarrow> bool py" where
  "contains_api api api_start api_end marker =
     bindE (py_getitem marker ''Process_Id'') (\<lambda>mp.
     bindE (py_getitem api ''Process_Id'') (\<lambda>ap.
     andM (Inr (py_eq mp ap))
    (andM (bindE (item_int marker ''Start_Timestamp'') (\<lambda>s. Inr (s \<le> api_start)))
          (bindE (item_int marker ''End_Timestamp'') (\<lambda>e. Inr (api_end \<le> e))))))"

definition marker_width :: "nat \<times> pyval \<Rightarrow> (int \<times> nat) py" where
  "marker_width item =
     bindE (item_int (snd item) ''End_Timestamp'') (\<lambda>e.
     bindE (item_int (snd item) ''Start_Timestamp'') (\<lambda>s. Inr (e - s, fst item)))"

definition tightest :: "(nat \<times> pyval) list \<Rightarrow> nat py" where
  "tightest containing =
     bindE (mapM marker_width containing) (\<lambda>keys. Inr (snd (Min (set keys))))"

text \<open>The pair of one kernel, if any: the index of its marker and its API row.\<close>

definition pair_kernel :: "(int \<times> pyval) list \<Rightarrow> pyval list \<Rightarrow> pyval \<Rightarrow> (nat \<times> pyval) option py" where
  "pair_kernel api_by_correlation markers krow =
     bindE (item_int krow ''Correlation_Id'') (\<lambda>correlation.
     case map snd (filter (\<lambda>(c, row). c = correlation) api_by_correlation) of
       [] \<Rightarrow> Inr None
     | [api] \<Rightarrow>
         bindE (item_int api ''Start_Timestamp'') (\<lambda>api_start.
         bindE (item_int api ''End_Timestamp'') (\<lambda>api_end.
         bindE (filterM (\<lambda>item. contains_api api api_start api_end (snd item)) (enumerate 0 markers)) (\<lambda>containing.
         if containing = [] then Inr None
         else bindE (tightest containing) (\<lambda>i. Inr (Some (i, api))))))
     | _ \<Rightarrow> Inl (ValueError ''kernel correlation matched multiple HIP API rows''))"

type_synonym pairs = "(nat \<times> pyval) option list"

definition kernel_pairs :: "pyval list \<Rightarrow> pyval list \<Rightarrow> pyval list \<Rightarrow> pairs py" where
  "kernel_pairs hip_apis markers kernels =
     bindE (mapM (\<lambda>row. bindE (item_int row ''Correlation_Id'') (\<lambda>c. Inr (c, row))) hip_apis) (\<lambda>index.
     mapM (pair_kernel index markers) kernels)"

text \<open>\<open>marker_to_kernels.get(marker_index, [])\<close>, with the API row of each kernel.\<close>

definition kernels_of :: "pairs \<Rightarrow> nat \<Rightarrow> (nat \<times> pyval) list" where
  "kernels_of ps i = [(k, api). (k, Some (j, api)) \<leftarrow> enumerate 0 ps, j = i]"

section \<open>Events\<close>

definition flow_id :: "nat \<Rightarrow> int \<Rightarrow> nat \<Rightarrow> string" where
  "flow_id m correlation k = str_int (int m) @ '':'' @ str_int correlation @ '':'' @ str_int (int k)"

definition marker_event :: "int \<Rightarrow> pyval \<Rightarrow> (pyval \<times> int) py" where
  "marker_event origin row =
     bindE (item_int row ''Correlation_Id'') (\<lambda>correlation.
     bindE (item_int row ''Start_Timestamp'') (\<lambda>start.
     bindE (py_getitem row ''Function'') (\<lambda>fn.
     bindE (div1000 (start - origin)) (\<lambda>ts.
     bindE (item_int row ''End_Timestamp'') (\<lambda>e.
     bindE (div1000 (e - start)) (\<lambda>dur.
     bindE (item_int row ''Process_Id'') (\<lambda>pid.
     bindE (item_int row ''Thread_Id'') (\<lambda>tid.
     Inr (VDict [(''name'', fn), (''cat'', VStr ''roctx''), (''ph'', VStr ''X''), (''ts'', VFloat ts), (''dur'', VFloat dur),
                 (''pid'', VInt pid), (''tid'', VInt tid), (''args'', VDict [(''correlation_id'', VInt correlation)])], correlation)))))))))"

definition flow_start :: "int \<Rightarrow> nat \<Rightarrow> pyval \<Rightarrow> int \<Rightarrow> nat \<times> pyval \<Rightarrow> pyval py" where
  "flow_start origin m row correlation krow =
     bindE (item_int (snd krow) ''Start_Timestamp'') (\<lambda>start.
     bindE (div1000 (start - origin)) (\<lambda>ts.
     bindE (item_int row ''Process_Id'') (\<lambda>pid.
     bindE (item_int row ''Thread_Id'') (\<lambda>tid.
     Inr (VDict [(''name'', VStr ''ROCTX to HIP''), (''cat'', VStr ''correlation''), (''ph'', VStr ''s''), (''ts'', VFloat ts),
                 (''pid'', VInt pid), (''tid'', VInt tid), (''id'', VStr (flow_id m correlation (fst krow)))])))))"

definition marker_events :: "int \<Rightarrow> pairs \<Rightarrow> nat \<times> pyval \<Rightarrow> pyval list py" where
  "marker_events origin ps item =
     bindE (marker_event origin (snd item)) (\<lambda>(event, correlation).
     bindE (mapM (flow_start origin (fst item) (snd item) correlation) (kernels_of ps (fst item))) (\<lambda>flows.
     Inr (event # flows)))"

definition kernel_args :: "pyval list \<Rightarrow> (nat \<times> pyval) option \<Rightarrow> pyval \<Rightarrow> int \<Rightarrow> pyval py" where
  "kernel_args markers p row correlation =
     bindE (py_getitem row ''Agent_Id'') (\<lambda>agent.
     bindE (case p of None \<Rightarrow> Inr VNone | Some (m, api) \<Rightarrow> py_getitem (markers ! m) ''Function'') (\<lambda>range_name.
     bindE (case p of None \<Rightarrow> Inr VNone | Some (m, api) \<Rightarrow> py_getitem api ''Function'') (\<lambda>hip_api.
     Inr (VDict [(''agent'', agent), (''correlation_id'', VInt correlation), (''roctx_range'', range_name), (''hip_api'', hip_api)]))))"

definition kernel_events :: "int \<Rightarrow> pyval list \<Rightarrow> nat \<times> ((nat \<times> pyval) option \<times> pyval) \<Rightarrow> pyval list py" where
  "kernel_events origin markers item =
     (case item of (k, (p, row)) \<Rightarrow>
      bindE (item_int row ''Correlation_Id'') (\<lambda>correlation.
      bindE (item_int row ''Start_Timestamp'') (\<lambda>start.
      bindE (item_int row ''Queue_Id'') (\<lambda>queue.
      bindE (py_getitem row ''Kernel_Name'') (\<lambda>name.
      bindE (div1000 (start - origin)) (\<lambda>ts.
      bindE (item_int row ''End_Timestamp'') (\<lambda>e.
      bindE (div1000 (e - start)) (\<lambda>dur.
      bindE (kernel_args markers p row correlation) (\<lambda>args.
      let gpu_tid = 1000000 + queue;
          event = VDict [(''name'', name), (''cat'', VStr ''gpu_kernel''), (''ph'', VStr ''X''), (''ts'', VFloat ts), (''dur'', VFloat dur),
                         (''pid'', VInt 0), (''tid'', VInt gpu_tid), (''args'', args)]
      in Inr (event # (case p of None \<Rightarrow> []
                | Some (m, api) \<Rightarrow>
                    [VDict [(''name'', VStr ''ROCTX to HIP''), (''cat'', VStr ''correlation''), (''ph'', VStr ''f''), (''ts'', VFloat ts),
                            (''pid'', VInt 0), (''tid'', VInt gpu_tid), (''id'', VStr (flow_id m correlation k))]])))))))))))"

definition python_event :: "int \<Rightarrow> calibration option \<Rightarrow> pyval \<Rightarrow> pyval py" where
  "python_event origin cal row =
     bindE (item_int row ''start_ns'') (\<lambda>s.
     bindE (python_to_rocprof cal s) (\<lambda>start.
     bindE (item_int row ''duration_ns'') (\<lambda>d.
     bindE (python_to_rocprof cal (s + d)) (\<lambda>e.
     bindE (py_getitem row ''name'') (\<lambda>name.
     bindE (py_getitem row ''phase'') (\<lambda>phase.
     bindE (div1000 (start - origin)) (\<lambda>ts.
     bindE (div1000 (e - start)) (\<lambda>dur.
     bindE (get_int row ''process_id'' 0) (\<lambda>pid.
     bindE (py_get row ''thread_id'' (VInt 0)) (\<lambda>dflt.
     bindE (bindE (py_get row ''native_thread_id'' dflt) py_int) (\<lambda>tid.
     bindE (profile_event_args row) (\<lambda>args.
     Inr (VDict [(''name'', name), (''cat'', phase), (''ph'', VStr ''X''), (''ts'', VFloat ts), (''dur'', VFloat dur),
                 (''pid'', VInt pid), (''tid'', VInt tid), (''args'', args)])))))))))))))"

section \<open>The merge\<close>

record merged =
  mg_origin :: int
  mg_pairs :: pairs
  mg_marker_events :: "pyval list list"
  mg_kernel_events :: "pyval list list"
  mg_python_events :: "pyval list"
  mg_calibration :: "calibration option"
  mg_apis :: "pyval list"
  mg_correlated_ids :: int

definition merge_events :: "pyval list \<Rightarrow> pyval list \<Rightarrow> pyval list option \<Rightarrow> pyval py list option \<Rightarrow> merged py" where
  "merge_events markers kernels hip_api_csv python_jsonl =
     thenE (check_traces markers kernels)
    (bindE (check_apis hip_api_csv) (\<lambda>apis.
     bindE (load_python python_jsonl markers) (\<lambda>(rows, cal).
     bindE (mapM (\<lambda>r. item_int r ''Start_Timestamp'') (markers @ kernels)) (\<lambda>starts.
     bindE (mapM (\<lambda>r. bindE (item_int r ''start_ns'') (python_to_rocprof cal)) rows) (\<lambda>python_starts.
     bindE (list_min (starts @ python_starts)) (\<lambda>origin.
     bindE (kernel_pairs apis markers kernels) (\<lambda>ps.
     bindE (mapM (marker_events origin ps) (enumerate 0 markers)) (\<lambda>mes.
     bindE (mapM (kernel_events origin markers) (enumerate 0 (zip ps kernels))) (\<lambda>kes.
     bindE (mapM (python_event origin cal) rows) (\<lambda>pes.
     bindE (mapM (\<lambda>(p, k). item_int k ''Correlation_Id'') (filter (\<lambda>(p, k). p \<noteq> None) (zip ps kernels))) (\<lambda>ids.
     Inr \<lparr>mg_origin = origin, mg_pairs = ps, mg_marker_events = mes, mg_kernel_events = kes, mg_python_events = pes,
          mg_calibration = cal, mg_apis = apis, mg_correlated_ids = int (card (set ids))\<rparr>)))))))))))"

definition merged_events :: "merged \<Rightarrow> pyval list" where
  "merged_events m = concat (mg_marker_events m) @ concat (mg_kernel_events m) @ mg_python_events m"

definition calibration_value :: "calibration option \<Rightarrow> pyval" where
  "calibration_value c = (case c of None \<Rightarrow> VNone | Some k \<Rightarrow> VDict (calibration_doc k))"

definition merge_document :: "merged \<Rightarrow> pyval" where
  "merge_document m =
     VDict [(''traceEvents'', VList (merged_events m)), (''displayTimeUnit'', VStr ''ms''),
            (''metadata'', VDict [(''source'', VStr ''microllm-rocprof-merge''), (''schema_version'', VInt 1),
                                  (''python_clock_calibration'', calibration_value (mg_calibration m))])]"

definition paired_count :: "pairs \<Rightarrow> nat" where
  "paired_count ps = length (filter (\<lambda>p. p \<noteq> None) ps)"

definition merge_summary :: "merged \<Rightarrow> string \<Rightarrow> pyval" where
  "merge_summary m output =
     VDict [(''marker_events'', VInt (int (length (mg_marker_events m)))),
            (''kernel_events'', VInt (int (length (mg_kernel_events m)))),
            (''hip_api_events'', VInt (int (length (mg_apis m)))),
            (''correlation_method'', VStr (if mg_apis m \<noteq> [] then ''marker_contains_correlated_hip_api'' else ''none'')),
            (''correlated_ids'', VInt (mg_correlated_ids m)),
            (''trace_events'', VInt (int (length (merged_events m)))),
            (''correlated_pairs'', VInt (int (paired_count (mg_pairs m)))),
            (''python_events'', VInt (int (length (mg_python_events m)))),
            (''python_clock_calibration'', calibration_value (mg_calibration m)),
            (''output'', VStr output)]"

definition merge_rocprof_perfetto ::
  "file_io \<Rightarrow> pyval list \<Rightarrow> pyval list \<Rightarrow> string \<Rightarrow> pyval list option \<Rightarrow> pyval py list option \<Rightarrow> (files, pyval) action" where
  "merge_rocprof_perfetto io markers kernels output hip_api_csv python_jsonl =
     bindS (liftS (merge_events markers kernels hip_api_csv python_jsonl)) (\<lambda>m.
     bindS (write_json_atomic io (merge_document m) output) (\<lambda>_.
     retS (merge_summary m output)))"

section \<open>The parts of a merge\<close>

lemma filterM_set: "filterM p xs = Inr ys \<Longrightarrow> set ys = {x \<in> set xs. p x = Inr True} \<and> (\<forall>x \<in> set xs. \<exists>b. p x = Inr b)"
proof (induction xs arbitrary: ys)
  case (Cons x xs)
  then obtain b zs where "p x = Inr b" "filterM p xs = Inr zs" "ys = (if b then x # zs else zs)"
    by (auto simp: bindE_Inr_iff)
  then show ?case using Cons.IH [of zs] by auto
qed simp

lemma filter_singleD: "filter P xs = [x] \<Longrightarrow> P x"
proof -
  assume "filter P xs = [x]"
  then have "x \<in> set (filter P xs)" by simp
  then show "P x" by simp
qed

lemma in_enumerate: "(i, x) \<in> set (enumerate 0 xs) \<longleftrightarrow> i < length xs \<and> x = xs ! i"
  by (auto simp: in_set_enumerate_eq)

lemma mapM_enumerate_nth: "mapM f (enumerate 0 xs) = Inr ys \<Longrightarrow> i < length xs \<Longrightarrow> length ys = length xs \<and> f (i, xs ! i) = Inr (ys ! i)"
  using mapM_nth [of f "enumerate 0 xs" ys i] mapM_length [of f "enumerate 0 xs" ys] by (simp add: nth_enumerate_eq)

lemma tightest_least:
  assumes "tightest items = Inr m" and "items \<noteq> []"
  shows "\<exists>w x. (m, x) \<in> set items \<and> marker_width (m, x) = Inr (w, m) \<and>
    (\<forall>(j, y) \<in> set items. \<exists>v. marker_width (j, y) = Inr (v, j) \<and> (w, m) \<le> (v, j))"
proof -
  obtain keys where keys: "mapM marker_width items = Inr keys" and m: "m = snd (Min (set keys))"
    using assms(1) by (auto simp: tightest_def bindE_Inr_iff)
  have ne: "set keys \<noteq> {}" using assms(2) mapM_length [OF keys] by auto
  have snd_key: "k = snd key" if "marker_width (k, x) = Inr key" for k x key
    using that by (auto simp: marker_width_def bindE_Inr_iff)
  have "Min (set keys) \<in> set keys" using ne by simp
  then obtain m' x where mx: "(m', x) \<in> set items" "marker_width (m', x) = Inr (Min (set keys))"
    using mapM_setD [OF keys] by fastforce
  have mm: "m' = m" using snd_key [OF mx(2)] m by simp
  have all: "\<exists>v. marker_width (j, y) = Inr (v, j) \<and> (fst (Min (set keys)), m) \<le> (v, j)" if "(j, y) \<in> set items" for j y
  proof -
    note jy = that
    obtain key where "key \<in> set keys" "marker_width (j, y) = Inr key" using mapM_setI [OF keys jy] by blast
    moreover have "Min (set keys) \<le> key" using calculation(1) by simp
    ultimately show ?thesis using snd_key [of j y key] m by (intro exI [of _ "fst key"]) auto
  qed
  show ?thesis
    using mx mm all m by (intro exI [of _ "fst (Min (set keys))"] exI [of _ x]) auto
qed

text \<open>The marker at \<open>m\<close> encloses the call, and no marker that does is narrower, or as narrow and earlier.\<close>

definition tightest_marker :: "pyval \<Rightarrow> int \<Rightarrow> int \<Rightarrow> pyval list \<Rightarrow> nat \<Rightarrow> bool" where
  "tightest_marker api s e markers m \<longleftrightarrow> m < length markers \<and> contains_api api s e (markers ! m) = Inr True \<and>
     (\<exists>w. marker_width (m, markers ! m) = Inr (w, m) \<and>
       (\<forall>j < length markers. contains_api api s e (markers ! j) = Inr True \<longrightarrow>
          (\<exists>v. marker_width (j, markers ! j) = Inr (v, j) \<and> (w < v \<or> w = v \<and> m \<le> j))))"

lemma pair_kernel_Some:
  assumes "pair_kernel index markers krow = Inr (Some (m, api))"
  shows "\<exists>c s e. item_int krow ''Correlation_Id'' = Inr c \<and> map snd (filter (\<lambda>(d, row). d = c) index) = [api] \<and>
    item_int api ''Start_Timestamp'' = Inr s \<and> item_int api ''End_Timestamp'' = Inr e \<and> tightest_marker api s e markers m"
proof -
  obtain c where c: "item_int krow ''Correlation_Id'' = Inr c" using assms by (auto simp: pair_kernel_def bindE_Inr_iff)
  obtain a as where l: "map snd (filter (\<lambda>(d, row). d = c) index) = a # as"
    using assms c by (cases "map snd (filter (\<lambda>(d, row). d = c) index)") (auto simp: pair_kernel_def)
  have "as = []" using assms c l by (cases as) (auto simp: pair_kernel_def)
  then have l: "map snd (filter (\<lambda>(d, row). d = c) index) = [a]" using l by simp
  obtain s e items where s: "item_int a ''Start_Timestamp'' = Inr s" and e: "item_int a ''End_Timestamp'' = Inr e"
    and items: "filterM (\<lambda>item. contains_api a s e (snd item)) (enumerate 0 markers) = Inr items"
    and ne: "items \<noteq> []" and t: "tightest items = Inr m" and a: "a = api"
    using assms c l by (auto simp: pair_kernel_def bindE_Inr_iff split: if_splits)
  have mem: "(j, y) \<in> set items \<longleftrightarrow> j < length markers \<and> y = markers ! j \<and> contains_api a s e y = Inr True" for j y
    using filterM_set [OF items] by (auto simp: in_enumerate)
  obtain w x where w: "(m, x) \<in> set items" "marker_width (m, x) = Inr (w, m)"
    "\<forall>(j, y) \<in> set items. \<exists>v. marker_width (j, y) = Inr (v, j) \<and> (w, m) \<le> (v, j)"
    using tightest_least [OF t ne] by blast
  have "\<exists>v. marker_width (j, markers ! j) = Inr (v, j) \<and> (w < v \<or> w = v \<and> m \<le> j)"
    if "j < length markers" "contains_api a s e (markers ! j) = Inr True" for j
    using w(3) mem [of j "markers ! j"] that by fastforce
  then have "tightest_marker a s e markers m" using w(1,2) mem [of m x] by (auto simp: tightest_marker_def)
  then show ?thesis using c l s e unfolding a by (intro exI conjI)
qed

text \<open>
  C20. The pairing of kernels is evidence-backed: a kernel is paired only with the one HIP API call
  that has its correlation id and with a marker of the same process that encloses that call, and no
  enclosing marker is narrower; between equally narrow ones the first is taken.
\<close>

theorem kernel_pairs_tightest:
  assumes "kernel_pairs apis markers kernels = Inr ps" and "k < length kernels" and "ps ! k = Some (m, api)"
  shows "\<exists>c s e. item_int (kernels ! k) ''Correlation_Id'' = Inr c \<and> item_int api ''Correlation_Id'' = Inr c \<and>
    filter (\<lambda>a. item_int a ''Correlation_Id'' = Inr c) apis = [api] \<and>
    item_int api ''Start_Timestamp'' = Inr s \<and> item_int api ''End_Timestamp'' = Inr e \<and> tightest_marker api s e markers m"
proof -
  obtain index where index: "mapM (\<lambda>row. bindE (item_int row ''Correlation_Id'') (\<lambda>c. Inr (c, row))) apis = Inr index"
    and ps: "mapM (pair_kernel index markers) kernels = Inr ps"
    using assms(1) by (auto simp: kernel_pairs_def bindE_Inr_iff)
  have "pair_kernel index markers (kernels ! k) = Inr (Some (m, api))"
    using mapM_nth [OF ps assms(2)] assms(3) by simp
  from pair_kernel_Some [OF this] obtain c s e where c: "item_int (kernels ! k) ''Correlation_Id'' = Inr c"
    and a: "map snd (filter (\<lambda>(d, row). d = c) index) = [api]"
    and se: "item_int api ''Start_Timestamp'' = Inr s" "item_int api ''End_Timestamp'' = Inr e" "tightest_marker api s e markers m"
    by (elim exE conjE) (rule that)
  have "map snd (filter (\<lambda>(d, row). d = c) index) = filter (\<lambda>a. item_int a ''Correlation_Id'' = Inr c) apis"
    using index
  proof (induction apis arbitrary: index)
    case (Cons a as)
    then obtain d rest where "item_int a ''Correlation_Id'' = Inr d" "index = (d, a) # rest"
      "mapM (\<lambda>row. bindE (item_int row ''Correlation_Id'') (\<lambda>c. Inr (c, row))) as = Inr rest"
      by (auto simp: bindE_Inr_iff)
    then show ?case using Cons.IH [of rest] by auto
  qed simp
  then have f: "filter (\<lambda>a. item_int a ''Correlation_Id'' = Inr c) apis = [api]" using a by simp
  then have "item_int api ''Correlation_Id'' = Inr c" by (rule filter_singleD)
  with c se f show ?thesis by (intro exI conjI)
qed

section \<open>Flow arrows\<close>

text \<open>The \<open>id\<close> fields of the events of one phase: \<open>s\<close> starts a flow arrow and \<open>f\<close> ends the one with the same id.\<close>

fun event_ids :: "string \<Rightarrow> pyval \<Rightarrow> pyval list" where
  "event_ids ph (VDict d) =
     (if map_of d ''ph'' = Some (VStr ph) then (case map_of d ''id'' of Some v \<Rightarrow> [v] | None \<Rightarrow> []) else [])"
| "event_ids ph v = []"

definition flow_ids :: "string \<Rightarrow> pyval list \<Rightarrow> pyval list" where
  "flow_ids ph events = concat (map (event_ids ph) events)"

lemma flow_ids_simps [simp]:
  "flow_ids ph [] = []" "flow_ids ph (e # es) = event_ids ph e @ flow_ids ph es"
  "flow_ids ph (es @ fs) = flow_ids ph es @ flow_ids ph fs" "flow_ids ph (concat ess) = concat (map (flow_ids ph) ess)"
  by (simp_all add: flow_ids_def) (induction ess, auto simp: flow_ids_def)

lemma str_int_no_colon: "CHR '':'' \<notin> set (str_int i)"
proof -
  have "\<not> is_digit CHR '':''" by code_simp
  then have "CHR '':'' \<notin> set (str_nat n)" for n using str_nat_ok [of n] by blast
  then show ?thesis by (simp add: str_int_def)
qed

lemma split_at_colon:
  "CHR '':'' \<notin> set a \<Longrightarrow> CHR '':'' \<notin> set b \<Longrightarrow> a @ CHR '':'' # x = b @ CHR '':'' # y \<longleftrightarrow> a = b \<and> x = y"
proof (induction a arbitrary: b)
  case Nil then show ?case by (cases b) auto
next
  case (Cons c a) then show ?case by (cases b) auto
qed

lemma flow_id_inj: "flow_id m c k = flow_id m' c' k' \<longleftrightarrow> m = m' \<and> c = c' \<and> k = k'"
  by (simp add: flow_id_def split_at_colon str_int_no_colon str_int_inj)

lemma event_ids_X: "map_of d ''ph'' = Some (VStr ''X'') \<Longrightarrow> event_ids ''s'' (VDict d) = [] \<and> event_ids ''f'' (VDict d) = []"
  by simp

lemma marker_events_ids:
  assumes "marker_events origin ps (m, row) = Inr es"
  shows "\<exists>c. item_int row ''Correlation_Id'' = Inr c \<and> flow_ids ''f'' es = [] \<and>
    flow_ids ''s'' es = map (\<lambda>(k, api). VStr (flow_id m c k)) (kernels_of ps m)"
proof -
  obtain ev c flows where ev: "marker_event origin row = Inr (ev, c)"
    and flows: "mapM (flow_start origin m row c) (kernels_of ps m) = Inr flows" and es: "es = ev # flows"
    using assms by (auto simp: marker_events_def bindE_Inr_iff)
  have c: "item_int row ''Correlation_Id'' = Inr c" "event_ids ''s'' ev = []" "event_ids ''f'' ev = []"
    using ev by (auto simp: marker_event_def bindE_Inr_iff)
  have "flow_ids ''f'' flows = [] \<and> flow_ids ''s'' flows = map (\<lambda>(k, api). VStr (flow_id m c k)) ks"
    if "mapM (flow_start origin m row c) ks = Inr flows" for ks
    using that by (induction ks arbitrary: flows) (auto simp: bindE_Inr_iff flow_start_def)
  then show ?thesis using flows c es by auto
qed

lemma kernel_events_ids:
  assumes "kernel_events origin markers (k, p, row) = Inr es"
  shows "\<exists>c. item_int row ''Correlation_Id'' = Inr c \<and> flow_ids ''s'' es = [] \<and>
    flow_ids ''f'' es = (case p of None \<Rightarrow> [] | Some (m, api) \<Rightarrow> [VStr (flow_id m c k)])"
  using assms by (auto simp: kernel_events_def bindE_Inr_iff Let_def split: option.splits)

lemma python_event_ids: "python_event origin cal row = Inr e \<Longrightarrow> event_ids ''s'' e = [] \<and> event_ids ''f'' e = []"
  by (auto simp: python_event_def bindE_Inr_iff)

lemma python_events_ids: "mapM (python_event origin cal) rows = Inr es \<Longrightarrow> flow_ids ''s'' es = [] \<and> flow_ids ''f'' es = []"
  using python_event_ids by (induction rows arbitrary: es) (auto simp: bindE_Inr_iff)

section \<open>What a merge returns\<close>

lemma merge_events_parts:
  assumes "merge_events markers kernels hip_api_csv python_jsonl = Inr mg"
  shows "kernel_pairs (mg_apis mg) markers kernels = Inr (mg_pairs mg)"
    and "mapM (marker_events (mg_origin mg) (mg_pairs mg)) (enumerate 0 markers) = Inr (mg_marker_events mg)"
    and "mapM (kernel_events (mg_origin mg) markers) (enumerate 0 (zip (mg_pairs mg) kernels)) = Inr (mg_kernel_events mg)"
    and "\<exists>rows cal. load_python python_jsonl markers = Inr (rows, cal) \<and> mapM (python_event (mg_origin mg) cal) rows = Inr (mg_python_events mg) \<and>
      (\<forall>r \<in> set rows. \<exists>i j. item_int r ''start_ns'' = Inr i \<and> python_to_rocprof cal i = Inr j \<and> mg_origin mg \<le> j)"
    and "\<forall>r \<in> set (markers @ kernels). \<exists>i. item_int r ''Start_Timestamp'' = Inr i \<and> mg_origin mg \<le> i"
    and "check_traces markers kernels = Inr ()" and "check_apis hip_api_csv = Inr (mg_apis mg)"
    and "length (mg_pairs mg) = length kernels"
proof -
  obtain apis rows cal starts pstarts origin ps mes kes pes and ids :: "int list" where
    facts: "check_traces markers kernels = Inr ()" "check_apis hip_api_csv = Inr apis" "load_python python_jsonl markers = Inr (rows, cal)"
      "mapM (\<lambda>r. item_int r ''Start_Timestamp'') (markers @ kernels) = Inr starts"
      "mapM (\<lambda>r. bindE (item_int r ''start_ns'') (python_to_rocprof cal)) rows = Inr pstarts"
      "list_min (starts @ pstarts) = Inr origin" "kernel_pairs apis markers kernels = Inr ps"
      "mapM (marker_events origin ps) (enumerate 0 markers) = Inr mes"
      "mapM (kernel_events origin markers) (enumerate 0 (zip ps kernels)) = Inr kes"
      "mapM (python_event origin cal) rows = Inr pes"
    and mg: "mg = \<lparr>mg_origin = origin, mg_pairs = ps, mg_marker_events = mes, mg_kernel_events = kes, mg_python_events = pes,
          mg_calibration = cal, mg_apis = apis, mg_correlated_ids = int (card (set ids))\<rparr>"
    using assms unfolding merge_events_def by (clarsimp simp only: bindE_Inr_iff split_paired_all prod.case sum.inject)
  show "kernel_pairs (mg_apis mg) markers kernels = Inr (mg_pairs mg)"
    "mapM (marker_events (mg_origin mg) (mg_pairs mg)) (enumerate 0 markers) = Inr (mg_marker_events mg)"
    "mapM (kernel_events (mg_origin mg) markers) (enumerate 0 (zip (mg_pairs mg) kernels)) = Inr (mg_kernel_events mg)"
    "check_traces markers kernels = Inr ()" "check_apis hip_api_csv = Inr (mg_apis mg)"
    using facts unfolding mg by simp_all
  have least: "origin \<le> i" if "i \<in> set (starts @ pstarts)" for i
    using facts(6) that by (cases "starts @ pstarts") (auto simp: list_min_def)
  have "\<forall>r \<in> set (markers @ kernels). \<exists>i. item_int r ''Start_Timestamp'' = Inr i \<and> origin \<le> i"
    using mapM_setI [OF facts(4)] least by fastforce
  then show "\<forall>r \<in> set (markers @ kernels). \<exists>i. item_int r ''Start_Timestamp'' = Inr i \<and> mg_origin mg \<le> i" by (simp add: mg)
  have "\<forall>r \<in> set rows. \<exists>i j. item_int r ''start_ns'' = Inr i \<and> python_to_rocprof cal i = Inr j \<and> origin \<le> j"
    using mapM_setI [OF facts(5)] least by (fastforce simp: bindE_Inr_iff)
  then show "\<exists>rows cal. load_python python_jsonl markers = Inr (rows, cal) \<and> mapM (python_event (mg_origin mg) cal) rows = Inr (mg_python_events mg) \<and>
      (\<forall>r \<in> set rows. \<exists>i j. item_int r ''start_ns'' = Inr i \<and> python_to_rocprof cal i = Inr j \<and> mg_origin mg \<le> j)"
    using facts(3,10) by (auto simp: mg)
  show "length (mg_pairs mg) = length kernels"
    using facts(7) mapM_length by (fastforce simp: mg kernel_pairs_def bindE_Inr_iff)
qed

lemma kernels_of_iff: "(k, api) \<in> set (kernels_of ps m) \<longleftrightarrow> k < length ps \<and> ps ! k = Some (m, api)"
  by (auto simp: kernels_of_def in_enumerate)

lemma count_singletons: "j < n \<Longrightarrow> sum_list (map (\<lambda>i. length (if j = i then [x] else [])) [0..<n]) = 1"
  by (induction n) (auto simp: less_Suc_eq)

lemma kernels_of_count_aux:
  assumes "\<forall>p \<in> set ps. \<forall>j api. p = Some (j, api) \<longrightarrow> j < n"
  shows "sum_list (map (\<lambda>i. length [(k, api). (k, Some (j, api)) \<leftarrow> enumerate off ps, j = i]) [0..<n]) = paired_count ps"
  using assms
proof (induction ps arbitrary: off)
  case (Cons p ps)
  then have IH: "sum_list (map (\<lambda>i. length [(k, api). (k, Some (j, api)) \<leftarrow> enumerate (Suc off) ps, j = i]) [0..<n]) = paired_count ps"
    by simp
  show ?case
  proof (cases p)
    case None then show ?thesis using IH by (simp add: paired_count_def)
  next
    case (Some q)
    obtain j api where q: "q = (j, api)" by (cases q) auto
    have "j < n" using Cons.prems Some q by simp
    then show ?thesis using IH count_singletons [of j n "(off, api)"] by (simp add: Some q sum_list_addf paired_count_def)
  qed
qed (simp add: paired_count_def)

lemma pairs_in_range:
  assumes "kernel_pairs apis markers kernels = Inr ps" and "k < length ps" and "ps ! k = Some (m, api)"
  shows "m < length markers"
proof -
  obtain index where ps: "mapM (pair_kernel index markers) kernels = Inr ps"
    using assms(1) by (auto simp: kernel_pairs_def bindE_Inr_iff)
  have "pair_kernel index markers (kernels ! k) = Inr (Some (m, api))"
    using mapM_nth [OF ps, of k] mapM_length [OF ps] assms(2,3) by simp
  from pair_kernel_Some [OF this] show ?thesis by (auto simp: tightest_marker_def)
qed

lemma kernels_of_count:
  assumes "kernel_pairs apis markers kernels = Inr ps"
  shows "sum_list (map (\<lambda>i. length (kernels_of ps i)) [0..<length markers]) = paired_count ps"
proof -
  have "\<forall>p \<in> set ps. \<forall>j api. p = Some (j, api) \<longrightarrow> j < length markers"
    using pairs_in_range [OF assms] by (auto simp: in_set_conv_nth)
  then show ?thesis unfolding kernels_of_def by (rule kernels_of_count_aux)
qed

lemma merged_flow_ids:
  assumes "merge_events markers kernels hip_api_csv python_jsonl = Inr mg"
  shows "flow_ids ph (merged_events mg) = concat (map (flow_ids ph) (mg_marker_events mg)) @ concat (map (flow_ids ph) (mg_kernel_events mg)) @ flow_ids ph (mg_python_events mg)"
    and "flow_ids ''s'' (mg_python_events mg) = []" and "flow_ids ''f'' (mg_python_events mg) = []"
  using merge_events_parts(4) [OF assms] python_events_ids by (auto simp: merged_events_def)

text \<open>
  C22. The arrow from a marker to a kernel is drawn with the marker's own correlation id at its start
  and the kernel's correlation id at its end, so the two ends carry the same id, as a viewer needs to
  join them, exactly when the marker and the kernel happen to have equal correlation ids; otherwise
  no end in the whole trace carries the id of the start.
\<close>

theorem flow_arrow_ends:
  assumes "merge_events markers kernels hip_api_csv python_jsonl = Inr mg" and "k < length kernels"
    and "mg_pairs mg ! k = Some (m, api)"
  shows "\<exists>cm ck. item_int (markers ! m) ''Correlation_Id'' = Inr cm \<and> item_int (kernels ! k) ''Correlation_Id'' = Inr ck \<and>
    VStr (flow_id m cm k) \<in> set (flow_ids ''s'' (merged_events mg)) \<and> VStr (flow_id m ck k) \<in> set (flow_ids ''f'' (merged_events mg)) \<and>
    (VStr (flow_id m cm k) \<in> set (flow_ids ''f'' (merged_events mg)) \<longleftrightarrow> cm = ck)"
proof -
  note parts = merge_events_parts [OF assms(1)]
  have m: "m < length markers" using pairs_in_range [OF parts(1) _ assms(3)] assms(2) parts(8) by simp
  have ms: "marker_events (mg_origin mg) (mg_pairs mg) (i, markers ! i) = Inr (mg_marker_events mg ! i)" if "i < length markers" for i
    using mapM_enumerate_nth [OF parts(2) that] by simp
  have ks: "kernel_events (mg_origin mg) markers (i, mg_pairs mg ! i, kernels ! i) = Inr (mg_kernel_events mg ! i)" if "i < length kernels" for i
    using mapM_enumerate_nth [OF parts(3), of i] that parts(8) by simp
  have lens: "length (mg_marker_events mg) = length markers" "length (mg_kernel_events mg) = length kernels"
    using mapM_length [OF parts(2)] mapM_length [OF parts(3)] parts(8) by simp_all
  obtain cm where cm: "item_int (markers ! m) ''Correlation_Id'' = Inr cm"
    "flow_ids ''s'' (mg_marker_events mg ! m) = map (\<lambda>(k, api). VStr (flow_id m cm k)) (kernels_of (mg_pairs mg) m)"
    using marker_events_ids [OF ms [OF m]] by blast
  obtain ck where ck: "item_int (kernels ! k) ''Correlation_Id'' = Inr ck"
    "flow_ids ''f'' (mg_kernel_events mg ! k) = [VStr (flow_id m ck k)]"
    using kernel_events_ids [OF ks [OF assms(2)]] assms(3) by auto
  have "VStr (flow_id m cm k) \<in> set (flow_ids ''s'' (mg_marker_events mg ! m))"
    using assms(2,3) parts(8) by (auto simp: cm(2) kernels_of_iff image_iff intro!: bexI [of _ "(k, api)"])
  then have s: "VStr (flow_id m cm k) \<in> set (flow_ids ''s'' (merged_events mg))"
    unfolding merged_flow_ids(1) [OF assms(1)] using m lens by (auto intro!: bexI [of _ "mg_marker_events mg ! m"])
  have f: "VStr (flow_id m ck k) \<in> set (flow_ids ''f'' (merged_events mg))"
    unfolding merged_flow_ids(1) [OF assms(1)] using ck(2) assms(2) lens by (auto intro!: bexI [of _ "mg_kernel_events mg ! k"])
  have "cm = ck" if "VStr (flow_id m cm k) \<in> set (flow_ids ''f'' (merged_events mg))"
  proof -
    note ends = that
    have "flow_ids ''f'' es = []" if "es \<in> set (mg_marker_events mg)" for es
      using that marker_events_ids [OF ms] lens by (auto simp: in_set_conv_nth)
    then obtain i where i: "i < length kernels" "VStr (flow_id m cm k) \<in> set (flow_ids ''f'' (mg_kernel_events mg ! i))"
      using ends unfolding merged_flow_ids(1) [OF assms(1)] merged_flow_ids(3) [OF assms(1)] by (auto simp: in_set_conv_nth [of _ "mg_kernel_events mg"] lens)
    obtain c where "item_int (kernels ! i) ''Correlation_Id'' = Inr c"
      "flow_ids ''f'' (mg_kernel_events mg ! i) = (case mg_pairs mg ! i of None \<Rightarrow> [] | Some (m, api) \<Rightarrow> [VStr (flow_id m c i)])"
      using kernel_events_ids [OF ks [OF i(1)]] by blast
    then show ?thesis using i(2) ck(1) by (auto simp: flow_id_inj split: option.splits)
  qed
  then show ?thesis using cm(1) ck(1) s f by (intro exI [of _ cm] exI [of _ ck]) blast
qed

lemma sum_list_Suc: "sum_list (map (\<lambda>i. Suc (f i)) xs) = length xs + sum_list (map f xs)"
  by (induction xs) auto

lemma length_concat_nth: "length (concat xss) = sum_list (map (\<lambda>i. length (xss ! i)) [0..<length xss])"
  by (simp add: length_concat map_nth [symmetric] del: map_nth) (metis (no_types, lifting) map_map comp_def map_nth map_eq_conv)

lemma marker_events_length: "marker_events origin ps (m, row) = Inr es \<Longrightarrow> length es = Suc (length (kernels_of ps m))"
  by (auto simp: marker_events_def bindE_Inr_iff dest: mapM_length)

lemma kernel_events_length: "kernel_events origin markers (k, p, row) = Inr es \<Longrightarrow> length es = Suc (if p = None then 0 else 1)"
  by (auto simp: kernel_events_def bindE_Inr_iff Let_def split: option.splits)

lemma paired_count_nth: "paired_count ps = sum_list (map (\<lambda>k. if ps ! k = None then 0 else 1) [0..<length ps])"
proof -
  have "paired_count ps = sum_list (map (\<lambda>p. if p = None then 0 else 1) ps)" by (induction ps) (auto simp: paired_count_def)
  also have "\<dots> = sum_list (map (\<lambda>p. if p = None then 0 else 1) (map ((!) ps) [0..<length ps]))" by (simp only: map_nth)
  finally show ?thesis by (simp only: map_map comp_def)
qed

text \<open>
  The merged trace has one event per marker, one per kernel, one per Python span, and a start and
  an end for every paired kernel, which is what the returned summary counts.
\<close>

theorem merge_summary_counts:
  assumes "merge_rocprof_perfetto io markers kernels output hip_api_csv python_jsonl fs = (Inr summary, fs')"
  shows "\<exists>mg. merge_events markers kernels hip_api_csv python_jsonl = Inr mg \<and> fs' output = Some (Whole (merge_document mg)) \<and>
    length (merged_events mg) = length markers + length kernels + 2 * paired_count (mg_pairs mg) + length (mg_python_events mg) \<and>
    py_getitem summary ''trace_events'' = Inr (VInt (int (length (merged_events mg)))) \<and>
    py_getitem summary ''correlated_pairs'' = Inr (VInt (int (paired_count (mg_pairs mg)))) \<and>
    py_getitem summary ''marker_events'' = Inr (VInt (int (length markers))) \<and>
    py_getitem summary ''kernel_events'' = Inr (VInt (int (length kernels)))"
proof -
  obtain mg where mg: "merge_events markers kernels hip_api_csv python_jsonl = Inr mg"
    and w: "write_json_atomic io (merge_document mg) output fs = (Inr (), fs')" and summary: "summary = merge_summary mg output"
    using assms by (auto simp: merge_rocprof_perfetto_def bindS_Inr)
  note parts = merge_events_parts [OF mg]
  have lens: "length (mg_marker_events mg) = length markers" "length (mg_kernel_events mg) = length kernels"
    using mapM_length [OF parts(2)] mapM_length [OF parts(3)] parts(8) by simp_all
  have "length (mg_marker_events mg ! i) = Suc (length (kernels_of (mg_pairs mg) i))" if "i < length markers" for i
    using mapM_enumerate_nth [OF parts(2) that] marker_events_length by blast
  then have "length (concat (mg_marker_events mg)) = sum_list (map (\<lambda>i. Suc (length (kernels_of (mg_pairs mg) i))) [0..<length markers])"
    unfolding length_concat_nth lens by (intro arg_cong [of _ _ sum_list] map_cong) auto
  then have ml: "length (concat (mg_marker_events mg)) = length markers + paired_count (mg_pairs mg)"
    by (simp add: sum_list_Suc kernels_of_count [OF parts(1)])
  have "length (mg_kernel_events mg ! i) = Suc (if mg_pairs mg ! i = None then 0 else 1)" if "i < length kernels" for i
    using mapM_enumerate_nth [OF parts(3), of i] that parts(8) by (auto dest: kernel_events_length)
  then have "length (concat (mg_kernel_events mg)) = sum_list (map (\<lambda>i. Suc (if mg_pairs mg ! i = None then 0 else 1)) [0..<length kernels])"
    unfolding length_concat_nth lens by (intro arg_cong [of _ _ sum_list] map_cong) auto
  then have kl: "length (concat (mg_kernel_events mg)) = length kernels + paired_count (mg_pairs mg)"
    by (simp only: sum_list_Suc) (simp add: paired_count_nth parts(8))
  show ?thesis
    using write_json_replaces [OF w] mg ml kl lens summary
    by (intro exI [of _ mg]) (simp add: merged_events_def merge_summary_def py_getitem_def)
qed

lemma div1000_from: "div1000 (a - b) = Inr x \<Longrightarrow> b \<le> a \<Longrightarrow> fle (Fin 0) x"
  using div1000_nonneg [of "a - b" x] by simp

definition time_ok :: "pyval \<Rightarrow> bool" where
  "time_ok e \<longleftrightarrow> (\<exists>ts. py_getitem e ''ts'' = Inr (VFloat ts) \<and> fle (Fin 0) ts) \<and>
     (\<forall>v. py_getitem e ''dur'' = Inr v \<longrightarrow> (\<exists>dur. v = VFloat dur \<and> fle (Fin 0) dur))"

lemma check_durations_row:
  "check_durations msg rows = Inr () \<Longrightarrow> row \<in> set rows \<Longrightarrow>
   \<exists>s e. item_int row ''Start_Timestamp'' = Inr s \<and> item_int row ''End_Timestamp'' = Inr e \<and> s \<le> e"
  by (induction rows) (auto simp: bindE_Inr_iff not_less)

lemma marker_event_time:
  assumes "marker_event origin row = Inr (ev, c)" and "check_durations msg rows = Inr ()" and "row \<in> set rows"
    and "\<exists>i. item_int row ''Start_Timestamp'' = Inr i \<and> origin \<le> i"
  shows "time_ok ev"
  using assms(1,4) check_durations_row [OF assms(2,3)]
  by (auto simp: marker_event_def bindE_Inr_iff time_ok_def py_getitem_def) (erule (1) div1000_from)+

lemma kernel_events_time:
  assumes "kernel_events origin markers (k, p, row) = Inr es" and "check_durations msg rows = Inr ()" and "row \<in> set rows"
    and "\<exists>i. item_int row ''Start_Timestamp'' = Inr i \<and> origin \<le> i" and "e \<in> set es"
  shows "time_ok e"
  using assms(1,4,5) check_durations_row [OF assms(2,3)]
  by (auto simp: kernel_events_def bindE_Inr_iff Let_def time_ok_def py_getitem_def split: option.splits) (erule (1) div1000_from)+

lemma flow_start_time:
  assumes "flow_start origin m row c (k, api) = Inr e" and "item_int api ''Start_Timestamp'' = Inr i" and "origin \<le> i"
  shows "time_ok e"
  using assms by (auto simp: flow_start_def bindE_Inr_iff time_ok_def py_getitem_def) (erule (1) div1000_from)+

lemma python_event_time:
  assumes "python_event origin (Some c) row = Inr e" and "scale_ok (cal_scale c)"
    and "item_int row ''start_ns'' = Inr i" "python_to_rocprof (Some c) i = Inr j" "origin \<le> j"
    and "\<And>d. item_int row ''duration_ns'' = Inr d \<Longrightarrow> 0 \<le> d"
  shows "time_ok e"
proof -
  obtain d j' ts dur where d: "item_int row ''duration_ns'' = Inr d" "python_to_rocprof (Some c) (i + d) = Inr j'"
    and times: "div1000 (j - origin) = Inr ts" "div1000 (j' - j) = Inr dur"
    and e: "py_getitem e ''ts'' = Inr (VFloat ts)" "py_getitem e ''dur'' = Inr (VFloat dur)"
    using assms(1,3,4) by (auto simp: python_event_def bindE_Inr_iff py_getitem_def)
  have "j \<le> j'" using python_to_rocprof_mono_aux [OF assms(2) _ assms(4) d(2)] assms(6) [OF d(1)] by simp
  then show ?thesis using e div1000_from [OF times(1) assms(5)] div1000_from [OF times(2)] by (auto simp: time_ok_def)
qed

lemma python_events_time:
  assumes "load_python python_jsonl markers = Inr (rows, cal)" and "mapM (python_event origin cal) rows = Inr es"
    and "\<forall>r \<in> set rows. \<exists>i j. item_int r ''start_ns'' = Inr i \<and> python_to_rocprof cal i = Inr j \<and> origin \<le> j"
    and "e \<in> set es"
  shows "time_ok e"
proof (cases python_jsonl)
  case None
  then show ?thesis using assms by (simp add: load_python_def)
next
  case (Some lines)
  then obtain c where rows: "profile_rows lines = Inr rows" and c: "clock_calibration rows markers = Inr c" and cal: "cal = Some c"
    using assms(1) by (auto simp: load_python_def bindE_Inr_iff)
  obtain r where r: "r \<in> set rows" "python_event origin (Some c) r = Inr e" using mapM_setD [OF assms(2,4)] cal by auto
  then obtain i j where "item_int r ''start_ns'' = Inr i" "python_to_rocprof (Some c) i = Inr j" "origin \<le> j"
    using assms(3) cal by auto
  from python_event_time [OF r(2) clock_calibration_scale [OF c] this] show ?thesis
    using profile_rows_duration [OF rows r(1)] by blast
qed

lemma marker_events_time:
  assumes "marker_events origin ps (m, row) = Inr es" and "check_durations msg rows = Inr ()" and "row \<in> set rows"
    and "\<exists>i. item_int row ''Start_Timestamp'' = Inr i \<and> origin \<le> i"
    and api: "\<And>k api. (k, api) \<in> set (kernels_of ps m) \<Longrightarrow> \<exists>i. item_int api ''Start_Timestamp'' = Inr i \<and> origin \<le> i"
    and "e \<in> set es"
  shows "time_ok e"
proof -
  obtain ev c flows where ev: "marker_event origin row = Inr (ev, c)"
    and flows: "mapM (flow_start origin m row c) (kernels_of ps m) = Inr flows" and es: "es = ev # flows"
    using assms(1) by (auto simp: marker_events_def bindE_Inr_iff)
  show ?thesis
  proof (cases "e = ev")
    case True then show ?thesis using marker_event_time [OF ev assms(2-4)] by simp
  next
    case False
    then obtain k a where "(k, a) \<in> set (kernels_of ps m)" "flow_start origin m row c (k, a) = Inr e"
      using mapM_setD [OF flows] es assms(6) by fastforce
    then show ?thesis using api flow_start_time by blast
  qed
qed

text \<open>
  Every event of the merged trace starts at or after the origin, the earliest of the marker, kernel
  and mapped Python start times, so no time stamp is negative, those of the flow arrows included, which
  are taken from API rows that do not take part in the origin; and no duration is negative.
\<close>

theorem merged_times_nonneg:
  assumes "merge_events markers kernels hip_api_csv python_jsonl = Inr mg"
  shows "\<forall>e \<in> set (merged_events mg). time_ok e"
proof
  note parts = merge_events_parts [OF assms]
  have durations: "check_durations ''rocprof CSV contains a negative duration'' (markers @ kernels) = Inr ()"
    using parts(6) by (auto simp: check_traces_def bindE_Inr_iff)
  have api: "\<exists>i. item_int api ''Start_Timestamp'' = Inr i \<and> mg_origin mg \<le> i" if "(k, api) \<in> set (kernels_of (mg_pairs mg) m)" for k api m
  proof -
    obtain index where ps: "mapM (pair_kernel index markers) kernels = Inr (mg_pairs mg)"
      using parts(1) by (auto simp: kernel_pairs_def bindE_Inr_iff)
    have "k < length kernels" "mg_pairs mg ! k = Some (m, api)" using that parts(8) by (auto simp: kernels_of_iff)
    then have "pair_kernel index markers (kernels ! k) = Inr (Some (m, api))" using mapM_nth [OF ps] by simp
    from pair_kernel_Some [OF this] obtain s e where s: "item_int api ''Start_Timestamp'' = Inr s"
      and t: "tightest_marker api s e markers m" by blast
    then have i: "markers ! m \<in> set (markers @ kernels)" "\<forall>i. item_int (markers ! m) ''Start_Timestamp'' = Inr i \<longrightarrow> i \<le> s"
      by (auto simp: tightest_marker_def contains_api_def bindE_Inr_iff)
    have "mg_origin mg \<le> s" using bspec [OF parts(5) i(1)] i(2) by auto
    then show ?thesis using s by simp
  qed
  fix e assume "e \<in> set (merged_events mg)"
  then consider es where "es \<in> set (mg_marker_events mg)" "e \<in> set es" | es where "es \<in> set (mg_kernel_events mg)" "e \<in> set es"
    | "e \<in> set (mg_python_events mg)" by (auto simp: merged_events_def)
  then show "time_ok e"
  proof cases
    case 1
    then obtain m row where "marker_events (mg_origin mg) (mg_pairs mg) (m, row) = Inr es" "row \<in> set markers"
      using mapM_setD [OF parts(2) 1(1)] by (auto simp: in_set_enumerate_eq)
    then show ?thesis using marker_events_time [OF _ durations _ _ api] parts(5) 1(2) by simp
  next
    case 2
    then obtain k p row where "kernel_events (mg_origin mg) markers (k, p, row) = Inr es" "row \<in> set kernels"
      using mapM_setD [OF parts(3) 2(1)] parts(8) by (auto simp: in_set_enumerate_eq)
    then show ?thesis using kernel_events_time [OF _ durations] parts(5) 2(2) by simp
  next
    case 3
    then show ?thesis using parts(4) python_events_time by blast
  qed
qed

section \<open>The properties at a concrete merge\<close>

definition sample_api :: pyval where
  "sample_api =
     VDict [(''Function'', VStr ''hipLaunchKernel''), (''Process_Id'', VStr ''7''), (''Thread_Id'', VStr ''8''),
            (''Correlation_Id'', VStr (str_int 9)), (''Start_Timestamp'', VStr (str_int 10100)), (''End_Timestamp'', VStr (str_int 10200))]"

definition sample_kernel :: "int \<Rightarrow> pyval" where
  "sample_kernel correlation =
     VDict [(''Agent_Id'', VStr ''gpu''), (''Queue_Id'', VStr (str_int 1)), (''Kernel_Name'', VStr ''add''),
            (''Correlation_Id'', VStr (str_int correlation)), (''Start_Timestamp'', VStr (str_int 10500)), (''End_Timestamp'', VStr (str_int 10600))]"

definition sample_kernels :: "pyval list" where
  "sample_kernels = [sample_kernel 9, sample_kernel 99]"

lemma sample_ints: "int_of_str ''7'' = Inr 7" "int_of_str ''8'' = Inr 8" "int_of_str ''2'' = Inr 2" "int_of_str ''3'' = Inr 3"
  by code_simp+

lemmas sample_eval = sample_ints sample_api_def sample_kernels_def sample_kernel_def sample_markers_def sample_marker_def
  item_int_simps py_int_def int_of_str_str_int py_getitem_def

lemma sample_pairs: "kernel_pairs [sample_api] sample_markers sample_kernels = Inr [Some (0, sample_api), None]"
proof -
  have i: "item_int sample_api ''Correlation_Id'' = Inr 9" "item_int (sample_kernel 9) ''Correlation_Id'' = Inr 9"
    "item_int (sample_kernel 99) ''Correlation_Id'' = Inr 99" "item_int sample_api ''Start_Timestamp'' = Inr 10100"
    "item_int sample_api ''End_Timestamp'' = Inr 10200" "py_getitem sample_api ''Process_Id'' = Inr (VStr ''7'')"
    by (simp_all add: sample_eval)
  have "filterM (\<lambda>item. contains_api sample_api 10100 10200 (snd item)) (enumerate 0 sample_markers) = Inr [(0, sample_markers ! 0)]"
    unfolding contains_api_def i by (simp add: sample_eval)
  moreover have "tightest [(0, sample_markers ! 0)] = Inr 0"
    by (simp add: tightest_def marker_width_def sample_eval)
  ultimately show ?thesis by (simp add: kernel_pairs_def sample_kernels_def pair_kernel_def i)
qed

theorem kernel_pairs_tightest_witness:
  "\<exists>c s e. item_int (sample_kernels ! 0) ''Correlation_Id'' = Inr c \<and> tightest_marker sample_api s e sample_markers 0"
  using kernel_pairs_tightest [OF sample_pairs, of 0 0 sample_api] by (auto simp: sample_kernels_def)

lemma sample_merges:
  "\<exists>mg. merge_events sample_markers sample_kernels (Some [sample_api]) None = Inr mg \<and> mg_pairs mg = [Some (0, sample_api), None]"
proof -
  have "check_traces sample_markers sample_kernels = Inr ()"
    by (simp add: check_traces_def sample_eval lacks_def required_marker_def required_kernel_def py_keys_def card_insert_if)
  moreover have "check_apis (Some [sample_api]) = Inr [sample_api]"
    by (simp add: check_apis_def sample_eval lacks_def required_marker_def py_keys_def)
  ultimately show ?thesis
    unfolding merge_events_def by (simp add: sample_pairs load_python_def) (simp add: sample_eval list_min_def
        marker_events_def marker_event_def flow_start_def kernels_of_def kernel_events_def kernel_args_def Let_def div1000_def)
qed

theorem flow_arrow_ends_witness:
  "\<exists>mg. merge_events sample_markers sample_kernels (Some [sample_api]) None = Inr mg \<and>
     VStr (flow_id 0 2 0) \<in> set (flow_ids ''s'' (merged_events mg)) \<and> VStr (flow_id 0 9 0) \<in> set (flow_ids ''f'' (merged_events mg)) \<and>
     VStr (flow_id 0 2 0) \<notin> set (flow_ids ''f'' (merged_events mg))"
proof -
  obtain mg where mg: "merge_events sample_markers sample_kernels (Some [sample_api]) None = Inr mg"
    "mg_pairs mg = [Some (0, sample_api), None]" using sample_merges by blast
  have "item_int (sample_markers ! 0) ''Correlation_Id'' = Inr 2" "item_int (sample_kernels ! 0) ''Correlation_Id'' = Inr 9"
    by (simp_all add: sample_eval)
  then show ?thesis using flow_arrow_ends [OF mg(1), of 0 0 sample_api] mg by (auto simp: sample_kernels_def)
qed

theorem merge_summary_counts_witness:
  "\<exists>mg summary fs'. merge_rocprof_perfetto good_io sample_markers sample_kernels ''o'' (Some [sample_api]) None (\<lambda>_. None) = (Inr summary, fs') \<and>
     py_getitem summary ''correlated_pairs'' = Inr (VInt 1) \<and> length (merged_events mg) = 6"
proof -
  obtain mg where mg: "merge_events sample_markers sample_kernels (Some [sample_api]) None = Inr mg"
    "mg_pairs mg = [Some (0, sample_api), None]" using sample_merges by blast
  obtain summary fs' where run: "merge_rocprof_perfetto good_io sample_markers sample_kernels ''o'' (Some [sample_api]) None (\<lambda>_. None) = (Inr summary, fs')"
    by (simp add: merge_rocprof_perfetto_def bindS_def liftS_def retS_def mg write_json_atomic_def good_io_def Let_def)
  have "mg_python_events mg = []" using merge_events_parts(4) [OF mg(1)] by (auto simp: load_python_def)
  then show ?thesis using merge_summary_counts [OF run] mg run
    by (auto simp: paired_count_def sample_markers_def sample_kernels_def)
qed

theorem merged_times_nonneg_witness:
  "\<exists>mg. merge_events sample_markers sample_kernels (Some [sample_api]) None = Inr mg \<and> (\<forall>e \<in> set (merged_events mg). time_ok e)"
  using sample_merges merged_times_nonneg by blast

end
