(* ===== verification/Capi.thy ===== *)
theory Capi imports PyVal PyState "HOL-Library.Word" begin

text \<open>
  \<open>python/microllm/_capi.py\<close>, the ctypes binding: the enums, the declared argument
  types of every C function, the conversion \<open>ctypes\<close> does on a call, \<open>_check\<close>,
  and the classes \<open>Tensor\<close>, \<open>Event\<close> and \<open>Stream\<close>. The engine behind
  the C interface is the parameter \<open>engine\<close>: its reply to a call is an arbitrary function
  of all calls made before. The state is that history of calls.
\<close>

section \<open>Enums\<close>

datatype dtype = FLOAT32 | INT32 | FLOAT16 | BFLOAT16

datatype device = CPU | HIP

fun dtype_code :: "dtype \<Rightarrow> int" where
  "dtype_code FLOAT32 = 0"
| "dtype_code INT32 = 1"
| "dtype_code FLOAT16 = 2"
| "dtype_code BFLOAT16 = 3"

fun device_code :: "device \<Rightarrow> int" where
  "device_code CPU = 0"
| "device_code HIP = 1"

text \<open>\<open>DType(i)\<close> and \<open>Device(i)\<close> raise for an int that is no member.\<close>

definition dtype_of :: "int \<Rightarrow> dtype py" where
  "dtype_of i =
     (if i = 0 then Inr FLOAT32 else if i = 1 then Inr INT32 else if i = 2 then Inr FLOAT16
      else if i = 3 then Inr BFLOAT16 else Inl (ValueError ''not a valid DType''))"

definition device_of :: "int \<Rightarrow> device py" where
  "device_of i =
     (if i = 0 then Inr CPU else if i = 1 then Inr HIP else Inl (ValueError ''not a valid Device''))"

lemma dtype_of_code [simp]: "dtype_of (dtype_code d) = Inr d"
  by (cases d) (simp_all add: dtype_of_def)

lemma device_of_code [simp]: "device_of (device_code d) = Inr d"
  by (cases d) (simp_all add: device_of_def)

lemma device_of_Inr: "device_of i = Inr d \<longleftrightarrow> i = device_code d"
  by (cases d) (auto simp: device_of_def)

text \<open>An \<open>IntEnum\<close> compares as its codes do.\<close>

instantiation dtype :: linorder
begin

definition less_eq_dtype :: "dtype \<Rightarrow> dtype \<Rightarrow> bool" where
  "less_eq_dtype a b \<longleftrightarrow> dtype_code a \<le> dtype_code b"

definition less_dtype :: "dtype \<Rightarrow> dtype \<Rightarrow> bool" where
  "less_dtype a b \<longleftrightarrow> dtype_code a < dtype_code b"

instance
proof
  fix a b :: dtype
  show "a \<le> b \<Longrightarrow> b \<le> a \<Longrightarrow> a = b"
    by (cases a; cases b) (simp_all add: less_eq_dtype_def)
qed (auto simp: less_eq_dtype_def less_dtype_def)

end

instantiation device :: linorder
begin

definition less_eq_device :: "device \<Rightarrow> device \<Rightarrow> bool" where
  "less_eq_device a b \<longleftrightarrow> device_code a \<le> device_code b"

definition less_device :: "device \<Rightarrow> device \<Rightarrow> bool" where
  "less_device a b \<longleftrightarrow> device_code a < device_code b"

instance
proof
  fix a b :: device
  show "a \<le> b \<Longrightarrow> b \<le> a \<Longrightarrow> a = b"
    by (cases a; cases b) (simp_all add: less_eq_device_def)
qed (auto simp: less_eq_device_def less_device_def)

end

section \<open>C types and the values that cross\<close>

datatype hkind = HTensor | HEvent | HStream

text \<open>
  \<open>CRef\<close> is \<open>ctypes.POINTER\<close> of a base type, for an array or an out parameter;
  \<open>CPtr\<close> is the pointer to an opaque handle. \<open>c_int32\<close> is \<open>c_int\<close>,
  and \<open>_CUintptr\<close> is \<open>c_size_t\<close>.
\<close>

datatype cbase = BInt | BI64 | BSize | BFloat | BHandle hkind

datatype ctype = CVal cbase | CRef cbase | CPtr hkind

datatype parg =
    PInt int
  | PFloat pyfloat
  | PHandle hkind nat
  | PArrF "pyfloat list"
  | PArrI "32 word list"
  | PArrL "64 word list"
  | PByRef cbase

datatype carg =
    CI "32 word"
  | CL "64 word"
  | CZ "64 word"
  | CF pyfloat
  | CH hkind nat
  | CArrF "pyfloat list"
  | CArrI "32 word list"
  | CArrL "64 word list"
  | COut cbase

text \<open>
  The value a C \<open>float\<close> takes when a Python float is stored in it: binary32, ties to
  even, overflow to infinity.
\<close>

definition f32_mag :: "rat \<Rightarrow> rat" where
  "f32_mag a = (let e = max (ilog2 a - 23) (- 149) in of_int (round_half_even (a / pow2 e)) * pow2 e)"

fun f32 :: "pyfloat \<Rightarrow> pyfloat" where
  "f32 (Fin q) =
     (if q = 0 then Fin 0
      else let m = f32_mag \<bar>q\<bar>
           in if pow2 128 \<le> m then finf (q < 0) else Fin (if q < 0 then - m else m))"
| "f32 x = x"

text \<open>\<open>ctypes\<close> masks an int to the width of the C type; it never raises for its size.\<close>

fun marshal :: "ctype \<Rightarrow> parg \<Rightarrow> carg py" where
  "marshal (CVal BInt) (PInt i) = Inr (CI (word_of_int i))"
| "marshal (CVal BI64) (PInt i) = Inr (CL (word_of_int i))"
| "marshal (CVal BSize) (PInt i) = Inr (CZ (word_of_int i))"
| "marshal (CVal BFloat) (PFloat x) = Inr (CF (f32 x))"
| "marshal (CPtr k) (PHandle k' h) = (if k = k' then Inr (CH k h) else Inl ArgumentError)"
| "marshal (CRef BFloat) (PArrF xs) = Inr (CArrF xs)"
| "marshal (CRef BInt) (PArrI xs) = Inr (CArrI xs)"
| "marshal (CRef BI64) (PArrL xs) = Inr (CArrL xs)"
| "marshal (CRef b) (PByRef b') = (if b = b' then Inr (COut b) else Inl ArgumentError)"
| "marshal _ _ = Inl ArgumentError"

fun marshal_all :: "ctype list \<Rightarrow> parg list \<Rightarrow> carg list py" where
  "marshal_all [] [] = Inr []"
| "marshal_all (t # ts) (a # as) = bindE (marshal t a) (\<lambda>c. bindE (marshal_all ts as) (\<lambda>cs. Inr (c # cs)))"
| "marshal_all _ _ = Inl TypeError"

section \<open>The declared signatures\<close>

abbreviation "tensor \<equiv> CPtr HTensor"
abbreviation "event \<equiv> CPtr HEvent"
abbreviation "stream \<equiv> CPtr HStream"
abbreviation "c_int \<equiv> CVal BInt"
abbreviation "c_int64 \<equiv> CVal BI64"
abbreviation "c_size_t \<equiv> CVal BSize"
abbreviation "c_float \<equiv> CVal BFloat"
abbreviation "new_tensor \<equiv> CRef (BHandle HTensor)"

type_synonym signature = "string \<times> ctype list"

definition tensor_signatures :: "signature list" where
  "tensor_signatures =
    [(''ml_hip_device_count'', [CRef BInt]),
     (''ml_tensor_from_f32'', [CRef BFloat, CRef BI64, c_size_t, c_int, c_int, new_tensor]),
     (''ml_tensor_from_i32'', [CRef BInt, CRef BI64, c_size_t, c_int, c_int, new_tensor]),
     (''ml_tensor_from_external'', [c_size_t, c_size_t, CRef BI64, CRef BI64, c_size_t, c_int, c_int, c_int, new_tensor]),
     (''ml_tensor_destroy'', [tensor]),
     (''ml_tensor_rank'', [tensor, CRef BSize]),
     (''ml_tensor_shape'', [tensor, c_size_t, CRef BI64]),
     (''ml_tensor_numel'', [tensor, CRef BI64]),
     (''ml_tensor_dtype'', [tensor, CRef BInt]),
     (''ml_tensor_device'', [tensor, CRef BInt, CRef BInt]),
     (''ml_tensor_is_owning'', [tensor, CRef BInt]),
     (''ml_tensor_data_ptr'', [tensor, CRef BSize]),
     (''ml_tensor_storage_bytes'', [tensor, CRef BSize]),
     (''ml_tensor_copy_f32'', [tensor, CRef BFloat, c_size_t]),
     (''ml_tensor_copy_i32'', [tensor, CRef BInt, c_size_t]),
     (''ml_tensor_to'', [tensor, c_int, c_int, new_tensor])]"

definition event_signatures :: "signature list" where
  "event_signatures =
    [(''ml_event_create'', [c_int, c_int, c_int, CRef (BHandle HEvent)]),
     (''ml_event_destroy'', [event]),
     (''ml_event_record_default_stream'', [event]),
     (''ml_event_ready'', [event, CRef BInt]),
     (''ml_event_synchronize'', [event]),
     (''ml_event_elapsed_ms'', [event, event, CRef BFloat]),
     (''ml_stream_create'', [c_int, c_int, c_int, CRef (BHandle HStream)]),
     (''ml_stream_from_external'', [c_int, c_int, c_size_t, CRef (BHandle HStream)]),
     (''ml_stream_destroy'', [stream]),
     (''ml_stream_synchronize'', [stream]),
     (''ml_stream_native_handle'', [stream, CRef BSize]),
     (''ml_stream_is_owning'', [stream, CRef BInt]),
     (''ml_event_record'', [event, stream]),
     (''ml_event_wait'', [event, stream])]"

definition operator_signatures :: "signature list" where
  "operator_signatures =
    map (\<lambda>n. (n, [tensor, tensor, new_tensor])) [''ml_add'', ''ml_multiply'', ''ml_matmul''] @
    [(''ml_softmax'', [tensor, new_tensor])] @
    map (\<lambda>n. (n, [tensor, tensor, stream, new_tensor]))
      [''ml_add_on_stream'', ''ml_multiply_on_stream'', ''ml_matmul_on_stream''] @
    [(''ml_softmax_on_stream'', [tensor, stream, new_tensor])] @
    map (\<lambda>n. (n, [tensor, tensor, tensor, stream])) [''ml_multiply_out_on_stream'', ''ml_matmul_out_on_stream''] @
    [(''ml_add_out_on_stream'', [tensor, tensor, tensor, stream]),
     (''ml_softmax_out_on_stream'', [tensor, tensor, stream])] @
    map (\<lambda>n. (n, [tensor, tensor, tensor, c_float, stream])) [''ml_rms_norm_out_on_stream'', ''ml_rms_norm_bf16_out_on_stream''] @
    [(''ml_swiglu_out_on_stream'', [tensor, tensor, tensor, stream]),
     (''ml_causal_gqa_attention_out_on_stream'',
        [tensor, tensor, tensor, tensor, tensor, tensor, tensor, c_int64, c_float, stream]),
     (''ml_embedding_out_on_stream'', [tensor, tensor, tensor, stream]),
     (''ml_rope_out_on_stream'', [tensor, tensor, c_int64, c_int64, c_float, stream]),
     (''ml_cross_entropy_out_on_stream'', [tensor, tensor, tensor, tensor, stream]),
     (''ml_embedding_backward_add_on_stream'', [tensor, tensor, tensor, stream]),
     (''ml_softmax_backward_out_on_stream'', [tensor, tensor, tensor, stream]),
     (''ml_rms_norm_backward_out_on_stream'', [tensor, tensor, tensor, tensor, tensor, tensor, c_float, stream]),
     (''ml_swiglu_backward_out_on_stream'', [tensor, tensor, tensor, tensor, tensor, stream]),
     (''ml_rope_backward_out_on_stream'', [tensor, tensor, c_int64, c_int64, c_float, stream]),
     (''ml_cross_entropy_backward_out_on_stream'', [tensor, tensor, tensor, tensor, tensor, tensor, stream])]"

definition signatures :: "signature list" where
  "signatures = tensor_signatures @ event_signatures @ operator_signatures"

section \<open>Calls\<close>

text \<open>
  What the engine did on a call: its status, what it stored through the out parameters, and the
  arrays it filled.
\<close>

record reply =
  r_status :: "32 word"
  r_ints :: "nat \<Rightarrow> 32 word"
  r_i64 :: "64 word"
  r_size :: "64 word"
  r_float :: pyfloat
  r_handle :: nat
  r_floats :: "pyfloat list"
  r_int_array :: "32 word list"

record call =
  c_name :: string
  c_args :: "carg list"
  c_reply :: reply

record engine =
  en_reply :: "call list \<Rightarrow> string \<Rightarrow> carg list \<Rightarrow> reply"
  en_error :: "call list \<Rightarrow> string option"

type_synonym 'a eng = "(call list, 'a) action"

definition ccall :: "engine \<Rightarrow> string \<Rightarrow> parg list \<Rightarrow> reply eng" where
  "ccall en name args tr =
     (case map_of signatures name of
        None \<Rightarrow> (Inl AttributeError, tr)
      | Some sig \<Rightarrow>
          (case marshal_all sig args of
             Inl e \<Rightarrow> (Inl e, tr)
           | Inr cs \<Rightarrow>
               (let r = en_reply en tr name cs
                in (Inr r, tr @ [\<lparr>c_name = name, c_args = cs, c_reply = r\<rparr>]))))"

definition status_message :: "32 word \<Rightarrow> string option \<Rightarrow> string" where
  "status_message st message =
     ''microLLM status '' @ str_int (sint st) @ '': '' @
     (case message of None \<Rightarrow> ''unknown engine error''
      | Some m \<Rightarrow> if m = [] then ''unknown engine error'' else m)"

definition check_status :: "engine \<Rightarrow> reply \<Rightarrow> reply eng" where
  "check_status en r tr =
     (if r_status r = 0 then (Inr r, tr)
      else (Inl (MicroLLMError (status_message (r_status r) (en_error en tr))), tr))"

definition checked :: "engine \<Rightarrow> string \<Rightarrow> parg list \<Rightarrow> reply eng" where
  "checked en name args = bindS (ccall en name args) (check_status en)"

section \<open>Devices\<close>

datatype device_arg = DevStr string | DevEnum device | DevPair int int

definition lower_char :: "char \<Rightarrow> char" where
  "lower_char c = (if 65 \<le> (of_char c :: nat) \<and> (of_char c :: nat) \<le> 90 then char_of ((of_char c :: nat) + 32) else c)"

fun partition_at :: "char \<Rightarrow> string \<Rightarrow> string \<times> bool \<times> string" where
  "partition_at c [] = ([], False, [])"
| "partition_at c (x # xs) =
     (if x = c then ([], True, xs)
      else (case partition_at c xs of (a, found, b) \<Rightarrow> (x # a, found, b)))"

definition parse_device :: "device_arg \<Rightarrow> (device \<times> int) py" where
  "parse_device dev =
     (case dev of
        DevPair k i \<Rightarrow> bindE (device_of k) (\<lambda>d. Inr (d, i))
      | DevEnum d \<Rightarrow> Inr (d, 0)
      | DevStr s \<Rightarrow>
          (case partition_at CHR '':'' s of
             (kind, separator, index) \<Rightarrow>
               (let k = map lower_char kind;
                    parsed = (if k = ''cpu'' then Some CPU else if k = ''hip'' then Some HIP else None)
                in case parsed of
                     None \<Rightarrow> Inl (ValueError (''unknown device '' @ s))
                   | Some d \<Rightarrow> if separator then bindE (int_of_str index) (\<lambda>i. Inr (d, i)) else Inr (d, 0))))"

section \<open>Finding the library\<close>

definition truthy_str :: "string option \<Rightarrow> string option" where
  "truthy_str s = (case s of None \<Rightarrow> None | Some t \<Rightarrow> if t = [] then None else Some t)"

definition library_path ::
  "string option \<Rightarrow> string option \<Rightarrow> string list \<Rightarrow> (string \<Rightarrow> bool) \<Rightarrow> string py" where
  "library_path configured discovered candidates exists =
     (case truthy_str configured of
        Some c \<Rightarrow> Inr c
      | None \<Rightarrow>
          (case truthy_str discovered of
             Some d \<Rightarrow> Inr d
           | None \<Rightarrow>
               need (MicroLLMError ''libmicrollm was not found; set MICROLLM_LIBRARY to the built shared library'')
                 (find exists candidates)))"

section \<open>Tensor\<close>

record tensor_obj =
  t_handle :: nat
  t_owner :: "pyval option"

definition tensor_new :: "nat \<Rightarrow> pyval option \<Rightarrow> tensor_obj py" where
  "tensor_new h ow =
     thenE (raise_if (h = 0) (MicroLLMError ''cannot construct Tensor from a null handle''))
       (Inr \<lparr>t_handle = h, t_owner = ow\<rparr>)"

fun int_of_num :: "num \<Rightarrow> int py" where
  "int_of_num (NI i) = Inr i"
| "int_of_num (NF x) = int_of_float x"

text \<open>The loop that multiplies the dimensions, in unbounded ints.\<close>

fun expected_count :: "int \<Rightarrow> int list \<Rightarrow> int py" where
  "expected_count e [] = Inr e"
| "expected_count e (d # ds) =
     (if d < 0 then Inl (ValueError ''shape dimensions must be non-negative'') else expected_count (e * d) ds)"

definition count_message :: "int \<Rightarrow> nat \<Rightarrow> string" where
  "count_message expected n =
     ''shape expects '' @ str_int expected @ '' values, received '' @ str_int (int n)"

definition from_f32 :: "engine \<Rightarrow> num list \<Rightarrow> num list \<Rightarrow> device_arg \<Rightarrow> tensor_obj eng" where
  "from_f32 en values shape dev =
     bindS (liftS (mapM to_float values)) (\<lambda>flat.
     bindS (liftS (mapM int_of_num shape)) (\<lambda>dimensions.
     bindS (liftS (expected_count 1 dimensions)) (\<lambda>expected.
     thenS (liftS (raise_if (expected \<noteq> int (length flat)) (ValueError (count_message expected (length flat)))))
    (bindS (liftS (parse_device dev)) (\<lambda>(kind, index).
     bindS (checked en ''ml_tensor_from_f32''
       [PArrF (map f32 flat), PArrL (map word_of_int dimensions), PInt (int (length dimensions)),
        PInt (device_code kind), PInt index, PByRef (BHandle HTensor)]) (\<lambda>r.
     liftS (tensor_new (r_handle r) None)))))))"

definition from_i32 :: "engine \<Rightarrow> num list \<Rightarrow> num list \<Rightarrow> device_arg \<Rightarrow> tensor_obj eng" where
  "from_i32 en values shape dev =
     bindS (liftS (mapM int_of_num values)) (\<lambda>flat.
     bindS (liftS (mapM int_of_num shape)) (\<lambda>dimensions.
     bindS (liftS (expected_count 1 dimensions)) (\<lambda>expected.
     thenS (liftS (raise_if (expected \<noteq> int (length flat)) (ValueError (count_message expected (length flat)))))
    (bindS (liftS (parse_device dev)) (\<lambda>(kind, index).
     bindS (checked en ''ml_tensor_from_i32''
       [PArrI (map word_of_int flat), PArrL (map word_of_int dimensions), PInt (int (length dimensions)),
        PInt (device_code kind), PInt index, PByRef (BHandle HTensor)]) (\<lambda>r.
     liftS (tensor_new (r_handle r) None)))))))"

text \<open>\<open>dt\<close> is the argument of \<open>DType(dtype)\<close>, a member or an int.\<close>

definition from_external ::
  "engine \<Rightarrow> num \<Rightarrow> num \<Rightarrow> num list \<Rightarrow> num list \<Rightarrow> int \<Rightarrow> device_arg \<Rightarrow> pyval option \<Rightarrow> tensor_obj eng" where
  "from_external en data_ptr storage_bytes shape strides dt dev ow =
     bindS (liftS (int_of_num data_ptr)) (\<lambda>pointer.
     bindS (liftS (int_of_num storage_bytes)) (\<lambda>bytes_value.
     bindS (liftS (mapM int_of_num shape)) (\<lambda>dimensions.
     bindS (liftS (mapM int_of_num strides)) (\<lambda>stride_values.
     thenS (liftS (raise_if (pointer \<le> 0 \<or> bytes_value \<le> 0)
              (ValueError ''external Tensor pointer and storage bytes must be positive'')))
    (thenS (liftS (raise_if (length dimensions \<noteq> length stride_values)
              (ValueError ''external Tensor shape/stride rank mismatch'')))
    (bindS (liftS (parse_device dev)) (\<lambda>(kind, index).
     bindS (liftS (dtype_of dt)) (\<lambda>d.
     bindS (checked en ''ml_tensor_from_external''
       [PInt pointer, PInt bytes_value, PArrL (map word_of_int dimensions), PArrL (map word_of_int stride_values),
        PInt (int (length dimensions)), PInt (dtype_code d), PInt (device_code kind), PInt index,
        PByRef (BHandle HTensor)]) (\<lambda>r.
     liftS (tensor_new (r_handle r) ow))))))))))"

text \<open>A destroy function returns nothing; its call is only recorded.\<close>

definition tensor_close :: "engine \<Rightarrow> tensor_obj \<Rightarrow> tensor_obj eng" where
  "tensor_close en t =
     (if t_handle t = 0 then retS t
      else bindS (ccall en ''ml_tensor_destroy'' [PHandle HTensor (t_handle t)]) (\<lambda>_.
             retS (t\<lparr>t_handle := 0, t_owner := None\<rparr>)))"

definition tensor_numel :: "engine \<Rightarrow> tensor_obj \<Rightarrow> int eng" where
  "tensor_numel en t =
     bindS (checked en ''ml_tensor_numel'' [PHandle HTensor (t_handle t), PByRef BI64]) (\<lambda>r. retS (sint (r_i64 r)))"

definition tensor_shape :: "engine \<Rightarrow> tensor_obj \<Rightarrow> int list eng" where
  "tensor_shape en t =
     bindS (checked en ''ml_tensor_rank'' [PHandle HTensor (t_handle t), PByRef BSize]) (\<lambda>rank.
     mapS (\<lambda>dim. bindS (checked en ''ml_tensor_shape'' [PHandle HTensor (t_handle t), PInt (int dim), PByRef BI64])
                   (\<lambda>r. retS (sint (r_i64 r))))
       [0..<unat (r_size rank)])"

definition tensor_dtype :: "engine \<Rightarrow> tensor_obj \<Rightarrow> dtype eng" where
  "tensor_dtype en t =
     bindS (checked en ''ml_tensor_dtype'' [PHandle HTensor (t_handle t), PByRef BInt]) (\<lambda>r.
     liftS (dtype_of (sint (r_ints r 0))))"

definition tensor_device :: "engine \<Rightarrow> tensor_obj \<Rightarrow> (device \<times> int) eng" where
  "tensor_device en t =
     bindS (checked en ''ml_tensor_device'' [PHandle HTensor (t_handle t), PByRef BInt, PByRef BInt]) (\<lambda>r.
     bindS (liftS (device_of (sint (r_ints r 0)))) (\<lambda>d. retS (d, sint (r_ints r 1))))"

definition tensor_owning :: "engine \<Rightarrow> tensor_obj \<Rightarrow> bool eng" where
  "tensor_owning en t =
     bindS (checked en ''ml_tensor_is_owning'' [PHandle HTensor (t_handle t), PByRef BInt]) (\<lambda>r. retS (sint (r_ints r 0) \<noteq> 0))"

definition tensor_data_ptr :: "engine \<Rightarrow> tensor_obj \<Rightarrow> int eng" where
  "tensor_data_ptr en t =
     bindS (checked en ''ml_tensor_data_ptr'' [PHandle HTensor (t_handle t), PByRef BSize]) (\<lambda>r. retS (uint (r_size r)))"

definition tensor_storage_bytes :: "engine \<Rightarrow> tensor_obj \<Rightarrow> int eng" where
  "tensor_storage_bytes en t =
     bindS (checked en ''ml_tensor_storage_bytes'' [PHandle HTensor (t_handle t), PByRef BSize]) (\<lambda>r. retS (uint (r_size r)))"

text \<open>
  An array of \<open>n\<close> zeros the engine copies into; a negative length raises. What the engine
  wrote past the end does not reach the list, what it did not write stays zero.
\<close>

definition filled :: "int \<Rightarrow> 'a \<Rightarrow> 'a list \<Rightarrow> 'a list" where
  "filled n z xs = take (nat n) (xs @ replicate (nat n) z)"

definition array_length :: "int \<Rightarrow> int eng" where
  "array_length n = liftS (thenE (raise_if (n < 0) (ValueError ''Array length must be >= 0'')) (Inr n))"

definition tensor_tolist :: "engine \<Rightarrow> tensor_obj \<Rightarrow> pyval eng" where
  "tensor_tolist en t =
     bindS (tensor_dtype en t) (\<lambda>d.
     bindS (tensor_numel en t) (\<lambda>n0.
     bindS (array_length n0) (\<lambda>n.
     bindS (tensor_numel en t) (\<lambda>m.
     if d \<in> {FLOAT32, FLOAT16, BFLOAT16}
     then bindS (checked en ''ml_tensor_copy_f32'' [PHandle HTensor (t_handle t), PArrF (replicate (nat n) (Fin 0)), PInt m]) (\<lambda>r.
            retS (VList (map VFloat (filled n (Fin 0) (r_floats r)))))
     else bindS (checked en ''ml_tensor_copy_i32'' [PHandle HTensor (t_handle t), PArrI (replicate (nat n) 0), PInt m]) (\<lambda>r.
            retS (VList (map (\<lambda>w. VInt (sint w)) (filled n 0 (r_int_array r)))))))))"

definition tensor_to :: "engine \<Rightarrow> tensor_obj \<Rightarrow> device_arg \<Rightarrow> tensor_obj eng" where
  "tensor_to en t dev =
     bindS (liftS (parse_device dev)) (\<lambda>(kind, index).
     bindS (checked en ''ml_tensor_to'' [PHandle HTensor (t_handle t), PInt (device_code kind), PInt index,
        PByRef (BHandle HTensor)]) (\<lambda>r.
     liftS (tensor_new (r_handle r) None)))"

section \<open>Event and Stream\<close>

record event_obj =
  ev_handle :: nat
  ev_device :: "device \<times> int"
  ev_timing :: bool

record stream_obj =
  st_handle :: nat
  st_device :: "device \<times> int"
  st_non_blocking :: bool

definition bool_int :: "bool \<Rightarrow> int" where
  "bool_int b = (if b then 1 else 0)"

definition event_init :: "engine \<Rightarrow> device_arg \<Rightarrow> bool \<Rightarrow> event_obj eng" where
  "event_init en dev timing =
     bindS (liftS (parse_device dev)) (\<lambda>(kind, index).
     bindS (checked en ''ml_event_create'' [PInt (device_code kind), PInt index, PInt (bool_int timing),
        PByRef (BHandle HEvent)]) (\<lambda>r.
     retS \<lparr>ev_handle = r_handle r, ev_device = (kind, index), ev_timing = timing\<rparr>))"

definition event_close :: "engine \<Rightarrow> event_obj \<Rightarrow> event_obj eng" where
  "event_close en e =
     (if ev_handle e = 0 then retS e
      else bindS (ccall en ''ml_event_destroy'' [PHandle HEvent (ev_handle e)]) (\<lambda>_. retS (e\<lparr>ev_handle := 0\<rparr>)))"

definition event_record_default_stream :: "engine \<Rightarrow> event_obj \<Rightarrow> unit eng" where
  "event_record_default_stream en e =
     bindS (checked en ''ml_event_record_default_stream'' [PHandle HEvent (ev_handle e)]) (\<lambda>_. retS ())"

definition event_record :: "engine \<Rightarrow> event_obj \<Rightarrow> stream_obj \<Rightarrow> unit eng" where
  "event_record en e s =
     bindS (checked en ''ml_event_record'' [PHandle HEvent (ev_handle e), PHandle HStream (st_handle s)]) (\<lambda>_. retS ())"

definition event_wait :: "engine \<Rightarrow> event_obj \<Rightarrow> stream_obj \<Rightarrow> unit eng" where
  "event_wait en e s =
     bindS (checked en ''ml_event_wait'' [PHandle HEvent (ev_handle e), PHandle HStream (st_handle s)]) (\<lambda>_. retS ())"

definition event_ready :: "engine \<Rightarrow> event_obj \<Rightarrow> bool eng" where
  "event_ready en e =
     bindS (checked en ''ml_event_ready'' [PHandle HEvent (ev_handle e), PByRef BInt]) (\<lambda>r. retS (sint (r_ints r 0) \<noteq> 0))"

definition event_synchronize :: "engine \<Rightarrow> event_obj \<Rightarrow> unit eng" where
  "event_synchronize en e =
     bindS (checked en ''ml_event_synchronize'' [PHandle HEvent (ev_handle e)]) (\<lambda>_. retS ())"

definition event_elapsed_ms_since :: "engine \<Rightarrow> event_obj \<Rightarrow> event_obj \<Rightarrow> pyfloat eng" where
  "event_elapsed_ms_since en e start =
     bindS (checked en ''ml_event_elapsed_ms'' [PHandle HEvent (ev_handle start), PHandle HEvent (ev_handle e), PByRef BFloat])
       (\<lambda>r. retS (r_float r))"

definition stream_init :: "engine \<Rightarrow> device_arg \<Rightarrow> bool \<Rightarrow> stream_obj eng" where
  "stream_init en dev non_blocking =
     bindS (liftS (parse_device dev)) (\<lambda>(kind, index).
     bindS (checked en ''ml_stream_create'' [PInt (device_code kind), PInt index, PInt (bool_int non_blocking),
        PByRef (BHandle HStream)]) (\<lambda>r.
     retS \<lparr>st_handle = r_handle r, st_device = (kind, index), st_non_blocking = non_blocking\<rparr>))"

definition stream_from_external :: "engine \<Rightarrow> num \<Rightarrow> device_arg \<Rightarrow> stream_obj eng" where
  "stream_from_external en native_handle dev =
     bindS (liftS (int_of_num native_handle)) (\<lambda>native.
     thenS (liftS (raise_if (native \<le> 0) (ValueError ''external native Stream handle must be positive'')))
    (bindS (liftS (parse_device dev)) (\<lambda>(kind, index).
     bindS (checked en ''ml_stream_from_external'' [PInt (device_code kind), PInt index, PInt native,
        PByRef (BHandle HStream)]) (\<lambda>r.
     retS \<lparr>st_handle = r_handle r, st_device = (kind, index), st_non_blocking = True\<rparr>))))"

definition stream_close :: "engine \<Rightarrow> stream_obj \<Rightarrow> stream_obj eng" where
  "stream_close en s =
     (if st_handle s = 0 then retS s
      else bindS (ccall en ''ml_stream_destroy'' [PHandle HStream (st_handle s)]) (\<lambda>_. retS (s\<lparr>st_handle := 0\<rparr>)))"

definition stream_owning :: "engine \<Rightarrow> stream_obj \<Rightarrow> bool eng" where
  "stream_owning en s =
     bindS (checked en ''ml_stream_is_owning'' [PHandle HStream (st_handle s), PByRef BInt]) (\<lambda>r. retS (sint (r_ints r 0) \<noteq> 0))"

definition stream_native_handle :: "engine \<Rightarrow> stream_obj \<Rightarrow> int eng" where
  "stream_native_handle en s =
     bindS (checked en ''ml_stream_native_handle'' [PHandle HStream (st_handle s), PByRef BSize]) (\<lambda>r. retS (uint (r_size r)))"

definition stream_synchronize :: "engine \<Rightarrow> stream_obj \<Rightarrow> unit eng" where
  "stream_synchronize en s =
     bindS (checked en ''ml_stream_synchronize'' [PHandle HStream (st_handle s)]) (\<lambda>_. retS ())"

definition hip_device_count :: "engine \<Rightarrow> int eng" where
  "hip_device_count en =
     bindS (checked en ''ml_hip_device_count'' [PByRef BInt]) (\<lambda>r. retS (sint (r_ints r 0)))"

end
