(* ===== verification/CapiOps.thy ===== *)
theory CapiOps imports Capi begin

text \<open>
  The operators of \<open>_capi.py\<close>: the functions that return a new \<open>Tensor\<close>, with
  and without a stream, and the \<open>_out\<close> and backward functions that write into tensors the
  caller allocated, and what one checked call comes to.
\<close>

section \<open>Operators\<close>

abbreviation arg_t :: "tensor_obj \<Rightarrow> parg" where
  "arg_t t \<equiv> PHandle HTensor (t_handle t)"

abbreviation arg_s :: "stream_obj \<Rightarrow> parg" where
  "arg_s s \<equiv> PHandle HStream (st_handle s)"

definition binary :: "engine \<Rightarrow> string \<Rightarrow> tensor_obj \<Rightarrow> tensor_obj \<Rightarrow> stream_obj option \<Rightarrow> tensor_obj eng" where
  "binary en function left right strm =
     bindS (case strm of
              None \<Rightarrow> checked en function [arg_t left, arg_t right, PByRef (BHandle HTensor)]
            | Some s \<Rightarrow> checked en function [arg_t left, arg_t right, arg_s s, PByRef (BHandle HTensor)])
       (\<lambda>r. liftS (tensor_new (r_handle r) None))"

definition tensor_add :: "engine \<Rightarrow> tensor_obj \<Rightarrow> tensor_obj \<Rightarrow> stream_obj option \<Rightarrow> tensor_obj eng" where
  "tensor_add en left right strm =
     binary en (if strm = None then ''ml_add'' else ''ml_add_on_stream'') left right strm"

definition tensor_multiply :: "engine \<Rightarrow> tensor_obj \<Rightarrow> tensor_obj \<Rightarrow> stream_obj option \<Rightarrow> tensor_obj eng" where
  "tensor_multiply en left right strm =
     binary en (if strm = None then ''ml_multiply'' else ''ml_multiply_on_stream'') left right strm"

definition tensor_matmul :: "engine \<Rightarrow> tensor_obj \<Rightarrow> tensor_obj \<Rightarrow> stream_obj option \<Rightarrow> tensor_obj eng" where
  "tensor_matmul en left right strm =
     binary en (if strm = None then ''ml_matmul'' else ''ml_matmul_on_stream'') left right strm"

definition tensor_softmax :: "engine \<Rightarrow> tensor_obj \<Rightarrow> stream_obj option \<Rightarrow> tensor_obj eng" where
  "tensor_softmax en input strm =
     bindS (case strm of
              None \<Rightarrow> checked en ''ml_softmax'' [arg_t input, PByRef (BHandle HTensor)]
            | Some s \<Rightarrow> checked en ''ml_softmax_on_stream'' [arg_t input, arg_s s, PByRef (BHandle HTensor)])
       (\<lambda>r. liftS (tensor_new (r_handle r) None))"

definition run_out :: "engine \<Rightarrow> string \<Rightarrow> parg list \<Rightarrow> unit eng" where
  "run_out en name args = bindS (checked en name args) (\<lambda>_. retS ())"

definition multiply_out ::
  "engine \<Rightarrow> tensor_obj \<Rightarrow> tensor_obj \<Rightarrow> tensor_obj \<Rightarrow> stream_obj \<Rightarrow> unit eng" where
  "multiply_out en output left right strm =
     run_out en ''ml_multiply_out_on_stream''
       [arg_t output, arg_t left, arg_t right, arg_s strm]"

definition matmul_out ::
  "engine \<Rightarrow> tensor_obj \<Rightarrow> tensor_obj \<Rightarrow> tensor_obj \<Rightarrow> stream_obj \<Rightarrow> unit eng" where
  "matmul_out en output left right strm =
     run_out en ''ml_matmul_out_on_stream''
       [arg_t output, arg_t left, arg_t right, arg_s strm]"

definition add_out ::
  "engine \<Rightarrow> tensor_obj \<Rightarrow> tensor_obj \<Rightarrow> tensor_obj \<Rightarrow> stream_obj \<Rightarrow> unit eng" where
  "add_out en output left right strm =
     run_out en ''ml_add_out_on_stream''
       [arg_t output, arg_t left, arg_t right, arg_s strm]"

definition softmax_out ::
  "engine \<Rightarrow> tensor_obj \<Rightarrow> tensor_obj \<Rightarrow> stream_obj \<Rightarrow> unit eng" where
  "softmax_out en output input strm =
     run_out en ''ml_softmax_out_on_stream''
       [arg_t output, arg_t input, arg_s strm]"

definition rms_norm_out ::
  "engine \<Rightarrow> tensor_obj \<Rightarrow> tensor_obj \<Rightarrow> tensor_obj \<Rightarrow> num \<Rightarrow> stream_obj \<Rightarrow> unit eng" where
  "rms_norm_out en output input weight epsilon strm =
     bindS (liftS (to_float epsilon)) (\<lambda>epsilon'.
     run_out en ''ml_rms_norm_out_on_stream''
       [arg_t output, arg_t input, arg_t weight, PFloat epsilon', arg_s strm])"

definition rms_norm_bf16_out ::
  "engine \<Rightarrow> tensor_obj \<Rightarrow> tensor_obj \<Rightarrow> tensor_obj \<Rightarrow> num \<Rightarrow> stream_obj \<Rightarrow> unit eng" where
  "rms_norm_bf16_out en output input weight epsilon strm =
     bindS (liftS (to_float epsilon)) (\<lambda>epsilon'.
     run_out en ''ml_rms_norm_bf16_out_on_stream''
       [arg_t output, arg_t input, arg_t weight, PFloat epsilon', arg_s strm])"

definition swiglu_out ::
  "engine \<Rightarrow> tensor_obj \<Rightarrow> tensor_obj \<Rightarrow> tensor_obj \<Rightarrow> stream_obj \<Rightarrow> unit eng" where
  "swiglu_out en output gate up strm =
     run_out en ''ml_swiglu_out_on_stream''
       [arg_t output, arg_t gate, arg_t up, arg_s strm]"

definition causal_gqa_attention_out ::
  "engine \<Rightarrow> tensor_obj \<Rightarrow> tensor_obj \<Rightarrow> tensor_obj \<Rightarrow> tensor_obj \<Rightarrow> tensor_obj \<Rightarrow> tensor_obj \<Rightarrow> tensor_obj \<Rightarrow> num \<Rightarrow> num \<Rightarrow> stream_obj \<Rightarrow> unit eng" where
  "causal_gqa_attention_out en output scaled_query_workspace expanded_kv_workspace probabilities_workspace query key val repeats scale strm =
     bindS (liftS (int_of_num repeats)) (\<lambda>repeats'.
     bindS (liftS (to_float scale)) (\<lambda>scale'.
     run_out en ''ml_causal_gqa_attention_out_on_stream''
       [arg_t output, arg_t scaled_query_workspace, arg_t expanded_kv_workspace, arg_t probabilities_workspace, arg_t query, arg_t key, arg_t val, PInt repeats', PFloat scale', arg_s strm]))"

definition embedding_out ::
  "engine \<Rightarrow> tensor_obj \<Rightarrow> tensor_obj \<Rightarrow> tensor_obj \<Rightarrow> stream_obj \<Rightarrow> unit eng" where
  "embedding_out en output weight indices strm =
     run_out en ''ml_embedding_out_on_stream''
       [arg_t output, arg_t weight, arg_t indices, arg_s strm]"

definition rope_out ::
  "engine \<Rightarrow> tensor_obj \<Rightarrow> tensor_obj \<Rightarrow> num \<Rightarrow> num \<Rightarrow> num \<Rightarrow> stream_obj \<Rightarrow> unit eng" where
  "rope_out en output input sequence_dim position_offset base strm =
     bindS (liftS (int_of_num sequence_dim)) (\<lambda>sequence_dim'.
     bindS (liftS (int_of_num position_offset)) (\<lambda>position_offset'.
     bindS (liftS (to_float base)) (\<lambda>base'.
     run_out en ''ml_rope_out_on_stream''
       [arg_t output, arg_t input, PInt sequence_dim', PInt position_offset', PFloat base', arg_s strm])))"

definition cross_entropy_out ::
  "engine \<Rightarrow> tensor_obj \<Rightarrow> tensor_obj \<Rightarrow> tensor_obj \<Rightarrow> tensor_obj \<Rightarrow> stream_obj \<Rightarrow> unit eng" where
  "cross_entropy_out en output row_workspace logits targets strm =
     run_out en ''ml_cross_entropy_out_on_stream''
       [arg_t output, arg_t row_workspace, arg_t logits, arg_t targets, arg_s strm]"

definition embedding_backward_add ::
  "engine \<Rightarrow> tensor_obj \<Rightarrow> tensor_obj \<Rightarrow> tensor_obj \<Rightarrow> stream_obj \<Rightarrow> unit eng" where
  "embedding_backward_add en weight_gradient gradient indices strm =
     run_out en ''ml_embedding_backward_add_on_stream''
       [arg_t weight_gradient, arg_t gradient, arg_t indices, arg_s strm]"

definition softmax_backward_out ::
  "engine \<Rightarrow> tensor_obj \<Rightarrow> tensor_obj \<Rightarrow> tensor_obj \<Rightarrow> stream_obj \<Rightarrow> unit eng" where
  "softmax_backward_out en input_gradient output gradient strm =
     run_out en ''ml_softmax_backward_out_on_stream''
       [arg_t input_gradient, arg_t output, arg_t gradient, arg_s strm]"

definition rms_norm_backward_out ::
  "engine \<Rightarrow> tensor_obj \<Rightarrow> tensor_obj \<Rightarrow> tensor_obj \<Rightarrow> tensor_obj \<Rightarrow> tensor_obj \<Rightarrow> tensor_obj \<Rightarrow> num \<Rightarrow> stream_obj \<Rightarrow> unit eng" where
  "rms_norm_backward_out en input_gradient weight_gradient row_inverse_rms_workspace input weight gradient epsilon strm =
     bindS (liftS (to_float epsilon)) (\<lambda>epsilon'.
     run_out en ''ml_rms_norm_backward_out_on_stream''
       [arg_t input_gradient, arg_t weight_gradient, arg_t row_inverse_rms_workspace, arg_t input, arg_t weight, arg_t gradient, PFloat epsilon', arg_s strm])"

definition swiglu_backward_out ::
  "engine \<Rightarrow> tensor_obj \<Rightarrow> tensor_obj \<Rightarrow> tensor_obj \<Rightarrow> tensor_obj \<Rightarrow> tensor_obj \<Rightarrow> stream_obj \<Rightarrow> unit eng" where
  "swiglu_backward_out en gate_gradient up_gradient gate up gradient strm =
     run_out en ''ml_swiglu_backward_out_on_stream''
       [arg_t gate_gradient, arg_t up_gradient, arg_t gate, arg_t up, arg_t gradient, arg_s strm]"

definition rope_backward_out ::
  "engine \<Rightarrow> tensor_obj \<Rightarrow> tensor_obj \<Rightarrow> num \<Rightarrow> num \<Rightarrow> num \<Rightarrow> stream_obj \<Rightarrow> unit eng" where
  "rope_backward_out en input_gradient gradient sequence_dim position_offset base strm =
     bindS (liftS (int_of_num sequence_dim)) (\<lambda>sequence_dim'.
     bindS (liftS (int_of_num position_offset)) (\<lambda>position_offset'.
     bindS (liftS (to_float base)) (\<lambda>base'.
     run_out en ''ml_rope_backward_out_on_stream''
       [arg_t input_gradient, arg_t gradient, PInt sequence_dim', PInt position_offset', PFloat base', arg_s strm])))"

definition cross_entropy_backward_out ::
  "engine \<Rightarrow> tensor_obj \<Rightarrow> tensor_obj \<Rightarrow> tensor_obj \<Rightarrow> tensor_obj \<Rightarrow> tensor_obj \<Rightarrow> tensor_obj \<Rightarrow> stream_obj \<Rightarrow> unit eng" where
  "cross_entropy_backward_out en logits_gradient row_stats_workspace factor_workspace logits targets loss_gradient strm =
     run_out en ''ml_cross_entropy_backward_out_on_stream''
       [arg_t logits_gradient, arg_t row_stats_workspace, arg_t factor_workspace, arg_t logits, arg_t targets, arg_t loss_gradient, arg_s strm]"

section \<open>One call\<close>

text \<open>
  What a wrapper promises: one call with the converted arguments, then the reply, or the engine's
  message as a \<open>MicroLLMError\<close> when the status is not 0.
\<close>

definition served :: "engine \<Rightarrow> string \<Rightarrow> carg list \<Rightarrow> reply eng" where
  "served en name cs tr =
     (let r = en_reply en tr name cs; tr' = tr @ [\<lparr>c_name = name, c_args = cs, c_reply = r\<rparr>]
      in if r_status r = 0 then (Inr r, tr')
         else (Inl (MicroLLMError (status_message (r_status r) (en_error en tr'))), tr'))"

definition served_unit :: "engine \<Rightarrow> string \<Rightarrow> carg list \<Rightarrow> unit eng" where
  "served_unit en name cs = bindS (served en name cs) (\<lambda>_. retS ())"

lemma checked_served:
  "map_of signatures name = Some sig \<Longrightarrow> marshal_all sig args = Inr cs \<Longrightarrow> checked en name args = served en name cs"
  by (auto simp: fun_eq_iff checked_def served_def ccall_def bindS_def check_status_def Let_def)

lemma run_out_served:
  "map_of signatures name = Some sig \<Longrightarrow> marshal_all sig args = Inr cs \<Longrightarrow> run_out en name args = served_unit en name cs"
  by (simp add: run_out_def served_unit_def checked_served)

lemmas out_operators =
  multiply_out_def matmul_out_def add_out_def softmax_out_def rms_norm_out_def rms_norm_bf16_out_def swiglu_out_def causal_gqa_attention_out_def embedding_out_def rope_out_def cross_entropy_out_def embedding_backward_add_def softmax_backward_out_def rms_norm_backward_out_def swiglu_backward_out_def rope_backward_out_def cross_entropy_backward_out_def

lemmas signature_tables = signatures_def tensor_signatures_def event_signatures_def operator_signatures_def

end
