(* ===== verification/CapiLife.thy ===== *)
theory CapiLife imports CapiOps begin

text \<open>
  The life of engine handles under \<open>_capi.py\<close>. The handles an engine has given out and not
  got back are read off the history of calls; every wrapper is classified by what it does to them,
  and a session of calls on live Python objects keeps the books balanced.
\<close>

section \<open>The handles a history leaves live\<close>

fun destroy_name :: "hkind \<Rightarrow> string" where
  "destroy_name HTensor = ''ml_tensor_destroy''"
| "destroy_name HEvent = ''ml_event_destroy''"
| "destroy_name HStream = ''ml_stream_destroy''"

definition live_step :: "hkind \<Rightarrow> nat set \<Rightarrow> call \<Rightarrow> nat set" where
  "live_step k L c =
     (if c_name c = destroy_name k then L - {h. CH k h \<in> set (c_args c)}
      else if COut (BHandle k) \<in> set (c_args c) \<and> r_status (c_reply c) = 0 then insert (r_handle (c_reply c)) L
      else L)"

definition live :: "hkind \<Rightarrow> call list \<Rightarrow> nat set" where
  "live k tr = foldl (live_step k) {} tr"

lemma live_Nil [simp]: "live k [] = {}"
  by (simp add: live_def)

lemma live_snoc [simp]: "live k (tr @ [c]) = live_step k (live k tr) c"
  by (simp add: live_def)

text \<open>
  A call is proper when every handle it passes is null or live, and a destroy passes a live one: no
  use after free, no double free.
\<close>

definition proper_call :: "call list \<Rightarrow> call \<Rightarrow> bool" where
  "proper_call tr c \<longleftrightarrow>
     (\<forall>k h. CH k h \<in> set (c_args c) \<longrightarrow> h = 0 \<or> h \<in> live k tr) \<and>
     (\<forall>k h. c_name c = destroy_name k \<longrightarrow> CH k h \<in> set (c_args c) \<longrightarrow> h \<noteq> 0 \<and> h \<in> live k tr)"

inductive proper :: "call list \<Rightarrow> bool" where
  proper_Nil: "proper []"
| proper_snoc: "proper tr \<Longrightarrow> proper_call tr c \<Longrightarrow> proper (tr @ [c])"

inductive_cases proper_snocE: "proper (tr @ [c])"

text \<open>What a C allocator promises: a new handle is not null and not one that is in use.\<close>

definition fresh_engine :: "engine \<Rightarrow> bool" where
  "fresh_engine en \<longleftrightarrow> (\<forall>tr name cs k. COut (BHandle k) \<in> set cs \<longrightarrow> r_status (en_reply en tr name cs) = 0 \<longrightarrow>
     r_handle (en_reply en tr name cs) \<noteq> 0 \<and> r_handle (en_reply en tr name cs) \<notin> live k tr)"

section \<open>What a wrapper does to them\<close>

definition handles_ok :: "call list \<Rightarrow> (hkind \<times> nat) set \<Rightarrow> bool" where
  "handles_ok tr H \<longleftrightarrow> (\<forall>k h. (k, h) \<in> H \<longrightarrow> h = 0 \<or> h \<in> live k tr)"

definition observes :: "'a eng \<Rightarrow> (hkind \<times> nat) set \<Rightarrow> bool" where
  "observes f H \<longleftrightarrow> (\<forall>tr r tr'. f tr = (r, tr') \<longrightarrow> proper tr \<longrightarrow> handles_ok tr H \<longrightarrow>
     proper tr' \<and> (\<forall>k. live k tr' = live k tr))"

definition makes :: "hkind \<Rightarrow> ('a \<Rightarrow> nat) \<Rightarrow> 'a eng \<Rightarrow> (hkind \<times> nat) set \<Rightarrow> bool" where
  "makes k hnd f H \<longleftrightarrow> (\<forall>tr r tr'. f tr = (r, tr') \<longrightarrow> proper tr \<longrightarrow> handles_ok tr H \<longrightarrow>
     proper tr' \<and> (\<forall>k'. k' \<noteq> k \<longrightarrow> live k' tr' = live k' tr) \<and>
     (case r of Inl e \<Rightarrow> live k tr' = live k tr
      | Inr x \<Rightarrow> hnd x \<noteq> 0 \<and> hnd x \<notin> live k tr \<and> live k tr' = insert (hnd x) (live k tr)))"

lemma observesD:
  "observes f H \<Longrightarrow> f tr = (r, tr') \<Longrightarrow> proper tr \<Longrightarrow> handles_ok tr H \<Longrightarrow> proper tr' \<and> (\<forall>k. live k tr' = live k tr)"
  unfolding observes_def by blast

lemma makesD:
  assumes "makes k hnd f H" and "f tr = (r, tr')" and "proper tr" and "handles_ok tr H"
  shows "proper tr'" and "k' \<noteq> k \<Longrightarrow> live k' tr' = live k' tr"
    and "r = Inl e \<Longrightarrow> live k tr' = live k tr"
    and "r = Inr x \<Longrightarrow> hnd x \<noteq> 0 \<and> hnd x \<notin> live k tr \<and> live k tr' = insert (hnd x) (live k tr)"
  using assms(1) [unfolded makes_def, rule_format, OF assms(2-4)] by auto

lemma observes_lift [intro!, simp]: "observes (liftS r) H"
  by (simp add: observes_def)

lemma observes_ret [intro!, simp]: "observes (retS x) H"
  by (simp add: observes_def)

lemma makes_fail [intro!, simp]: "makes k hnd (liftS (Inl e)) H"
  by (simp add: makes_def)

lemma bindS_cases:
  assumes "bindS f g tr = (r, tr')"
  obtains (stop) e where "f tr = (Inl e, tr')" "r = Inl e" | (go) x tr1 where "f tr = (Inr x, tr1)" "g x tr1 = (r, tr')"
  using assms by (auto simp: bindS_def split: prod.splits sum.splits)

lemma observes_bind [intro]:
  assumes "observes f H" and "\<And>x. observes (g x) H"
  shows "observes (bindS f g) H"
  unfolding observes_def
proof (intro allI impI)
  fix tr r tr'
  assume b: "bindS f g tr = (r, tr')" and tr: "proper tr" "handles_ok tr H"
  from b show "proper tr' \<and> (\<forall>k. live k tr' = live k tr)"
  proof (cases rule: bindS_cases)
    case (stop e)
    then show ?thesis using observesD [OF assms(1) _ tr] by blast
  next
    case (go x tr1)
    then have 1: "proper tr1" "\<And>k'. live k' tr1 = live k' tr" using observesD [OF assms(1) _ tr] by auto
    then have "handles_ok tr1 H" using tr(2) by (simp add: handles_ok_def)
    then show ?thesis using observesD [OF assms(2) go(2) 1(1)] 1(2) by simp
  qed
qed

lemma makes_bind [intro]:
  assumes "observes f H" and "\<And>x. makes k hnd (g x) H"
  shows "makes k hnd (bindS f g) H"
  unfolding makes_def
proof (intro allI impI)
  fix tr r tr'
  assume b: "bindS f g tr = (r, tr')" and tr: "proper tr" "handles_ok tr H"
  from b show "proper tr' \<and> (\<forall>k'. k' \<noteq> k \<longrightarrow> live k' tr' = live k' tr) \<and>
     (case r of Inl e \<Rightarrow> live k tr' = live k tr
      | Inr x \<Rightarrow> hnd x \<noteq> 0 \<and> hnd x \<notin> live k tr \<and> live k tr' = insert (hnd x) (live k tr))"
  proof (cases rule: bindS_cases)
    case (stop e)
    then show ?thesis using observesD [OF assms(1) stop(1) tr] by simp
  next
    case (go x tr1)
    then have 1: "proper tr1" "\<And>k'. live k' tr1 = live k' tr" using observesD [OF assms(1) _ tr] by auto
    then have "handles_ok tr1 H" using tr(2) by (simp add: handles_ok_def)
    then show ?thesis
      using assms(2) [of x, unfolded makes_def, rule_format, OF go(2) 1(1)] 1(2) by (cases r) simp_all
  qed
qed

lemma observes_mapS [intro]: "(\<And>x. observes (f x) H) \<Longrightarrow> observes (mapS f xs) H"
  by (induction xs) auto

section \<open>Calls\<close>

definition handle_args :: "carg list \<Rightarrow> (hkind \<times> nat) set" where
  "handle_args cs = {(k, h). CH k h \<in> set cs}"

definition is_destroy :: "string \<Rightarrow> bool" where
  "is_destroy name \<longleftrightarrow> (\<exists>k. name = destroy_name k)"

lemma served_observes:
  assumes "\<not> is_destroy name" and "\<And>k. COut (BHandle k) \<notin> set cs" and "handle_args cs \<subseteq> H"
  shows "observes (served en name cs) H"
proof -
  have "proper (tr @ [\<lparr>c_name = name, c_args = cs, c_reply = r\<rparr>])" if "proper tr" "handles_ok tr H" for tr r
    using that assms by (intro proper_snoc) (fastforce simp: proper_call_def is_destroy_def handle_args_def handles_ok_def)+
  moreover have "live k (tr @ [\<lparr>c_name = name, c_args = cs, c_reply = r\<rparr>]) = live k tr" for k tr r
    using assms by (auto simp: live_step_def is_destroy_def)
  ultimately show ?thesis
    by (auto simp: observes_def served_def Let_def split: if_splits)
qed

lemma served_makes:
  assumes "fresh_engine en" and "\<not> is_destroy name" and out: "\<And>k'. COut (BHandle k') \<in> set cs \<longleftrightarrow> k' = k"
    and "handle_args cs \<subseteq> H"
  shows "makes k r_handle (served en name cs) H"
proof -
  have "proper (tr @ [\<lparr>c_name = name, c_args = cs, c_reply = r\<rparr>])" if "proper tr" "handles_ok tr H" for tr r
    using that assms by (intro proper_snoc) (fastforce simp: proper_call_def is_destroy_def handle_args_def handles_ok_def)+
  moreover have "live k' (tr @ [\<lparr>c_name = name, c_args = cs, c_reply = r\<rparr>]) =
      (if k' = k \<and> r_status r = 0 then insert (r_handle r) (live k tr) else live k' tr)" for k' tr r
    using assms by (auto simp: live_step_def is_destroy_def)
  moreover have "r_handle (en_reply en tr name cs) \<noteq> 0 \<and> r_handle (en_reply en tr name cs) \<notin> live k tr"
    if "r_status (en_reply en tr name cs) = 0" for tr
    using that assms(1) out by (auto simp: fresh_engine_def)
  ultimately show ?thesis
    by (auto simp: makes_def served_def Let_def split: if_splits)
qed

lemma makes_wrap:
  assumes "makes k hnd f H" and "\<And>x. hnd x \<noteq> 0 \<Longrightarrow> \<exists>y. g x = Inr y \<and> hnd' y = hnd x"
  shows "makes k hnd' (bindS f (\<lambda>x. liftS (g x))) H"
  unfolding makes_def
proof (intro allI impI)
  fix tr r tr'
  assume b: "bindS f (\<lambda>x. liftS (g x)) tr = (r, tr')" and tr: "proper tr" "handles_ok tr H"
  from b show "proper tr' \<and> (\<forall>k'. k' \<noteq> k \<longrightarrow> live k' tr' = live k' tr) \<and>
     (case r of Inl e \<Rightarrow> live k tr' = live k tr
      | Inr x \<Rightarrow> hnd' x \<noteq> 0 \<and> hnd' x \<notin> live k tr \<and> live k tr' = insert (hnd' x) (live k tr))"
  proof (cases rule: bindS_cases)
    case (stop e)
    note m = makesD [OF assms(1) stop(1) tr]
    show ?thesis using m(1) m(2) m(3) [OF refl] stop(2) by simp
  next
    case (go x tr1)
    note m = makesD [OF assms(1) go(1) tr]
    obtain y where "g x = Inr y" "hnd' y = hnd x" using assms(2) m(4) [OF refl] by blast
    then have "r = Inr y" "tr' = tr1" "hnd' y = hnd x" using go(2) by auto
    then show ?thesis using m(1) m(2) m(4) [OF refl] by simp
  qed
qed

section \<open>Converted arguments\<close>

definition phandles :: "parg list \<Rightarrow> (hkind \<times> nat) set" where
  "phandles args = {(k, h). PHandle k h \<in> set args}"

lemma phandles_simps [simp]:
  "phandles [] = {}"
  "phandles (PHandle k h # as) = insert (k, h) (phandles as)"
  "phandles (PInt i # as) = phandles as" "phandles (PFloat x # as) = phandles as"
  "phandles (PArrF xs # as) = phandles as" "phandles (PArrI us # as) = phandles as"
  "phandles (PArrL ws # as) = phandles as" "phandles (PByRef b # as) = phandles as"
  by (auto simp: phandles_def)

lemma marshal_parts:
  "marshal t a = Inr c \<Longrightarrow> (\<forall>k h. c = CH k h \<longleftrightarrow> a = PHandle k h) \<and> (\<forall>b. c = COut b \<longleftrightarrow> a = PByRef b)"
  by (induction t a rule: marshal.induct) (auto split: if_splits)

lemma marshal_all_parts:
  "marshal_all ts as = Inr cs \<Longrightarrow> handle_args cs = phandles as \<and> (\<forall>b. COut b \<in> set cs \<longleftrightarrow> PByRef b \<in> set as)"
proof (induction ts as arbitrary: cs rule: marshal_all.induct)
  case (2 t ts a as)
  then obtain c cs' where "marshal t a = Inr c" "marshal_all ts as = Inr cs'" "cs = c # cs'"
    by (auto simp: bindE_Inr_iff)
  then show ?case
    using "2.IH" [of c cs'] marshal_parts [of t a c] by (auto simp: handle_args_def phandles_def)
qed (auto simp: handle_args_def phandles_def)

lemma checked_cases:
  "(\<exists>e. checked en name args = liftS (Inl e)) \<or>
   (\<exists>cs. checked en name args = served en name cs \<and> handle_args cs = phandles args \<and>
      (\<forall>b. COut b \<in> set cs \<longleftrightarrow> PByRef b \<in> set args))"
proof (cases "map_of signatures name")
  case None
  then have "checked en name args = liftS (Inl AttributeError)"
    by (auto simp: fun_eq_iff checked_def ccall_def bindS_def)
  then show ?thesis by blast
next
  case (Some sig)
  show ?thesis
  proof (cases "marshal_all sig args")
    case (Inl e)
    then have "checked en name args = liftS (Inl e)"
      using Some by (auto simp: fun_eq_iff checked_def ccall_def bindS_def)
    then show ?thesis by blast
  next
    case (Inr cs)
    then show ?thesis using checked_served [OF Some Inr] marshal_all_parts [OF Inr] by blast
  qed
qed

lemma checked_observes [intro]:
  assumes "\<not> is_destroy name" and "\<And>k. PByRef (BHandle k) \<notin> set args" and "phandles args \<subseteq> H"
  shows "observes (checked en name args) H"
  using checked_cases [of en name args] served_observes [of name _ H en] assms by (metis observes_lift)

lemma checked_makes [intro]:
  assumes "fresh_engine en" and "\<not> is_destroy name" and "\<And>k'. PByRef (BHandle k') \<in> set args \<longleftrightarrow> k' = k"
    and "phandles args \<subseteq> H"
  shows "makes k r_handle (checked en name args) H"
  using checked_cases [of en name args] served_makes [of en name _ k H] assms by (metis makes_fail)

lemma is_destroy_iff [simp]:
  "is_destroy name \<longleftrightarrow> name = ''ml_tensor_destroy'' \<or> name = ''ml_event_destroy'' \<or> name = ''ml_stream_destroy''"
  by (metis is_destroy_def destroy_name.simps hkind.exhaust)

section \<open>The wrappers\<close>

lemma run_out_observes [intro]:
  "\<not> is_destroy name \<Longrightarrow> (\<And>k. PByRef (BHandle k) \<notin> set args) \<Longrightarrow> phandles args \<subseteq> H \<Longrightarrow> observes (run_out en name args) H"
  unfolding run_out_def by blast

lemma out_operators_observe:
  "observes (multiply_out en t1 t2 t3 st) {(HTensor, t_handle t1), (HTensor, t_handle t2), (HTensor, t_handle t3), (HStream, st_handle st)}"
  "observes (matmul_out en t1 t2 t3 st) {(HTensor, t_handle t1), (HTensor, t_handle t2), (HTensor, t_handle t3), (HStream, st_handle st)}"
  "observes (add_out en t1 t2 t3 st) {(HTensor, t_handle t1), (HTensor, t_handle t2), (HTensor, t_handle t3), (HStream, st_handle st)}"
  "observes (softmax_out en t1 t2 st) {(HTensor, t_handle t1), (HTensor, t_handle t2), (HStream, st_handle st)}"
  "observes (rms_norm_out en t1 t2 t3 x1 st) {(HTensor, t_handle t1), (HTensor, t_handle t2), (HTensor, t_handle t3), (HStream, st_handle st)}"
  "observes (rms_norm_bf16_out en t1 t2 t3 x1 st) {(HTensor, t_handle t1), (HTensor, t_handle t2), (HTensor, t_handle t3), (HStream, st_handle st)}"
  "observes (swiglu_out en t1 t2 t3 st) {(HTensor, t_handle t1), (HTensor, t_handle t2), (HTensor, t_handle t3), (HStream, st_handle st)}"
  "observes (causal_gqa_attention_out en t1 t2 t3 t4 t5 t6 t7 x1 x2 st) {(HTensor, t_handle t1), (HTensor, t_handle t2), (HTensor, t_handle t3), (HTensor, t_handle t4), (HTensor, t_handle t5), (HTensor, t_handle t6), (HTensor, t_handle t7), (HStream, st_handle st)}"
  "observes (embedding_out en t1 t2 t3 st) {(HTensor, t_handle t1), (HTensor, t_handle t2), (HTensor, t_handle t3), (HStream, st_handle st)}"
  "observes (rope_out en t1 t2 x1 x2 x3 st) {(HTensor, t_handle t1), (HTensor, t_handle t2), (HStream, st_handle st)}"
  "observes (cross_entropy_out en t1 t2 t3 t4 st) {(HTensor, t_handle t1), (HTensor, t_handle t2), (HTensor, t_handle t3), (HTensor, t_handle t4), (HStream, st_handle st)}"
  "observes (embedding_backward_add en t1 t2 t3 st) {(HTensor, t_handle t1), (HTensor, t_handle t2), (HTensor, t_handle t3), (HStream, st_handle st)}"
  "observes (softmax_backward_out en t1 t2 t3 st) {(HTensor, t_handle t1), (HTensor, t_handle t2), (HTensor, t_handle t3), (HStream, st_handle st)}"
  "observes (rms_norm_backward_out en t1 t2 t3 t4 t5 t6 x1 st) {(HTensor, t_handle t1), (HTensor, t_handle t2), (HTensor, t_handle t3), (HTensor, t_handle t4), (HTensor, t_handle t5), (HTensor, t_handle t6), (HStream, st_handle st)}"
  "observes (swiglu_backward_out en t1 t2 t3 t4 t5 st) {(HTensor, t_handle t1), (HTensor, t_handle t2), (HTensor, t_handle t3), (HTensor, t_handle t4), (HTensor, t_handle t5), (HStream, st_handle st)}"
  "observes (rope_backward_out en t1 t2 x1 x2 x3 st) {(HTensor, t_handle t1), (HTensor, t_handle t2), (HStream, st_handle st)}"
  "observes (cross_entropy_backward_out en t1 t2 t3 t4 t5 t6 st) {(HTensor, t_handle t1), (HTensor, t_handle t2), (HTensor, t_handle t3), (HTensor, t_handle t4), (HTensor, t_handle t5), (HTensor, t_handle t6), (HStream, st_handle st)}"
  unfolding out_operators by (intro observes_bind observes_lift run_out_observes; simp)+

lemma queries_observe:
  "observes (tensor_shape en t) {(HTensor, t_handle t)}"
  "observes (tensor_numel en t) {(HTensor, t_handle t)}"
  "observes (tensor_dtype en t) {(HTensor, t_handle t)}"
  "observes (tensor_device en t) {(HTensor, t_handle t)}"
  "observes (tensor_owning en t) {(HTensor, t_handle t)}"
  "observes (tensor_data_ptr en t) {(HTensor, t_handle t)}"
  "observes (tensor_storage_bytes en t) {(HTensor, t_handle t)}"
  "observes (tensor_tolist en t) {(HTensor, t_handle t)}"
  "observes (hip_device_count en) H"
  unfolding tensor_shape_def tensor_numel_def tensor_dtype_def tensor_device_def tensor_owning_def
    tensor_data_ptr_def tensor_storage_bytes_def tensor_tolist_def array_length_def hip_device_count_def
  by (auto intro!: observes_bind observes_mapS checked_observes)

lemma event_stream_observe:
  "observes (event_record_default_stream en e) {(HEvent, ev_handle e)}"
  "observes (event_record en e s) {(HEvent, ev_handle e), (HStream, st_handle s)}"
  "observes (event_wait en e s) {(HEvent, ev_handle e), (HStream, st_handle s)}"
  "observes (event_ready en e) {(HEvent, ev_handle e)}"
  "observes (event_synchronize en e) {(HEvent, ev_handle e)}"
  "observes (event_elapsed_ms_since en e start) {(HEvent, ev_handle e), (HEvent, ev_handle start)}"
  "observes (stream_owning en s) {(HStream, st_handle s)}"
  "observes (stream_native_handle en s) {(HStream, st_handle s)}"
  "observes (stream_synchronize en s) {(HStream, st_handle s)}"
  unfolding event_record_default_stream_def event_record_def event_wait_def event_ready_def event_synchronize_def
    event_elapsed_ms_since_def stream_owning_def stream_native_handle_def stream_synchronize_def
  by (auto intro!: observes_bind checked_observes)

lemma tensor_new_wrap: "h \<noteq> 0 \<Longrightarrow> \<exists>t. tensor_new h ow = Inr t \<and> t_handle t = h"
  by (simp add: tensor_new_def)

lemma makes_new:
  "fresh_engine en \<Longrightarrow> \<not> is_destroy name \<Longrightarrow> (\<And>k'. PByRef (BHandle k') \<in> set args \<longleftrightarrow> k' = HTensor) \<Longrightarrow>
   phandles args \<subseteq> H \<Longrightarrow> makes HTensor t_handle (bindS (checked en name args) (\<lambda>r. liftS (tensor_new (r_handle r) ow))) H"
  by (rule makes_wrap [OF checked_makes tensor_new_wrap])

lemma makes_lift_bind: "(\<And>x. makes k hnd (g x) H) \<Longrightarrow> makes k hnd (bindS (liftS r) g) H"
  by (rule makes_bind [OF observes_lift])

lemma makes_case_prod: "(\<And>a b. makes k hnd (g a b) H) \<Longrightarrow> makes k hnd (case_prod g p) H"
  by (cases p) simp

lemmas makes_rules = makes_lift_bind makes_case_prod makes_new

lemma constructors_make:
  assumes "fresh_engine en"
  shows "makes HTensor t_handle (from_f32 en vs sh dev) {}"
    and "makes HTensor t_handle (from_i32 en vs sh dev) {}"
    and "makes HTensor t_handle (from_external en p b sh sr dt dev ow) {}"
    and "makes HTensor t_handle (tensor_to en t dev) {(HTensor, t_handle t)}"
  unfolding from_f32_def from_i32_def from_external_def tensor_to_def
  by (intro makes_rules assms; simp)+

abbreviation stream_handles :: "stream_obj option \<Rightarrow> (hkind \<times> nat) set" where
  "stream_handles st \<equiv> (case st of None \<Rightarrow> {} | Some s \<Rightarrow> {(HStream, st_handle s)})"

lemma binary_makes:
  assumes "fresh_engine en" and "\<not> is_destroy f"
  shows "makes HTensor t_handle (binary en f l r st) ({(HTensor, t_handle l), (HTensor, t_handle r)} \<union> stream_handles st)"
  unfolding binary_def by (cases st; simp only: option.case; rule makes_new [OF assms]; auto)

lemma operators_make:
  assumes "fresh_engine en"
  shows "makes HTensor t_handle (tensor_add en l r st) ({(HTensor, t_handle l), (HTensor, t_handle r)} \<union> stream_handles st)"
    and "makes HTensor t_handle (tensor_multiply en l r st) ({(HTensor, t_handle l), (HTensor, t_handle r)} \<union> stream_handles st)"
    and "makes HTensor t_handle (tensor_matmul en l r st) ({(HTensor, t_handle l), (HTensor, t_handle r)} \<union> stream_handles st)"
    and "makes HTensor t_handle (tensor_softmax en l st) ({(HTensor, t_handle l)} \<union> stream_handles st)"
proof -
  show "makes HTensor t_handle (tensor_softmax en l st) ({(HTensor, t_handle l)} \<union> stream_handles st)"
    unfolding tensor_softmax_def by (cases st; simp only: option.case; rule makes_new [OF assms]; auto)
qed (unfold tensor_add_def tensor_multiply_def tensor_matmul_def, (rule binary_makes [OF assms]; simp)+)

lemma retS_lift: "retS y = liftS (Inr y)"
  by (simp add: fun_eq_iff)

lemma makes_retS:
  assumes "makes k r_handle f H" and "\<And>r. hnd (g r) = r_handle r"
  shows "makes k hnd (bindS f (\<lambda>r. retS (g r))) H"
  unfolding retS_lift using assms by (intro makes_wrap) auto

lemma event_stream_make:
  assumes "fresh_engine en"
  shows "makes HEvent ev_handle (event_init en dev b) {}"
    and "makes HStream st_handle (stream_init en dev b) {}"
    and "makes HStream st_handle (stream_from_external en n dev) {}"
  unfolding event_init_def stream_init_def stream_from_external_def
  by (intro makes_lift_bind makes_case_prod makes_retS checked_makes assms; simp)+

section \<open>Closing\<close>

text \<open>
  What \<open>close\<close> and \<open>__del__\<close> of the three classes share: a null handle is
  left alone, a live one is destroyed once and becomes null.
\<close>

locale resource =
  fixes hnd :: "'o \<Rightarrow> nat" and close :: "'o \<Rightarrow> 'o eng" and kind :: hkind
  assumes close_dead: "hnd x = 0 \<Longrightarrow> close x tr = (Inr x, tr)"
    and close_live: "hnd x \<noteq> 0 \<Longrightarrow> \<exists>y rp. hnd y = 0 \<and> close x tr =
      (Inr y, tr @ [\<lparr>c_name = destroy_name kind, c_args = [CH kind (hnd x)], c_reply = rp\<rparr>])"
begin

lemma close_nulls: "close x tr = (r, tr') \<Longrightarrow> \<exists>y. r = Inr y \<and> hnd y = 0"
  using close_dead [of x tr] close_live [of x tr] by (cases "hnd x = 0") auto

lemma close_again: "close x tr = (Inr y, tr') \<Longrightarrow> close y tr' = (Inr y, tr')"
  using close_nulls close_dead by blast

lemma close_proper:
  assumes "close x tr = (r, tr')" and "proper tr" and "hnd x = 0 \<or> hnd x \<in> live kind tr"
  shows "proper tr'" and "live kind tr' = live kind tr - (if hnd x = 0 then {} else {hnd x})"
    and "k \<noteq> kind \<Longrightarrow> live k tr' = live k tr"
proof -
  have "proper tr' \<and> live kind tr' = live kind tr - (if hnd x = 0 then {} else {hnd x}) \<and>
      (k \<noteq> kind \<longrightarrow> live k tr' = live k tr)" for k
  proof (cases "hnd x = 0")
    case True
    then show ?thesis using close_dead [of x tr] assms by simp
  next
    case False
    then obtain y rp where "tr' = tr @ [\<lparr>c_name = destroy_name kind, c_args = [CH kind (hnd x)], c_reply = rp\<rparr>]"
      using close_live [of x tr] assms(1) by auto
    moreover have "destroy_name k = destroy_name kind \<longleftrightarrow> k = kind" for k
      by (cases k; cases kind) auto
    ultimately show ?thesis
      using assms False by (auto intro!: proper_snoc simp: proper_call_def live_step_def)
  qed
  then show "proper tr'" and "live kind tr' = live kind tr - (if hnd x = 0 then {} else {hnd x})"
    and "k \<noteq> kind \<Longrightarrow> live k tr' = live k tr" by auto
qed

end

lemma destroy_signature:
  "map_of signatures ''ml_tensor_destroy'' = Some [tensor]"
  "map_of signatures ''ml_event_destroy'' = Some [event]"
  "map_of signatures ''ml_stream_destroy'' = Some [stream]"
  by (simp_all add: signature_tables)

interpretation tensor_resource: resource t_handle "tensor_close en" HTensor for en
  by unfold_locales (auto simp: tensor_close_def ccall_def bindS_def destroy_signature Let_def)

interpretation event_resource: resource ev_handle "event_close en" HEvent for en
  by unfold_locales (auto simp: event_close_def ccall_def bindS_def destroy_signature Let_def)

interpretation stream_resource: resource st_handle "stream_close en" HStream for en
  by unfold_locales (auto simp: stream_close_def ccall_def bindS_def destroy_signature Let_def)

section \<open>Sessions\<close>

text \<open>
  A session: the Python objects that exist and the calls made so far. Any wrapper may be called on
  any of the objects, closed ones included; garbage collection is a \<open>close\<close>.
\<close>

record api =
  ap_tensors :: "tensor_obj list"
  ap_events :: "event_obj list"
  ap_streams :: "stream_obj list"
  ap_calls :: "call list"

definition optional :: "'a list \<Rightarrow> 'a option set" where
  "optional xs = insert None (Some ` set xs)"

inductive makes_tensor :: "engine \<Rightarrow> api \<Rightarrow> tensor_obj eng \<Rightarrow> bool" for en and s where
  "makes_tensor en s (from_f32 en vs sh dev)"
| "makes_tensor en s (from_i32 en vs sh dev)"
| "makes_tensor en s (from_external en p b sh sr dt dev ow)"
| "t \<in> set (ap_tensors s) \<Longrightarrow> makes_tensor en s (tensor_to en t dev)"
| "l \<in> set (ap_tensors s) \<Longrightarrow> r \<in> set (ap_tensors s) \<Longrightarrow> st \<in> optional (ap_streams s) \<Longrightarrow> makes_tensor en s (tensor_add en l r st)"
| "l \<in> set (ap_tensors s) \<Longrightarrow> r \<in> set (ap_tensors s) \<Longrightarrow> st \<in> optional (ap_streams s) \<Longrightarrow> makes_tensor en s (tensor_multiply en l r st)"
| "l \<in> set (ap_tensors s) \<Longrightarrow> r \<in> set (ap_tensors s) \<Longrightarrow> st \<in> optional (ap_streams s) \<Longrightarrow> makes_tensor en s (tensor_matmul en l r st)"
| "l \<in> set (ap_tensors s) \<Longrightarrow> st \<in> optional (ap_streams s) \<Longrightarrow> makes_tensor en s (tensor_softmax en l st)"

abbreviation unit_of :: "'a eng \<Rightarrow> unit eng" where
  "unit_of f \<equiv> bindS f (\<lambda>_. retS ())"

inductive reads_api :: "engine \<Rightarrow> api \<Rightarrow> unit eng \<Rightarrow> bool" for en and s where
  "t \<in> set (ap_tensors s) \<Longrightarrow> f \<in> {unit_of (tensor_shape en t), unit_of (tensor_numel en t), unit_of (tensor_dtype en t),
     unit_of (tensor_device en t), unit_of (tensor_owning en t), unit_of (tensor_data_ptr en t),
     unit_of (tensor_storage_bytes en t), unit_of (tensor_tolist en t)} \<Longrightarrow> reads_api en s f"
| "e \<in> set (ap_events s) \<Longrightarrow> f \<in> {event_record_default_stream en e, unit_of (event_ready en e), event_synchronize en e} \<Longrightarrow>
     reads_api en s f"
| "e \<in> set (ap_events s) \<Longrightarrow> x \<in> set (ap_streams s) \<Longrightarrow> f \<in> {event_record en e x, event_wait en e x} \<Longrightarrow> reads_api en s f"
| "e \<in> set (ap_events s) \<Longrightarrow> e' \<in> set (ap_events s) \<Longrightarrow> reads_api en s (unit_of (event_elapsed_ms_since en e e'))"
| "x \<in> set (ap_streams s) \<Longrightarrow> f \<in> {unit_of (stream_owning en x), unit_of (stream_native_handle en x), stream_synchronize en x} \<Longrightarrow>
     reads_api en s f"
| "{t1, t2, t3} \<subseteq> set (ap_tensors s) \<Longrightarrow> x \<in> set (ap_streams s) \<Longrightarrow>
     f \<in> {multiply_out en t1 t2 t3 x, matmul_out en t1 t2 t3 x, add_out en t1 t2 t3 x, softmax_out en t1 t2 x,
       swiglu_out en t1 t2 t3 x, embedding_out en t1 t2 t3 x, embedding_backward_add en t1 t2 t3 x,
       softmax_backward_out en t1 t2 t3 x} \<Longrightarrow> reads_api en s f"
| "{t1, t2, t3} \<subseteq> set (ap_tensors s) \<Longrightarrow> x \<in> set (ap_streams s) \<Longrightarrow>
     f \<in> {rms_norm_out en t1 t2 t3 n1 x, rms_norm_bf16_out en t1 t2 t3 n1 x, rope_out en t1 t2 n1 n2 n3 x,
       rope_backward_out en t1 t2 n1 n2 n3 x} \<Longrightarrow> reads_api en s f"
| "{t1, t2, t3, t4, t5, t6, t7} \<subseteq> set (ap_tensors s) \<Longrightarrow> x \<in> set (ap_streams s) \<Longrightarrow>
     f \<in> {causal_gqa_attention_out en t1 t2 t3 t4 t5 t6 t7 n1 n2 x, cross_entropy_out en t1 t2 t3 t4 x,
       rms_norm_backward_out en t1 t2 t3 t4 t5 t6 n1 x, swiglu_backward_out en t1 t2 t3 t4 t5 x,
       cross_entropy_backward_out en t1 t2 t3 t4 t5 t6 x} \<Longrightarrow> reads_api en s f"

inductive api_step :: "engine \<Rightarrow> api \<Rightarrow> api \<Rightarrow> bool" for en where
  new_tensor: "makes_tensor en s f \<Longrightarrow> f (ap_calls s) = (Inr t, tr) \<Longrightarrow>
     api_step en s (s\<lparr>ap_tensors := ap_tensors s @ [t], ap_calls := tr\<rparr>)"
| new_tensor_raises: "makes_tensor en s f \<Longrightarrow> f (ap_calls s) = (Inl e, tr) \<Longrightarrow> api_step en s (s\<lparr>ap_calls := tr\<rparr>)"
| new_event: "event_init en dev b (ap_calls s) = (Inr x, tr) \<Longrightarrow>
     api_step en s (s\<lparr>ap_events := ap_events s @ [x], ap_calls := tr\<rparr>)"
| new_event_raises: "event_init en dev b (ap_calls s) = (Inl e, tr) \<Longrightarrow> api_step en s (s\<lparr>ap_calls := tr\<rparr>)"
| new_stream: "f \<in> {stream_init en dev b, stream_from_external en n dev} \<Longrightarrow> f (ap_calls s) = (Inr x, tr) \<Longrightarrow>
     api_step en s (s\<lparr>ap_streams := ap_streams s @ [x], ap_calls := tr\<rparr>)"
| new_stream_raises: "f \<in> {stream_init en dev b, stream_from_external en n dev} \<Longrightarrow> f (ap_calls s) = (Inl e, tr) \<Longrightarrow>
     api_step en s (s\<lparr>ap_calls := tr\<rparr>)"
| read_only: "reads_api en s f \<Longrightarrow> f (ap_calls s) = (r, tr) \<Longrightarrow> api_step en s (s\<lparr>ap_calls := tr\<rparr>)"
| close_tensor: "i < length (ap_tensors s) \<Longrightarrow> tensor_close en (ap_tensors s ! i) (ap_calls s) = (Inr t, tr) \<Longrightarrow>
     api_step en s (s\<lparr>ap_tensors := (ap_tensors s)[i := t], ap_calls := tr\<rparr>)"
| close_event: "i < length (ap_events s) \<Longrightarrow> event_close en (ap_events s ! i) (ap_calls s) = (Inr x, tr) \<Longrightarrow>
     api_step en s (s\<lparr>ap_events := (ap_events s)[i := x], ap_calls := tr\<rparr>)"
| close_stream: "i < length (ap_streams s) \<Longrightarrow> stream_close en (ap_streams s ! i) (ap_calls s) = (Inr x, tr) \<Longrightarrow>
     api_step en s (s\<lparr>ap_streams := (ap_streams s)[i := x], ap_calls := tr\<rparr>)"

definition api_start :: api where
  "api_start = \<lparr>ap_tensors = [], ap_events = [], ap_streams = [], ap_calls = []\<rparr>"

definition held :: "('o \<Rightarrow> nat) \<Rightarrow> 'o list \<Rightarrow> nat list" where
  "held hnd xs = filter (\<lambda>h. h \<noteq> 0) (map hnd xs)"

text \<open>The books are balanced: open objects and live handles are the same, one object each.\<close>

definition accounted :: "('o \<Rightarrow> nat) \<Rightarrow> 'o list \<Rightarrow> nat set \<Rightarrow> bool" where
  "accounted hnd xs L \<longleftrightarrow> distinct (held hnd xs) \<and> set (held hnd xs) = L"

definition balanced :: "api \<Rightarrow> bool" where
  "balanced s \<longleftrightarrow> proper (ap_calls s) \<and> accounted t_handle (ap_tensors s) (live HTensor (ap_calls s)) \<and>
     accounted ev_handle (ap_events s) (live HEvent (ap_calls s)) \<and>
     accounted st_handle (ap_streams s) (live HStream (ap_calls s))"

lemma accounted_new: "accounted hnd xs L \<Longrightarrow> hnd x \<noteq> 0 \<Longrightarrow> hnd x \<notin> L \<Longrightarrow> accounted hnd (xs @ [x]) (insert (hnd x) L)"
  by (auto simp: accounted_def held_def)

lemma accounted_in: "accounted hnd xs L \<Longrightarrow> x \<in> set xs \<Longrightarrow> hnd x = 0 \<or> hnd x \<in> L"
  by (auto simp: accounted_def held_def)

lemma accounted_close:
  assumes "accounted hnd xs L" and "i < length xs" and "hnd y = 0"
  shows "accounted hnd (xs[i := y]) (L - (if hnd (xs ! i) = 0 then {} else {hnd (xs ! i)}))"
proof -
  have split: "held hnd (us @ v # ws) = held hnd us @ (if hnd v = 0 then [] else [hnd v]) @ held hnd ws" for us v ws
    by (simp add: held_def)
  have "held hnd xs = held hnd (take i xs) @ (if hnd (xs ! i) = 0 then [] else [hnd (xs ! i)]) @ held hnd (drop (Suc i) xs)"
    using split [of "take i xs" "xs ! i" "drop (Suc i) xs"] by (simp only: id_take_nth_drop [OF assms(2), symmetric])
  moreover have "held hnd (xs[i := y]) = held hnd (take i xs) @ held hnd (drop (Suc i) xs)"
    unfolding upd_conv_take_nth_drop [OF assms(2)] split using assms(3) by simp
  ultimately show ?thesis using assms(1) by (cases "hnd (xs ! i) = 0") (auto simp: accounted_def)
qed

section \<open>The books stay balanced\<close>

text \<open>The handles a session may pass: those of its objects.\<close>

definition known :: "api \<Rightarrow> (hkind \<times> nat) set" where
  "known s = (\<lambda>t. (HTensor, t_handle t)) ` set (ap_tensors s) \<union> (\<lambda>e. (HEvent, ev_handle e)) ` set (ap_events s)
     \<union> (\<lambda>x. (HStream, st_handle x)) ` set (ap_streams s)"

lemma balanced_in:
  assumes "balanced s"
  shows "t \<in> set (ap_tensors s) \<Longrightarrow> t_handle t = 0 \<or> t_handle t \<in> live HTensor (ap_calls s)"
    and "e \<in> set (ap_events s) \<Longrightarrow> ev_handle e = 0 \<or> ev_handle e \<in> live HEvent (ap_calls s)"
    and "x \<in> set (ap_streams s) \<Longrightarrow> st_handle x = 0 \<or> st_handle x \<in> live HStream (ap_calls s)"
  using assms accounted_in [of t_handle "ap_tensors s" "live HTensor (ap_calls s)" t]
    accounted_in [of ev_handle "ap_events s" "live HEvent (ap_calls s)" e]
    accounted_in [of st_handle "ap_streams s" "live HStream (ap_calls s)" x]
  by (simp_all add: balanced_def)

lemma balanced_known: "balanced s \<Longrightarrow> handles_ok (ap_calls s) (known s)"
  unfolding handles_ok_def
proof (intro allI impI)
  fix k h
  assume bal: "balanced s" and "(k, h) \<in> known s"
  then consider t where "k = HTensor" "h = t_handle t" "t \<in> set (ap_tensors s)"
    | e where "k = HEvent" "h = ev_handle e" "e \<in> set (ap_events s)"
    | x where "k = HStream" "h = st_handle x" "x \<in> set (ap_streams s)"
    by (auto simp: known_def)
  then show "h = 0 \<or> h \<in> live k (ap_calls s)"
    using balanced_in [OF bal] by cases simp_all
qed

lemma observes_mono: "observes f H \<Longrightarrow> H \<subseteq> K \<Longrightarrow> observes f K"
  unfolding observes_def handles_ok_def by blast

lemma makes_mono: "makes k hnd f H \<Longrightarrow> H \<subseteq> K \<Longrightarrow> makes k hnd f K"
proof -
  assume m: "makes k hnd f H" and "H \<subseteq> K"
  then have "handles_ok tr K \<Longrightarrow> handles_ok tr H" for tr by (auto simp: handles_ok_def)
  then show ?thesis using m unfolding makes_def by blast
qed

lemma unit_observes: "observes f H \<Longrightarrow> observes (unit_of f) H"
  by (intro observes_bind observes_ret)

lemma reads_observe: "reads_api en s f \<Longrightarrow> observes f (known s)"
proof (induction rule: reads_api.induct)
  case (1 t f)
  then show ?case
    by (auto simp: known_def intro!: unit_observes intro: queries_observe [THEN observes_mono])
next
  case (2 e f)
  then show ?case
    by (auto simp: known_def intro: unit_observes event_stream_observe [THEN observes_mono])
next
  case (3 e x f)
  then show ?case
    by (auto simp: known_def intro: event_stream_observe [THEN observes_mono])
next
  case (4 e e')
  then show ?case
    by (auto simp: known_def intro!: unit_observes intro: event_stream_observe [THEN observes_mono])
next
  case (5 x f)
  then show ?case
    by (auto simp: known_def intro!: unit_observes intro: event_stream_observe [THEN observes_mono])
next
  case (6 t1 t2 t3 x f)
  then show ?case
    by (auto simp: known_def intro: out_operators_observe [THEN observes_mono])
next
  case (7 t1 t2 t3 x f n1 n2 n3)
  then show ?case
    by (auto simp: known_def intro: out_operators_observe [THEN observes_mono])
next
  case (8 t1 t2 t3 t4 t5 t6 t7 x f n1 n2)
  then show ?case
    by (auto simp: known_def intro: out_operators_observe [THEN observes_mono])
qed

lemma stream_handles_known: "st \<in> optional (ap_streams s) \<Longrightarrow> stream_handles st \<subseteq> known s"
  by (auto simp: optional_def known_def)

lemma tensor_known: "t \<in> set (ap_tensors s) \<Longrightarrow> (HTensor, t_handle t) \<in> known s"
  by (simp add: known_def)

lemma makers_make:
  assumes "fresh_engine en" and "makes_tensor en s f"
  shows "makes HTensor t_handle f (known s)"
  using assms(2)
proof cases
  case (1 vs sh dev)
  show ?thesis unfolding 1 by (rule makes_mono [OF constructors_make(1) [OF assms(1)]]) simp
next
  case (2 vs sh dev)
  show ?thesis unfolding 2 by (rule makes_mono [OF constructors_make(2) [OF assms(1)]]) simp
next
  case (3 p b sh sr dt dev ow)
  show ?thesis unfolding 3 by (rule makes_mono [OF constructors_make(3) [OF assms(1)]]) simp
next
  case (4 t dev)
  show ?thesis unfolding 4(1) by (rule makes_mono [OF constructors_make(4) [OF assms(1)]]) (simp add: 4 tensor_known)
next
  case (5 l r st)
  show ?thesis unfolding 5(1)
    by (rule makes_mono [OF operators_make(1) [OF assms(1)]]) (simp add: 5 tensor_known stream_handles_known)
next
  case (6 l r st)
  show ?thesis unfolding 6(1)
    by (rule makes_mono [OF operators_make(2) [OF assms(1)]]) (simp add: 6 tensor_known stream_handles_known)
next
  case (7 l r st)
  show ?thesis unfolding 7(1)
    by (rule makes_mono [OF operators_make(3) [OF assms(1)]]) (simp add: 7 tensor_known stream_handles_known)
next
  case (8 l st)
  show ?thesis unfolding 8(1)
    by (rule makes_mono [OF operators_make(4) [OF assms(1)]]) (simp add: 8 tensor_known stream_handles_known)
qed

lemma balanced_raises:
  assumes "makes k hnd f H" and "H \<subseteq> known s" and "f (ap_calls s) = (Inl e, tr)" and "balanced s"
  shows "balanced (s\<lparr>ap_calls := tr\<rparr>)"
proof -
  note m = makesD [OF makes_mono [OF assms(1,2)] assms(3) _ balanced_known [OF assms(4)]]
  have "proper (ap_calls s)" using assms(4) by (simp add: balanced_def)
  from m(1) [OF this] m(2) [OF this] m(3) [OF this refl] have "proper tr" "\<And>k'. live k' tr = live k' (ap_calls s)"
    by metis+
  then show ?thesis using assms(4) by (simp add: balanced_def)
qed

lemma balanced_step:
  assumes "fresh_engine en" and "api_step en s s'" and bal: "balanced s"
  shows "balanced s'"
proof -
  have p: "proper (ap_calls s)" and k: "handles_ok (ap_calls s) (known s)"
    using bal balanced_known by (auto simp: balanced_def)
  from assms(2) show ?thesis
  proof cases
    case (new_tensor f t tr)
    note m = makesD [OF makers_make [OF assms(1) new_tensor(2)] new_tensor(3) p k]
    show ?thesis using bal m(1) m(2) [of HEvent] m(2) [of HStream] m(4) [OF refl] accounted_new [of t_handle "ap_tensors s" "live HTensor (ap_calls s)" t]
      unfolding new_tensor(1) balanced_def by simp
  next
    case (new_tensor_raises f e tr)
    show ?thesis unfolding new_tensor_raises(1)
      by (rule balanced_raises [OF makers_make [OF assms(1) new_tensor_raises(2)] _ new_tensor_raises(3) bal]) simp
  next
    case (new_event dev b x tr)
    have k0: "handles_ok (ap_calls s) {}" by (simp add: handles_ok_def)
    note m = makesD [OF event_stream_make(1) [OF assms(1)] new_event(2) p k0]
    show ?thesis using bal m(1) m(2) [of HTensor] m(2) [of HStream] m(4) [OF refl] accounted_new [of ev_handle "ap_events s" "live HEvent (ap_calls s)" x]
      unfolding new_event(1) balanced_def by simp
  next
    case (new_event_raises dev b e tr)
    show ?thesis unfolding new_event_raises(1)
      by (rule balanced_raises [OF event_stream_make(1) [OF assms(1)] _ new_event_raises(2) bal]) simp
  next
    case (new_stream f dev b n x tr)
    have k0: "handles_ok (ap_calls s) {}" by (simp add: handles_ok_def)
    have "makes HStream st_handle f {}" using new_stream(2) event_stream_make(2,3) [OF assms(1)] by auto
    note m = makesD [OF this new_stream(3) p k0]
    show ?thesis using bal m(1) m(2) [of HTensor] m(2) [of HEvent] m(4) [OF refl] accounted_new [of st_handle "ap_streams s" "live HStream (ap_calls s)" x]
      unfolding new_stream(1) balanced_def by simp
  next
    case (new_stream_raises f dev b n e tr)
    have "makes HStream st_handle f {}" using new_stream_raises(2) event_stream_make(2,3) [OF assms(1)] by auto
    from balanced_raises [OF this _ new_stream_raises(3) bal] show ?thesis
      unfolding new_stream_raises(1) by simp
  next
    case (read_only f r tr)
    show ?thesis using bal observesD [OF reads_observe [OF read_only(2)] read_only(3) p k]
      unfolding read_only(1) balanced_def by simp
  next
    case (close_tensor i t tr)
    have live: "t_handle (ap_tensors s ! i) = 0 \<or> t_handle (ap_tensors s ! i) \<in> live HTensor (ap_calls s)"
      using balanced_in(1) [OF bal] close_tensor(2) by simp
    have "t_handle t = 0" using tensor_resource.close_nulls [OF close_tensor(3)] by auto
    then show ?thesis
      using bal tensor_resource.close_proper [OF close_tensor(3) p live] accounted_close [of t_handle, OF _ close_tensor(2), of _ t]
      unfolding close_tensor(1) balanced_def by simp
  next
    case (close_event i x tr)
    have live: "ev_handle (ap_events s ! i) = 0 \<or> ev_handle (ap_events s ! i) \<in> live HEvent (ap_calls s)"
      using balanced_in(2) [OF bal] close_event(2) by simp
    have "ev_handle x = 0" using event_resource.close_nulls [OF close_event(3)] by auto
    then show ?thesis
      using bal event_resource.close_proper [OF close_event(3) p live] accounted_close [of ev_handle, OF _ close_event(2), of _ x]
      unfolding close_event(1) balanced_def by simp
  next
    case (close_stream i x tr)
    have live: "st_handle (ap_streams s ! i) = 0 \<or> st_handle (ap_streams s ! i) \<in> live HStream (ap_calls s)"
      using balanced_in(3) [OF bal] close_stream(2) by simp
    have "st_handle x = 0" using stream_resource.close_nulls [OF close_stream(3)] by auto
    then show ?thesis
      using bal stream_resource.close_proper [OF close_stream(3) p live] accounted_close [of st_handle, OF _ close_stream(2), of _ x]
      unfolding close_stream(1) balanced_def by simp
  qed
qed

lemma balanced_start: "balanced api_start"
  by (simp add: balanced_def api_start_def accounted_def held_def proper_Nil)

text \<open>
  C1. Over any session of wrapper calls on live or closed objects, with an engine whose allocations
  are fresh: every call passes only null or live handles (no use after free), every destroy passes a
  live one (no double free), and at every moment the engine's live tensors, events and streams are
  exactly the handles of the Python objects not closed yet, each owned by one object; so when all
  objects are closed nothing is leaked.
\<close>

theorem session_handles_safe:
  assumes "fresh_engine en" and "(api_step en)\<^sup>*\<^sup>* api_start s"
  shows "proper (ap_calls s) \<and>
    live HTensor (ap_calls s) = {t_handle t | t. t \<in> set (ap_tensors s) \<and> t_handle t \<noteq> 0} \<and>
    live HEvent (ap_calls s) = {ev_handle e | e. e \<in> set (ap_events s) \<and> ev_handle e \<noteq> 0} \<and>
    live HStream (ap_calls s) = {st_handle x | x. x \<in> set (ap_streams s) \<and> st_handle x \<noteq> 0} \<and>
    distinct (held t_handle (ap_tensors s))"
proof -
  have "balanced s"
    using assms(2) by (induction rule: rtranclp_induct) (auto intro: balanced_start balanced_step [OF assms(1)])
  then show ?thesis by (auto simp: balanced_def accounted_def held_def)
qed

text \<open>
  Closing is idempotent for tensors, events and streams: the second \<open>close\<close> (or the
  finalizer after a \<open>close\<close>) makes no engine call and leaves the object as it was, and a
  closed object's handle is null.
\<close>

theorem close_idempotent:
  "(tensor_close en t tr = (Inr t', tr') \<longrightarrow> t_handle t' = 0 \<and> tensor_close en t' tr' = (Inr t', tr')) \<and>
   (event_close en e tr = (Inr e', tr') \<longrightarrow> ev_handle e' = 0 \<and> event_close en e' tr' = (Inr e', tr')) \<and>
   (stream_close en s tr = (Inr s', tr') \<longrightarrow> st_handle s' = 0 \<and> stream_close en s' tr' = (Inr s', tr'))"
proof (intro conjI impI)
  assume t: "tensor_close en t tr = (Inr t', tr')"
  show "t_handle t' = 0" using tensor_resource.close_nulls [OF t] by auto
  show "tensor_close en t' tr' = (Inr t', tr')" by (rule tensor_resource.close_again [OF t])
next
  assume e: "event_close en e tr = (Inr e', tr')"
  show "ev_handle e' = 0" using event_resource.close_nulls [OF e] by auto
  show "event_close en e' tr' = (Inr e', tr')" by (rule event_resource.close_again [OF e])
next
  assume x: "stream_close en s tr = (Inr s', tr')"
  show "st_handle s' = 0" using stream_resource.close_nulls [OF x] by auto
  show "stream_close en s' tr' = (Inr s', tr')" by (rule stream_resource.close_again [OF x])
qed

section \<open>A concrete engine\<close>

text \<open>An engine that always succeeds and gives a handle larger than all before.\<close>

definition counting_reply :: "call list \<Rightarrow> reply" where
  "counting_reply tr = \<lparr>r_status = 0, r_ints = (\<lambda>_. 0), r_i64 = 2, r_size = 1, r_float = Fin 0,
      r_handle = Suc (sum_list (map (\<lambda>c. r_handle (c_reply c)) tr)), r_floats = [Fin 1, Fin 2], r_int_array = []\<rparr>"

definition counting_engine :: engine where
  "counting_engine = \<lparr>en_reply = (\<lambda>tr name cs. counting_reply tr), en_error = (\<lambda>_. None)\<rparr>"

lemma live_given: "h \<in> live k tr \<Longrightarrow> h \<le> sum_list (map (\<lambda>c. r_handle (c_reply c)) tr)"
  by (induction tr arbitrary: h rule: rev_induct) (force simp: live_step_def split: if_splits)+

lemma counting_fresh: "fresh_engine counting_engine"
  using live_given by (fastforce simp: fresh_engine_def counting_engine_def counting_reply_def)

lemma from_f32_counting:
  "\<exists>tr. from_f32 counting_engine [NF (Fin 1), NI 2] [NI 2] (DevEnum CPU) [] = (Inr \<lparr>t_handle = 1, t_owner = None\<rparr>, tr)"
proof -
  have "float_of_int 2 = Inr (Fin 2)" by code_simp
  moreover have "map_of signatures ''ml_tensor_from_f32'' = Some [CRef BFloat, CRef BI64, c_size_t, c_int, c_int, new_tensor]"
    by (simp add: signature_tables)
  ultimately show ?thesis
    by (simp add: from_f32_def parse_device_def checked_def ccall_def bindS_def check_status_def counting_engine_def
        counting_reply_def Let_def tensor_new_def)
qed

theorem session_handles_safe_witness:
  "\<exists>s t. (api_step counting_engine)\<^sup>*\<^sup>* api_start s \<and> ap_tensors s = [t] \<and> t_handle t = 1 \<and>
     proper (ap_calls s) \<and> live HTensor (ap_calls s) = {1}"
proof -
  obtain tr where tr: "from_f32 counting_engine [NF (Fin 1), NI 2] [NI 2] (DevEnum CPU) [] = (Inr \<lparr>t_handle = 1, t_owner = None\<rparr>, tr)"
    using from_f32_counting by blast
  let ?s = "api_start\<lparr>ap_tensors := ap_tensors api_start @ [\<lparr>t_handle = 1, t_owner = None\<rparr>], ap_calls := tr\<rparr>"
  have "api_step counting_engine api_start ?s"
    by (rule new_tensor [OF makes_tensor.intros(1) [of _ _ "[NF (Fin 1), NI 2]" "[NI 2]" "DevEnum CPU"]])
      (use tr in \<open>simp add: api_start_def\<close>)
  then have r: "(api_step counting_engine)\<^sup>*\<^sup>* api_start ?s" by (rule r_into_rtranclp)
  have "proper (ap_calls ?s) \<and> live HTensor (ap_calls ?s) = {1}"
    using session_handles_safe [OF counting_fresh r] by (auto simp: api_start_def)
  then show ?thesis using r by (intro exI [of _ ?s]) (simp add: api_start_def)
qed

theorem close_idempotent_witness:
  "\<exists>t' tr'. tensor_close counting_engine \<lparr>t_handle = 5, t_owner = None\<rparr> [] = (Inr t', tr') \<and> t_handle t' = 0 \<and>
     tensor_close counting_engine t' tr' = (Inr t', tr')"
proof -
  obtain t' tr' where t: "tensor_close counting_engine \<lparr>t_handle = 5, t_owner = None\<rparr> [] = (Inr t', tr')"
    by (simp add: tensor_close_def ccall_def bindS_def destroy_signature Let_def)
  then show ?thesis using close_idempotent by blast
qed

end
