(* ===== verification/ProfileEvents.thy ===== *)
theory ProfileEvents imports ProfileScopes CapiLife begin

text \<open>
  \<open>HipEventProfileScope\<close> of \<open>profiling.py\<close>: a scope that brackets GPU work with
  two engine events, writes its record when the completion is waited for, and frees the events on
  \<open>close\<close>. It is built on the \<open>Event\<close> of theory \<open>Capi\<close>; its state is the
  scope object together with the process state and the calls made to the engine. The methods that take
  \<open>_completion_lock\<close> are atomic steps.
\<close>

section \<open>State\<close>

record hip_world = world +
  hw_calls :: "call list"

text \<open>
  The fields the class shares with \<open>ProfileScope\<close> are its \<open>hs_base\<close>. A future
  is pending (\<open>None\<close>) or holds what \<open>wait\<close> returned or raised.
\<close>

record hscope =
  hs_base :: pscope
  hs_device :: device_arg
  hs_stream :: "stream_obj option"
  hs_submission_finish_ns :: int
  hs_exception_type :: "string option"
  hs_start_event :: "event_obj option"
  hs_finish_event :: "event_obj option"
  hs_ready_at_submit :: bool
  hs_exited :: bool
  hs_record :: "pyval option"
  hs_closed :: bool
  hs_future :: "pyval py option option"
  hs_threads :: nat

type_synonym hip_state = "hscope \<times> hip_world"

definition hip_init ::
  "string \<Rightarrow> string \<Rightarrow> device_arg \<Rightarrow> string \<Rightarrow> string option \<Rightarrow> pydict option \<Rightarrow> bool
   \<Rightarrow> stream_obj option \<Rightarrow> string \<Rightarrow> string \<Rightarrow> hscope py" where
  "hip_init name output dev phase run_id metadata emit strm run_uuid span_uuid =
     bindE (scope_init name output phase run_id metadata emit run_uuid span_uuid) (\<lambda>base.
       Inr \<lparr>hs_base = base, hs_device = dev, hs_stream = strm, hs_submission_finish_ns = 0,
            hs_exception_type = None, hs_start_event = None, hs_finish_event = None,
            hs_ready_at_submit = False, hs_exited = False, hs_record = None, hs_closed = False,
            hs_future = None, hs_threads = 0\<rparr>)"

section \<open>Lifting the parts\<close>

definition on_engine :: "'a eng \<Rightarrow> (hip_state, 'a) action" where
  "on_engine f st = (case f (hw_calls (snd st)) of (r, tr) \<Rightarrow> (r, (fst st, (snd st)\<lparr>hw_calls := tr\<rparr>)))"

definition set_scope :: "(hscope \<Rightarrow> hscope) \<Rightarrow> (hip_state, unit) action" where
  "set_scope g st = (Inr (), (g (fst st), snd st))"

definition tick :: "foreign \<Rightarrow> (hip_state, int) action" where
  "tick fx st = (case read_clock fx (snd st) of (t, w) \<Rightarrow> (Inr t, (fst st, w)))"

definition on_base :: "(hip_world \<Rightarrow> pscope \<Rightarrow> pscope py \<times> hip_world) \<Rightarrow> (hip_state, unit) action" where
  "on_base f st =
     (case f (snd st) (hs_base (fst st)) of
        (Inl e, w) \<Rightarrow> (Inl e, (fst st, w))
      | (Inr b, w) \<Rightarrow> (Inr (), ((fst st)\<lparr>hs_base := b\<rparr>, w)))"

text \<open>\<open>except Exception\<close> does not catch \<open>SystemExit\<close>.\<close>

fun is_exception :: "pyexn \<Rightarrow> bool" where
  "is_exception (SystemExit _) = False"
| "is_exception _ = True"

section \<open>Enter\<close>

text \<open>Both handles are closed; \<open>close\<close> of an event does not raise.\<close>

definition close_event_option :: "engine \<Rightarrow> event_obj option \<Rightarrow> event_obj option eng" where
  "close_event_option en e =
     (case e of None \<Rightarrow> liftS (Inl AttributeError) | Some x \<Rightarrow> bindS (event_close en x) (\<lambda>y. retS (Some y)))"

definition close_events :: "engine \<Rightarrow> (hip_state, unit) action" where
  "close_events en st =
     bindS (on_engine (close_event_option en (hs_start_event (fst st)))) (\<lambda>a.
     bindS (set_scope (\<lambda>s. s\<lparr>hs_start_event := a\<rparr>)) (\<lambda>_.
     bindS (on_engine (close_event_option en (hs_finish_event (fst st)))) (\<lambda>b.
     set_scope (\<lambda>s. s\<lparr>hs_finish_event := b\<rparr>)))) st"

definition record_event :: "engine \<Rightarrow> event_obj option \<Rightarrow> stream_obj option \<Rightarrow> unit eng" where
  "record_event en e strm =
     (case e of None \<Rightarrow> liftS (Inl AttributeError)
      | Some x \<Rightarrow> (case strm of None \<Rightarrow> event_record_default_stream en x | Some s \<Rightarrow> event_record en x s))"

definition finish_roctx_range :: "foreign \<Rightarrow> (hip_state, unit) action" where
  "finish_roctx_range fx st =
     (if \<not> sc_roctx_emitted (hs_base (fst st)) \<or> sc_pop_before (hs_base (fst st)) \<noteq> None then (Inr (), st)
      else on_base (exit_roctx fx) st)"

text \<open>\<open>_DEPTH.reset(self._token); self._token = None\<close>.\<close>

definition reset_token :: "(hip_state, unit) action" where
  "reset_token st =
     (case sc_token (hs_base (fst st)) of
        None \<Rightarrow> (Inl TypeError, st)
      | Some t \<Rightarrow> (case reset_depth (snd st) t of
          Inl e \<Rightarrow> (Inl e, st)
        | Inr w \<Rightarrow> (Inr (), ((fst st)\<lparr>hs_base := (hs_base (fst st))\<lparr>sc_token := None\<rparr>\<rparr>, w))))"

definition hip_create_events :: "engine \<Rightarrow> (hip_state, unit) action" where
  "hip_create_events en st =
     bindS (on_engine (event_init en (hs_device (fst st)) True)) (\<lambda>a.
     bindS (set_scope (\<lambda>s. s\<lparr>hs_start_event := Some a\<rparr>)) (\<lambda>_.
     bindS (on_engine (event_init en (hs_device (fst st)) True)) (\<lambda>b.
     bindS (set_scope (\<lambda>s. s\<lparr>hs_finish_event := Some b\<rparr>)) (\<lambda>_.
     if fst (ev_device a) \<noteq> HIP
     then bindS (close_events en) (\<lambda>_. liftS (Inl (ValueError ''HIP Event profiling requires a HIP device'')))
     else retS ())))) st"

definition hip_enter :: "foreign \<Rightarrow> engine \<Rightarrow> (hip_state, unit) action" where
  "hip_enter fx en =
     bindS (hip_create_events en) (\<lambda>_.
     bindS (on_base (scope_enter fx)) (\<lambda>_ st.
       catchS is_exception
         (on_engine (record_event en (hs_start_event (fst st)) (hs_stream (fst st))))
         (\<lambda>e. bindS (finish_roctx_range fx) (\<lambda>_. bindS reset_token (\<lambda>_. bindS (close_events en) (\<lambda>_. liftS (Inl e)))))
         st))"

section \<open>Wait, ready, close\<close>

definition event_of :: "event_obj option \<Rightarrow> event_obj py" where
  "event_of e = need AttributeError e"

definition elapsed_ns :: "pyfloat \<Rightarrow> int py" where
  "elapsed_ns ms = round_float (fmul ms (Fin 1000000))"

definition hip_record :: "foreign \<Rightarrow> hscope \<Rightarrow> int \<Rightarrow> int \<Rightarrow> int \<Rightarrow> pyval" where
  "hip_record fx s observer completion elapsed =
     (let b = hs_base s in
      VDict [(''schema_version'', VInt 1),
             (''framework'', VStr ''microllm-python''),
             (''record_type'', VStr ''python_profile_span''),
             (''run_id'', VStr (sc_run_id b)),
             (''phase'', VStr (sc_phase b)),
             (''kind'', VStr ''hip_event_completion_span''),
             (''name'', VStr (sc_name b)),
             (''span_id'', VStr (sc_span_id b)),
             (''depth'', VInt (sc_depth b)),
             (''process_id'', VInt (fx_pid fx)),
             (''thread_id'', VInt (fx_thread fx)),
             (''native_thread_id'', VInt (fx_native_thread fx)),
             (''start_ns'', VInt (sc_start_ns b)),
             (''duration_ns'', VInt (completion - sc_start_ns b)),
             (''submission_duration_ns'', VInt (hs_submission_finish_ns s - sc_start_ns b)),
             (''completion_observed_ns'', VInt completion),
             (''completion_observer_native_thread_id'', VInt observer),
             (''device_elapsed_ns'', VInt elapsed),
             (''event_ready_at_submit'', VBool (hs_ready_at_submit s)),
             (''synchronization_scope'',
                VStr (if hs_stream s = None then ''hip_event_default_stream'' else ''hip_event_explicit_stream'')),
             (''status'', VStr (if hs_exception_type s \<noteq> None \<and> hs_exception_type s \<noteq> Some [] then ''error'' else ''pass'')),
             (''exception_type'', opt_str (hs_exception_type s)),
             (''metadata'', VDict (sc_metadata b)),
             (''roctx_requested'', VBool (sc_emit_roctx b)),
             (''roctx_emitted'', VBool (sc_roctx_emitted b)),
             (''roctx_status'', VStr (sc_roctx_status b)),
             (''roctx_range_name'', opt_str (sc_range_name b)),
             (''roctx_push_before_ns'', opt_int (sc_push_before b)),
             (''roctx_push_after_ns'', opt_int (sc_push_after b)),
             (''roctx_pop_before_ns'', opt_int (sc_pop_before b)),
             (''roctx_pop_after_ns'', opt_int (sc_pop_after b))])"

definition append_record :: "foreign \<Rightarrow> string \<Rightarrow> pyval \<Rightarrow> (hip_state, unit) action" where
  "append_record fx path v st =
     (case append_line fx (snd st) path v of (r, w) \<Rightarrow> (r, (fst st, w)))"

definition completion_record ::
  "foreign \<Rightarrow> engine \<Rightarrow> int \<Rightarrow> hscope \<Rightarrow> event_obj \<Rightarrow> event_obj \<Rightarrow> (hip_state, pyval) action" where
  "completion_record fx en observer s start finish =
     bindS (on_engine (event_synchronize en finish)) (\<lambda>_.
     bindS (tick fx) (\<lambda>completion.
     bindS (on_engine (event_elapsed_ms_since en finish start)) (\<lambda>ms.
     bindS (liftS (elapsed_ns ms)) (\<lambda>elapsed.
     retS (hip_record fx s observer completion elapsed)))))"

definition hip_wait :: "foreign \<Rightarrow> engine \<Rightarrow> int \<Rightarrow> (hip_state, pyval) action" where
  "hip_wait fx en observer st =
     (case (hs_exited (fst st), hs_start_event (fst st), hs_finish_event (fst st)) of
        (True, Some start, Some finish) \<Rightarrow>
          (case hs_record (fst st) of
             Some v \<Rightarrow> (Inr v, st)
           | None \<Rightarrow>
               bindS (completion_record fx en observer (fst st) start finish) (\<lambda>v.
               bindS (append_record fx (sc_output (hs_base (fst st))) v) (\<lambda>_.
               bindS (set_scope (\<lambda>s. s\<lparr>hs_record := Some v\<rparr>)) (\<lambda>_.
               retS v))) st)
      | _ \<Rightarrow> (Inl (RuntimeError ''HIP Event profile scope has not finished submission''), st))"

definition hip_ready :: "engine \<Rightarrow> (hip_state, bool) action" where
  "hip_ready en st =
     (case (hs_exited (fst st), hs_finish_event (fst st)) of
        (True, Some finish) \<Rightarrow>
          if hs_record (fst st) \<noteq> None then (Inr True, st) else on_engine (event_ready en finish) st
      | _ \<Rightarrow> (Inl (RuntimeError ''HIP Event profile scope has not submitted its finish Event''), st))"

definition hip_close :: "engine \<Rightarrow> (hip_state, unit) action" where
  "hip_close en st =
     (if hs_record (fst st) = None then (Inl (RuntimeError ''wait for HIP Event completion before closing''), st)
      else if hs_closed (fst st) then (Inr (), st)
      else if hs_start_event (fst st) = None \<or> hs_finish_event (fst st) = None
           then (Inl (RuntimeError ''HIP Event handles are unavailable''), st)
      else bindS (close_events en) (\<lambda>_. set_scope (\<lambda>s. s\<lparr>hs_closed := True\<rparr>)) st)"

section \<open>Exit\<close>

text \<open>The \<open>try\<close> body; \<open>ready_at_submit\<close> keeps its value when it raises.\<close>

definition submit_finish :: "engine \<Rightarrow> (hip_state, unit) action" where
  "submit_finish en st =
     bindS (on_engine (record_event en (hs_finish_event (fst st)) (hs_stream (fst st)))) (\<lambda>_.
     bindS (liftS (event_of (hs_finish_event (fst st)))) (\<lambda>e.
     bindS (on_engine (event_ready en e)) (\<lambda>b.
     set_scope (\<lambda>s. s\<lparr>hs_ready_at_submit := b\<rparr>)))) st"

definition hip_finally :: "foreign \<Rightarrow> string option \<Rightarrow> (hip_state, unit) action" where
  "hip_finally fx exc =
     bindS (finish_roctx_range fx) (\<lambda>_.
     bindS (tick fx) (\<lambda>t.
     bindS (set_scope (\<lambda>s. s\<lparr>hs_submission_finish_ns := t, hs_exception_type := exc\<rparr>)) (\<lambda>_.
     reset_token)))"

definition hip_exit :: "foreign \<Rightarrow> engine \<Rightarrow> string option \<Rightarrow> (hip_state, bool) action" where
  "hip_exit fx en exc st =
     (if sc_token (hs_base (fst st)) = None \<or> hs_finish_event (fst st) = None
      then (Inl (RuntimeError ''HIP Event profile scope exited before entering''), st)
      else
        bindS (finallyS
                (catchS is_exception (bindS (submit_finish en) (\<lambda>_. retS None)) (\<lambda>e. retS (Some e)))
                (hip_finally fx exc)) (\<lambda>finish_error.
        case finish_error of
          Some e \<Rightarrow> bindS (close_events en) (\<lambda>_. if exc = None then liftS (Inl e) else retS False)
        | None \<Rightarrow>
            bindS (set_scope (\<lambda>s. s\<lparr>hs_exited := True\<rparr>)) (\<lambda>_.
            bindS (if exc = None then retS ()
                   else catchS is_exception (bindS (hip_wait fx en (fx_native_thread fx)) (\<lambda>_. retS ())) (\<lambda>_. retS ()))
              (\<lambda>_. retS False))) st)"

section \<open>Observing from a thread\<close>

text \<open>
  \<open>observe_async\<close> starts one thread per scope; what that thread does is
  \<open>observer_step\<close>, some time later. It stores the result or the exception in the future.
\<close>

definition hip_observe_async :: "(hip_state, unit) action" where
  "hip_observe_async st =
     (if \<not> hs_exited (fst st) then (Inl (RuntimeError ''HIP Event profile scope has not finished submission''), st)
      else if hs_future (fst st) \<noteq> None then (Inr (), st)
      else set_scope (\<lambda>s. s\<lparr>hs_future := Some None, hs_threads := Suc (hs_threads s)\<rparr>) st)"

definition observer_step :: "foreign \<Rightarrow> engine \<Rightarrow> int \<Rightarrow> hip_state \<Rightarrow> hip_state" where
  "observer_step fx en observer st =
     (case hs_future (fst st) of
        Some None \<Rightarrow> (case hip_wait fx en observer st of (r, (s, w)) \<Rightarrow> (s\<lparr>hs_future := Some (Some r)\<rparr>, w))
      | _ \<Rightarrow> st)"

section \<open>What each part leaves alone\<close>

definition keeps :: "('s \<Rightarrow> 'b) \<Rightarrow> ('s, 'a) action \<Rightarrow> bool" where
  "keeps p f \<longleftrightarrow> (\<forall>st. p (snd (f st)) = p st)"

lemma keepsD: "keeps p f \<Longrightarrow> p (snd (f st)) = p st" and keepsE: "keeps p f \<Longrightarrow> f st = (r, st') \<Longrightarrow> p st' = p st"
  unfolding keeps_def by auto (metis snd_conv)

lemma keeps_bind [intro]: "keeps p m \<Longrightarrow> (\<And>x. keeps p (f x)) \<Longrightarrow> keeps p (bindS m f)"
  unfolding keeps_def bindS_def by (auto split: prod.splits sum.splits) (metis snd_conv)+

lemma keeps_basic [intro!, simp]: "keeps p (retS x)" "keeps p (liftS r)"
  by (simp_all add: keeps_def)

lemma keeps_if [intro]: "keeps p f \<Longrightarrow> keeps p g \<Longrightarrow> keeps p (if b then f else g)"
  by simp

lemma keeps_catch [intro]: "keeps p m \<Longrightarrow> (\<And>e. keeps p (h e)) \<Longrightarrow> keeps p (catchS c m h)"
  unfolding keeps_def catchS_def by (auto split: prod.splits sum.splits) (metis snd_conv)+

lemma keeps_set [intro]: "(\<And>st. p (g (fst st), snd st) = p st) \<Longrightarrow> keeps p (set_scope g)"
  by (simp add: keeps_def set_scope_def)

text \<open>
  \<open>core\<close>: the parts of the state that no engine call and no event field touches.
\<close>

definition core :: "hip_state \<Rightarrow> int \<times> (string \<Rightarrow> pyval list) \<times> pscope \<times> bool \<times> pyval option \<times> pyval py option option \<times> nat" where
  "core st = (depth_var (snd st), lines_of (snd st), hs_base (fst st), hs_exited (fst st), hs_record (fst st),
     hs_future (fst st), hs_threads (fst st))"

lemma keeps_on_engine [intro!, simp]: "keeps core (on_engine f)"
  by (simp add: keeps_def core_def on_engine_def split: prod.splits)

lemma keeps_tick [intro!, simp]: "keeps core (tick fx)"
  by (simp add: keeps_def core_def tick_def read_clock_def)

lemma close_events_core [intro!, simp]: "keeps core (close_events en)"
proof -
  have "keeps core (bindS (on_engine (close_event_option en a)) (\<lambda>a.
     bindS (set_scope (\<lambda>s. s\<lparr>hs_start_event := a\<rparr>)) (\<lambda>_.
     bindS (on_engine (close_event_option en b)) (\<lambda>b.
     set_scope (\<lambda>s. s\<lparr>hs_finish_event := b\<rparr>)))))" for a b
    by (intro keeps_bind keeps_set keeps_on_engine) (simp_all add: core_def)
  then show ?thesis by (simp add: keeps_def close_events_def)
qed

lemma create_events_core [intro!, simp]: "keeps core (hip_create_events en)"
proof -
  have "keeps core (bindS (on_engine (event_init en d True)) (\<lambda>a.
     bindS (set_scope (\<lambda>s. s\<lparr>hs_start_event := Some a\<rparr>)) (\<lambda>_.
     bindS (on_engine (event_init en d True)) (\<lambda>b.
     bindS (set_scope (\<lambda>s. s\<lparr>hs_finish_event := Some b\<rparr>)) (\<lambda>_.
     if fst (ev_device a) \<noteq> HIP
     then bindS (close_events en) (\<lambda>_. liftS (Inl (ValueError ''HIP Event profiling requires a HIP device'')))
     else retS ())))))" for d
    by (intro keeps_bind keeps_set keeps_on_engine keeps_if close_events_core keeps_basic) (simp_all add: core_def)
  then show ?thesis by (simp add: keeps_def hip_create_events_def)
qed

lemma set_scope_simps: "set_scope g st = (Inr (), (g (fst st), snd st))"
  by (simp add: set_scope_def)

lemma on_engine_eq:
  "on_engine f st = (r, st') \<longleftrightarrow> (\<exists>tr. f (hw_calls (snd st)) = (r, tr) \<and> st' = (fst st, (snd st)\<lparr>hw_calls := tr\<rparr>))"
  by (cases "f (hw_calls (snd st))") (auto simp: on_engine_def)

lemma create_events_some:
  "hip_create_events en st = (Inr u, st') \<Longrightarrow> hs_start_event (fst st') \<noteq> None \<and> hs_finish_event (fst st') \<noteq> None"
  by (auto simp: hip_create_events_def bindS_Inr set_scope_def on_engine_eq split: if_splits)

lemma finish_range_tame:
  assumes "tame fx"
  shows "\<exists>st'. finish_roctx_range fx st = (Inr (), st') \<and> depth_var (snd st') = depth_var (snd st) \<and>
    lines_of (snd st') = lines_of (snd st) \<and> sc_token (hs_base (fst st')) = sc_token (hs_base (fst st)) \<and>
    hs_start_event (fst st') = hs_start_event (fst st) \<and> hs_finish_event (fst st') = hs_finish_event (fst st) \<and>
    hs_record (fst st') = hs_record (fst st) \<and> sc_output (hs_base (fst st')) = sc_output (hs_base (fst st))"
proof (cases "\<not> sc_roctx_emitted (hs_base (fst st)) \<or> sc_pop_before (hs_base (fst st)) \<noteq> None")
  case True
  then show ?thesis by (intro exI [of _ st]) (auto simp: finish_roctx_range_def)
next
  case False
  obtain b w where "exit_roctx fx (snd st) (hs_base (fst st)) = (Inr b, w)" "scope_frame (snd st) (hs_base (fst st)) w b"
    using exit_roctx_frame [OF assms] by blast
  then show ?thesis using False
    by (intro exI [of _ "((fst st)\<lparr>hs_base := b\<rparr>, w)"]) (auto simp: finish_roctx_range_def on_base_def scope_frame_def)
qed

text \<open>An engine call raises an \<open>Exception\<close>, never \<open>SystemExit\<close>.\<close>

lemma marshal_exception: "marshal t a = Inl e \<Longrightarrow> is_exception e"
  by (induction t a rule: marshal.induct) (auto split: if_splits)

lemma marshal_all_exception: "marshal_all ts as = Inl e \<Longrightarrow> is_exception e"
  by (induction ts as rule: marshal_all.induct) (auto simp: bindE_Inl_iff dest: marshal_exception)

lemma checked_exception: "checked en name args tr = (Inl e, tr') \<Longrightarrow> is_exception e"
  by (auto simp: checked_def ccall_def bindS_Inl check_status_def Let_def marshal_all_exception
      split: option.splits sum.splits if_splits)

lemma record_event_exception: "record_event en e strm tr = (Inl x, tr') \<Longrightarrow> is_exception x"
  by (auto simp: record_event_def event_record_def event_record_default_stream_def bindS_Inl checked_exception
      split: option.splits)

lemma on_engine_Inl: "on_engine f st = (Inl e, st') \<Longrightarrow> \<exists>tr. f (hw_calls (snd st)) = (Inl e, tr)"
  by (auto simp: on_engine_eq)

section \<open>The depth is restored\<close>

text \<open>The scope and the process state as the two parts a \<open>with\<close> block sees.\<close>

definition hip_enter_with :: "foreign \<Rightarrow> engine \<Rightarrow> hip_world \<Rightarrow> hscope \<Rightarrow> hscope py \<times> hip_world" where
  "hip_enter_with fx en w s =
     (case hip_enter fx en (s, w) of (Inl e, (s', w')) \<Rightarrow> (Inl e, w') | (Inr u, (s', w')) \<Rightarrow> (Inr s', w'))"

definition hip_exit_with :: "foreign \<Rightarrow> engine \<Rightarrow> hip_world \<Rightarrow> hscope \<Rightarrow> string option \<Rightarrow> (bool \<times> hscope) py \<times> hip_world" where
  "hip_exit_with fx en w s exc =
     (case hip_exit fx en exc (s, w) of (Inl e, (s', w')) \<Rightarrow> (Inl e, w') | (Inr b, (s', w')) \<Rightarrow> (Inr (b, s'), w'))"

definition hip_owes :: "foreign \<Rightarrow> hscope \<Rightarrow> int \<Rightarrow> bool" where
  "hip_owes fx s d \<longleftrightarrow> tame fx \<and> sc_token (hs_base s) = Some \<lparr>token_old = d, token_used = False\<rparr> \<and> hs_finish_event s \<noteq> None"

lemma hip_enter_depth:
  assumes tame: "tame fx" and run: "hip_enter fx en st = (r, st')"
  shows "case r of Inl e \<Rightarrow> depth_var (snd st') = depth_var (snd st)
    | Inr u \<Rightarrow> depth_var (snd st') = depth_var (snd st) + 1 \<and> hip_owes fx (fst st') (depth_var (snd st))"
proof -
  obtain q st1 where c: "hip_create_events en st = (q, st1)" by (meson surj_pair)
  have core1: "core st1 = core st" by (rule keepsE [OF create_events_core c])
  show ?thesis
  proof (cases q)
    case (Inl e)
    then show ?thesis using run c core1 by (auto simp: hip_enter_def bindS_def core_def)
  next
    case (Inr u)
    obtain b w2 where b: "scope_enter fx (snd st1) (hs_base (fst st1)) = (Inr b, w2)"
      and frame: "scope_frame ((snd st1)\<lparr>depth_var := depth_var (snd st1) + 1, reads := Suc (reads (snd st1))\<rparr>)
        ((hs_base (fst st1))\<lparr>sc_depth := depth_var (snd st1), sc_token := Some \<lparr>token_old = depth_var (snd st1), token_used = False\<rparr>,
         sc_start_ns := fx_clock fx (reads (snd st1))\<rparr>) w2 b"
      using scope_enter_ok [OF tame] by blast
    define st2 where "st2 = ((fst st1)\<lparr>hs_base := b\<rparr>, w2)"
    have st2: "depth_var (snd st2) = depth_var (snd st) + 1" "hip_owes fx (fst st2) (depth_var (snd st))"
      using frame core1 create_events_some [OF c [unfolded Inr]] tame
      by (auto simp: st2_def scope_frame_def hip_owes_def core_def)
    obtain p st3 where e: "on_engine (record_event en (hs_start_event (fst st2)) (hs_stream (fst st2))) st2 = (p, st3)" by (meson surj_pair)
    have core3: "core st3 = core st2" by (rule keepsE [OF keeps_on_engine e])
    have fin3: "hs_finish_event (fst st3) = hs_finish_event (fst st2)" using e by (auto simp: on_engine_eq)
    have run': "catchS is_exception (on_engine (record_event en (hs_start_event (fst st2)) (hs_stream (fst st2))))
         (\<lambda>e. bindS (finish_roctx_range fx) (\<lambda>_. bindS reset_token (\<lambda>_. bindS (close_events en) (\<lambda>_. liftS (Inl e))))) st2 = (r, st')"
      using run c Inr b by (simp add: hip_enter_def bindS_def on_base_def st2_def)
    show ?thesis
    proof (cases p)
      case (Inr v)
      then show ?thesis using run' e core3 st2 fin3 by (auto simp: catchS_def hip_owes_def core_def)
    next
      case (Inl x)
      have exc: "is_exception x" using on_engine_Inl [OF e [unfolded Inl]] record_event_exception by blast
      obtain st4 where f: "finish_roctx_range fx st3 = (Inr (), st4)" and f4: "depth_var (snd st4) = depth_var (snd st3)"
          "sc_token (hs_base (fst st4)) = sc_token (hs_base (fst st3))"
        using finish_range_tame [OF tame, of st3] by blast
      have tok: "sc_token (hs_base (fst st4)) = Some \<lparr>token_old = depth_var (snd st), token_used = False\<rparr>"
        using f4(2) core3 st2(2) by (simp add: core_def hip_owes_def)
      obtain st5 where t: "reset_token st4 = (Inr (), st5)" "depth_var (snd st5) = depth_var (snd st)"
        using tok by (simp add: reset_token_def reset_depth_def)
      obtain g st6 where cl: "close_events en st5 = (g, st6)" by (meson surj_pair)
      have "core st6 = core st5" by (rule keepsE [OF close_events_core cl])
      moreover have "st' = st6 \<and> (\<exists>y. r = Inl y)"
        using run' e Inl exc f t(1) cl by (cases g) (auto simp: catchS_def bindS_def)
      ultimately show ?thesis using t(2) by (auto simp: core_def)
    qed
  qed
qed

lemma reset_token_ok:
  "sc_token (hs_base (fst st)) = Some \<lparr>token_old = d, token_used = False\<rparr> \<Longrightarrow>
   reset_token st = (Inr (), ((fst st)\<lparr>hs_base := (hs_base (fst st))\<lparr>sc_token := None\<rparr>\<rparr>, (snd st)\<lparr>depth_var := d\<rparr>))"
  by (simp add: reset_token_def reset_depth_def)

lemma hip_finally_tame:
  assumes "tame fx" and "sc_token (hs_base (fst st)) = Some \<lparr>token_old = d, token_used = False\<rparr>"
  shows "\<exists>st'. hip_finally fx exc st = (Inr (), st') \<and> depth_var (snd st') = d \<and> lines_of (snd st') = lines_of (snd st) \<and>
    hs_start_event (fst st') = hs_start_event (fst st) \<and> hs_finish_event (fst st') = hs_finish_event (fst st) \<and>
    hs_record (fst st') = hs_record (fst st) \<and> hs_exception_type (fst st') = exc \<and>
    sc_output (hs_base (fst st')) = sc_output (hs_base (fst st))"
proof -
  obtain st1 where f: "finish_roctx_range fx st = (Inr (), st1)" "depth_var (snd st1) = depth_var (snd st)"
    "lines_of (snd st1) = lines_of (snd st)" "sc_token (hs_base (fst st1)) = sc_token (hs_base (fst st))"
    "hs_start_event (fst st1) = hs_start_event (fst st)" "hs_finish_event (fst st1) = hs_finish_event (fst st)"
    "hs_record (fst st1) = hs_record (fst st)" "sc_output (hs_base (fst st1)) = sc_output (hs_base (fst st))"
    using finish_range_tame [OF assms(1)] by blast
  then show ?thesis using assms(2)
    by (simp add: hip_finally_def bindS_def tick_def read_clock_def set_scope_def reset_token_ok [where d = d])
qed

lemma append_record_depth [intro!, simp]: "keeps (\<lambda>st. depth_var (snd st)) (append_record fx path v)"
  by (auto simp: keeps_def append_record_def case_prod_beta)

lemma keeps_depth [intro!, simp]:
  "keeps (\<lambda>st. depth_var (snd st)) (on_engine f)" "keeps (\<lambda>st. depth_var (snd st)) (tick fx)"
  "keeps (\<lambda>st. depth_var (snd st)) (set_scope g)" "keeps (\<lambda>st. depth_var (snd st)) (close_events en)"
  using keeps_on_engine [of f] keeps_tick [of fx] close_events_core [of en]
  by (auto simp: keeps_def core_def set_scope_def)

lemma completion_keeps:
  "(\<And>f :: unit eng. keeps p (on_engine f)) \<Longrightarrow> (\<And>f :: pyfloat eng. keeps p (on_engine f)) \<Longrightarrow> keeps p (tick fx) \<Longrightarrow>
   keeps p (completion_record fx en observer s start finish)"
  unfolding completion_record_def by (intro keeps_bind keeps_basic) auto

lemma hip_wait_depth [intro!, simp]: "keeps (\<lambda>st. depth_var (snd st)) (hip_wait fx en observer)"
proof -
  have "keeps (\<lambda>st. depth_var (snd st)) (bindS (completion_record fx en observer s start finish) (\<lambda>v.
               bindS (append_record fx path v) (\<lambda>_.
               bindS (set_scope (\<lambda>s. s\<lparr>hs_record := Some v\<rparr>)) (\<lambda>_.
               retS v))))" for finish start s path
    by (intro keeps_bind completion_keeps append_record_depth keeps_depth keeps_basic)
  then show ?thesis by (auto simp: keeps_def hip_wait_def split: bool.splits option.splits)
qed

lemma hip_exit_depth:
  assumes "hip_owes fx (fst st) d" and run: "hip_exit fx en exc st = (r, st')"
  shows "depth_var (snd st') = d"
proof -
  have tame: "tame fx" and tok: "sc_token (hs_base (fst st)) = Some \<lparr>token_old = d, token_used = False\<rparr>"
    and fin: "hs_finish_event (fst st) \<noteq> None" using assms(1) by (auto simp: hip_owes_def)
  let ?run = "catchS is_exception (bindS (submit_finish en) (\<lambda>_. retS None)) (\<lambda>e. retS (Some e))"
  have "keeps core (submit_finish en)"
  proof -
    have "keeps core (bindS (on_engine (record_event en f s)) (\<lambda>_. bindS (liftS (event_of f)) (\<lambda>e.
       bindS (on_engine (event_ready en e)) (\<lambda>b. set_scope (\<lambda>s. s\<lparr>hs_ready_at_submit := b\<rparr>)))))" for f s
      by (intro keeps_bind keeps_set keeps_on_engine keeps_basic) (simp_all add: core_def)
    then show ?thesis by (simp add: keeps_def submit_finish_def)
  qed
  then have keep: "keeps core ?run" by (intro keeps_catch keeps_bind keeps_basic)
  obtain q st1 where t: "?run st = (q, st1)" by (meson surj_pair)
  have core1: "core st1 = core st" by (rule keepsE [OF keep t])
  then have "sc_token (hs_base (fst st1)) = Some \<lparr>token_old = d, token_used = False\<rparr>" using tok by (simp add: core_def)
  then obtain st2 where f: "hip_finally fx exc st1 = (Inr (), st2)" "depth_var (snd st2) = d"
    using hip_finally_tame [OF tame] by blast
  have fin2: "finallyS ?run (hip_finally fx exc) st = (q, st2)" using t f by (simp add: finallyS_def)
  let ?rest = "\<lambda>finish_error. case finish_error of
          Some e \<Rightarrow> bindS (close_events en) (\<lambda>_. if exc = None then liftS (Inl e) else retS False)
        | None \<Rightarrow>
            bindS (set_scope (\<lambda>s. s\<lparr>hs_exited := True\<rparr>)) (\<lambda>_.
            bindS (if exc = None then retS ()
                   else catchS is_exception (bindS (hip_wait fx en (fx_native_thread fx)) (\<lambda>_. retS ())) (\<lambda>_. retS ()))
              (\<lambda>_. retS False))"
  have "keeps (\<lambda>st. depth_var (snd st)) (?rest e)" for e
    by (cases e) (auto simp only: option.case intro!: keeps_bind keeps_depth keeps_basic keeps_if keeps_catch hip_wait_depth)
  moreover have "bindS (finallyS ?run (hip_finally fx exc)) ?rest st = (r, st')"
    using run tok fin by (simp add: hip_exit_def)
  ultimately show ?thesis
    using fin2 f(2) by (cases q) (auto simp: bindS_def dest: keepsE)
qed

lemma hip_exit_False: "hip_exit fx en exc st = (Inr b, st') \<Longrightarrow> \<not> b"
  by (auto simp: hip_exit_def bindS_Inr split: if_splits option.splits)

interpretation hip_guard: depth_guard depth_var "hip_enter_with fx en" "hip_exit_with fx en" "\<lambda>_. tame fx" "hip_owes fx"
  for fx :: foreign and en :: engine
proof
  fix s s' :: hscope and w w' :: hip_world and e exc d b
  show "tame fx \<Longrightarrow> hip_enter_with fx en w s = (Inr s', w') \<Longrightarrow> hip_owes fx s' (depth_var w) \<and> depth_var w' = depth_var w + 1"
    using hip_enter_depth [of fx en "(s, w)"] by (auto simp: hip_enter_with_def split: prod.splits sum.splits)
  show "tame fx \<Longrightarrow> hip_enter_with fx en w s = (Inl e, w') \<Longrightarrow> depth_var w' = depth_var w"
    using hip_enter_depth [of fx en "(s, w)"] by (auto simp: hip_enter_with_def split: prod.splits sum.splits)
  show "hip_owes fx s d \<Longrightarrow> depth_var (snd (hip_exit_with fx en w s exc)) = d"
    using hip_exit_depth [of fx "(s, w)" d en exc] by (auto simp: hip_exit_with_def split: prod.splits sum.splits)
  show "hip_exit_with fx en w s exc = (Inr (b, s'), w') \<Longrightarrow> \<not> b"
    using hip_exit_False [of fx en exc "(s, w)"] by (auto simp: hip_exit_with_def split: prod.splits sum.splits)
qed

section \<open>After the block\<close>

text \<open>What can be done with a scope whose block has ended, in any order and from any thread.\<close>

datatype hip_op = OpWait int | OpReady | OpClose | OpObserve | OpObserver int

fun hip_run :: "foreign \<Rightarrow> engine \<Rightarrow> hip_state \<Rightarrow> hip_op \<Rightarrow> hip_state" where
  "hip_run fx en st (OpWait t) = snd (hip_wait fx en t st)"
| "hip_run fx en st OpReady = snd (hip_ready en st)"
| "hip_run fx en st OpClose = snd (hip_close en st)"
| "hip_run fx en st OpObserve = snd (hip_observe_async st)"
| "hip_run fx en st (OpObserver t) = observer_step fx en t st"

text \<open>\<open>L\<close> is what the files held when the block ended.\<close>

definition one_record :: "(string \<Rightarrow> pyval list) \<Rightarrow> hip_state \<Rightarrow> bool" where
  "one_record L st \<longleftrightarrow> hs_exited (fst st) \<and> hs_start_event (fst st) \<noteq> None \<and> hs_finish_event (fst st) \<noteq> None \<and>
     (case hs_record (fst st) of
        None \<Rightarrow> lines_of (snd st) = L
      | Some v \<Rightarrow> lines_of (snd st) =
          L(sc_output (hs_base (fst st)) := L (sc_output (hs_base (fst st))) @ [v]))"

definition frozen :: "hip_state \<Rightarrow> hip_state \<Rightarrow> bool" where
  "frozen st st' \<longleftrightarrow> hs_base (fst st') = hs_base (fst st) \<and> hs_exited (fst st') = hs_exited (fst st) \<and>
     (hs_record (fst st) \<noteq> None \<longrightarrow> hs_record (fst st') = hs_record (fst st))"

definition has_events :: "hip_state \<Rightarrow> bool" where
  "has_events st \<longleftrightarrow> hs_start_event (fst st) \<noteq> None \<and> hs_finish_event (fst st) \<noteq> None"

lemma append_record_eq:
  "append_record fx path v st = (r, st') \<Longrightarrow> fst st' = fst st \<and>
     (case r of Inl e \<Rightarrow> lines_of (snd st') = lines_of (snd st)
      | Inr u \<Rightarrow> lines_of (snd st') = (lines_of (snd st))(path := lines_of (snd st) path @ [v]))"
  by (auto simp: append_record_def append_line_def split: prod.splits sum.splits)

lemma hip_wait_first:
  assumes run: "hip_wait fx en t st = (r, st')" and "hs_exited (fst st)" and "has_events st" and none: "hs_record (fst st) = None"
  shows "(\<exists>e. r = Inl e \<and> fst st' = fst st \<and> lines_of (snd st') = lines_of (snd st)) \<or>
    (\<exists>v. r = Inr v \<and> fst st' = (fst st)\<lparr>hs_record := Some v\<rparr> \<and>
      lines_of (snd st') = (lines_of (snd st))(sc_output (hs_base (fst st)) := lines_of (snd st) (sc_output (hs_base (fst st))) @ [v]))"
proof -
  obtain a b where ev: "hs_start_event (fst st) = Some a" "hs_finish_event (fst st) = Some b"
    using assms(3) by (auto simp: has_events_def)
  have prefix: "keeps (\<lambda>st. (fst st, lines_of (snd st))) (completion_record fx en t (fst st) a b)"
    by (rule completion_keeps) (auto simp: keeps_def on_engine_def tick_def read_clock_def split: prod.splits)
  have "bindS (completion_record fx en t (fst st) a b) (\<lambda>v.
       bindS (append_record fx (sc_output (hs_base (fst st))) v) (\<lambda>_.
       bindS (set_scope (\<lambda>s. s\<lparr>hs_record := Some v\<rparr>)) (\<lambda>_. retS v))) st = (r, st')"
    using run assms(2) ev none by (simp add: hip_wait_def)
  then show ?thesis
  proof (cases rule: bindS_cases)
    case (stop e)
    then show ?thesis using keepsE [OF prefix stop(1)] by simp
  next
    case (go v st1)
    have 1: "fst st1 = fst st" "lines_of (snd st1) = lines_of (snd st)" using keepsE [OF prefix go(1)] by simp_all
    from go(2) show ?thesis
    proof (cases rule: bindS_cases)
      case (stop e)
      then show ?thesis using append_record_eq [OF stop(1)] 1 by simp
    next
      case (go u st2)
      then show ?thesis using append_record_eq [OF go(1)] 1 by (auto simp: set_scope_def bindS_def)
    qed
  qed
qed

lemma hip_wait_again: "hs_exited (fst st) \<Longrightarrow> has_events st \<Longrightarrow> hs_record (fst st) = Some v \<Longrightarrow> hip_wait fx en t st = (Inr v, st)"
  by (auto simp: hip_wait_def has_events_def)

lemma one_record_events: "one_record L st \<Longrightarrow> hs_exited (fst st) \<and> has_events st"
  by (simp add: one_record_def has_events_def)

lemma one_record_same:
  "one_record L st \<Longrightarrow> fst st' = fst st \<Longrightarrow> lines_of (snd st') = lines_of (snd st) \<Longrightarrow> one_record L st' \<and> frozen st st'"
  unfolding one_record_def frozen_def by (cases "hs_record (fst st)") auto

lemma one_record_wait:
  assumes inv: "one_record L st" and run: "hip_wait fx en t st = (r, st')"
  shows "one_record L st' \<and> frozen st st' \<and> (\<forall>v. r = Inr v \<longrightarrow> hs_record (fst st') = Some v)"
proof (cases "hs_record (fst st)")
  case (Some v)
  then have "r = Inr v" "st' = st"
    using hip_wait_again [of st v fx en t] one_record_events [OF inv] run by simp_all
  then show ?thesis using inv Some by (simp add: frozen_def)
next
  case None
  have ev: "hs_exited (fst st)" "has_events st" using one_record_events [OF inv] by auto
  from hip_wait_first [OF run ev None] show ?thesis
  proof (elim disjE exE conjE)
    fix e
    assume "r = Inl e" "fst st' = fst st" "lines_of (snd st') = lines_of (snd st)"
    then show ?thesis using one_record_same [OF inv] by simp
  next
    fix v
    assume "r = Inr v" "fst st' = (fst st)\<lparr>hs_record := Some v\<rparr>"
      "lines_of (snd st') = (lines_of (snd st))(sc_output (hs_base (fst st)) := lines_of (snd st) (sc_output (hs_base (fst st))) @ [v])"
    then show ?thesis using inv None by (simp add: one_record_def frozen_def)
  qed
qed

lemma close_events_result:
  assumes "has_events st" and run: "close_events en st = (r, st')"
  shows "\<exists>a b. r = Inr () \<and> fst st' = (fst st)\<lparr>hs_start_event := Some a, hs_finish_event := Some b\<rparr> \<and>
    ev_handle a = 0 \<and> ev_handle b = 0 \<and> lines_of (snd st') = lines_of (snd st)"
proof -
  obtain a b where ev: "hs_start_event (fst st) = Some a" "hs_finish_event (fst st) = Some b"
    using assms(1) by (auto simp: has_events_def)
  obtain q tr where a: "event_close en a (hw_calls (snd st)) = (q, tr)" by fastforce
  obtain a' where a': "q = Inr a'" "ev_handle a' = 0" using event_resource.close_nulls [OF a] by blast
  obtain p tr' where b: "event_close en b tr = (p, tr')" by fastforce
  obtain b' where b': "p = Inr b'" "ev_handle b' = 0" using event_resource.close_nulls [OF b] by blast
  show ?thesis
    using run ev a a' b b'
    by (intro exI [of _ a'] exI [of _ b']) (auto simp: close_events_def close_event_option_def bindS_def on_engine_def set_scope_def)
qed

lemma hip_close_eq:
  assumes "hip_close en st = (r, st')" and ev: "has_events st"
  shows "(hs_record (fst st) = None \<or> hs_closed (fst st)) \<and> st' = st \<or>
    hs_record (fst st) \<noteq> None \<and> (\<exists>a b. r = Inr () \<and> ev_handle a = 0 \<and> ev_handle b = 0 \<and> lines_of (snd st') = lines_of (snd st) \<and>
      fst st' = (fst st)\<lparr>hs_start_event := Some a, hs_finish_event := Some b, hs_closed := True\<rparr>)"
proof (cases "hs_record (fst st) = None \<or> hs_closed (fst st)")
  case True
  then have "st' = st" using assms by (auto simp: hip_close_def split: if_splits)
  then show ?thesis using True by simp
next
  case False
  obtain q st1 where c: "close_events en st = (q, st1)" by (meson surj_pair)
  obtain a b where ab: "q = Inr ()" "fst st1 = (fst st)\<lparr>hs_start_event := Some a, hs_finish_event := Some b\<rparr>"
    "ev_handle a = 0" "ev_handle b = 0" "lines_of (snd st1) = lines_of (snd st)"
    using close_events_result [OF ev c] by blast
  then have "r = Inr ()" "st' = ((fst st)\<lparr>hs_start_event := Some a, hs_finish_event := Some b, hs_closed := True\<rparr>, snd st1)"
    using False assms c by (auto simp: hip_close_def has_events_def bindS_def set_scope_def)
  then show ?thesis using False ab by (intro disjI2 conjI exI [of _ a] exI [of _ b]) simp_all
qed

lemma one_record_run: "one_record L st \<Longrightarrow> one_record L (hip_run fx en st op) \<and> frozen st (hip_run fx en st op)"
proof (cases op)
  case (OpWait t)
  assume "one_record L st"
  then show ?thesis using one_record_wait [of L st fx en t] OpWait by (cases "hip_wait fx en t st") auto
next
  case OpReady
  assume "one_record L st"
  then show ?thesis using OpReady
    by (intro one_record_same) (auto simp: hip_ready_def on_engine_def split: bool.splits option.splits prod.splits)
next
  case OpClose
  assume inv: "one_record L st"
  obtain r st' where "hip_close en st = (r, st')" by (meson surj_pair)
  then show ?thesis using hip_close_eq [of en st r st'] one_record_events [OF inv] inv OpClose
    by (auto simp: one_record_def frozen_def split: option.splits)
next
  case OpObserve
  assume "one_record L st"
  then show ?thesis using OpObserve
    by (cases "hs_record (fst st)") (auto simp: one_record_def frozen_def hip_observe_async_def set_scope_simps)
next
  case (OpObserver t)
  assume inv: "one_record L st"
  show ?thesis
  proof (cases "hs_future (fst st) = Some None")
    case True
    obtain r s w where w: "hip_wait fx en t st = (r, (s, w))" by (metis surj_pair)
    then show ?thesis using one_record_wait [OF inv w] OpObserver True
      by (auto simp: observer_step_def one_record_def frozen_def split: option.splits)
  next
    case False
    then have "observer_step fx en t st = st" by (auto simp: observer_step_def split: option.splits)
    then show ?thesis using inv OpObserver by (simp add: frozen_def)
  qed
qed

lemma one_record_runs: "one_record L st \<Longrightarrow> one_record L (foldl (hip_run fx en) st ops) \<and> frozen st (foldl (hip_run fx en) st ops)"
proof (induction ops arbitrary: st)
  case (Cons op ops)
  have "one_record L (hip_run fx en st op)" "frozen st (hip_run fx en st op)" using one_record_run [OF Cons.prems] by auto
  with Cons.IH show ?case by (fastforce simp: frozen_def)
qed (simp add: frozen_def)


text \<open>
  A HIP event scope writes at most one record. After its block ended, under any sequence of
  waits, readiness queries, closes and asynchronous observations: while no record is kept nothing was
  written; once one is kept, exactly that record was appended to the output, it never changes, and
  every later wait returns it with no engine call and no write.
\<close>

theorem hip_one_record:
  assumes "hs_exited (fst st)" and "has_events st" and "hs_record (fst st) = None"
    and "foldl (hip_run fx en) st ops = st'"
  shows "case hs_record (fst st') of
      None \<Rightarrow> lines_of (snd st') = lines_of (snd st)
    | Some v \<Rightarrow> lines_of (snd st') = (lines_of (snd st))(sc_output (hs_base (fst st)) :=
          lines_of (snd st) (sc_output (hs_base (fst st))) @ [v]) \<and>
        (\<forall>t. hip_wait fx en t st' = (Inr v, st')) \<and>
        (\<forall>more. hs_record (fst (foldl (hip_run fx en) st' more)) = Some v)"
proof -
  have "one_record (lines_of (snd st)) st" using assms(1-3) by (simp add: one_record_def has_events_def)
  then have inv: "one_record (lines_of (snd st)) st'" and fr: "frozen st st'" using one_record_runs [of _ st fx en ops] assms(4) by auto
  show ?thesis
  proof (cases "hs_record (fst st')")
    case None
    then show ?thesis using inv by (simp add: one_record_def)
  next
    case (Some v)
    have "frozen st' (foldl (hip_run fx en) st' more)" for more using one_record_runs [OF inv] by blast
    then show ?thesis using Some inv fr hip_wait_again [of st' v fx en] one_record_events [OF inv]
      by (simp add: one_record_def frozen_def)
  qed
qed

text \<open>
  \<open>close\<close> of a HIP event scope is refused before the record exists, with no engine
  call; afterwards it nulls both event handles, keeps the record and the files, and a second
  \<open>close\<close> changes nothing.
\<close>

theorem hip_close_once:
  assumes "has_events st" and "hip_close en st = (r, st')"
  shows "(hs_record (fst st) = None \<longrightarrow> st' = st \<and> r = Inl (RuntimeError ''wait for HIP Event completion before closing'')) \<and>
    (hs_record (fst st) \<noteq> None \<and> \<not> hs_closed (fst st) \<longrightarrow> r = Inr () \<and> hs_closed (fst st') \<and>
       hs_record (fst st') = hs_record (fst st) \<and> lines_of (snd st') = lines_of (snd st) \<and>
       (\<exists>a b. hs_start_event (fst st') = Some a \<and> hs_finish_event (fst st') = Some b \<and> ev_handle a = 0 \<and> ev_handle b = 0) \<and>
       hip_close en st' = (Inr (), st'))"
proof (intro conjI impI)
  assume "hs_record (fst st) = None"
  then show "st' = st" and "r = Inl (RuntimeError ''wait for HIP Event completion before closing'')"
    using assms(2) by (simp_all add: hip_close_def)
next
  assume rec: "hs_record (fst st) \<noteq> None \<and> \<not> hs_closed (fst st)"
  from hip_close_eq [OF assms(2,1)] rec obtain a b where
    r: "r = Inr ()" "ev_handle a = 0" "ev_handle b = 0" "lines_of (snd st') = lines_of (snd st)"
      "fst st' = (fst st)\<lparr>hs_start_event := Some a, hs_finish_event := Some b, hs_closed := True\<rparr>" by blast
  then show "r = Inr ()" "hs_closed (fst st')" "hs_record (fst st') = hs_record (fst st)" "lines_of (snd st') = lines_of (snd st)"
    "\<exists>a b. hs_start_event (fst st') = Some a \<and> hs_finish_event (fst st') = Some b \<and> ev_handle a = 0 \<and> ev_handle b = 0"
    "hip_close en st' = (Inr (), st')"
    using rec by (simp_all add: hip_close_def)
qed

section \<open>The properties at concrete inputs\<close>

definition sample_hip_world :: hip_world where
  "sample_hip_world = \<lparr>depth_var = 4, lines_of = (\<lambda>_. []), roctx_global = None, reads = 0, hw_calls = []\<rparr>"

definition sample_hip :: "pyval option \<Rightarrow> hscope" where
  "sample_hip v = \<lparr>hs_base = sample_scope ''gpu'', hs_device = DevStr ''hip:0'', hs_stream = None, hs_submission_finish_ns = 9,
     hs_exception_type = None, hs_start_event = Some \<lparr>ev_handle = 1, ev_device = (HIP, 0), ev_timing = True\<rparr>,
     hs_finish_event = Some \<lparr>ev_handle = 2, ev_device = (HIP, 0), ev_timing = True\<rparr>,
     hs_ready_at_submit = False, hs_exited = True, hs_record = v, hs_closed = False, hs_future = None, hs_threads = 0\<rparr>"


theorem hip_one_record_witness:
  "case hs_record (fst (foldl (hip_run sample_fx counting_engine) (sample_hip None, sample_hip_world) [OpReady, OpObserve, OpObserver 3, OpWait 4])) of
      None \<Rightarrow> True
    | Some v \<Rightarrow> lines_of (snd (foldl (hip_run sample_fx counting_engine) (sample_hip None, sample_hip_world) [OpReady, OpObserve, OpObserver 3, OpWait 4]))
        ''t.jsonl'' = [v]"
proof -
  obtain st' where run: "foldl (hip_run sample_fx counting_engine) (sample_hip None, sample_hip_world) [OpReady, OpObserve, OpObserver 3, OpWait 4] = st'"
    by blast
  have "hs_exited (fst (sample_hip None, sample_hip_world))" "has_events (sample_hip None, sample_hip_world)"
    "hs_record (fst (sample_hip None, sample_hip_world)) = None" by (simp_all add: sample_hip_def has_events_def)
  from hip_one_record [OF this run] show ?thesis
    unfolding run using sample_scope_facts [of "''gpu''"]
    by (auto simp: sample_hip_def sample_hip_world_def split: option.splits)
qed

theorem hip_close_once_witness:
  "\<exists>st'. hip_close counting_engine (sample_hip (Some VNone), sample_hip_world) = (Inr (), st') \<and> hs_closed (fst st') \<and>
     hip_close counting_engine st' = (Inr (), st')"
proof -
  obtain r st' where c: "hip_close counting_engine (sample_hip (Some VNone), sample_hip_world) = (r, st')" by (meson surj_pair)
  have "has_events (sample_hip (Some VNone), sample_hip_world)" by (simp add: has_events_def sample_hip_def)
  from hip_close_once [OF this c] c show ?thesis by (auto simp: sample_hip_def)
qed

end
