(* ===== verification/CapiSig.thy ===== *)
theory CapiSig imports CapiOps begin

text \<open>
  Every operator of \<open>_capi.py\<close> against the declared argument types of the C function
  it calls.
\<close>

section \<open>Looking up signatures\<close>

lemma signature_of [simp]:
  "map_of signatures ''ml_hip_device_count'' = Some [CRef BInt]"
  "map_of signatures ''ml_tensor_from_f32'' = Some [CRef BFloat, CRef BI64, c_size_t, c_int, c_int, new_tensor]"
  "map_of signatures ''ml_tensor_from_i32'' = Some [CRef BInt, CRef BI64, c_size_t, c_int, c_int, new_tensor]"
  "map_of signatures ''ml_tensor_from_external'' = Some [c_size_t, c_size_t, CRef BI64, CRef BI64, c_size_t, c_int, c_int, c_int, new_tensor]"
  "map_of signatures ''ml_tensor_destroy'' = Some [tensor]"
  "map_of signatures ''ml_tensor_rank'' = Some [tensor, CRef BSize]"
  "map_of signatures ''ml_tensor_shape'' = Some [tensor, c_size_t, CRef BI64]"
  "map_of signatures ''ml_tensor_numel'' = Some [tensor, CRef BI64]"
  "map_of signatures ''ml_tensor_dtype'' = Some [tensor, CRef BInt]"
  "map_of signatures ''ml_tensor_device'' = Some [tensor, CRef BInt, CRef BInt]"
  "map_of signatures ''ml_tensor_is_owning'' = Some [tensor, CRef BInt]"
  "map_of signatures ''ml_tensor_data_ptr'' = Some [tensor, CRef BSize]"
  "map_of signatures ''ml_tensor_storage_bytes'' = Some [tensor, CRef BSize]"
  "map_of signatures ''ml_tensor_copy_f32'' = Some [tensor, CRef BFloat, c_size_t]"
  "map_of signatures ''ml_tensor_copy_i32'' = Some [tensor, CRef BInt, c_size_t]"
  "map_of signatures ''ml_tensor_to'' = Some [tensor, c_int, c_int, new_tensor]"
  "map_of signatures ''ml_event_create'' = Some [c_int, c_int, c_int, CRef (BHandle HEvent)]"
  "map_of signatures ''ml_event_destroy'' = Some [event]"
  "map_of signatures ''ml_event_record_default_stream'' = Some [event]"
  "map_of signatures ''ml_event_ready'' = Some [event, CRef BInt]"
  "map_of signatures ''ml_event_synchronize'' = Some [event]"
  "map_of signatures ''ml_event_elapsed_ms'' = Some [event, event, CRef BFloat]"
  "map_of signatures ''ml_stream_create'' = Some [c_int, c_int, c_int, CRef (BHandle HStream)]"
  "map_of signatures ''ml_stream_from_external'' = Some [c_int, c_int, c_size_t, CRef (BHandle HStream)]"
  "map_of signatures ''ml_stream_destroy'' = Some [stream]"
  "map_of signatures ''ml_stream_synchronize'' = Some [stream]"
  "map_of signatures ''ml_stream_native_handle'' = Some [stream, CRef BSize]"
  "map_of signatures ''ml_stream_is_owning'' = Some [stream, CRef BInt]"
  "map_of signatures ''ml_event_record'' = Some [event, stream]"
  "map_of signatures ''ml_event_wait'' = Some [event, stream]"
  "map_of signatures ''ml_softmax'' = Some [tensor, new_tensor]"
  "map_of signatures ''ml_softmax_on_stream'' = Some [tensor, stream, new_tensor]"
  "map_of signatures ''ml_add_out_on_stream'' = Some [tensor, tensor, tensor, stream]"
  "map_of signatures ''ml_softmax_out_on_stream'' = Some [tensor, tensor, stream]"
  "map_of signatures ''ml_swiglu_out_on_stream'' = Some [tensor, tensor, tensor, stream]"
  "map_of signatures ''ml_causal_gqa_attention_out_on_stream'' = Some [tensor, tensor, tensor, tensor, tensor, tensor, tensor, c_int64, c_float, stream]"
  "map_of signatures ''ml_embedding_out_on_stream'' = Some [tensor, tensor, tensor, stream]"
  "map_of signatures ''ml_rope_out_on_stream'' = Some [tensor, tensor, c_int64, c_int64, c_float, stream]"
  "map_of signatures ''ml_cross_entropy_out_on_stream'' = Some [tensor, tensor, tensor, tensor, stream]"
  "map_of signatures ''ml_embedding_backward_add_on_stream'' = Some [tensor, tensor, tensor, stream]"
  "map_of signatures ''ml_softmax_backward_out_on_stream'' = Some [tensor, tensor, tensor, stream]"
  "map_of signatures ''ml_rms_norm_backward_out_on_stream'' = Some [tensor, tensor, tensor, tensor, tensor, tensor, c_float, stream]"
  "map_of signatures ''ml_swiglu_backward_out_on_stream'' = Some [tensor, tensor, tensor, tensor, tensor, stream]"
  "map_of signatures ''ml_rope_backward_out_on_stream'' = Some [tensor, tensor, c_int64, c_int64, c_float, stream]"
  "map_of signatures ''ml_cross_entropy_backward_out_on_stream'' = Some [tensor, tensor, tensor, tensor, tensor, tensor, stream]"
  "map_of signatures ''ml_add'' = Some [tensor, tensor, new_tensor]"
  "map_of signatures ''ml_multiply'' = Some [tensor, tensor, new_tensor]"
  "map_of signatures ''ml_matmul'' = Some [tensor, tensor, new_tensor]"
  "map_of signatures ''ml_add_on_stream'' = Some [tensor, tensor, stream, new_tensor]"
  "map_of signatures ''ml_multiply_on_stream'' = Some [tensor, tensor, stream, new_tensor]"
  "map_of signatures ''ml_matmul_on_stream'' = Some [tensor, tensor, stream, new_tensor]"
  "map_of signatures ''ml_multiply_out_on_stream'' = Some [tensor, tensor, tensor, stream]"
  "map_of signatures ''ml_matmul_out_on_stream'' = Some [tensor, tensor, tensor, stream]"
  "map_of signatures ''ml_rms_norm_out_on_stream'' = Some [tensor, tensor, tensor, c_float, stream]"
  "map_of signatures ''ml_rms_norm_bf16_out_on_stream'' = Some [tensor, tensor, tensor, c_float, stream]"
  by (simp_all add: signature_tables)

section \<open>Conformity\<close>


section \<open>Building tensors\<close>

lemma expected_count_eq:
  "expected_count e ds = (if \<exists>d \<in> set ds. d < 0 then Inl (ValueError ''shape dimensions must be non-negative'')
     else Inr (e * prod_list ds))"
  by (induction ds arbitrary: e) (auto simp: mult.assoc)

lemma divides_product: "(d :: int) \<in> set ds \<Longrightarrow> d dvd prod_list ds"
  by (induction ds) auto

lemma dimension_bound:
  assumes "\<forall>d \<in> set ds. 0 < d" and "prod_list ds = int n" and "d \<in> set ds"
  shows "0 < d \<and> d \<le> int n"
proof -
  have "0 < prod_list ds" using assms(1) by (induction ds) auto
  then show ?thesis using divides_product [OF assms(3)] assms zdvd_imp_le by metis
qed

lemma sint_of_bounded: "- (2 ^ 63) \<le> i \<Longrightarrow> i < 2 ^ 63 \<Longrightarrow> sint (word_of_int i :: 64 word) = i"
  by (simp add: sint_sbintrunc' signed_take_bit_int_eq_self)

text \<open>
  \<open>Tensor.from_f32\<close> checks the shape before it touches the engine: a negative dimension or
  a product that differs from the number of values raises \<open>ValueError\<close> with no call made;
  otherwise it makes the one \<open>ml_tensor_from_f32\<close> call with the values rounded to binary32, the
  rank, the device code and index, and if all dimensions are positive and there are fewer than 2^63 values
  the engine reads exactly the requested dimensions from the int64 array.
\<close>

theorem from_f32_checks:
  assumes "mapM to_float vs = Inr flat" and "mapM int_of_num sh = Inr dims"
  shows "((\<exists>d \<in> set dims. d < 0) \<longrightarrow> from_f32 en vs sh dev tr = (Inl (ValueError ''shape dimensions must be non-negative''), tr)) \<and>
    ((\<forall>d \<in> set dims. 0 \<le> d) \<and> prod_list dims \<noteq> int (length flat) \<longrightarrow>
       from_f32 en vs sh dev tr = (Inl (ValueError (count_message (prod_list dims) (length flat))), tr)) \<and>
    ((\<forall>d \<in> set dims. 0 \<le> d) \<and> prod_list dims = int (length flat) \<longrightarrow> parse_device dev = Inr (k, i) \<longrightarrow>
       from_f32 en vs sh dev = bindS (served en ''ml_tensor_from_f32''
         [CArrF (map f32 flat), CArrL (map word_of_int dims), CZ (word_of_int (int (length dims))),
          CI (word_of_int (device_code k)), CI (word_of_int i), COut (BHandle HTensor)])
         (\<lambda>r. liftS (tensor_new (r_handle r) None))) \<and>
    ((\<forall>d \<in> set dims. 0 < d) \<and> prod_list dims = int (length flat) \<and> length flat < 2 ^ 63 \<longrightarrow>
       map sint (map word_of_int dims :: 64 word list) = dims)"
proof (intro conjI impI)
  note [simp] = assms from_f32_def expected_count_eq
  show "\<exists>d \<in> set dims. d < 0 \<Longrightarrow> from_f32 en vs sh dev tr = (Inl (ValueError ''shape dimensions must be non-negative''), tr)"
    by simp
  show "from_f32 en vs sh dev tr = (Inl (ValueError (count_message (prod_list dims) (length flat))), tr)"
    if "(\<forall>d \<in> set dims. 0 \<le> d) \<and> prod_list dims \<noteq> int (length flat)"
    using that by (auto simp: raise_if_def not_less)
  show "from_f32 en vs sh dev = bindS (served en ''ml_tensor_from_f32''
         [CArrF (map f32 flat), CArrL (map word_of_int dims), CZ (word_of_int (int (length dims))),
          CI (word_of_int (device_code k)), CI (word_of_int i), COut (BHandle HTensor)])
         (\<lambda>r. liftS (tensor_new (r_handle r) None))"
    if "(\<forall>d \<in> set dims. 0 \<le> d) \<and> prod_list dims = int (length flat)" "parse_device dev = Inr (k, i)"
  proof -
    have "\<not> (\<exists>d \<in> set dims. d < 0)" using that by auto
    then show ?thesis
      using that by (simp add: checked_served [OF signature_of(2)])
  qed
  show "map sint (map word_of_int dims :: 64 word list) = dims"
    if "(\<forall>d \<in> set dims. 0 < d) \<and> prod_list dims = int (length flat) \<and> length flat < 2 ^ 63"
  proof -
    have "sint (word_of_int d :: 64 word) = d" if "d \<in> set dims" for d
      using dimension_bound [of dims "length flat" d] that \<open>_ \<and> _\<close> by (intro sint_of_bounded) auto
    then show ?thesis by (simp add: map_idI comp_def)
  qed
qed

theorem from_f32_checks_witness:
  "\<forall>en tr. from_f32 en [NF (Fin 1)] [NI (- 1)] (DevEnum CPU) tr =
     (Inl (ValueError ''shape dimensions must be non-negative''), tr)"
proof (intro allI)
  fix en tr
  show "from_f32 en [NF (Fin 1)] [NI (- 1)] (DevEnum CPU) tr = (Inl (ValueError ''shape dimensions must be non-negative''), tr)"
    using from_f32_checks [of "[NF (Fin 1)]" "[Fin 1]" "[NI (- 1)]" "[- 1]" en "DevEnum CPU" tr] by simp
qed

lemma lower_chars [simp]:
  "lower_char CHR ''c'' = CHR ''c''"
  "lower_char CHR ''p'' = CHR ''p''"
  "lower_char CHR ''u'' = CHR ''u''"
  "lower_char CHR ''h'' = CHR ''h''"
  "lower_char CHR ''i'' = CHR ''i''"
  "lower_char CHR ''d'' = CHR ''d''"
  "lower_char CHR ''a'' = CHR ''a''"
  "lower_char CHR ''H'' = CHR ''h''"
  "lower_char CHR ''I'' = CHR ''i''"
  "lower_char CHR ''P'' = CHR ''p''"
  by code_simp+

text \<open>
  Device names round trip: the text of any member and index, in either case, parses back to them,
  a name without an index means index 0, and any other kind is refused with \<open>ValueError\<close>.
\<close>

theorem parse_device_roundtrip:
  "parse_device (DevStr (''cpu:'' @ str_int i)) = Inr (CPU, i) \<and> parse_device (DevStr (''HIP:'' @ str_int i)) = Inr (HIP, i) \<and>
   parse_device (DevStr ''cpu'') = Inr (CPU, 0) \<and> parse_device (DevStr ''hip'') = Inr (HIP, 0) \<and>
   parse_device (DevPair (device_code d) i) = Inr (d, i) \<and> parse_device (DevEnum d) = Inr (d, 0) \<and>
   parse_device (DevStr ''cuda:0'') = Inl (ValueError ''unknown device cuda:0'')"
  by (simp add: parse_device_def int_of_str_str_int)

end
