(* ===== verification/RankedArgs.thy ===== *)
theory RankedArgs imports ProfileTrace begin

text \<open>
  The command line of \<open>run_ranked.py\<close>: what \<open>options\<close> accepts, the output directory, and
  the command lines of the rank processes and of the reference run. \<open>is_file\<close> answers whether a
  path names a file. \<open>parser.error\<close> leaves with status 2.
\<close>

section \<open>Options\<close>

record rargs =
  ra_binary :: string
  ra_output :: string
  ra_steps :: int
  ra_world_size :: int
  ra_timeout :: pyfloat
  ra_failure_mode :: string
  ra_reducer :: string
  ra_bucket_bytes :: int
  ra_model :: string
  ra_context :: int
  ra_compare_binary :: "string option"
  ra_rccl_debug :: bool
  ra_rows_text :: string
  ra_rank_batch_rows :: "int list"
  ra_input_weighting :: string
  ra_tolerance :: pyfloat
  ra_retain :: bool
  ra_overwrite :: bool

definition default_rargs :: "string \<Rightarrow> string \<Rightarrow> rargs" where
  "default_rargs binary output =
     \<lparr>ra_binary = binary, ra_output = output, ra_steps = 3, ra_world_size = 2, ra_timeout = Fin 20,
      ra_failure_mode = ''none'', ra_reducer = ''per-parameter'', ra_bucket_bytes = 4096, ra_model = ''tiny'',
      ra_context = 0, ra_compare_binary = None, ra_rccl_debug = False, ra_rows_text = '''', ra_rank_batch_rows = [],
      ra_input_weighting = ''equal-only'', ra_tolerance = rnd (1 / 10000), ra_retain = False, ra_overwrite = False\<rparr>"

definition failure_modes :: "string list" where
  "failure_modes = [''none'', ''peer-failure'', ''group-init'', ''uneven-input'']"

definition reducers :: "string list" where
  "reducers = [''per-parameter'', ''bucket'', ''persistent-bucket'', ''bucket-views'', ''overlap-views'',
     ''bucket-weighted-overlap'', ''gather-weighted-overlap'']"

definition choices_ok :: "rargs \<Rightarrow> bool" where
  "choices_ok a \<longleftrightarrow> ra_failure_mode a \<in> set failure_modes \<and> ra_reducer a \<in> set reducers \<and>
     ra_model a \<in> {''tiny'', ''model-s''} \<and> ra_input_weighting a \<in> {''equal-only'', ''token-weighted''}"

text \<open>\<open>text.split(',')\<close>.\<close>

fun split_on :: "char \<Rightarrow> string \<Rightarrow> string list" where
  "split_on c [] = [[]]"
| "split_on c (x # xs) =
     (if x = c then [] # split_on c xs
      else (case split_on c xs of p # ps \<Rightarrow> (x # p) # ps | [] \<Rightarrow> [[x]]))"

definition usage :: pyexn where "usage = SystemExit 2"

definition inputs_bad :: "(string \<Rightarrow> bool) \<Rightarrow> rargs \<Rightarrow> bool" where
  "inputs_bad is_file a \<longleftrightarrow> \<not> is_file (ra_binary a) \<or> ra_steps a \<le> 0 \<or> fle (ra_timeout a) (Fin 0) \<or> ra_bucket_bytes a < 4 \<or>
     \<not> is_finite_float (ra_tolerance a) \<or> fle (ra_tolerance a) (Fin 0) \<or> ra_world_size a \<le> 0 \<or> 8 < ra_world_size a"

definition pick_context :: "string \<Rightarrow> int \<Rightarrow> int" where
  "pick_context model context = (if context = 0 then (if model = ''tiny'' then 4 else 32) else context)"

definition context_bad :: "string \<Rightarrow> int \<Rightarrow> bool" where
  "context_bad model context \<longleftrightarrow> model = ''tiny'' \<and> context \<noteq> 4 \<or> model = ''model-s'' \<and> \<not> (1 \<le> context \<and> context \<le> 512)"

definition compare_bad :: "(string \<Rightarrow> bool) \<Rightarrow> string option \<Rightarrow> bool" where
  "compare_bad is_file compare \<longleftrightarrow> (case compare of None \<Rightarrow> False | Some path \<Rightarrow> \<not> is_file path)"

definition parse_rows :: "rargs \<Rightarrow> int list py" where
  "parse_rows a =
     (if ra_rows_text a = [] then Inr (replicate (nat (ra_world_size a)) 1)
      else (case mapM int_of_str (split_on CHR '','' (ra_rows_text a)) of Inl e \<Rightarrow> Inl usage | Inr rows \<Rightarrow> Inr rows))"

definition options :: "(string \<Rightarrow> bool) \<Rightarrow> rargs \<Rightarrow> rargs py" where
  "options is_file a =
     thenE (raise_if (\<not> choices_ok a) usage)
    (thenE (raise_if (inputs_bad is_file a) usage)
    (let context = pick_context (ra_model a) (ra_context a) in
     thenE (raise_if (context_bad (ra_model a) context) usage)
    (thenE (raise_if (compare_bad is_file (ra_compare_binary a)) usage)
    (thenE (raise_if (ra_model a = ''model-s'' \<and> ra_compare_binary a = None) usage)
    (thenE (raise_if (ra_retain a \<and> ra_model a \<noteq> ''model-s'') usage)
    (bindE (parse_rows a) (\<lambda>rows.
     thenE (raise_if (int (length rows) \<noteq> ra_world_size a \<or> (\<exists>r \<in> set rows. r \<le> 0)) usage)
    (if ra_failure_mode a = ''uneven-input''
     then thenE (raise_if (ra_world_size a < 2) usage)
            (Inr (a\<lparr>ra_context := context, ra_rank_batch_rows := (replicate (nat (ra_world_size a)) 1)[1 := 2],
                   ra_input_weighting := ''equal-only''\<rparr>))
     else Inr (a\<lparr>ra_context := context, ra_rank_batch_rows := rows\<rparr>)))))))))"

section \<open>The output directory\<close>

text \<open>A directory is absent or holds the named entries; \<open>rmtree\<close> removes it, \<open>mkdir\<close> makes it if absent.\<close>

definition prepare_output :: "bool \<Rightarrow> string list option \<Rightarrow> string list option py" where
  "prepare_output overwrite dir =
     thenE (raise_if ((case dir of None \<Rightarrow> False | Some names \<Rightarrow> names \<noteq> []) \<and> \<not> overwrite)
              (RuntimeError ''output directory is not empty; pass --overwrite''))
       (let dir1 = (if dir \<noteq> None \<and> overwrite then None else dir)
        in Inr (case dir1 of None \<Rightarrow> Some [] | Some names \<Rightarrow> Some names))"

section \<open>Command lines\<close>

text \<open>\<open>int(timeout * 1000)\<close> truncates; an infinite timeout overflows and NaN has no int.\<close>

definition timeout_ms :: "pyfloat \<Rightarrow> int py" where
  "timeout_ms t =
     (case fmul t (Fin 1000) of
        Fin q \<Rightarrow> Inr (if 0 \<le> q then \<lfloor>q\<rfloor> else \<lceil>q\<rceil>)
      | NaN \<Rightarrow> Inl (ValueError ''cannot convert float NaN to integer'')
      | _ \<Rightarrow> Inl OverflowError)"

fun join_with :: "char \<Rightarrow> string list \<Rightarrow> string" where
  "join_with c [] = []"
| "join_with c [s] = s"
| "join_with c (s # ss) = s @ c # join_with c ss"

definition rows_text :: "int list \<Rightarrow> string" where
  "rows_text rows = join_with CHR '','' (map str_int rows)"

definition common_arguments :: "rargs \<Rightarrow> int \<Rightarrow> string list" where
  "common_arguments a ms =
     [''--world-size'', str_int (ra_world_size a), ''--id-file'', ra_output a @ ''/communicator.id'',
      ''--steps'', str_int (ra_steps a), ''--seed'', ''607'', ''--timeout-ms'', str_int ms,
      ''--reducer'', ra_reducer a, ''--bucket-bytes'', str_int (ra_bucket_bytes a), ''--context'', str_int (ra_context a),
      ''--rank-batch-rows'', rows_text (ra_rank_batch_rows a), ''--input-weighting'', ra_input_weighting a]"

text \<open>\<open>[*range(world_size - 1, 0, -1), 0]\<close>: the ranks in the order they are launched.\<close>

definition command_ranks :: "int \<Rightarrow> int list" where
  "command_ranks world = map int (rev [1..<nat world]) @ [0]"

definition rank_file :: "rargs \<Rightarrow> int \<Rightarrow> string" where
  "rank_file a rank = ra_output a @ ''/rank'' @ str_int rank @ ''.safetensors''"

definition reference_file :: "rargs \<Rightarrow> string" where
  "reference_file a = ra_output a @ ''/reference.safetensors''"

definition rank_command :: "rargs \<Rightarrow> int \<Rightarrow> int \<Rightarrow> int \<Rightarrow> string list" where
  "rank_command a ms shown rank =
     [ra_binary a, ''--mode'', ''rank'', ''--rank'', str_int shown, ''--local-rank'', str_int rank, ''--model'', ra_model a] @
     common_arguments a ms @ (if ra_model a = ''model-s'' then [''--parameter-file'', rank_file a rank] else [])"

text \<open>In the peer-failure mode the first process is given a rank outside the group.\<close>

definition rank_commands :: "rargs \<Rightarrow> int \<Rightarrow> string list list" where
  "rank_commands a ms =
     (case command_ranks (ra_world_size a) of
        [] \<Rightarrow> []
      | r # rs \<Rightarrow> rank_command a ms (if ra_failure_mode a = ''peer-failure'' then ra_world_size a else r) r #
                   map (\<lambda>rank. rank_command a ms rank rank) rs)"

definition reference_command :: "rargs \<Rightarrow> string list" where
  "reference_command a =
     [ra_binary a, ''--mode'', ''reference'', ''--steps'', str_int (ra_steps a), ''--seed'', ''607'', ''--model'', ra_model a,
      ''--context'', str_int (ra_context a), ''--world-size'', str_int (ra_world_size a),
      ''--rank-batch-rows'', rows_text (ra_rank_batch_rows a), ''--input-weighting'', ra_input_weighting a] @
     (if ra_model a = ''model-s'' then [''--parameter-file'', reference_file a] else [])"

section \<open>What the options guarantee\<close>

definition args_ok :: "rargs \<Rightarrow> bool" where
  "args_ok a \<longleftrightarrow> 0 < ra_steps a \<and> 1 \<le> ra_world_size a \<and> ra_world_size a \<le> 8 \<and> 4 \<le> ra_bucket_bytes a \<and>
     (\<exists>q. ra_tolerance a = Fin q \<and> 0 < q) \<and> 1 \<le> ra_context a \<and> ra_context a \<le> 512 \<and>
     int (length (ra_rank_batch_rows a)) = ra_world_size a \<and> (\<forall>r \<in> set (ra_rank_batch_rows a). 0 < r) \<and>
     ra_reducer a \<in> set reducers \<and> ra_model a \<in> {''tiny'', ''model-s''} \<and>
     ra_input_weighting a \<in> {''equal-only'', ''token-weighted''} \<and>
     (ra_model a = ''model-s'' \<longrightarrow> ra_compare_binary a \<noteq> None) \<and> (ra_retain a \<longrightarrow> ra_model a = ''model-s'')"


lemma split_on_ne: "split_on c s \<noteq> []"
  by (induction s) (auto split: list.splits)

lemma split_on_free: "c \<notin> set s \<Longrightarrow> split_on c s = [s]"
  by (induction s) auto

lemma split_on_piece: "c \<notin> set s \<Longrightarrow> split_on c (s @ c # t) = s # split_on c t"
  by (induction s) auto

lemma split_join: "ss \<noteq> [] \<Longrightarrow> \<forall>s \<in> set ss. c \<notin> set s \<Longrightarrow> split_on c (join_with c ss) = ss"
proof (induction c ss rule: join_with.induct)
  case (3 c s t ts) then show ?case by (simp add: split_on_piece)
qed (simp_all add: split_on_free)

lemma str_int_chars: "c \<in> set (str_int i) \<Longrightarrow> is_digit c \<or> c = CHR ''-''"
  using str_nat_ok by (auto simp: str_int_def split: if_splits)

lemma mapM_int_of_str: "mapM int_of_str (map str_int is) = Inr is"
  by (induction "is") (auto simp: int_of_str_str_int)

text \<open>
  The row counts a launcher accepted reach the processes unchanged: the text passed as
  \<open>--rank-batch-rows\<close> is read back, by the rules the launcher itself reads with, as the same list.
\<close>

theorem rank_rows_roundtrip:
  assumes "ra_rank_batch_rows a \<noteq> []" and "ra_rows_text b = rows_text (ra_rank_batch_rows a)"
  shows "parse_rows b = Inr (ra_rank_batch_rows a)"
proof -
  have "\<not> is_digit CHR '',''" by code_simp
  then have free: "\<forall>s \<in> set (map str_int (ra_rank_batch_rows a)). CHR '','' \<notin> set s" using str_int_chars by fastforce
  have split: "split_on CHR '','' (rows_text (ra_rank_batch_rows a)) = map str_int (ra_rank_batch_rows a)"
    unfolding rows_text_def using assms(1) free by (intro split_join) auto
  have "join_with c ss \<noteq> []" if "ss \<noteq> []" "\<forall>s \<in> set ss. s \<noteq> []" for c ss
    using that by (cases "(c, ss)" rule: join_with.cases) auto
  moreover have "str_int i \<noteq> []" for i using str_nat_ok by (simp add: str_int_def)
  ultimately have "rows_text (ra_rank_batch_rows a) \<noteq> []" using assms(1) by (auto simp: rows_text_def)
  then show ?thesis using assms(2) by (simp add: parse_rows_def split mapM_int_of_str)
qed

lemma set_command_ranks: "1 \<le> world \<Longrightarrow> set (command_ranks world) = {0..<world} \<and> distinct (command_ranks world) \<and> length (command_ranks world) = nat world"
proof -
  assume w: "1 \<le> world"
  then obtain n where n: "world = int n" by (metis nonneg_int_cases zero_le_one order_trans)
  have "set (command_ranks world) = int ` {1..<n} \<union> {0}" by (simp add: command_ranks_def n)
  also have "\<dots> = {1..<world} \<union> {0}" by (simp add: image_int_atLeastLessThan n)
  also have "\<dots> = {0..<world}" using w by auto
  finally show ?thesis using w by (auto simp: command_ranks_def distinct_map)
qed

lemma command_ranks_nth: "i < nat world \<Longrightarrow> command_ranks world ! i = world - 1 - int i"
  by (auto simp: command_ranks_def nth_append rev_nth)

section \<open>The properties at concrete options\<close>


theorem rank_rows_roundtrip_witness:
  "parse_rows ((default_rargs ''bin'' ''out'')\<lparr>ra_rows_text := rows_text [3, 1]\<rparr>) = Inr [3, 1]"
  using rank_rows_roundtrip [of "(default_rargs ''bin'' ''out'')\<lparr>ra_rank_batch_rows := [3, 1]\<rparr>"
      "(default_rargs ''bin'' ''out'')\<lparr>ra_rows_text := rows_text [3, 1]\<rparr>"] by simp

end
