(* ===== verification/RankedCheck.thy ===== *)
theory RankedCheck imports RankedArgs begin

text \<open>
  The contract \<open>run_ranked.py\<close> holds the rank records to, check by check in the order of
  \<open>main\<close>: identities and names, token weighting, collectives, timings, per-step counters and their
  totals, bucket plans, gradient views, overlap, and the parameter and loss gate.
\<close>

section \<open>Reading a record\<close>

definition get_ne :: "pyval \<Rightarrow> string \<Rightarrow> pyval \<Rightarrow> bool py" where
  "get_ne r k v = bindE (py_get r k VNone) (\<lambda>x. Inr (py_ne x v))"

definition item_ne :: "pyval \<Rightarrow> string \<Rightarrow> pyval \<Rightarrow> bool py" where
  "item_ne r k v = bindE (py_getitem r k) (\<lambda>x. Inr (py_ne x v))"

definition item_le :: "pyval \<Rightarrow> string \<Rightarrow> pyval \<Rightarrow> bool py" where
  "item_le r k v = bindE (py_getitem r k) (\<lambda>x. py_le x v)"

definition get_le :: "pyval \<Rightarrow> string \<Rightarrow> pyval \<Rightarrow> bool py" where
  "get_le r k v = bindE (py_get r k v) (\<lambda>x. py_le x v)"

definition any_truthy :: "pyval \<Rightarrow> bool py" where
  "any_truthy v = bindE (py_iter v) (\<lambda>xs. Inr (\<exists>x \<in> set xs. py_truthy x))"

definition any_item :: "pyval \<Rightarrow> string \<Rightarrow> bool py" where
  "any_item r k = bindE (py_getitem r k) any_truthy"

definition step_item :: "pyval \<Rightarrow> string \<Rightarrow> int \<Rightarrow> pyval py" where
  "step_item r k i = bindE (py_getitem r k) (\<lambda>l. py_index l i)"

text \<open>\<open>[value] * count\<close>.\<close>

definition repeated :: "pyval \<Rightarrow> int \<Rightarrow> pyval list" where
  "repeated v n = replicate (nat n) v"

definition fzero :: pyval where "fzero = VFloat (Fin 0)"

definition micro :: pyval where "micro = VFloat (rnd (1 / 1000000))"

text \<open>\<open>abs(record.get(key, -1.0) - value) > 1.0e-6\<close>.\<close>

definition get_far :: "pyval \<Rightarrow> string \<Rightarrow> pyval \<Rightarrow> bool py" where
  "get_far r k v = bindE (py_get r k (VFloat (Fin (- 1)))) (\<lambda>x. bindE (py_sub x v) (\<lambda>d. bindE (py_abs d) (\<lambda>e. py_gt e micro)))"

text \<open>The lines of an output, each with what \<open>json.loads\<close> makes of it.\<close>

definition load_record :: "string \<Rightarrow> pyval py list \<Rightarrow> pyval py" where
  "load_record name lines =
     thenE (raise_if (length lines \<noteq> 1) (RuntimeError (name @ '' emitted an unexpected record count'')))
    (bindE (hd lines) (\<lambda>r.
     thenE (raise_ifM (orM (get_ne r ''schema_version'' (VInt 1)) (get_ne r ''status'' (VStr ''pass'')))
              (RuntimeError (name @ '' record failed'')))
       (Inr r)))"

section \<open>Parameter differences\<close>

definition abs_diff :: "pyval \<Rightarrow> pyval \<Rightarrow> pyval py" where
  "abs_diff x y = bindE (py_sub x y) py_abs"

definition same_len :: "string \<Rightarrow> pyval \<Rightarrow> pyval \<Rightarrow> unit py" where
  "same_len msg l r = bindE (py_len l) (\<lambda>n. bindE (py_len r) (\<lambda>m. raise_if (n \<noteq> m) (RuntimeError msg)))"

definition zip_vals :: "pyval \<Rightarrow> pyval \<Rightarrow> (pyval \<times> pyval) list py" where
  "zip_vals l r = bindE (py_iter l) (\<lambda>xs. bindE (py_iter r) (\<lambda>ys. Inr (zip xs ys)))"

definition list_difference :: "string \<Rightarrow> pyval \<times> pyval \<Rightarrow> pyval py" where
  "list_difference msg lr =
     (case lr of (lhs, rhs) \<Rightarrow>
      thenE (same_len msg lhs rhs)
     (bindE (zip_vals lhs rhs) (\<lambda>ps.
      bindE (mapM (\<lambda>(x, y). abs_diff x y) ps) (py_max_default fzero))))"

definition max_step :: "string \<Rightarrow> pyval \<Rightarrow> pyval \<times> pyval \<Rightarrow> pyval py" where
  "max_step msg m lr = bindE (list_difference msg lr) (\<lambda>d. py_max_from m [d])"

definition maximum_difference :: "pyval \<Rightarrow> pyval \<Rightarrow> pyval py" where
  "maximum_difference left right =
     thenE (same_len ''parameter list count changed'' left right)
    (bindE (zip_vals left right) (\<lambda>ps. foldM (max_step ''parameter element count changed'') fzero ps))"

definition py_square :: "pyval \<Rightarrow> pyval py" where
  "py_square v =
     (case as_num v of None \<Rightarrow> Inl TypeError | Some (NI i) \<Rightarrow> Inr (VInt (i * i))
      | Some (NF x) \<Rightarrow> bindE (fsquare x) (\<lambda>y. Inr (VFloat y)))"

definition rms_step :: "pyval \<times> int \<Rightarrow> pyval \<times> pyval \<Rightarrow> (pyval \<times> int) py" where
  "rms_step sc lr =
     (case lr of (lhs, rhs) \<Rightarrow>
      thenE (same_len ''parameter element count changed'' lhs rhs)
     (bindE (zip_vals lhs rhs) (\<lambda>ps.
      foldM (\<lambda>(squared, count) (x, y).
        bindE (py_sub x y) (\<lambda>d. bindE (py_square d) (\<lambda>q. bindE (py_add squared q) (\<lambda>s. Inr (s, count + 1))))) sc ps)))"

text \<open>\<open>x ** 0.5\<close> is the correctly rounded square root.\<close>

definition py_root :: "pyval \<Rightarrow> pyval py" where
  "py_root v =
     (case as_num v of None \<Rightarrow> Inl TypeError
      | Some n \<Rightarrow> bindE (to_float n) (\<lambda>x. bindE (fsqrt x) (\<lambda>y. Inr (VFloat y))))"

definition rms_difference :: "pyval \<Rightarrow> pyval \<Rightarrow> pyval py" where
  "rms_difference left right =
     bindE (zip_vals left right) (\<lambda>ps.
     bindE (foldM rms_step (fzero, 0) ps) (\<lambda>(squared, count).
     if count \<noteq> 0 then bindE (py_truediv squared (VInt count)) py_root else Inr fzero))"

section \<open>Identities, names and weighting\<close>

definition order_ranks :: "int \<Rightarrow> pyval list \<Rightarrow> pyval list py" where
  "order_ranks world emitted =
     bindE (mapM (\<lambda>r. py_get r ''rank'' VNone) emitted) (\<lambda>ids.
     thenE (raise_if (\<exists>i \<in> set ids. \<not> hashable i) TypeError)
    (thenE (raise_if (\<not> ((\<forall>i \<in> set ids. \<exists>k \<in> set [0..<nat world]. py_eq i (VInt (int k))) \<and>
                         (\<forall>k \<in> set [0..<nat world]. \<exists>i \<in> set ids. py_eq i (VInt (int k)))))
              (RuntimeError ''ranked process identities changed''))
       (Inr (map (\<lambda>k. snd (last (filter (\<lambda>(i, r). py_eq i (VInt (int k))) (zip ids emitted)))) [0..<nat world]))))"

definition names_differ :: "pyval \<Rightarrow> pyval \<Rightarrow> bool py" where
  "names_differ rank reference =
     bindE (py_getitem rank ''parameter_names'') (\<lambda>x. bindE (py_getitem reference ''parameter_names'') (\<lambda>y. Inr (py_ne x y)))"

definition check_names :: "rargs \<Rightarrow> pyval list \<Rightarrow> pyval \<Rightarrow> unit py" where
  "check_names a ranks reference =
     raise_ifM (orsM [get_ne reference ''context'' (VInt (ra_context a)), get_ne reference ''world_size'' (VInt (ra_world_size a)),
         anyM (\<lambda>r. orsM [get_ne r ''context'' (VInt (ra_context a)), get_ne r ''world_size'' (VInt (ra_world_size a)), names_differ r reference]) ranks])
       (RuntimeError ''rank identity or parameter names changed'')"

definition average_tokens :: "rargs \<Rightarrow> pyval py" where
  "average_tokens a = py_truediv (VInt (sum_list (ra_rank_batch_rows a) * ra_context a)) (VInt (ra_world_size a))"

definition local_tokens :: "rargs \<Rightarrow> nat \<Rightarrow> int" where
  "local_tokens a i = ra_rank_batch_rows a ! i * ra_context a"

definition expected_scale :: "rargs \<Rightarrow> pyval \<Rightarrow> nat \<Rightarrow> pyval py" where
  "expected_scale a average i =
     (if ra_input_weighting a = ''token-weighted'' then py_truediv (VInt (local_tokens a i)) average else Inr (VFloat (Fin 1)))"

definition rank_weighting_bad :: "rargs \<Rightarrow> pyval \<Rightarrow> nat \<times> pyval \<Rightarrow> bool py" where
  "rank_weighting_bad a average ir =
     (case ir of (i, r) \<Rightarrow>
      bindE (expected_scale a average i) (\<lambda>scale.
      orsM [get_ne r ''input_weighting'' (VStr (ra_input_weighting a)), get_ne r ''local_batch_rows'' (VInt (ra_rank_batch_rows a ! i)),
            get_ne r ''local_tokens'' (VInt (local_tokens a i)), get_far r ''average_tokens'' average,
            get_far r ''local_gradient_scale'' scale]))"

fun check_weighting :: "rargs \<Rightarrow> pyval \<Rightarrow> (nat \<times> pyval) list \<Rightarrow> unit py" where
  "check_weighting a average [] = Inr ()"
| "check_weighting a average (ir # irs) =
     thenE (raise_ifM (rank_weighting_bad a average ir) (RuntimeError ''rank input weighting metadata changed'')) (check_weighting a average irs)"

definition check_reference_weighting :: "rargs \<Rightarrow> pyval \<Rightarrow> pyval \<Rightarrow> unit py" where
  "check_reference_weighting a average reference =
     raise_ifM (orM (get_ne reference ''input_weighting'' (VStr (ra_input_weighting a))) (get_far reference ''average_tokens'' average))
       (RuntimeError ''reference input weighting metadata changed'')"

section \<open>Collectives\<close>

definition name_count :: "pyval \<Rightarrow> int py" where
  "name_count reference = bindE (py_getitem reference ''parameter_names'') py_len"

definition expected_collectives :: "rargs \<Rightarrow> pyval list \<Rightarrow> pyval \<Rightarrow> pyval py" where
  "expected_collectives a ranks reference =
     (if ra_reducer a \<noteq> ''per-parameter'' then bindE (list_index ranks 0) (\<lambda>r. py_getitem r ''buckets'')
      else bindE (name_count reference) (\<lambda>n. Inr (VInt (ra_steps a * n))))"

definition check_collectives :: "rargs \<Rightarrow> pyval list \<Rightarrow> pyval \<Rightarrow> unit py" where
  "check_collectives a ranks expected =
     raise_ifM (anyM (\<lambda>r. orsM [get_ne r ''reducer'' (VStr (ra_reducer a)), get_ne r ''collectives'' expected,
         bindE (list_index ranks 0) (\<lambda>r0. bindE (py_get r ''buckets'' VNone) (\<lambda>x. bindE (py_getitem r0 ''buckets'') (\<lambda>y. Inr (py_ne x y))))]) ranks)
       (RuntimeError ''rank reducer collective count changed'')"

section \<open>The differences the gate judges\<close>

record differences =
  df_rank :: pyval
  df_rank_rms :: pyval
  df_reference :: pyval
  df_reference_rms :: pyval
  df_tensors :: pyval
  df_values :: pyval
  df_tolerance :: pyfloat
  df_rms_tolerance :: pyfloat

definition max_of :: "(pyval \<Rightarrow> pyval py) \<Rightarrow> pyval list \<Rightarrow> pyval py" where
  "max_of f rs = bindE (mapM f rs) py_max"

definition max_of_default :: "(pyval \<Rightarrow> pyval py) \<Rightarrow> pyval list \<Rightarrow> pyval py" where
  "max_of_default f rs = bindE (mapM f rs) (py_max_default fzero)"

text \<open>Of the tiny model every parameter value is in the record.\<close>

definition tiny_differences :: "pyval list \<Rightarrow> pyval \<Rightarrow> differences py" where
  "tiny_differences ranks reference =
     bindE (list_index ranks 0) (\<lambda>r0.
     let against = (\<lambda>f l r. bindE (py_getitem l ''parameters'') (\<lambda>x. bindE (py_getitem r ''parameters'') (\<lambda>y. f x y))) in
     bindE (max_of_default (\<lambda>r. against maximum_difference r0 r) (tl ranks)) (\<lambda>rank.
     bindE (max_of_default (\<lambda>r. against rms_difference r0 r) (tl ranks)) (\<lambda>rank_rms.
     bindE (max_of (\<lambda>r. against maximum_difference r reference) ranks) (\<lambda>ref.
     bindE (max_of (\<lambda>r. against rms_difference r reference) ranks) (\<lambda>ref_rms.
     bindE (py_getitem reference ''parameters'') (\<lambda>ps.
     bindE (py_len ps) (\<lambda>tensors.
     bindE (bindE (py_iter ps) (mapM py_len)) (\<lambda>lens.
     Inr \<lparr>df_rank = rank, df_rank_rms = rank_rms, df_reference = ref, df_reference_rms = ref_rms,
          df_tensors = VInt tensors, df_values = VInt (sum_list lens),
          df_tolerance = rnd (2 / 100000), df_rms_tolerance = rnd (2 / 100000)\<rparr>))))))))"

text \<open>Of Model-S the comparison binary compares parameter files: the records of its runs.\<close>

definition models_differences :: "pyval list \<Rightarrow> pyval list \<Rightarrow> differences py" where
  "models_differences rank_comparisons reference_comparisons =
     bindE (max_of_default (\<lambda>c. py_getitem c ''maximum_absolute_difference'') rank_comparisons) (\<lambda>rank.
     bindE (max_of_default (\<lambda>c. py_getitem c ''rms_difference'') rank_comparisons) (\<lambda>rank_rms.
     bindE (max_of (\<lambda>c. py_getitem c ''maximum_absolute_difference'') reference_comparisons) (\<lambda>ref.
     bindE (max_of (\<lambda>c. py_getitem c ''rms_difference'') reference_comparisons) (\<lambda>ref_rms.
     bindE (list_index reference_comparisons 0) (\<lambda>c0.
     bindE (py_getitem c0 ''tensor_count'') (\<lambda>tensors.
     bindE (py_getitem c0 ''compared_elements'') (\<lambda>vals.
     Inr \<lparr>df_rank = rank, df_rank_rms = rank_rms, df_reference = ref, df_reference_rms = ref_rms,
          df_tensors = tensors, df_values = vals,
          df_tolerance = rnd (1 / 100), df_rms_tolerance = rnd (1 / 100000)\<rparr>)))))))"

section \<open>Timings\<close>

definition timing_fields :: "string list" where
  "timing_fields = [''training_ms'', ''forward_backward_ms'', ''reducer_ms'', ''optimizer_ms'']"

definition timing_bad :: "pyval \<Rightarrow> string \<Rightarrow> bool py" where
  "timing_bad r k =
     orsM [bindE (py_get r k VNone) (\<lambda>v. Inr (\<not> is_number v)), notM (bindE (py_getitem r k) py_isfinite),
           bindE (py_getitem r k) (\<lambda>v. py_lt v fzero)]"

text \<open>
  The phases of an interval: each positive, together no longer than the whole but for a microsecond's
  slack; \<open>read\<close> gives the whole, forward/backward, reducer and optimizer times.
\<close>

definition interval_bad :: "(string \<Rightarrow> pyval py) \<Rightarrow> string list \<Rightarrow> bool py" where
  "interval_bad read names =
     orM (anyM (\<lambda>k. bindE (read k) (\<lambda>v. py_le v fzero)) names)
       (bindE (bindE (read (hd names)) (\<lambda>t. py_add t micro)) (\<lambda>whole.
        bindE (bindE (read (names ! 1)) (\<lambda>f. bindE (read (names ! 2)) (\<lambda>r. py_add f r))) (\<lambda>fr.
        bindE (bindE (read (names ! 3)) (\<lambda>p. py_add fr p)) (\<lambda>phases. py_lt whole phases))))"

definition check_timings :: "pyval list \<Rightarrow> unit py" where
  "check_timings ranks =
     thenE (raise_ifM (anyM (\<lambda>r. anyM (timing_bad r) timing_fields) ranks) (RuntimeError ''rank phase timing contract changed''))
       (raise_ifM (anyM (\<lambda>r. interval_bad (py_getitem r) timing_fields) ranks)
          (RuntimeError ''rank phase timings do not form a complete interval''))"

section \<open>Per-step counters\<close>

definition step_timing_fields :: "string list" where
  "step_timing_fields = [''step_training_ms'', ''step_forward_backward_ms'', ''step_reducer_ms'', ''step_optimizer_ms'']"

definition step_count_fields :: "string list" where
  "step_count_fields =
    [''step_collectives'', ''step_buckets'', ''step_pack_copies'', ''step_unpack_copies'', ''step_gradient_views'',
     ''step_reducer_allocation_calls'', ''step_reducer_backend_allocation_calls'', ''step_reducer_deallocation_calls'',
     ''step_reducer_total_allocated_bytes'', ''step_plan_reused'', ''step_reducer_current_bytes_before'',
     ''step_reducer_current_bytes_after'', ''step_reducer_peak_bytes_after'', ''step_overlap_enabled'',
     ''step_overlapped_buckets'', ''step_weighted_gradient_scales'', ''step_weighted_bucket_scales'',
     ''step_gather_scale_calls'', ''step_gather_descriptor_copy_calls'', ''step_gather_descriptor_bytes'']"

definition step_list_bad :: "int \<Rightarrow> pyval \<Rightarrow> string \<Rightarrow> bool py" where
  "step_list_bad steps r k =
     orM (bindE (py_get r k VNone) (\<lambda>v. Inr (\<not> is_list v))) (bindE (bindE (py_getitem r k) py_len) (\<lambda>n. Inr (n \<noteq> steps)))"

definition any_value :: "(pyval \<Rightarrow> bool py) \<Rightarrow> pyval \<Rightarrow> string \<Rightarrow> bool py" where
  "any_value p r k = bindE (bindE (py_getitem r k) py_iter) (anyM p)"

definition time_bad :: "pyval \<Rightarrow> bool py" where
  "time_bad v = orM (notM (py_isfinite v)) (py_lt v fzero)"

definition count_bad :: "pyval \<Rightarrow> bool py" where
  "count_bad v = orM (Inr (\<not> is_int v)) (py_lt v (VInt 0))"

definition check_steps :: "int \<Rightarrow> pyval list \<Rightarrow> unit py" where
  "check_steps steps ranks = checksE
    [raise_ifM (anyM (\<lambda>r. anyM (step_list_bad steps r) (step_timing_fields @ step_count_fields)) ranks)
       (RuntimeError ''rank per-step record count changed''),
     raise_ifM (anyM (\<lambda>r. anyM (any_value time_bad r) step_timing_fields) ranks) (RuntimeError ''rank per-step timing is invalid''),
     raise_ifM (anyM (\<lambda>r. anyM (\<lambda>s. interval_bad (\<lambda>k. step_item r k (int s)) step_timing_fields) [0..<nat steps]) ranks)
       (RuntimeError ''rank per-step timings do not form a complete interval''),
     raise_ifM (anyM (\<lambda>r. anyM (any_value count_bad r) step_count_fields) ranks)
       (RuntimeError ''rank per-step reducer counters are invalid'')]"

definition engine_fields :: "string list" where
  "engine_fields = [''engine_current_bytes'', ''engine_peak_bytes'', ''engine_cached_bytes'', ''engine_reserved_bytes'',
     ''engine_allocation_calls'', ''engine_backend_allocation_calls'']"

definition engine_bad :: "pyval \<Rightarrow> string \<Rightarrow> bool py" where
  "engine_bad r k =
     orM (bindE (py_get r k VNone) (\<lambda>v. Inr (\<not> is_int v))) (bindE (py_getitem r k) (\<lambda>v. py_lt v (VInt 0)))"

definition check_engine :: "pyval list \<Rightarrow> unit py" where
  "check_engine ranks =
     raise_ifM (anyM (\<lambda>r. anyM (engine_bad r) engine_fields) ranks) (RuntimeError ''rank engine memory counters are invalid'')"

definition total_fields :: "(string \<times> string) list" where
  "total_fields =
    [(''step_collectives'', ''collectives''), (''step_buckets'', ''buckets''), (''step_pack_copies'', ''pack_copies''),
     (''step_unpack_copies'', ''unpack_copies''), (''step_gradient_views'', ''gradient_views''),
     (''step_weighted_gradient_scales'', ''weighted_gradient_scales''), (''step_weighted_bucket_scales'', ''weighted_bucket_scales''),
     (''step_gather_scale_calls'', ''gather_scale_calls''), (''step_gather_descriptor_copy_calls'', ''gather_descriptor_copy_calls''),
     (''step_gather_descriptor_bytes'', ''gather_descriptor_bytes'')]"

definition total_bad :: "pyval \<Rightarrow> string \<times> string \<Rightarrow> bool py" where
  "total_bad r f =
     (case f of (step_field, field) \<Rightarrow>
      bindE (bindE (bindE (py_getitem r step_field) py_iter) py_sum) (\<lambda>total.
      bindE (py_getitem r field) (\<lambda>v. Inr (py_ne total v))))"

definition check_totals :: "pyval list \<Rightarrow> unit py" where
  "check_totals ranks =
     raise_ifM (anyM (\<lambda>r. anyM (total_bad r) total_fields) ranks) (RuntimeError ''rank per-step reducer totals changed'')"

section \<open>Weighted scales\<close>

definition weighted_unevenly :: "rargs \<Rightarrow> pyval \<Rightarrow> nat \<Rightarrow> bool" where
  "weighted_unevenly a average i \<longleftrightarrow> ra_input_weighting a = ''token-weighted'' \<and> py_ne (VInt (local_tokens a i)) average"

definition expected_gradient_scales :: "rargs \<Rightarrow> pyval \<Rightarrow> int py \<Rightarrow> nat \<Rightarrow> int py" where
  "expected_gradient_scales a average names i =
     (if weighted_unevenly a average i \<and> ra_reducer a \<notin> {''bucket-weighted-overlap'', ''gather-weighted-overlap''} then names else Inr 0)"

definition item_not :: "pyval \<Rightarrow> string \<Rightarrow> pyval list \<Rightarrow> bool py" where
  "item_not r k vs = item_ne r k (VList vs)"

definition gradient_scales_bad :: "rargs \<Rightarrow> int \<times> pyval \<Rightarrow> bool py" where
  "gradient_scales_bad a nr =
     (case nr of (n, r) \<Rightarrow>
      orM (get_ne r ''weighted_gradient_scales'' (VInt (ra_steps a * n)))
          (item_not r ''step_weighted_gradient_scales'' (repeated (VInt n) (ra_steps a))))"

definition check_gradient_scales :: "rargs \<Rightarrow> pyval \<Rightarrow> int py \<Rightarrow> (nat \<times> pyval) list \<Rightarrow> unit py" where
  "check_gradient_scales a average names irs =
     bindE (mapM (\<lambda>(i, r). expected_gradient_scales a average names i) irs) (\<lambda>ns.
     raise_ifM (anyM (gradient_scales_bad a) (zip ns (map snd irs))) (RuntimeError ''rank per-leaf gradient weighting count changed''))"

definition expected_bucket_scales :: "rargs \<Rightarrow> pyval \<Rightarrow> nat \<times> pyval \<Rightarrow> pyval py" where
  "expected_bucket_scales a average ir =
     (if weighted_unevenly a average (fst ir) \<and> ra_reducer a = ''bucket-weighted-overlap''
      then py_getitem (snd ir) ''buckets'' else Inr (VInt 0))"

definition spread_over :: "rargs \<Rightarrow> pyval \<Rightarrow> pyval list py" where
  "spread_over a v = bindE (py_floordiv_int v (ra_steps a)) (\<lambda>q. Inr (repeated q (ra_steps a)))"

definition bucket_scales_bad :: "rargs \<Rightarrow> pyval \<times> pyval \<Rightarrow> bool py" where
  "bucket_scales_bad a nr =
     (case nr of (n, r) \<Rightarrow>
      orM (get_ne r ''weighted_bucket_scales'' n) (bindE (spread_over a n) (item_not r ''step_weighted_bucket_scales'')))"

definition check_bucket_scales :: "rargs \<Rightarrow> pyval \<Rightarrow> (nat \<times> pyval) list \<Rightarrow> unit py" where
  "check_bucket_scales a average irs =
     bindE (mapM (expected_bucket_scales a average) irs) (\<lambda>ns.
     raise_ifM (anyM (bucket_scales_bad a) (zip ns (map snd irs))) (RuntimeError ''rank ready-bucket weighting count changed''))"

section \<open>Gather scaling\<close>

definition gather_reducer :: "rargs \<Rightarrow> bool" where
  "gather_reducer a \<longleftrightarrow> ra_reducer a = ''gather-weighted-overlap''"

definition expected_gather_calls :: "rargs \<Rightarrow> pyval list \<Rightarrow> pyval list py" where
  "expected_gather_calls a ranks =
     (if gather_reducer a then mapM (\<lambda>r. py_getitem r ''buckets'') ranks else Inr (repeated (VInt 0) (ra_world_size a)))"

definition gather_used_bad :: "pyval \<Rightarrow> bool py" where
  "gather_used_bad r = orsM
     [get_le r ''gather_descriptor_bytes'' (VInt 0), get_le r ''gather_descriptor_capacity_bytes'' (VInt 0),
      any_value (\<lambda>v. py_le v (VInt 0)) r ''step_gather_descriptor_bytes'']"

definition gather_unused_bad :: "pyval \<Rightarrow> bool py" where
  "gather_unused_bad r = orsM
     [get_ne r ''gather_descriptor_bytes'' (VInt 0), get_ne r ''gather_descriptor_capacity_bytes'' (VInt 0),
      any_item r ''step_gather_descriptor_bytes'']"

definition gather_bad :: "rargs \<Rightarrow> pyval \<times> pyval \<Rightarrow> bool py" where
  "gather_bad a nr =
     (case nr of (n, r) \<Rightarrow> orsM
      [get_ne r ''gather_scale_calls'' n, get_ne r ''gather_descriptor_copy_calls'' n,
       bindE (spread_over a n) (item_not r ''step_gather_scale_calls''),
       bindE (spread_over a n) (item_not r ''step_gather_descriptor_copy_calls''),
       (if gather_reducer a then gather_used_bad r else Inr False),
       (if \<not> gather_reducer a then gather_unused_bad r else Inr False)])"

definition check_gather :: "rargs \<Rightarrow> pyval list \<Rightarrow> unit py" where
  "check_gather a ranks =
     bindE (expected_gather_calls a ranks) (\<lambda>ns.
     thenE (raise_ifM (anyM (gather_bad a) (zip ns ranks)) (RuntimeError ''rank gather-scale count changed''))
     (if gather_reducer a
      then raise_ifM (anyM (\<lambda>r. orM (get_ne r ''pack_copies'' (VInt 0)) (any_item r ''step_pack_copies'')) ranks)
             (RuntimeError ''rank gather-scale retained per-gradient pack copies'')
      else Inr ()))"

section \<open>Bucket plans, gradient views and overlap\<close>

text \<open>\<open>[0] + [value] * (steps - 1)\<close>.\<close>

definition after_first :: "rargs \<Rightarrow> pyval \<Rightarrow> pyval list" where
  "after_first a v = VInt 0 # repeated v (ra_steps a - 1)"

definition persistent_reducer :: "rargs \<Rightarrow> bool" where
  "persistent_reducer a \<longleftrightarrow>
     ra_reducer a \<in> {''persistent-bucket'', ''bucket-views'', ''overlap-views'', ''bucket-weighted-overlap'', ''gather-weighted-overlap''}"

definition plan_bad :: "rargs \<Rightarrow> pyval \<Rightarrow> bool py" where
  "plan_bad a r = orsM
     [bindE (py_get r ''persistent_storage'' VNone) (\<lambda>v. Inr (v \<noteq> VBool True)), get_ne r ''plan_reuses'' (VInt (ra_steps a - 1)),
      get_le r ''plan_capacity_elements'' (VInt 0), get_le r ''plan_capacity_bytes'' (VInt 0),
      item_not r ''step_plan_reused'' (after_first a (VInt 1))]"

definition no_plan_bad :: "pyval \<Rightarrow> bool py" where
  "no_plan_bad r = orsM
     [bindE (py_get r ''persistent_storage'' VNone) (\<lambda>v. Inr (v \<noteq> VBool False)), get_ne r ''plan_reuses'' (VInt 0),
      get_ne r ''plan_capacity_elements'' (VInt 0), get_ne r ''plan_capacity_bytes'' (VInt 0), any_item r ''step_plan_reused'']"

definition check_plan :: "rargs \<Rightarrow> pyval list \<Rightarrow> unit py" where
  "check_plan a ranks =
     (if persistent_reducer a
      then raise_ifM (anyM (plan_bad a) ranks) (RuntimeError ''persistent rank bucket plan contract changed'')
      else raise_ifM (anyM no_plan_bad ranks) (RuntimeError ''non-persistent reducer exposed a bucket plan''))"

definition view_reducer :: "rargs \<Rightarrow> bool" where
  "view_reducer a \<longleftrightarrow> ra_reducer a \<in> {''bucket-views'', ''overlap-views'', ''bucket-weighted-overlap'', ''gather-weighted-overlap''}"

definition views_bad :: "rargs \<Rightarrow> int py \<Rightarrow> pyval \<Rightarrow> bool py" where
  "views_bad a names r =
     bindE names (\<lambda>n. orsM
     [get_ne r ''gradient_views'' (VInt (ra_steps a * n)), get_ne r ''unpack_copies'' (VInt 0),
      item_not r ''step_gradient_views'' (repeated (VInt n) (ra_steps a))])"

definition check_views :: "rargs \<Rightarrow> int py \<Rightarrow> pyval list \<Rightarrow> unit py" where
  "check_views a names ranks =
     (if view_reducer a
      then raise_ifM (anyM (views_bad a names) ranks) (RuntimeError ''rank bucket-view contract changed'')
      else raise_ifM (anyM (\<lambda>r. orM (get_ne r ''gradient_views'' (VInt 0)) (any_item r ''step_gradient_views'')) ranks)
             (RuntimeError ''non-view reducer exposed gradient views''))"

definition overlap_reducer :: "rargs \<Rightarrow> bool" where
  "overlap_reducer a \<longleftrightarrow> ra_reducer a \<in> {''overlap-views'', ''bucket-weighted-overlap'', ''gather-weighted-overlap''}"

definition overlap_bad :: "rargs \<Rightarrow> pyval \<Rightarrow> pyval list \<Rightarrow> pyval \<Rightarrow> bool py" where
  "overlap_bad a buckets expected r = orsM
     [get_ne r ''overlap_steps'' (VInt (ra_steps a - 1)),
      bindE (bindE (py_mul (VInt (ra_steps a - 1)) buckets) (\<lambda>v. py_floordiv_int v (ra_steps a))) (get_ne r ''overlapped_buckets''),
      item_not r ''step_overlap_enabled'' (after_first a (VInt 1)), item_not r ''step_overlapped_buckets'' expected]"

definition no_overlap_bad :: "pyval \<Rightarrow> bool py" where
  "no_overlap_bad r = orsM
     [get_ne r ''overlap_steps'' (VInt 0), get_ne r ''overlapped_buckets'' (VInt 0),
      any_item r ''step_overlap_enabled'', any_item r ''step_overlapped_buckets'']"

definition check_overlap :: "rargs \<Rightarrow> pyval list \<Rightarrow> unit py" where
  "check_overlap a ranks =
     bindE (bindE (list_index ranks 0) (\<lambda>r. py_getitem r ''buckets'')) (\<lambda>buckets.
     bindE (py_floordiv_int buckets (ra_steps a)) (\<lambda>q.
     if overlap_reducer a
     then raise_ifM (anyM (overlap_bad a buckets (after_first a q)) ranks) (RuntimeError ''rank gradient overlap contract changed'')
     else raise_ifM (anyM no_overlap_bad ranks) (RuntimeError ''non-overlap reducer exposed overlap state'')))"

section \<open>Losses and the gate\<close>

text \<open>The row-weighted mean of the losses of a step against the loss of the reference.\<close>

definition weighted_loss :: "rargs \<Rightarrow> (nat \<times> pyval) list \<Rightarrow> int \<Rightarrow> pyval py" where
  "weighted_loss a irs step =
     bindE (mapM (\<lambda>(i, r). bindE (step_item r ''losses'' step) (\<lambda>l. py_mul l (VInt (ra_rank_batch_rows a ! i)))) irs) (\<lambda>ls.
     bindE (py_sum ls) (\<lambda>s. py_truediv s (VInt (sum_list (ra_rank_batch_rows a)))))"

definition loss_difference :: "rargs \<Rightarrow> (nat \<times> pyval) list \<Rightarrow> pyval \<Rightarrow> pyval py" where
  "loss_difference a irs reference =
     bindE (mapM (\<lambda>s. bindE (weighted_loss a irs (int s)) (\<lambda>w. bindE (step_item reference ''losses'' (int s)) (abs_diff w)))
       [0..<nat (ra_steps a)]) py_max"

definition gate_failed :: "rargs \<Rightarrow> differences \<Rightarrow> pyval \<Rightarrow> bool py" where
  "gate_failed a d loss = orsM
     [Inr (py_ne (df_rank d) fzero), Inr (py_ne (df_rank_rms d) fzero),
      py_gt (df_reference d) (VFloat (df_tolerance d)), py_gt (df_reference_rms d) (VFloat (df_rms_tolerance d)),
      py_gt loss (VFloat (ra_tolerance a))]"

section \<open>All checks of the records\<close>

definition check_admission :: "rargs \<Rightarrow> pyval list \<Rightarrow> pyval \<Rightarrow> pyval \<Rightarrow> pyval py" where
  "check_admission a ranks reference average =
     thenE (check_weighting a average (enumerate 0 ranks))
    (thenE (check_reference_weighting a average reference)
    (bindE (expected_collectives a ranks reference) (\<lambda>expected.
     thenE (check_collectives a ranks expected) (Inr expected))))"

definition check_records :: "rargs \<Rightarrow> pyval list \<Rightarrow> pyval \<Rightarrow> pyval \<Rightarrow> unit py" where
  "check_records a ranks reference average =
     checksE [check_timings ranks, check_steps (ra_steps a) ranks, check_engine ranks, check_totals ranks,
       check_gradient_scales a average (name_count reference) (enumerate 0 ranks),
       check_bucket_scales a average (enumerate 0 ranks), check_gather a ranks, check_plan a ranks,
       check_views a (name_count reference) ranks, check_overlap a ranks]"

end
