(* ===== verification/RankedGroup.thy ===== *)
theory RankedGroup imports PyState PyFloat begin

text \<open>
  The supervision of a group of rank processes: \<open>terminate\<close> and \<open>wait_group\<close> of
  \<open>run_ranked.py\<close> and \<open>run_ranked_checkpoint.py\<close>. The operating system is an
  oracle that answers a clock reading or a poll from the whole history of what was done so far, so
  a process may exit at any moment and may react to a signal or ignore it.
\<close>

datatype gevent = Clock | Poll nat | Terminate nat | Kill nat | Sleep

type_synonym history = "gevent list"

record group_env =
  env_clock :: "history \<Rightarrow> pyfloat"
  env_poll :: "history \<Rightarrow> nat \<Rightarrow> int option"

section \<open>The code\<close>

definition read_clock :: "group_env \<Rightarrow> history \<Rightarrow> pyfloat \<times> history" where
  "read_clock env h = (env_clock env h, h @ [Clock])"

definition poll :: "group_env \<Rightarrow> nat \<Rightarrow> history \<Rightarrow> int option \<times> history" where
  "poll env i h = (env_poll env h i, h @ [Poll i])"

fun poll_all :: "group_env \<Rightarrow> nat list \<Rightarrow> history \<Rightarrow> int option list \<times> history" where
  "poll_all env [] h = ([], h)"
| "poll_all env (i # is) h = (let (s, h1) = poll env i h; (ss, h2) = poll_all env is h1 in (s # ss, h2))"

text \<open>\<open>any(process.poll() is None for process in processes)\<close> stops at the first one alive.\<close>

fun any_alive :: "group_env \<Rightarrow> nat list \<Rightarrow> history \<Rightarrow> bool \<times> history" where
  "any_alive env [] h = (False, h)"
| "any_alive env (i # is) h = (let (s, h1) = poll env i h in if s = None then (True, h1) else any_alive env is h1)"

fun send_terminate :: "group_env \<Rightarrow> nat list \<Rightarrow> history \<Rightarrow> nat \<times> history" where
  "send_terminate env [] h = (0, h)"
| "send_terminate env (i # is) h =
     (let (s, h1) = poll env i h in
      if s = None then (let (n, h2) = send_terminate env is (h1 @ [Terminate i]) in (Suc n, h2))
      else send_terminate env is h1)"

fun grace_wait :: "nat \<Rightarrow> group_env \<Rightarrow> nat list \<Rightarrow> pyfloat \<Rightarrow> history \<Rightarrow> history option" where
  "grace_wait 0 env is deadline h = None"
| "grace_wait (Suc fuel) env is deadline h =
     (let (t, h1) = read_clock env h in
      if flt t deadline
      then (let (alive, h2) = any_alive env is h1 in if alive then grace_wait fuel env is deadline (h2 @ [Sleep]) else Some h2)
      else Some h1)"

fun kill_alive :: "group_env \<Rightarrow> nat list \<Rightarrow> history \<Rightarrow> history" where
  "kill_alive env [] h = h"
| "kill_alive env (i # is) h =
     (let (s, h1) = poll env i h in kill_alive env is (if s = None then h1 @ [Kill i] else h1))"

definition terminate :: "nat \<Rightarrow> group_env \<Rightarrow> nat \<Rightarrow> history \<Rightarrow> (nat \<times> history) option" where
  "terminate fuel env n h =
     (let (terminated, h1) = send_terminate env [0..<n] h; (t, h2) = read_clock env h1 in
      case grace_wait fuel env [0..<n] (fadd t (Fin 2)) h2 of
        None \<Rightarrow> None
      | Some h3 \<Rightarrow> Some (terminated, kill_alive env [0..<n] h3))"

definition failed_group :: "(nat \<times> history) option \<Rightarrow> ((bool \<times> nat) \<times> history) option" where
  "failed_group r = map_option (\<lambda>(k, h). ((False, k), h)) r"

fun wait_loop :: "nat \<Rightarrow> group_env \<Rightarrow> nat \<Rightarrow> pyfloat \<Rightarrow> history \<Rightarrow> ((bool \<times> nat) \<times> history) option" where
  "wait_loop 0 env n deadline h = None"
| "wait_loop (Suc fuel) env n deadline h =
     (let (t, h1) = read_clock env h in
      if flt t deadline
      then (let (statuses, h2) = poll_all env [0..<n] h1 in
            if \<exists>s \<in> set statuses. s \<notin> {None, Some 0} then failed_group (terminate fuel env n h2)
            else if \<forall>s \<in> set statuses. s = Some 0 then Some ((True, 0), h2)
            else wait_loop fuel env n deadline (h2 @ [Sleep]))
      else failed_group (terminate fuel env n h1))"

definition wait_group :: "nat \<Rightarrow> group_env \<Rightarrow> nat \<Rightarrow> pyfloat \<Rightarrow> history \<Rightarrow> ((bool \<times> nat) \<times> history) option" where
  "wait_group fuel env n timeout h =
     (let (t, h1) = read_clock env h in wait_loop fuel env n (fadd t timeout) h1)"

section \<open>What the loops record\<close>

text \<open>
  A process was seen to have exited when a poll of it answered with a code; \<open>seen_ok\<close> when the
  code was 0.
\<close>

definition seen_code :: "group_env \<Rightarrow> history \<Rightarrow> nat \<Rightarrow> int \<Rightarrow> bool" where
  "seen_code env h i c \<longleftrightarrow> (\<exists>p q. h = p @ Poll i # q \<and> env_poll env p i = Some c)"

definition is_signal :: "gevent \<Rightarrow> bool" where
  "is_signal e \<longleftrightarrow> (\<exists>i. e = Terminate i \<or> e = Kill i)"

definition terminations :: "history \<Rightarrow> nat" where
  "terminations h = length (filter (\<lambda>e. \<exists>i. e = Terminate i) h)"

lemma seen_code_append: "seen_code env h i c \<Longrightarrow> seen_code env (h @ x) i c"
  unfolding seen_code_def by (metis append.assoc append_Cons)

lemma seen_code_poll: "env_poll env h i = Some c \<Longrightarrow> seen_code env (h @ Poll i # x) i c"
  by (auto simp: seen_code_def)

lemma terminations_simps [simp]:
  "terminations [] = 0" "terminations (g @ h) = terminations g + terminations h"
  "terminations (e # h) = (if \<exists>i. e = Terminate i then Suc (terminations h) else terminations h)"
  by (auto simp: terminations_def)

lemma is_signal_simps [simp]: "\<not> is_signal Clock" "\<not> is_signal (Poll i)" "\<not> is_signal Sleep" "is_signal (Terminate i)" "is_signal (Kill i)"
  by (auto simp: is_signal_def)

text \<open>\<open>grows P h h'\<close>: the history only grew, by events that satisfy \<open>P\<close>.\<close>

definition grows :: "(gevent \<Rightarrow> bool) \<Rightarrow> history \<Rightarrow> history \<Rightarrow> bool" where
  "grows P h h' \<longleftrightarrow> (\<exists>new. h' = h @ new \<and> (\<forall>e \<in> set new. P e))"

abbreviation quiet :: "history \<Rightarrow> history \<Rightarrow> bool" where
  "quiet \<equiv> grows (\<lambda>e. \<not> is_signal e)"

lemma grows_refl [simp]: "grows P h h"
  by (simp add: grows_def)

lemma grows_trans: "grows P a b \<Longrightarrow> grows P b c \<Longrightarrow> grows P a c"
  unfolding grows_def by (metis append.assoc Un_iff set_append)

lemma grows_snoc: "grows P a b \<Longrightarrow> P e \<Longrightarrow> grows P a (b @ [e])"
  by (auto simp: grows_def)

lemma grows_event [simp]: "grows P h (h @ [e]) \<longleftrightarrow> P e"
  by (auto simp: grows_def)

lemma grows_mono: "grows P a b \<Longrightarrow> (\<And>e. P e \<Longrightarrow> Q e) \<Longrightarrow> grows Q a b"
  by (auto simp: grows_def)

lemma grows_seen: "grows P a b \<Longrightarrow> seen_code env a i c \<Longrightarrow> seen_code env b i c"
  by (auto simp: grows_def seen_code_append)

lemma quiet_terminations: "quiet a b \<Longrightarrow> terminations b = terminations a"
proof -
  assume "quiet a b"
  then obtain new where b: "b = a @ new" and q: "\<forall>e \<in> set new. \<not> is_signal e" by (auto simp: grows_def)
  have "terminations new = 0" using q by (induction new) auto
  then show ?thesis by (simp add: b)
qed

lemma seen_snoc: "env_poll env h i = Some c \<Longrightarrow> seen_code env (h @ [Poll i]) i c"
  by (auto simp: seen_code_def)

lemma poll_all_run:
  "poll_all env is h = (ss, h') \<Longrightarrow> quiet h h' \<and> ((\<forall>s \<in> set ss. s = Some 0) \<longrightarrow> (\<forall>i \<in> set is. seen_code env h' i 0))"
proof (induction "is" arbitrary: h ss)
  case (Cons i "is")
  obtain ts where step: "poll_all env is (h @ [Poll i]) = (ts, h')" "ss = env_poll env h i # ts"
    using Cons.prems by (cases "poll_all env is (h @ [Poll i])") (simp add: poll_def)
  note IH = Cons.IH [OF step(1)]
  have "quiet h h'" by (rule grows_trans [OF _ conjunct1 [OF IH]]) simp
  moreover have "seen_code env h' i 0" if "env_poll env h i = Some 0"
    using grows_seen [OF conjunct1 [OF IH] seen_snoc [OF that]] .
  ultimately show ?case using IH step(2) by auto
qed auto

lemma any_alive_run: "any_alive env is h = (b, h') \<Longrightarrow> quiet h h'"
proof (induction "is" arbitrary: h)
  case (Cons i "is")
  show ?case
  proof (cases "env_poll env h i")
    case None then show ?thesis using Cons.prems by (auto simp: poll_def)
  next
    case (Some c)
    then have "any_alive env is (h @ [Poll i]) = (b, h')" using Cons.prems by (simp add: poll_def)
    from grows_trans [OF _ Cons.IH [OF this]] show ?thesis by simp
  qed
qed auto

lemma grace_wait_run: "grace_wait fuel env is d h = Some h' \<Longrightarrow> quiet h h'"
proof (induction fuel arbitrary: h)
  case (Suc fuel)
  obtain b h2 where alive: "any_alive env is (h @ [Clock]) = (b, h2)" by fastforce
  have q: "quiet h h2" by (rule grows_trans [OF _ any_alive_run [OF alive]]) simp
  consider "h' = h @ [Clock]" | "h' = h2" | "grace_wait fuel env is d (h2 @ [Sleep]) = Some h'"
    using Suc.prems alive by (cases "flt (env_clock env h) d"; cases b) (simp_all add: read_clock_def)
  then show ?case
  proof cases
    case 1 then show ?thesis by simp
  next
    case 2 then show ?thesis using q by simp
  next
    case 3
    show ?thesis by (rule grows_trans [OF grows_snoc [OF q] Suc.IH [OF 3]]) simp
  qed
qed simp

text \<open>Every process given a signal, or seen to have exited.\<close>

lemma send_terminate_run:
  "send_terminate env is h = (k, h') \<Longrightarrow>
   grows (\<lambda>e. \<forall>i. e \<noteq> Kill i) h h' \<and> terminations h' = terminations h + k \<and>
   (\<forall>i \<in> set is. Terminate i \<in> set h' \<or> (\<exists>c. seen_code env h' i c))"
proof (induction "is" arbitrary: h k)
  case (Cons i "is")
  show ?case
  proof (cases "env_poll env h i")
    case None
    then obtain n where n: "send_terminate env is (h @ [Poll i] @ [Terminate i]) = (n, h')" "k = Suc n"
      using Cons.prems by (auto simp: poll_def split: prod.splits)
    note IH = Cons.IH [OF n(1)]
    have "Terminate i \<in> set h'" using IH by (auto simp: grows_def)
    moreover have "grows (\<lambda>e. \<forall>i. e \<noteq> Kill i) h h'"
      using IH by (auto simp: grows_def)
    ultimately show ?thesis using IH n(2) by auto
  next
    case (Some c)
    then have s: "send_terminate env is (h @ [Poll i]) = (k, h')" using Cons.prems by (simp add: poll_def)
    note IH = Cons.IH [OF s]
    have "seen_code env h' i c" using grows_seen [OF conjunct1 [OF IH] seen_snoc [OF Some]] .
    moreover have "grows (\<lambda>e. \<forall>i. e \<noteq> Kill i) h h'"
      using IH by (auto simp: grows_def)
    ultimately show ?thesis using IH by auto
  qed
qed simp

lemma kill_alive_run:
  "kill_alive env is h = h' \<Longrightarrow> grows (\<lambda>e. \<forall>i. e \<noteq> Terminate i) h h' \<and>
   (\<forall>i \<in> set is. Kill i \<in> set h' \<or> (\<exists>c. seen_code env h' i c))"
proof (induction "is" arbitrary: h)
  case (Cons i "is")
  let ?h = "if env_poll env h i = None then h @ [Poll i] @ [Kill i] else h @ [Poll i]"
  have "kill_alive env is ?h = h'" using Cons.prems by (auto simp: poll_def)
  note IH = Cons.IH [OF this]
  have g: "grows (\<lambda>e. \<forall>i. e \<noteq> Terminate i) h h'" using IH by (auto simp: grows_def split: if_splits)
  have "Kill i \<in> set h' \<or> (\<exists>c. seen_code env h' i c)"
  proof (cases "env_poll env h i")
    case None then show ?thesis using IH by (auto simp: grows_def)
  next
    case (Some c)
    then show ?thesis using grows_seen [OF conjunct1 [OF IH]] seen_snoc [OF Some] by auto
  qed
  then show ?case using IH g by auto
qed simp

definition settled :: "group_env \<Rightarrow> history \<Rightarrow> nat \<Rightarrow> bool" where
  "settled env h i \<longleftrightarrow> Kill i \<in> set h \<or> (\<exists>c. seen_code env h i c)"

lemma terminate_run:
  assumes "terminate fuel env n h = Some (k, h')"
  shows "terminations h' = terminations h + k \<and> (\<forall>i < n. settled env h' i)"
proof -
  obtain h1 where t: "send_terminate env [0..<n] h = (k, h1)" using assms by (auto simp: terminate_def Let_def split: prod.splits option.splits)
  obtain h3 where g: "grace_wait fuel env [0..<n] (fadd (env_clock env h1) (Fin 2)) (h1 @ [Clock]) = Some h3"
    and h': "kill_alive env [0..<n] h3 = h'"
    using assms t by (auto simp: terminate_def read_clock_def split: option.splits)
  have "quiet h1 h3" by (rule grows_trans [OF _ grace_wait_run [OF g]]) simp
  then have "terminations h3 = terminations h1" by (rule quiet_terminations)
  moreover have "terminations h1 = terminations h + k" using send_terminate_run [OF t] by simp
  moreover have "terminations h' = terminations h3"
  proof -
    obtain new where new: "h' = h3 @ new" "\<forall>e \<in> set new. \<forall>i. e \<noteq> Terminate i"
      using kill_alive_run [OF h'] unfolding grows_def by blast
    have "terminations new = 0" using new(2) by (induction new) auto
    then show ?thesis by (simp add: new(1))
  qed
  moreover have "\<forall>i < n. settled env h' i" using kill_alive_run [OF h'] by (auto simp: settled_def)
  ultimately show ?thesis by simp
qed

definition group_outcome :: "group_env \<Rightarrow> nat \<Rightarrow> history \<Rightarrow> (bool \<times> nat) \<times> history \<Rightarrow> bool" where
  "group_outcome env n h r =
     (case r of ((ok, k), h') \<Rightarrow>
        if ok then k = 0 \<and> quiet h h' \<and> (\<forall>i < n. seen_code env h' i 0)
        else terminations h' = terminations h + k \<and> (\<forall>i < n. settled env h' i))"

lemma group_outcome_quiet: "quiet h h1 \<Longrightarrow> group_outcome env n h1 r \<Longrightarrow> group_outcome env n h r"
  by (auto simp: group_outcome_def quiet_terminations split: prod.splits if_splits intro: grows_trans)

lemma failed_group_outcome: "failed_group (terminate fuel env n h) = Some r \<Longrightarrow> group_outcome env n h r"
  by (auto simp: failed_group_def group_outcome_def dest: terminate_run)

lemma split4: "(if a then (if b then x else if c then Some y else z) else w) = Some r \<Longrightarrow> w = Some r \<or> x = Some r \<or> c \<and> y = r \<or> z = Some r"
  by (simp split: if_split_asm)

lemma wait_loop_run: "wait_loop fuel env n d h = Some r \<Longrightarrow> group_outcome env n h r"
proof (induction fuel arbitrary: h)
  case (Suc fuel)
  obtain ss h2 where polls: "poll_all env [0..<n] (h @ [Clock]) = (ss, h2)" by fastforce
  note run = poll_all_run [OF polls]
  have q1: "quiet h (h @ [Clock])" by simp
  have q: "quiet h h2" by (rule grows_trans [OF q1 conjunct1 [OF run]])
  have q3: "quiet h (h2 @ [Sleep])" by (rule grows_snoc [OF q]) simp
  have eq: "(if flt (env_clock env h) d
      then (if \<exists>s \<in> set ss. s \<notin> {None, Some 0} then failed_group (terminate fuel env n h2)
            else if \<forall>s \<in> set ss. s = Some 0 then Some ((True, 0), h2) else wait_loop fuel env n d (h2 @ [Sleep]))
      else failed_group (terminate fuel env n (h @ [Clock]))) = Some r"
    using Suc.prems by (simp only: wait_loop.simps read_clock_def Let_def prod.case polls)
  consider "failed_group (terminate fuel env n (h @ [Clock])) = Some r" | "failed_group (terminate fuel env n h2) = Some r"
    | "\<forall>s \<in> set ss. s = Some 0" "((True, 0), h2) = r" | "wait_loop fuel env n d (h2 @ [Sleep]) = Some r"
    using split4 [OF eq] by blast
  then show ?case
  proof cases
    case 1 then show ?thesis by (rule group_outcome_quiet [OF q1 failed_group_outcome])
  next
    case 2 then show ?thesis by (rule group_outcome_quiet [OF q failed_group_outcome])
  next
    case 3 then show ?thesis using q run by (auto simp: group_outcome_def)
  next
    case 4 then show ?thesis by (rule group_outcome_quiet [OF q3 Suc.IH])
  qed
qed simp

text \<open>
  C23. What the answer of \<open>wait_group\<close> means: success only after every process of the group was
  seen to exit with code 0, with no signal sent to any; on failure the number returned is the number
  of processes that were sent a termination signal, and no process is left behind: each was either seen
  to have exited or killed.
\<close>

theorem wait_group_outcome:
  assumes "wait_group fuel env n timeout [] = Some ((ok, k), h)"
  shows "(ok \<longrightarrow> k = 0 \<and> (\<forall>e \<in> set h. \<not> is_signal e) \<and> (\<forall>i < n. seen_code env h i 0)) \<and>
    (\<not> ok \<longrightarrow> k = terminations h \<and> (\<forall>i < n. Kill i \<in> set h \<or> (\<exists>c. seen_code env h i c)))"
proof -
  have "wait_loop fuel env n (fadd (env_clock env []) timeout) [Clock] = Some ((ok, k), h)"
    using assms by (simp add: wait_group_def read_clock_def)
  then have "group_outcome env n [Clock] ((ok, k), h)" by (rule wait_loop_run)
  then show ?thesis by (auto simp: group_outcome_def grows_def settled_def split: if_splits)
qed

section \<open>Termination\<close>

definition clock_reads :: "history \<Rightarrow> nat" where
  "clock_reads h = length (filter (\<lambda>e. e = Clock) h)"

text \<open>The clock reaches the deadline at the latest at its \<open>N\<close>-th reading.\<close>

definition clock_reaches :: "group_env \<Rightarrow> pyfloat \<Rightarrow> nat \<Rightarrow> bool" where
  "clock_reaches env d N \<longleftrightarrow> (\<forall>h. N \<le> clock_reads h \<longrightarrow> \<not> flt (env_clock env h) d)"

lemma clock_reads_simps [simp]: "clock_reads (a @ b) = clock_reads a + clock_reads b" "clock_reads [Clock] = 1"
  by (simp_all add: clock_reads_def)

lemma grows_reads: "grows P a b \<Longrightarrow> clock_reads a \<le> clock_reads b"
  by (auto simp: grows_def)

lemma grace_wait_total: "clock_reaches env d N \<Longrightarrow> N < fuel + clock_reads h \<Longrightarrow> 0 < fuel \<Longrightarrow> grace_wait fuel env is d h \<noteq> None"
proof (induction fuel arbitrary: h)
  case (Suc fuel)
  obtain b h2 where alive: "any_alive env is (h @ [Clock]) = (b, h2)" by fastforce
  have c: "clock_reads h + 1 \<le> clock_reads (h2 @ [Sleep])" using grows_reads [OF any_alive_run [OF alive]] by simp
  show ?case
  proof (cases "flt (env_clock env h) d \<and> b")
    case True
    then have "clock_reads h < N" using Suc.prems(1) by (meson clock_reaches_def not_le)
    then have "grace_wait fuel env is d (h2 @ [Sleep]) \<noteq> None"
      using Suc.prems(2) c by (intro Suc.IH [OF Suc.prems(1)]) simp_all
    then show ?thesis using True alive by (simp add: read_clock_def)
  next
    case False
    then show ?thesis using alive by (auto simp: read_clock_def)
  qed
qed simp

lemma grace_wait_more: "grace_wait f env is d h = Some r \<Longrightarrow> f \<le> g \<Longrightarrow> grace_wait g env is d h = Some r"
proof (induction f arbitrary: g h)
  case (Suc f)
  then obtain g' where g: "g = Suc g'" "f \<le> g'" by (cases g) auto
  obtain b h2 where alive: "any_alive env is (h @ [Clock]) = (b, h2)" by fastforce
  show ?case
    using Suc.prems(1) Suc.IH [of "h2 @ [Sleep]" g'] g alive
    by (cases "flt (env_clock env h) d"; cases b) (simp_all add: read_clock_def)
qed simp

text \<open>\<open>returns f\<close>: enough fuel gives a result, the same for every larger amount.\<close>

definition returns :: "(nat \<Rightarrow> 'a option) \<Rightarrow> bool" where
  "returns f \<longleftrightarrow> (\<exists>m r. \<forall>g \<ge> m. f g = Some r)"

lemma returns_Suc: "returns f \<Longrightarrow> (\<And>g. F (Suc g) = f g) \<Longrightarrow> returns F"
proof -
  assume "returns f" and F: "\<And>g. F (Suc g) = f g"
  then obtain m r where "\<forall>g \<ge> m. f g = Some r" by (auto simp: returns_def)
  then have "\<forall>g \<ge> Suc m. F g = Some r" using F by (metis Suc_le_D Suc_le_mono)
  then show "returns F" by (auto simp: returns_def)
qed

lemma returns_if: "returns f \<Longrightarrow> returns g \<Longrightarrow> returns (\<lambda>x. if b then f x else g x)"
  by (cases b) simp_all

lemma poll_all_reads: "poll_all env is h = (ss, h') \<Longrightarrow> clock_reads h' = clock_reads h"
proof (induction "is" arbitrary: h ss)
  case (Cons i "is")
  then show ?case by (cases "poll_all env is (h @ [Poll i])") (auto simp: poll_def clock_reads_def)
qed simp

lemma send_terminate_reads: "send_terminate env is h = (k, h') \<Longrightarrow> clock_reads h' = clock_reads h"
proof (induction "is" arbitrary: h k)
  case (Cons i "is")
  show ?case
  proof (cases "env_poll env h i")
    case None
    then show ?thesis using Cons
      by (cases "send_terminate env is (h @ [Poll i, Terminate i])") (auto simp: poll_def clock_reads_def)
  next
    case (Some c)
    then have "send_terminate env is (h @ [Poll i]) = (k, h')" using Cons.prems by (simp add: poll_def)
    from Cons.IH [OF this] show ?thesis by (simp add: clock_reads_def)
  qed
qed simp

lemma returns_const: "returns (\<lambda>g. Some r)"
  by (auto simp: returns_def)

lemma returns_map: "returns f \<Longrightarrow> returns (\<lambda>g. map_option F (f g))"
  by (auto simp: returns_def)

lemma terminate_returns:
  assumes "\<And>h. clock_reads h \<le> M \<Longrightarrow> \<exists>N. clock_reaches env (fadd (env_clock env h) (Fin 2)) N" and "clock_reads h \<le> M"
  shows "returns (\<lambda>fuel. terminate fuel env n h)"
proof -
  obtain k h1 where t: "send_terminate env [0..<n] h = (k, h1)" by fastforce
  let ?d = "fadd (env_clock env h1) (Fin 2)"
  have "clock_reads h1 \<le> M" using send_terminate_reads [OF t] assms(2) by simp
  then obtain N where N: "clock_reaches env ?d N" using assms(1) by blast
  obtain h3 where g: "grace_wait (Suc N) env [0..<n] ?d (h1 @ [Clock]) = Some h3"
    using grace_wait_total [OF N, of "Suc N" "h1 @ [Clock]" "[0..<n]"] by auto
  have "terminate fuel env n h = Some (k, kill_alive env [0..<n] h3)" if "Suc N \<le> fuel" for fuel
    using grace_wait_more [OF g that] t by (simp add: terminate_def read_clock_def)
  then show ?thesis by (auto simp: returns_def)
qed

lemma wait_loop_returns:
  assumes "clock_reaches env d N" and "\<And>h. clock_reads h \<le> N + 2 \<Longrightarrow> \<exists>M. clock_reaches env (fadd (env_clock env h) (Fin 2)) M"
    and "clock_reads h \<le> N + 1"
  shows "returns (\<lambda>fuel. wait_loop fuel env n d h)"
  using assms(3)
proof (induction "N - clock_reads h" arbitrary: h rule: less_induct)
  case less
  obtain ss h2 where polls: "poll_all env [0..<n] (h @ [Clock]) = (ss, h2)" by fastforce
  have reads: "clock_reads h2 = clock_reads h + 1" using poll_all_reads [OF polls] by simp
  have fails: "returns (\<lambda>fuel. failed_group (terminate fuel env n h'))" if "clock_reads h' \<le> N + 2" for h'
    unfolding failed_group_def by (rule returns_map [OF terminate_returns [OF assms(2) that]])
  have f1: "returns (\<lambda>fuel. failed_group (terminate fuel env n (h @ [Clock])))"
    and f2: "returns (\<lambda>fuel. failed_group (terminate fuel env n h2))" using less.prems reads by (simp_all add: fails)
  let ?next = "\<lambda>fuel. wait_loop fuel env n d (h2 @ [Sleep])"
  have step: "wait_loop (Suc fuel) env n d h =
      (if flt (env_clock env h) d
       then (if \<exists>s \<in> set ss. s \<notin> {None, Some 0} then failed_group (terminate fuel env n h2)
             else if \<forall>s \<in> set ss. s = Some 0 then Some ((True, 0), h2) else ?next fuel)
       else failed_group (terminate fuel env n (h @ [Clock])))" for fuel
    by (simp only: wait_loop.simps read_clock_def Let_def prod.case polls)
  show ?case
  proof (cases "flt (env_clock env h) d")
    case True
    then have "clock_reads h < N" using assms(1) by (meson clock_reaches_def not_le)
    then have "N - clock_reads (h2 @ [Sleep]) < N - clock_reads h" "clock_reads (h2 @ [Sleep]) \<le> N + 1"
      using reads by (simp_all add: clock_reads_def)
    then have "returns ?next" by (rule less.hyps)
    then have "returns (\<lambda>fuel. if \<exists>s \<in> set ss. s \<notin> {None, Some 0} then failed_group (terminate fuel env n h2)
             else if \<forall>s \<in> set ss. s = Some 0 then Some ((True, 0), h2) else ?next fuel)"
      by (intro returns_if f2 returns_const)
    then show ?thesis by (rule returns_Suc) (simp only: step True if_True)
  next
    case False
    show ?thesis by (rule returns_Suc [OF f1]) (simp only: step False if_False)
  qed
qed

text \<open>
  C24. \<open>wait_group\<close> returns whatever the processes do, ignored signals included, when the clock reaches
  the deadline of the group within \<open>N\<close> readings and, read within that time, reaches two seconds
  later too: its two polling loops end at their deadlines. The model's fuel only has to be large enough.
\<close>

theorem wait_group_returns:
  assumes "clock_reaches env (fadd (env_clock env []) timeout) N"
    and "\<And>h. clock_reads h \<le> N + 2 \<Longrightarrow> \<exists>M. clock_reaches env (fadd (env_clock env h) (Fin 2)) M"
  shows "\<exists>m r. \<forall>fuel \<ge> m. wait_group fuel env n timeout [] = Some r"
proof -
  have "returns (\<lambda>fuel. wait_loop fuel env n (fadd (env_clock env []) timeout) [Clock])"
  proof (rule wait_loop_returns [OF assms(1)])
    show "clock_reads [Clock] \<le> N + 1" by simp
  qed (rule assms(2))
  then show ?thesis by (simp add: returns_def wait_group_def read_clock_def)
qed

section \<open>The properties at concrete groups\<close>

text \<open>A clock that advances by a second per reading; process 0 fails at once, the others ignore signals.\<close>

definition stubborn :: group_env where
  "stubborn = \<lparr>env_clock = (\<lambda>h. Fin (of_nat (clock_reads h))), env_poll = (\<lambda>h i. if i = 0 then Some 1 else None)\<rparr>"

theorem wait_group_outcome_witness:
  "\<exists>k h. wait_group 9 stubborn 2 (Fin 5) [] = Some ((False, k), h) \<and> k = terminations h \<and> Kill 1 \<in> set h"
proof -
  have run: "\<exists>h. wait_group 9 stubborn 2 (Fin 5) [] = Some ((False, 1), h) \<and> Kill 1 \<in> set h"
    by (simp add: eval_nat_numeral wait_group_def read_clock_def terminate_def poll_def stubborn_def clock_reads_def failed_group_def)
  then show ?thesis using wait_group_outcome [of 9 stubborn 2 "Fin 5" False 1] by auto
qed

lemma stubborn_reaches: "d \<noteq> PInf \<Longrightarrow> \<exists>N. clock_reaches stubborn d N"
proof (cases d)
  case (Fin q)
  have "q \<le> of_nat m" if "nat \<lceil>q\<rceil> \<le> m" for m
    using that by (metis le_nat_floor nat_le_iff of_int_of_nat_eq ceiling_le_iff)
  then show ?thesis using Fin by (intro exI [of _ "nat \<lceil>q\<rceil>"]) (auto simp: clock_reaches_def stubborn_def not_less)
qed (auto simp: clock_reaches_def stubborn_def)

theorem wait_group_returns_witness:
  "\<exists>m r. \<forall>fuel \<ge> m. wait_group fuel stubborn 2 (Fin 5) [] = Some r"
proof (rule wait_group_returns)
  show "clock_reaches stubborn (fadd (env_clock stubborn []) (Fin 5)) 5"
    by (simp add: clock_reaches_def stubborn_def clock_reads_def)
  fix h assume "clock_reads h \<le> 5 + 2"
  then have "clock_reads h \<in> set [0..<8]" by auto
  then have "fadd (env_clock stubborn h) (Fin 2) \<noteq> PInf"
    by (auto simp: stubborn_def upt_rec eval_nat_numeral)
  then show "\<exists>M. clock_reaches stubborn (fadd (env_clock stubborn h) (Fin 2)) M" by (rule stubborn_reaches)
qed

end
