(* ===== verification/RankedMain.thy ===== *)
theory RankedMain imports RankedCheck RankedGroup begin

text \<open>
  \<open>main\<close> of \<open>run_ranked.py\<close> from the launch to the summary. What the processes and the clock did
  is the record \<open>launch\<close>; the state is the output directory. \<open>wait_group\<close> is the subject of
  \<open>RankedGroup\<close>, the checks of \<open>RankedCheck\<close>. A write of a text file does not fail here.
\<close>

section \<open>What the processes did\<close>

record prog_output =
  po_text :: string
  po_lines :: "pyval py list"

record prog_run =
  pr_code :: int
  pr_out :: prog_output
  pr_err :: string

record launch =
  la_completed :: bool
  la_terminated :: nat
  la_codes :: "int list"
  la_outputs :: "prog_output list"
  la_errors :: "string list"
  la_group_ms :: pyfloat
  la_reference :: "prog_run py"
  la_reference_ms :: pyfloat
  la_compare :: "string \<Rightarrow> string \<Rightarrow> prog_run py"
  la_gpu_ids :: "string option list"
  la_shared_total :: int
  la_shared_free :: int
  la_logs :: "(string \<times> nat) list"
  la_files :: "(string \<times> content) list"

definition compare_safetensors :: "launch \<Rightarrow> string \<Rightarrow> string \<Rightarrow> pyval py" where
  "compare_safetensors l baseline candidate =
     bindE (la_compare l baseline candidate) (\<lambda>run.
     thenE (raise_if (pr_code run \<noteq> 0) (RuntimeError (po_text (pr_out run) @ pr_err run)))
       (load_record ''safetensors comparison'' (po_lines (pr_out run))))"

section \<open>Preflight\<close>

text \<open>A node whose file cannot be read, or does not hold an int, is skipped.\<close>

definition visible_gpu_count :: "string option list \<Rightarrow> nat" where
  "visible_gpu_count texts =
     length (filter (\<lambda>t. case t of None \<Rightarrow> False | Some s \<Rightarrow> (case int_of_str (strip s) of Inl _ \<Rightarrow> False | Inr i \<Rightarrow> i \<noteq> 0)) texts)"

definition resource_preflight :: "launch \<Rightarrow> int \<Rightarrow> pyval" where
  "resource_preflight l world =
     (let visible = int (visible_gpu_count (la_gpu_ids l)) in
      VDict [(''world_size'', VInt world), (''visible_gpu_count'', VInt visible),
             (''visible_gpu_count_sufficient'', VBool (world \<le> visible)),
             (''shared_memory_total_bytes'', VInt (la_shared_total l)), (''shared_memory_free_bytes'', VInt (la_shared_free l)),
             (''required_shared_memory_bytes'', VNone), (''required_shared_memory_unknown'', VBool True)])"

section \<open>RCCL debug logs\<close>

fun starts_with :: "string \<Rightarrow> string \<Rightarrow> string option" where
  "starts_with [] s = Some s"
| "starts_with (c # cs) [] = None"
| "starts_with (c # cs) (x # xs) = (if c = x then starts_with cs xs else None)"

text \<open>What follows the first occurrence of a text.\<close>

fun after_first_of :: "string \<Rightarrow> string \<Rightarrow> string option" where
  "after_first_of p [] = (if p = [] then Some [] else None)"
| "after_first_of p (x # xs) = (case starts_with p (x # xs) of Some r \<Rightarrow> Some r | None \<Rightarrow> after_first_of p xs)"

text \<open>\<open>\(size ([0-9]+)\).*No space left on device\<close> at the start of a text.\<close>

definition size_here :: "string \<Rightarrow> nat option" where
  "size_here s =
     (case starts_with ''(size '' s of None \<Rightarrow> None
      | Some r \<Rightarrow>
          (let digits = takeWhile is_digit r in
           case starts_with '')'' (dropWhile is_digit r) of None \<Rightarrow> None
           | Some rest \<Rightarrow> if digits \<noteq> [] \<and> after_first_of ''No space left on device'' rest \<noteq> None
                          then Some (nat_of_digits digits) else None))"

text \<open>\<open>.*\<close> is greedy: the last place of the line where the rest of the pattern matches.\<close>

fun last_size :: "string \<Rightarrow> nat option" where
  "last_size [] = None"
| "last_size (x # xs) = (case last_size xs of Some n \<Rightarrow> Some n | None \<Rightarrow> size_here (x # xs))"

definition line_size :: "string \<Rightarrow> nat option" where
  "line_size line = Option.bind (after_first_of ''shared memory segment '' line) last_size"

definition line_version :: "string \<Rightarrow> string option" where
  "line_version line =
     (case after_first_of ''RCCL version : '' line of None \<Rightarrow> None | Some r \<Rightarrow> if r = [] then None else Some (strip r))"

definition collect_rccl_debug :: "(string \<times> nat) list \<Rightarrow> pyval" where
  "collect_rccl_debug logs =
     (let found = map (\<lambda>(text, bytes). [n. Some n \<leftarrow> map line_size (split_on (CHR 0x0A) text)]) logs;
          sizes = concat found; no_space = length (filter (\<lambda>f. f \<noteq> []) found);
          versions = concat (map (\<lambda>(text, bytes). [v. Some v \<leftarrow> map line_version (split_on (CHR 0x0A) text)]) logs)
      in VDict [(''enabled'', VBool True), (''log_files'', VInt (int (length logs))),
                (''raw_log_bytes'', VInt (int (sum_list (map snd logs)))), (''raw_logs_retained'', VBool False),
                (''shared_memory_no_space_logs'', VInt (int no_space)), (''shared_memory_segment_bytes'', VInt (int (foldl max 0 sizes))),
                (''shared_memory_failure_observed'', VBool (0 < no_space)),
                (''diagnosis'', VStr (if 0 < no_space then ''shared-memory-capacity-exhausted'' else ''not-established'')),
                (''rccl_versions'', VList (map VStr (sort (remdups versions))))])"

section \<open>Files\<close>

definition write_file :: "string \<Rightarrow> pyval \<Rightarrow> (files, unit) action" where
  "write_file f v fs = (Inr (), fs(f \<mapsto> Whole v))"

definition unlink :: "string \<Rightarrow> (files, unit) action" where
  "unlink f fs = (Inr (), fs(f := None))"

text \<open>An existing output directory is emptied when it may be overwritten; the processes leave files in it.\<close>

definition clear_output :: "rargs \<Rightarrow> string list option \<Rightarrow> (files, unit) action" where
  "clear_output a dir fs =
     (Inr (), if dir \<noteq> None \<and> ra_overwrite a then (\<lambda>f. if starts_with (ra_output a @ ''/'') f \<noteq> None then None else fs f) else fs)"

definition arrivals :: "launch \<Rightarrow> (files, unit) action" where
  "arrivals l fs = (Inr (), fs ++ map_of (la_files l))"

fun each :: "('a \<Rightarrow> ('w, unit) action) \<Rightarrow> 'a list \<Rightarrow> ('w, unit) action" where
  "each f [] = retS ()"
| "each f (x # xs) = thenS (f x) (each f xs)"

definition in_output :: "rargs \<Rightarrow> string \<Rightarrow> string" where
  "in_output a name = ra_output a @ ''/'' @ name"

definition indexed_file :: "rargs \<Rightarrow> string \<Rightarrow> nat \<Rightarrow> string" where
  "indexed_file a suffix i = in_output a (''rank'' @ str_int (int i) @ suffix)"

definition parameter_files :: "rargs \<Rightarrow> string list" where
  "parameter_files a = map (rank_file a) (command_ranks (ra_world_size a)) @ [reference_file a]"

definition remove_parameters :: "rargs \<Rightarrow> (files, unit) action" where
  "remove_parameters a = each unlink (parameter_files a)"

definition record_outputs :: "rargs \<Rightarrow> launch \<Rightarrow> (files, unit) action" where
  "record_outputs a l =
     thenS (unlink (in_output a ''communicator.id''))
    (thenS (each (\<lambda>(i, o1). write_file (indexed_file a ''.stdout'' i) (VStr (po_text o1))) (enumerate 0 (la_outputs l)))
           (each (\<lambda>(i, e). write_file (indexed_file a ''.stderr'' i) (VStr e)) (enumerate 0 (la_errors l))))"

definition publish :: "rargs \<Rightarrow> pyval \<Rightarrow> (files, pyval) action" where
  "publish a summary = thenS (write_file (in_output a ''summary.json'') summary) (retS summary)"

section \<open>Expected failures\<close>

definition codes_value :: "launch \<Rightarrow> pyval" where
  "codes_value l = VList (map VInt (la_codes l))"

definition peer_failure :: "rargs \<Rightarrow> launch \<Rightarrow> pyval \<Rightarrow> pyval \<Rightarrow> (files, pyval) action" where
  "peer_failure a l preflight debug =
     thenS (remove_parameters a)
    (thenS (liftS (raise_if (la_completed l \<or> la_terminated l < 1 \<or> hd (la_codes l) = 0)
              (RuntimeError ''peer failure did not terminate the waiting rank group'')))
    (publish a (VDict
       [(''schema_version'', VInt 1), (''status'', VStr ''pass''), (''record_type'', VStr ''ranked_peer_failure_summary''),
        (''failure_detected'', VBool True), (''world_size'', VInt (ra_world_size a)),
        (''peer_processes_terminated'', VInt (int (la_terminated l))), (''rank_group_ms'', VFloat (la_group_ms l)),
        (''returncodes'', codes_value l), (''preflight'', preflight), (''rccl_debug'', debug)])))"

fun contains :: "string \<Rightarrow> string \<Rightarrow> bool" where
  "contains p s = (after_first_of p s \<noteq> None)"

definition uneven_text :: string where
  "uneven_text = ''uneven local token counts require token-weighted input mode''"

definition uneven_failure :: "rargs \<Rightarrow> launch \<Rightarrow> (files, pyval) action" where
  "uneven_failure a l =
     (let contract_errors = length (filter (contains uneven_text) (la_errors l)) in
      thenS (liftS (raise_if (contract_errors = 0 \<or> 0 \<in> set (la_codes l))
               (RuntimeError ''uneven-input failure did not match the weighting contract'')))
     (publish a (VDict
       [(''schema_version'', VInt 1), (''status'', VStr ''pass''), (''record_type'', VStr ''ranked_uneven_input_failure_summary''),
        (''world_size'', VInt (ra_world_size a)), (''rank_batch_rows'', VList (map VInt (ra_rank_batch_rows a))),
        (''input_weighting'', VStr (ra_input_weighting a)), (''failure_detected'', VBool True),
        (''weighting_contract_error_processes'', VInt (int contract_errors)),
        (''peer_processes_terminated'', VInt (int (la_terminated l))), (''rank_group_ms'', VFloat (la_group_ms l)),
        (''returncodes'', codes_value l), (''decision'', VStr ''admit explicit token-weighted input mode'')])))"

definition group_init_failure :: "rargs \<Rightarrow> launch \<Rightarrow> pyval \<Rightarrow> pyval \<Rightarrow> (files, pyval) action" where
  "group_init_failure a l preflight debug =
     (let system_errors = length (filter (\<lambda>e. contains ''ncclCommInitRank'' e \<and> contains ''system error'' e) (la_errors l)) in
      thenS (liftS (raise_if (system_errors = 0 \<or> 0 \<in> set (la_codes l))
               (RuntimeError ''ranked group-init failure did not match the expected boundary'')))
     (bindS (liftS (py_getitem preflight ''shared_memory_total_bytes'')) (\<lambda>shared.
      publish a (VDict
       [(''schema_version'', VInt 1), (''status'', VStr ''pass''), (''record_type'', VStr ''ranked_group_init_failure_summary''),
        (''world_size'', VInt (ra_world_size a)), (''group_initialized'', VBool False), (''failure_detected'', VBool True),
        (''system_error_ranks'', VInt (int system_errors)), (''peer_processes_terminated'', VInt (int (la_terminated l))),
        (''rank_group_ms'', VFloat (la_group_ms l)), (''returncodes'', codes_value l), (''shared_memory_bytes'', shared),
        (''preflight'', preflight), (''rccl_debug'', debug),
        (''decision'', VStr ''retain world-size interface and record environment boundary'')]))))"

definition incomplete :: "rargs \<Rightarrow> launch \<Rightarrow> pyval \<Rightarrow> pyval \<Rightarrow> (files, pyval) action" where
  "incomplete a l preflight debug =
     thenS (remove_parameters a)
       (if ra_failure_mode a = ''uneven-input'' then uneven_failure a l
        else if ra_failure_mode a = ''group-init'' then group_init_failure a l preflight debug
        else liftS (Inl (RuntimeError ''ranked training timed out or one rank failed'')))"

section \<open>The verdict\<close>

definition emitted_records :: "launch \<Rightarrow> pyval list py" where
  "emitted_records l = mapM (\<lambda>(i, o1). load_record (''process'' @ str_int (int i)) (po_lines o1)) (enumerate 0 (la_outputs l))"

definition reference_record :: "prog_run \<Rightarrow> pyval py" where
  "reference_record run =
     thenE (raise_if (pr_code run \<noteq> 0) (RuntimeError ''CPU global-batch reference failed''))
       (load_record ''reference'' (po_lines (pr_out run)))"

definition judge_differences :: "rargs \<Rightarrow> launch \<Rightarrow> pyval list \<Rightarrow> pyval \<Rightarrow> differences py" where
  "judge_differences a l ranks reference =
     (if ra_model a = ''model-s'' then
        thenE (raise_if (ra_compare_binary a = None) AssertionError)
       (bindE (mapM (\<lambda>r. compare_safetensors l (rank_file a 0) (rank_file a (int r))) [1..<nat (ra_world_size a)]) (\<lambda>rank_comparisons.
        bindE (mapM (\<lambda>r. compare_safetensors l (reference_file a) (rank_file a (int r))) [0..<nat (ra_world_size a)]) (\<lambda>reference_comparisons.
        models_differences rank_comparisons reference_comparisons)))
      else tiny_differences ranks reference)"

record verdict =
  vd_average :: pyval
  vd_expected :: pyval
  vd_differences :: differences
  vd_loss :: pyval
  vd_failed :: bool

definition judge :: "rargs \<Rightarrow> launch \<Rightarrow> pyval list \<Rightarrow> pyval \<Rightarrow> verdict py" where
  "judge a l ranks reference =
     thenE (check_names a ranks reference)
    (bindE (average_tokens a) (\<lambda>average.
     bindE (check_admission a ranks reference average) (\<lambda>expected.
     bindE (judge_differences a l ranks reference) (\<lambda>d.
     thenE (check_records a ranks reference average)
    (bindE (loss_difference a (enumerate 0 ranks) reference) (\<lambda>loss.
     bindE (gate_failed a d loss) (\<lambda>failed.
     Inr \<lparr>vd_average = average, vd_expected = expected, vd_differences = d, vd_loss = loss, vd_failed = failed\<rparr>)))))))"

text \<open>Model-S parameter files are removed after the gate; a consensus file may be kept.\<close>

definition keeps_consensus :: "rargs \<Rightarrow> verdict \<Rightarrow> bool" where
  "keeps_consensus a v \<longleftrightarrow> ra_model a = ''model-s'' \<and> \<not> vd_failed v \<and> ra_retain a"

definition sweep :: "rargs \<Rightarrow> verdict \<Rightarrow> (files, unit) action" where
  "sweep a v =
     (if ra_model a = ''model-s''
      then thenS (each (\<lambda>r. if keeps_consensus a v \<and> r = 0 then retS () else unlink (rank_file a r)) (command_ranks (ra_world_size a)))
             (unlink (reference_file a))
      else retS ())"

section \<open>The summary\<close>

definition all_of :: "pyval list \<Rightarrow> string \<Rightarrow> pyval py" where
  "all_of ranks k = bindE (mapM (\<lambda>r. py_getitem r k) ranks) (\<lambda>vs. Inr (VList vs))"

definition most_of :: "pyval list \<Rightarrow> string \<Rightarrow> pyval py" where
  "most_of ranks k = max_of (\<lambda>r. py_getitem r k) ranks"

definition most_steps :: "rargs \<Rightarrow> pyval list \<Rightarrow> string \<Rightarrow> pyval py" where
  "most_steps a ranks k =
     bindE (mapM (\<lambda>s. max_of (\<lambda>r. step_item r k (int s)) ranks) [0..<nat (ra_steps a)]) (\<lambda>vs. Inr (VList vs))"

definition first_of :: "pyval list \<Rightarrow> string \<Rightarrow> pyval py" where
  "first_of ranks k = bindE (list_index ranks 0) (\<lambda>r. py_getitem r k)"

definition strings :: "string list \<Rightarrow> pyval" where
  "strings ss = VList (map VStr ss)"

definition head_entries :: "rargs \<Rightarrow> verdict \<Rightarrow> (string \<times> pyval py) list" where
  "head_entries a v =
    (let d = vd_differences v in
     [(''schema_version'', Inr (VInt 1)), (''status'', Inr (VStr ''pass'')), (''record_type'', Inr (VStr ''ranked_training_summary'')),
      (''world_size'', Inr (VInt (ra_world_size a))), (''model'', Inr (VStr (ra_model a))), (''context'', Inr (VInt (ra_context a))),
      (''rank_batch_rows'', Inr (VList (map VInt (ra_rank_batch_rows a)))), (''input_weighting'', Inr (VStr (ra_input_weighting a))),
      (''average_tokens'', Inr (vd_average v)), (''reducer'', Inr (VStr (ra_reducer a))), (''bucket_bytes'', Inr (VInt (ra_bucket_bytes a))),
      (''steps'', Inr (VInt (ra_steps a))), (''parameter_tensors'', Inr (df_tensors d)), (''parameter_values'', Inr (df_values d)),
      (''maximum_rank_difference'', Inr (df_rank d)), (''rank_rms_difference'', Inr (df_rank_rms d)),
      (''maximum_reference_difference'', Inr (df_reference d)), (''reference_rms_difference'', Inr (df_reference_rms d)),
      (''maximum_mean_loss_difference'', Inr (vd_loss v)), (''mean_loss_tolerance'', Inr (VFloat (ra_tolerance a))),
      (''reference_max_tolerance'', Inr (VFloat (df_tolerance d))), (''reference_rms_tolerance'', Inr (VFloat (df_rms_tolerance d)))])"

definition rank_entries :: "rargs \<Rightarrow> pyval list \<Rightarrow> pyval \<Rightarrow> (string \<times> pyval py) list" where
  "rank_entries a ranks reference =
     [(''rank_losses'', all_of ranks ''losses''), (''reference_losses'', py_getitem reference ''losses'')] @
     concat (map (\<lambda>k. [(''rank_'' @ k, all_of ranks k), (''maximum_rank_'' @ k, most_of ranks k)]) timing_fields) @
     map (\<lambda>k. (''maximum_rank_'' @ k, most_steps a ranks k)) (step_timing_fields @ step_count_fields) @
     map (\<lambda>k. (''maximum_'' @ k, most_of ranks k)) engine_fields"

definition plan_entries :: "pyval list \<Rightarrow> (string \<times> pyval py) list" where
  "plan_entries ranks =
     (''persistent_storage'', first_of ranks ''persistent_storage'') #
     map (\<lambda>k. (k @ ''_per_rank'', first_of ranks k))
       [''plan_reuses'', ''plan_capacity_elements'', ''plan_capacity_bytes'', ''gradient_views'', ''overlap_steps'', ''overlapped_buckets''] @
     concat (map (\<lambda>k. [(''rank_'' @ k, all_of ranks k), (''maximum_'' @ k @ ''_per_rank'', most_of ranks k)])
       [''weighted_gradient_scales'', ''weighted_bucket_scales'']) @
     map (\<lambda>k. (''maximum_'' @ k @ ''_per_rank'', most_of ranks k))
       [''gather_scale_calls'', ''gather_descriptor_copy_calls'', ''gather_descriptor_bytes'', ''gather_descriptor_capacity_bytes'']"

definition tail_entries ::
  "rargs \<Rightarrow> launch \<Rightarrow> verdict \<Rightarrow> pyval list \<Rightarrow> string list list \<Rightarrow> pyval \<Rightarrow> pyval \<Rightarrow> (string \<times> pyval py) list" where
  "tail_entries a l v ranks commands preflight debug =
     [(''parameter_files_retained'', Inr (VBool (keeps_consensus a v))),
      (''consensus_parameter_file'', Inr (VStr (if keeps_consensus a v then rank_file a 0 else ''''))),
      (''peer_processes_terminated'', Inr (VInt (int (la_terminated l)))), (''collectives_per_rank'', Inr (vd_expected v))] @
     map (\<lambda>k. (k @ ''_per_rank'', first_of ranks k)) [''buckets'', ''pack_copies'', ''unpack_copies''] @
     [(''rank_group_ms'', Inr (VFloat (la_group_ms l))), (''reference_ms'', Inr (VFloat (la_reference_ms l))),
      (''commands'', Inr (VList (map strings commands))), (''reference_command'', Inr (strings (reference_command a))),
      (''preflight'', Inr preflight), (''rccl_debug'', Inr debug)]"

definition evaluate :: "(string \<times> pyval py) list \<Rightarrow> pyval py" where
  "evaluate entries = bindE (mapM (\<lambda>(k, v). bindE v (\<lambda>x. Inr (k, x))) entries) (\<lambda>d. Inr (VDict d))"

definition run_summary :: "rargs \<Rightarrow> launch \<Rightarrow> verdict \<Rightarrow> pyval list \<Rightarrow> pyval \<Rightarrow> string list list \<Rightarrow> pyval \<Rightarrow> pyval \<Rightarrow> pyval py" where
  "run_summary a l v ranks reference commands preflight debug =
     evaluate (head_entries a v @ rank_entries a ranks reference @ plan_entries ranks @ tail_entries a l v ranks commands preflight debug)"

section \<open>The run\<close>

definition verify_run :: "rargs \<Rightarrow> launch \<Rightarrow> string list list \<Rightarrow> pyval \<Rightarrow> pyval \<Rightarrow> (files, pyval) action" where
  "verify_run a l commands preflight debug =
     bindS (liftS (bindE (emitted_records l) (order_ranks (ra_world_size a)))) (\<lambda>ranks.
     bindS (liftS (la_reference l)) (\<lambda>run.
     thenS (write_file (in_output a ''reference.stdout'') (VStr (po_text (pr_out run))))
    (thenS (write_file (in_output a ''reference.stderr'') (VStr (pr_err run)))
    (bindS (liftS (reference_record run)) (\<lambda>reference.
     bindS (liftS (judge a l ranks reference)) (\<lambda>v.
     thenS (sweep a v)
    (thenS (liftS (raise_if (vd_failed v) (RuntimeError ''ranked parameters failed the global-batch gate'')))
    (bindS (liftS (run_summary a l v ranks reference commands preflight debug)) (publish a)))))))))"

definition debug_summary :: "rargs \<Rightarrow> launch \<Rightarrow> pyval" where
  "debug_summary a l = (if ra_rccl_debug a then collect_rccl_debug (la_logs l) else VDict [(''enabled'', VBool False)])"

definition run_ranked :: "rargs \<Rightarrow> string list option \<Rightarrow> launch \<Rightarrow> (files, pyval) action" where
  "run_ranked a dir l =
     bindS (liftS (prepare_output (ra_overwrite a) dir)) (\<lambda>_.
     let preflight = resource_preflight l (ra_world_size a); debug = debug_summary a l in
     thenS (clear_output a dir)
    (thenS (write_file (in_output a ''preflight.json'') preflight)
    (bindS (liftS (timeout_ms (ra_timeout a))) (\<lambda>ms.
     thenS (arrivals l)
    (thenS (record_outputs a l)
    (thenS (if ra_rccl_debug a then write_file (in_output a ''rccl-debug-summary.json'') debug else retS ())
    (if ra_failure_mode a = ''peer-failure'' then peer_failure a l preflight debug
     else if \<not> la_completed l then incomplete a l preflight debug
     else verify_run a l (rank_commands a ms) preflight debug)))))))"

end
