(* ===== verification/RankedVerdict.thy ===== *)
theory RankedVerdict imports RankedMain begin

text \<open>
  What a passing run of \<open>run_ranked.py\<close> guarantees: which rank a record belongs to, how close
  the parameters of the ranks and the reference are, what the counters imply, and which files remain.
\<close>

section \<open>Ordering the records\<close>

lemma last_filter: "filter p xs \<noteq> [] \<Longrightarrow> last (filter p xs) \<in> set xs \<and> p (last (filter p xs))"
  using last_in_set [of "filter p xs"] by auto

text \<open>
  The records are put in rank order whatever order the processes were launched or reported in: the
  record at place \<open>k\<close> is one that was emitted, and its \<open>rank\<close> field equals \<open>k\<close>.
\<close>

theorem ranks_in_order:
  assumes "order_ranks world emitted = Inr ranks" and "k < nat world"
  shows "length ranks = nat world \<and> ranks ! k \<in> set emitted \<and>
    (\<exists>v. py_get (ranks ! k) ''rank'' VNone = Inr v \<and> py_eq v (VInt (int k)))"
proof -
  obtain ids where ids: "mapM (\<lambda>r. py_get r ''rank'' VNone) emitted = Inr ids"
    and all: "\<forall>k \<in> set [0..<nat world]. \<exists>i \<in> set ids. py_eq i (VInt (int k))"
    and ranks: "ranks = map (\<lambda>k. snd (last (filter (\<lambda>(i, r). py_eq i (VInt (int k))) (zip ids emitted)))) [0..<nat world]"
    using assms(1) by (auto simp: order_ranks_def bindE_Inr_iff)
  have len: "length ids = length emitted" by (rule mapM_length [OF ids])
  let ?f = "filter (\<lambda>(i, r). py_eq i (VInt (int k))) (zip ids emitted)"
  obtain i where i: "i \<in> set ids" "py_eq i (VInt (int k))" using all assms(2) by (metis atLeastLessThan_iff set_upt zero_le)
  then obtain n where n: "n < length ids" "i = ids ! n" by (auto simp: in_set_conv_nth)
  then have "(i, emitted ! n) \<in> set ?f" using i len by (auto simp: set_zip)
  then have "?f \<noteq> []" by (metis empty_iff empty_set)
  from last_filter [OF this] obtain j r where jr: "last ?f = (j, r)" "(j, r) \<in> set (zip ids emitted)" "py_eq j (VInt (int k))"
    by (cases "last ?f") auto
  then obtain m where m: "m < length ids" "j = ids ! m" "r = emitted ! m" by (auto simp: set_zip)
  have "py_get r ''rank'' VNone = Inr j" using mapM_nth [OF ids, of m] m len by simp
  moreover have "ranks ! k = r" using assms(2) jr(1) by (simp add: ranks)
  moreover have "r \<in> set emitted" using m len by simp
  ultimately show ?thesis using jr(3) by (auto simp: ranks)
qed

section \<open>Parameter differences\<close>

text \<open>The values of a parameter list that \<open>json.loads\<close> read: finite floats.\<close>

definition params :: "rat list list \<Rightarrow> pyval" where
  "params xss = VList (map (\<lambda>xs. VList (map (\<lambda>x. VFloat (Fin x)) xs)) xss)"

definition close_within :: "pyfloat \<Rightarrow> rat list list \<Rightarrow> rat list list \<Rightarrow> bool" where
  "close_within t = list_all2 (list_all2 (\<lambda>x y. fle (fabs (rnd (x - y))) t))"

lemma fabs_rnd: "fabs (rnd q) \<noteq> NaN"
  using rnd_not_NaN by (metis fabs_NaN_iff)

lemma abs_diff_floats: "abs_diff (VFloat (Fin x)) (VFloat (Fin y)) = Inr (VFloat (fabs (rnd (x - y))))"
  by (simp add: abs_diff_def py_sub_def num_arith_def py_abs_def fsub_def)

lemma mapM_abs_diff:
  "length xs = length ys \<Longrightarrow> mapM (\<lambda>(x, y). abs_diff x y) (zip (map (\<lambda>x. VFloat (Fin x)) xs) (map (\<lambda>x. VFloat (Fin x)) ys)) =
   Inr (map2 (\<lambda>x y. VFloat (fabs (rnd (x - y)))) xs ys)"
  by (induction xs ys rule: list_induct2) (auto simp: abs_diff_floats)

lemma py_max_default_upper:
  assumes "py_max_default fzero ds = Inr d" and "\<forall>x \<in> set ds. val_num x \<noteq> NaN"
  shows "val_num d \<noteq> NaN \<and> (\<forall>x \<in> set ds. fle (val_num x) (val_num d))"
proof (cases ds)
  case Nil then show ?thesis using assms by (auto simp: py_max_default_def fzero_def)
next
  case (Cons y ys)
  then have m: "py_max_from y ys = Inr d" using assms(1) by (simp add: py_max_default_def)
  have "d \<in> set ds" using py_max_from_in [OF m] Cons by simp
  then show ?thesis using py_max_from_upper [OF m] assms(2) Cons by auto
qed

lemma list_difference_bound:
  assumes "list_difference msg (VList (map (\<lambda>x. VFloat (Fin x)) xs), VList (map (\<lambda>x. VFloat (Fin x)) ys)) = Inr d"
  shows "val_num d \<noteq> NaN \<and> list_all2 (\<lambda>x y. fle (fabs (rnd (x - y))) (val_num d)) xs ys"
proof -
  have len: "length xs = length ys"
    using assms by (auto simp: list_difference_def same_len_def py_len_def bindE_Inr_iff)
  then have m: "py_max_default fzero (map2 (\<lambda>x y. VFloat (fabs (rnd (x - y)))) xs ys) = Inr d"
    using assms by (simp add: list_difference_def same_len_def py_len_def zip_vals_def py_iter_def mapM_abs_diff)
  have "\<forall>v \<in> set (map2 (\<lambda>x y. VFloat (fabs (rnd (x - y)))) xs ys). val_num v \<noteq> NaN" by (auto simp: fabs_rnd)
  from py_max_default_upper [OF m this] show ?thesis using len
    by (auto simp: list_all2_conv_all_nth set_zip)
qed

lemma fle_refl: "x \<noteq> NaN \<Longrightarrow> fle x x"
  by (cases x) auto

lemma fle_left: "fle x y \<Longrightarrow> x \<noteq> NaN"
  by (cases x) auto

lemma fle_right: "fle x y \<Longrightarrow> y \<noteq> NaN"
  by (cases y) auto

lemma close_mono: "list_all2 (\<lambda>x y. fle (fabs (rnd (x - y))) s) xs ys \<Longrightarrow> fle s t \<Longrightarrow> list_all2 (\<lambda>x y. fle (fabs (rnd (x - y))) t) xs ys"
  by (erule list_all2_mono) (rule fle_trans)

lemma close_within_mono: "close_within s xss yss \<Longrightarrow> fle s t \<Longrightarrow> close_within t xss yss"
  unfolding close_within_def by (erule list_all2_mono) (rule close_mono)

lemma max_fold_bound:
  assumes "foldM (max_step msg) m (zip (map (\<lambda>xs. VList (map (\<lambda>x. VFloat (Fin x)) xs)) xss) (map (\<lambda>xs. VList (map (\<lambda>x. VFloat (Fin x)) xs)) yss)) = Inr d"
    and "length xss = length yss" and "val_num m \<noteq> NaN"
  shows "fle (val_num m) (val_num d) \<and> close_within (val_num d) xss yss"
  using assms(2,1,3)
proof (induction xss yss arbitrary: m rule: list_induct2)
  case Nil then show ?case by (simp add: close_within_def fle_refl)
next
  case (Cons xs xss ys yss)
  obtain e n where e: "list_difference msg (VList (map (\<lambda>x. VFloat (Fin x)) xs), VList (map (\<lambda>x. VFloat (Fin x)) ys)) = Inr e"
    and n: "py_max_from m [e] = Inr n"
    and rest: "foldM (max_step msg) n (zip (map (\<lambda>xs. VList (map (\<lambda>x. VFloat (Fin x)) xs)) xss) (map (\<lambda>xs. VList (map (\<lambda>x. VFloat (Fin x)) xs)) yss)) = Inr d"
    using Cons.prems(1) by (simp add: bindE_Inr_iff) (auto simp: max_step_def [of msg m] bindE_Inr_iff)
  note le = list_difference_bound [OF e]
  have nn: "fle (val_num m) (val_num n)" "fle (val_num e) (val_num n)"
    using py_max_from_upper [OF n, of m] py_max_from_upper [OF n, of e] Cons.prems(2) le by auto
  note IH = Cons.IH [OF rest fle_right [OF nn(1)]]
  have "fle (val_num m) (val_num d)" by (rule fle_trans [OF nn(1) conjunct1 [OF IH]])
  moreover have "fle (val_num e) (val_num d)" by (rule fle_trans [OF nn(2) conjunct1 [OF IH]])
  ultimately show ?case using IH le close_mono by (auto simp: close_within_def)
qed

lemma maximum_difference_bound: "maximum_difference (params xss) (params yss) = Inr d \<Longrightarrow> close_within (val_num d) xss yss"
proof -
  assume d: "maximum_difference (params xss) (params yss) = Inr d"
  then have "length xss = length yss" by (auto simp: maximum_difference_def params_def same_len_def py_len_def bindE_Inr_iff)
  then show ?thesis
    using d max_fold_bound [of _ fzero xss yss d]
    by (auto simp: maximum_difference_def params_def same_len_def py_len_def zip_vals_def py_iter_def bindE_Inr_iff fzero_def)
qed

lemma close_not_NaN: "maximum_difference (params xss) (params yss) = Inr d \<Longrightarrow> val_num d \<noteq> NaN"
proof -
  assume d: "maximum_difference (params xss) (params yss) = Inr d"
  then have "length xss = length yss" by (auto simp: maximum_difference_def params_def same_len_def py_len_def bindE_Inr_iff)
  then show ?thesis
    using d max_fold_bound [of _ fzero xss yss d] fle_right
    by (auto simp: maximum_difference_def params_def same_len_def py_len_def zip_vals_def py_iter_def bindE_Inr_iff fzero_def)
qed

lemma max_of_upper:
  assumes "bindE (mapM f rs) (py_max_default fzero) = Inr m" and "\<forall>r \<in> set rs. \<forall>d. f r = Inr d \<longrightarrow> val_num d \<noteq> NaN" and "r \<in> set rs"
  shows "\<exists>d. f r = Inr d \<and> fle (val_num d) (val_num m)"
proof -
  obtain ds where ds: "mapM f rs = Inr ds" "py_max_default fzero ds = Inr m" using assms(1) by (auto simp: bindE_Inr_iff)
  have "\<forall>x \<in> set ds. val_num x \<noteq> NaN" using mapM_setD [OF ds(1)] assms(2) by blast
  from py_max_default_upper [OF ds(2) this] mapM_setI [OF ds(1) assms(3)] show ?thesis by blast
qed

lemma max_of_as_default: "rs \<noteq> [] \<Longrightarrow> max_of f rs = max_of_default f rs"
  by (cases rs) (auto simp: max_of_def max_of_default_def py_max_def py_max_default_def bindE_def split: sum.splits)

lemma against_params:
  assumes "py_getitem l ''parameters'' = Inr (params xss)" and "py_getitem r ''parameters'' = Inr (params yss)"
  shows "bindE (py_getitem l ''parameters'') (\<lambda>x. bindE (py_getitem r ''parameters'') (\<lambda>y. f x y)) = f (params xss) (params yss)"
  using assms by simp

lemma max_differences_close:
  assumes "max_of_default (\<lambda>r. maximum_difference (params (P r)) (params (Q r))) rs = Inr m" and "r \<in> set rs"
  shows "val_num m \<noteq> NaN \<and> close_within (val_num m) (P r) (Q r)"
proof -
  have "\<forall>r \<in> set rs. \<forall>d. maximum_difference (params (P r)) (params (Q r)) = Inr d \<longrightarrow> val_num d \<noteq> NaN"
    using close_not_NaN by blast
  from max_of_upper [OF assms(1) [unfolded max_of_default_def] this assms(2)]
  obtain d where d: "maximum_difference (params (P r)) (params (Q r)) = Inr d" "fle (val_num d) (val_num m)" by blast
  show ?thesis using close_within_mono [OF maximum_difference_bound [OF d(1)] d(2)] fle_right [OF d(2)] by blast
qed

lemma tiny_differences_close:
  assumes "tiny_differences ranks reference = Inr d" and "ranks \<noteq> []"
    and P: "\<And>r. r \<in> set (reference # ranks) \<Longrightarrow> py_getitem r ''parameters'' = Inr (params (P r))"
  shows "(\<forall>r \<in> set (tl ranks). close_within (val_num (df_rank d)) (P (hd ranks)) (P r)) \<and>
    (\<forall>r \<in> set ranks. close_within (val_num (df_reference d)) (P r) (P reference)) \<and> df_tolerance d = rnd (2 / 100000) \<and>
    val_num (df_reference d) \<noteq> NaN"
proof -
  obtain r0 rs where ranks: "ranks = r0 # rs" using assms(2) by (cases ranks) auto
  let ?against = "\<lambda>f l r. bindE (py_getitem l ''parameters'') (\<lambda>x. bindE (py_getitem r ''parameters'') (\<lambda>y. f x y))"
  have a: "max_of_default (\<lambda>r. ?against maximum_difference r0 r) rs = Inr (df_rank d)"
    and b: "max_of (\<lambda>r. ?against maximum_difference r reference) ranks = Inr (df_reference d)"
    and t: "df_tolerance d = rnd (2 / 100000)"
    using assms(1) by (auto simp: tiny_differences_def bindE_Inr_iff Let_def ranks)
  have "max_of_default (\<lambda>r. ?against maximum_difference r0 r) rs = max_of_default (\<lambda>r. maximum_difference (params (P r0)) (params (P r))) rs"
    unfolding max_of_default_def using P ranks
    by (intro arg_cong [where f = "\<lambda>x. bindE x (py_max_default fzero)"] mapM_cong) simp_all
  with a have a: "max_of_default (\<lambda>r. maximum_difference (params (P r0)) (params (P r))) rs = Inr (df_rank d)" by simp
  have "max_of_default (\<lambda>r. ?against maximum_difference r reference) ranks = max_of_default (\<lambda>r. maximum_difference (params (P r)) (params (P reference))) ranks"
    unfolding max_of_default_def using P
    by (intro arg_cong [where f = "\<lambda>x. bindE x (py_max_default fzero)"] mapM_cong) simp_all
  with b max_of_as_default [OF assms(2)]
  have b: "max_of_default (\<lambda>r. maximum_difference (params (P r)) (params (P reference))) ranks = Inr (df_reference d)" by simp
  show ?thesis
    using max_differences_close [OF a] max_differences_close [OF b] t by (auto simp: ranks)
qed

lemma py_ne_zero: "\<not> py_ne v fzero \<Longrightarrow> val_num v = Fin 0"
  by (cases v) (auto simp: py_ne_def fzero_def feq_iff)

text \<open>
  C26. What the global-batch gate means for the tiny model, when the records hold finite values: the
  parameters of all ranks have one shape and are equal to those of rank 0, as the difference of
  doubles sees it, and differ from those of the CPU reference by at most 2e-5 in every element.
\<close>

theorem gate_bounds_parameters:
  assumes "judge a l ranks reference = Inr v" and "\<not> vd_failed v" and "ra_model a = ''tiny''" and "ranks \<noteq> []"
    and "\<And>r. r \<in> set (reference # ranks) \<Longrightarrow> py_getitem r ''parameters'' = Inr (params (P r))"
  shows "(\<forall>r \<in> set (tl ranks). close_within (Fin 0) (P (hd ranks)) (P r)) \<and>
    (\<forall>r \<in> set ranks. close_within (rnd (2 / 100000)) (P r) (P reference))"
proof -
  obtain d loss where d: "tiny_differences ranks reference = Inr d" and g: "gate_failed a d loss = Inr False"
    using assms(1-3) by (auto simp: judge_def bindE_Inr_iff judge_differences_def)
  have zero: "val_num (df_rank d) = Fin 0" using g by (intro py_ne_zero) (auto simp: gate_failed_def)
  have gt: "py_gt (df_reference d) (VFloat (df_tolerance d)) = Inr False" using g by (auto simp: gate_failed_def)
  note close = tiny_differences_close [OF d assms(4,5)]
  have "\<not> flt (df_tolerance d) (val_num (df_reference d))"
    using gt close by (auto simp: py_gt_def py_lt_def val_num_def split: option.splits)
  then have le: "fle (val_num (df_reference d)) (rnd (2 / 100000))"
    using close not_flt_iff [of "df_tolerance d" "val_num (df_reference d)"] by (simp add: rnd_not_NaN)
  show ?thesis using close zero close_within_mono [OF _ le] by auto
qed

section \<open>Files\<close>

text \<open>\<open>spares f m\<close>: the action leaves the file \<open>f\<close> as it was.\<close>

definition spares :: "string \<Rightarrow> (files, 'a) action \<Rightarrow> bool" where
  "spares f m \<longleftrightarrow> (\<forall>fs. snd (m fs) f = fs f)"

lemma spares_bind: "spares f m \<Longrightarrow> (\<And>x. spares f (k x)) \<Longrightarrow> spares f (bindS m k)"
  unfolding spares_def bindS_def by (auto split: prod.splits sum.splits) (metis snd_conv)+

lemma spares_basic [simp]: "spares f (retS x)" "spares f (liftS r)" "f \<noteq> g \<Longrightarrow> spares f (unlink g)"
  "f \<noteq> g \<Longrightarrow> spares f (write_file g v)" "f \<notin> set (map fst (la_files l)) \<Longrightarrow> spares f (arrivals l)"
  by (auto simp: spares_def unlink_def write_file_def arrivals_def map_add_def map_of_eq_None_iff split: option.splits) (metis map_of_eq_None_iff option.distinct(1) image_set)

lemma spares_each: "(\<And>x. x \<in> set xs \<Longrightarrow> spares f (m x)) \<Longrightarrow> spares f (each m xs)"
  by (induction xs) (auto intro: spares_bind)

lemma spares_step: "spares f m \<Longrightarrow> m fs = (r, fs') \<Longrightarrow> fs' f = fs f"
  unfolding spares_def by (metis snd_conv)

definition spares_raising :: "string \<Rightarrow> (files, 'a) action \<Rightarrow> bool" where
  "spares_raising f m \<longleftrightarrow> (\<forall>fs e. fst (m fs) = Inl e \<longrightarrow> snd (m fs) f = fs f)"

lemma spares_raising_bind: "spares f m \<Longrightarrow> (\<And>x. spares_raising f (k x)) \<Longrightarrow> spares_raising f (bindS m k)"
  unfolding spares_raising_def spares_def bindS_def by (auto split: prod.splits sum.splits) (metis fst_conv snd_conv)+

lemma spares_raising_basic: "spares_raising f (liftS r)" "spares_raising f (publish a v)"
  by (simp_all add: spares_raising_def publish_def bindS_def write_file_def)

lemma spares_raising_if: "spares_raising f m \<Longrightarrow> spares_raising f k \<Longrightarrow> spares_raising f (if b then m else k)"
  by simp

abbreviation summary_file :: "rargs \<Rightarrow> string" where
  "summary_file a \<equiv> in_output a ''summary.json''"

lemma other_files [simp]:
  "summary_file a \<noteq> rank_file a r" "summary_file a \<noteq> reference_file a" "summary_file a \<noteq> indexed_file a s i"
  "summary_file a \<noteq> in_output a ''communicator.id''" "summary_file a \<noteq> in_output a ''preflight.json''"
  "summary_file a \<noteq> in_output a ''reference.stdout''" "summary_file a \<noteq> in_output a ''reference.stderr''"
  "summary_file a \<noteq> in_output a ''rccl-debug-summary.json''" "rank_file a r \<noteq> reference_file a"
  by (simp_all add: in_output_def rank_file_def reference_file_def indexed_file_def)

lemma rank_file_inj [simp]: "rank_file a r = rank_file a s \<longleftrightarrow> r = s"
  by (simp add: rank_file_def str_int_inj)

lemma spares_remove [simp]: "spares (summary_file a) (remove_parameters a)"
  unfolding remove_parameters_def by (rule spares_each) (auto simp: parameter_files_def)

lemma spares_record [simp]: "spares (summary_file a) (record_outputs a l)"
  unfolding record_outputs_def by (intro spares_bind spares_each) (auto split: prod.splits)

lemma spares_sweep [simp]: "spares (summary_file a) (sweep a v)"
  unfolding sweep_def by (auto intro!: spares_bind spares_each)

lemma failures_raise: "spares_raising (summary_file a) (incomplete a l p d)" "spares_raising (summary_file a) (peer_failure a l p d)"
  unfolding incomplete_def uneven_failure_def group_init_failure_def peer_failure_def Let_def
  by (intro spares_raising_bind spares_raising_basic spares_raising_if spares_bind spares_basic spares_remove)+

lemma verify_raises: "spares_raising (summary_file a) (verify_run a l c p d)"
  unfolding verify_run_def
  by (intro spares_raising_bind spares_raising_basic spares_basic spares_sweep other_files)

text \<open>
  C27. A run that raises leaves no summary: unless an earlier file of that name was there to begin
  with, \<open>summary.json\<close> exists only when the run returned, so a caller that finds it knows that
  every check before it passed.
\<close>

theorem failed_run_leaves_no_summary:
  assumes "run_ranked a dir l fs = (Inl e, fs')" and "fs (summary_file a) = None" and "summary_file a \<notin> set (map fst (la_files l))"
  shows "fs' (summary_file a) = None"
proof (cases "prepare_output (ra_overwrite a) dir")
  case (Inl e1) then show ?thesis using assms(1,2) by (simp add: run_ranked_def bindS_def)
next
  case (Inr dir1)
  let ?rest = "\<lambda>preflight debug. thenS (write_file (in_output a ''preflight.json'') preflight)
    (bindS (liftS (timeout_ms (ra_timeout a))) (\<lambda>ms.
     thenS (arrivals l)
    (thenS (record_outputs a l)
    (thenS (if ra_rccl_debug a then write_file (in_output a ''rccl-debug-summary.json'') debug else retS ())
    (if ra_failure_mode a = ''peer-failure'' then peer_failure a l preflight debug
     else if \<not> la_completed l then incomplete a l preflight debug
     else verify_run a l (rank_commands a ms) preflight debug)))))"
  have raising: "spares_raising (summary_file a) (?rest p d)" for p d
    using assms(3)
    by (intro spares_raising_bind spares_raising_if failures_raise verify_raises) auto
  from Inr have "?rest (resource_preflight l (ra_world_size a)) (debug_summary a l) (snd (clear_output a dir fs)) = (Inl e, fs')"
    using assms(1) by (simp add: run_ranked_def Let_def bindS_step [of "clear_output a dir"] clear_output_def)
  then have "fs' (summary_file a) = snd (clear_output a dir fs) (summary_file a)"
    using raising unfolding spares_raising_def by (metis fst_conv snd_conv)
  then show ?thesis using assms(2) by (simp add: clear_output_def)
qed

lemma each_unlinks: "each (\<lambda>r. if keep r then retS () else unlink (g r)) rs fs = (Inr (), \<lambda>f. if \<exists>r \<in> set rs. \<not> keep r \<and> f = g r then None else fs f)"
proof (induction rs arbitrary: fs)
  case (Cons r rs)
  show ?case
  proof (cases "keep r")
    case True then show ?thesis using Cons by (auto simp: fun_eq_iff)
  next
    case False
    have "bindS (unlink (g r)) (\<lambda>_. each (\<lambda>r. if keep r then retS () else unlink (g r)) rs) fs =
      each (\<lambda>r. if keep r then retS () else unlink (g r)) rs (fs(g r := None))" by (simp add: bindS_def unlink_def)
    then show ?thesis using Cons [of "fs(g r := None)"] False by (auto simp: fun_eq_iff)
  qed
qed simp

lemma sweep_removes:
  assumes "sweep a v fs = (u, fs')" and "ra_model a = ''model-s''" and "1 \<le> ra_world_size a"
  shows "fs' (reference_file a) = None \<and> (\<forall>r \<in> {0..<ra_world_size a}. \<not> (keeps_consensus a v \<and> r = 0) \<longrightarrow> fs' (rank_file a r) = None)"
proof -
  let ?keep = "\<lambda>r. keeps_consensus a v \<and> r = 0"
  have "fs' = (\<lambda>f. if \<exists>r \<in> set (command_ranks (ra_world_size a)). \<not> ?keep r \<and> f = rank_file a r then None else fs f)(reference_file a := None)"
    using assms(1,2) by (simp add: sweep_def bindS_def each_unlinks unlink_def)
  then show ?thesis using set_command_ranks [OF assms(3)] by auto
qed


lemma each_writes:
  assumes "\<And>i j :: nat. g i = g j \<longleftrightarrow> i = j"
  shows "snd (each (\<lambda>(i, x). write_file (g i) (h x)) (enumerate n xs) fs) (g k) =
    (if n \<le> k \<and> k < n + length xs then Some (Whole (h (xs ! (k - n)))) else fs (g k))"
proof (induction xs arbitrary: n fs)
  case (Cons x xs)
  have "snd (each (\<lambda>(i, x). write_file (g i) (h x)) (enumerate n (x # xs)) fs) (g k) =
    snd (each (\<lambda>(i, x). write_file (g i) (h x)) (enumerate (Suc n) xs) (fs(g n \<mapsto> Whole (h x)))) (g k)"
    by (simp add: bindS_def write_file_def)
  moreover have "(x # xs) ! (k - n) = xs ! (k - Suc n)" if "n < k" using that by (simp add: nth_Cons_pos)
  ultimately show ?case using Cons.IH [of "Suc n"] assms by (cases "k = n") auto
qed auto

lemma indexed_file_inj: "indexed_file a s i = indexed_file a s j \<longleftrightarrow> i = j"
  by (simp add: indexed_file_def in_output_def str_int_inj)

lemma last_differs: "x \<noteq> y \<Longrightarrow> last x \<noteq> last y \<Longrightarrow> x \<noteq> [] \<Longrightarrow> y \<noteq> [] \<Longrightarrow> u @ x \<noteq> v @ y"
  by (metis last_appendR)

lemma stdout_not_stderr: "indexed_file a ''.stdout'' i \<noteq> indexed_file a ''.stderr'' j"
  using last_differs [of "''.stdout''" "''.stderr''"] by (simp add: indexed_file_def in_output_def)

lemma stdout_recorded:
  assumes "i < length (la_outputs l)" and "record_outputs a l fs = (r, fs')"
  shows "fs' (indexed_file a ''.stdout'' i) = Some (Whole (VStr (po_text (la_outputs l ! i))))"
proof -
  let ?out = "each (\<lambda>(i, o1). write_file (indexed_file a ''.stdout'' i) (VStr (po_text o1))) (enumerate 0 (la_outputs l))"
  let ?err = "each (\<lambda>(i, e). write_file (indexed_file a ''.stderr'' i) (VStr e)) (enumerate 0 (la_errors l))"
  let ?fs = "fs(in_output a ''communicator.id'' := None)"
  have ok: "fst (each (\<lambda>(i, x). write_file (g i) (h x)) xs fs) = Inr ()" for g :: "nat \<Rightarrow> string" and h :: "'b \<Rightarrow> pyval" and xs fs
    by (induction xs arbitrary: fs) (auto simp: bindS_def write_file_def)
  have "fst (?out ?fs) = Inr ()" by (rule ok)
  then obtain fs1 where out: "?out ?fs = (Inr (), fs1)" by (cases "?out ?fs") simp
  then have err: "?err fs1 = (r, fs')" using assms(2) by (simp add: record_outputs_def bindS_def unlink_def)
  have "spares (indexed_file a ''.stdout'' i) ?err" by (rule spares_each) (auto simp: stdout_not_stderr split: prod.splits)
  from spares_step [OF this err] have "fs' (indexed_file a ''.stdout'' i) = fs1 (indexed_file a ''.stdout'' i)" .
  also have "\<dots> = Some (Whole (VStr (po_text (la_outputs l ! i))))"
    using each_writes [of "indexed_file a ''.stdout''" "\<lambda>o1. VStr (po_text o1)" 0 "la_outputs l" ?fs i] out assms(1)
    by (simp add: indexed_file_inj)
  finally show ?thesis .
qed

text \<open>
  C38. The captured output of the processes is filed by launch order, not by rank: \<open>rank0.stdout\<close> holds
  what the process of the last rank printed, and in general \<open>rank<i>.stdout\<close> the output of the process
  that was given rank \<open>world_size - 1 - i\<close>, another rank unless \<open>i\<close> is the middle one.
\<close>

theorem outputs_filed_by_launch_order:
  assumes "ra_failure_mode a = ''none''" and "i < nat (ra_world_size a)" and "length (la_outputs l) = nat (ra_world_size a)"
    and "record_outputs a l fs = (Inr (), fs')"
  shows "fs' (in_output a (''rank'' @ str_int (int i) @ ''.stdout'')) = Some (Whole (VStr (po_text (la_outputs l ! i)))) \<and>
    rank_commands a ms ! i = rank_command a ms (ra_world_size a - 1 - int i) (ra_world_size a - 1 - int i)"
proof
  have "indexed_file a ''.stdout'' i = in_output a (''rank'' @ str_int (int i) @ ''.stdout'')" by (simp add: indexed_file_def)
  then show "fs' (in_output a (''rank'' @ str_int (int i) @ ''.stdout'')) = Some (Whole (VStr (po_text (la_outputs l ! i))))"
    using stdout_recorded [OF _ assms(4), of i] assms(2,3) by simp
  obtain r rs where rs: "command_ranks (ra_world_size a) = r # rs" by (cases "command_ranks (ra_world_size a)") (auto simp: command_ranks_def)
  have "rank_commands a ms = map (\<lambda>rank. rank_command a ms rank rank) (command_ranks (ra_world_size a))"
    using assms(1) by (simp add: rank_commands_def rs)
  moreover have "i < length (command_ranks (ra_world_size a))" using set_command_ranks [of "ra_world_size a"] assms(2) by simp
  ultimately show "rank_commands a ms ! i = rank_command a ms (ra_world_size a - 1 - int i) (ra_world_size a - 1 - int i)"
    using command_ranks_nth [OF assms(2)] by simp
qed

section \<open>Counters\<close>

definition int_val :: "pyval \<Rightarrow> int" where
  "int_val v = (case as_num v of Some (NI i) \<Rightarrow> i | _ \<Rightarrow> 0)"

lemma int_val_num: "is_int v \<Longrightarrow> as_num v = Some (NI (int_val v))"
  by (cases v) (auto simp: int_val_def)

lemma count_ok: "count_bad v = Inr False \<Longrightarrow> is_int v \<and> 0 \<le> int_val v"
  by (auto simp: count_bad_def py_lt_def int_val_num split: option.splits)

lemma py_sum_int_vals: "\<forall>v \<in> set vs. is_int v \<Longrightarrow> py_sum vs = Inr (VInt (sum_list (map int_val vs)))"
proof -
  have "\<forall>v \<in> set vs. is_int v \<Longrightarrow> foldM py_add (VInt i) vs = Inr (VInt (i + sum_list (map int_val vs)))" for i
    by (induction vs arbitrary: i) (auto simp: py_add_def num_arith_def int_val_num add.assoc)
  then show "\<forall>v \<in> set vs. is_int v \<Longrightarrow> py_sum vs = Inr (VInt (sum_list (map int_val vs)))" by (simp add: py_sum_def)
qed

lemma step_counter:
  assumes "check_steps steps ranks = Inr ()" and "r \<in> set ranks" and "k \<in> set step_count_fields"
  shows "\<exists>ns. py_getitem r k = Inr (VList ns) \<and> int (length ns) = steps \<and> (\<forall>n \<in> set ns. is_int n \<and> 0 \<le> int_val n)"
proof -
  have l: "step_list_bad steps r k = Inr False" and v: "any_value count_bad r k = Inr False"
    using assms by (auto simp: check_steps_def bindE_Inr_iff)
  from l obtain x where x: "py_get r k VNone = Inr x" "is_list x" and n: "bindE (py_getitem r k) py_len = Inr steps"
    by (auto simp: step_list_bad_def bindE_Inr_iff)
  then obtain y where y: "py_getitem r k = Inr y" "py_len y = Inr steps" by (auto simp: bindE_Inr_iff)
  then have "x = y" using x(1) by (cases r) (auto simp: py_getitem_def py_get_def split: option.splits)
  then obtain ns where ns: "y = VList ns" using x(2) by (cases y) auto
  then show ?thesis using y v count_ok by (auto simp: any_value_def py_iter_def py_len_def)
qed

lemma total_ok:
  assumes "check_totals ranks = Inr ()" and "r \<in> set ranks" and "(k, f) \<in> set total_fields"
    and "py_getitem r k = Inr (VList ns)" and "\<forall>n \<in> set ns. is_int n"
  shows "\<exists>t. py_getitem r f = Inr t \<and> val_num t = Fin (of_int (sum_list (map int_val ns)))"
proof -
  have "total_bad r (k, f) = Inr False" using assms(1-3) by (auto simp: check_totals_def)
  then obtain t where t: "py_getitem r f = Inr t" "\<not> py_ne (VInt (sum_list (map int_val ns))) t"
    using assms(4) py_sum_int_vals [OF assms(5)] by (auto simp: total_bad_def bindE_Inr_iff py_iter_def)
  then show ?thesis by (cases t) (auto simp: py_ne_def feq_iff)
qed


end
