(* ===== verification/RankedSample.thy ===== *)
theory RankedSample imports RankedVerdict begin

text \<open>
  A run of two ranks and one step that \<open>run_ranked.py\<close> accepts, and the properties of
  \<open>RankedVerdict\<close> at it.
\<close>

definition zero_fields :: "string list" where
  "zero_fields =
     [''weighted_gradient_scales'', ''weighted_bucket_scales'', ''gather_scale_calls'',
      ''gather_descriptor_copy_calls'', ''gather_descriptor_bytes'', ''gather_descriptor_capacity_bytes'',
      ''plan_reuses'', ''plan_capacity_elements'', ''plan_capacity_bytes'', ''gradient_views'', ''pack_copies'',
      ''unpack_copies'', ''overlap_steps'', ''overlapped_buckets'', ''buckets'', ''engine_current_bytes'',
      ''engine_peak_bytes'', ''engine_cached_bytes'', ''engine_reserved_bytes'', ''engine_allocation_calls'',
      ''engine_backend_allocation_calls'']"

definition zero_step_fields :: "string list" where
  "zero_step_fields =
     [''step_buckets'', ''step_pack_copies'', ''step_unpack_copies'', ''step_gradient_views'',
      ''step_reducer_allocation_calls'', ''step_reducer_backend_allocation_calls'',
      ''step_reducer_deallocation_calls'', ''step_reducer_total_allocated_bytes'', ''step_plan_reused'',
      ''step_reducer_current_bytes_before'', ''step_reducer_current_bytes_after'', ''step_reducer_peak_bytes_after'',
      ''step_overlap_enabled'', ''step_overlapped_buckets'', ''step_weighted_gradient_scales'',
      ''step_weighted_bucket_scales'', ''step_gather_scale_calls'', ''step_gather_descriptor_copy_calls'',
      ''step_gather_descriptor_bytes'']"

definition reference_dict :: pydict where
  "reference_dict =
     [(''schema_version'', VInt 1), (''status'', VStr ''pass''), (''context'', VInt 4), (''world_size'', VInt 2),
      (''parameter_names'', VList [VStr ''w'']), (''input_weighting'', VStr ''equal-only''),
      (''average_tokens'', VFloat (Fin 4)), (''parameters'', params [[1 / 2]]), (''losses'', VList [VFloat (Fin 2)])]"

definition rank_dict :: pydict where
  "rank_dict = reference_dict @
     [(''local_batch_rows'', VInt 1), (''local_tokens'', VInt 4), (''local_gradient_scale'', VFloat (Fin 1)),
      (''reducer'', VStr ''per-parameter''), (''collectives'', VInt 1), (''step_collectives'', VList [VInt 1]),
      (''persistent_storage'', VBool False), (''training_ms'', VFloat (Fin 4)),
      (''step_training_ms'', VList [VFloat (Fin 4)]), (''forward_backward_ms'', VFloat (Fin 1)),
      (''step_forward_backward_ms'', VList [VFloat (Fin 1)]), (''reducer_ms'', VFloat (Fin 1)),
      (''step_reducer_ms'', VList [VFloat (Fin 1)]), (''optimizer_ms'', VFloat (Fin 1)),
      (''step_optimizer_ms'', VList [VFloat (Fin 1)])] @
     map (\<lambda>k. (k, VInt 0)) zero_fields @ map (\<lambda>k. (k, VList [VInt 0])) zero_step_fields"

definition sample_rank :: "int \<Rightarrow> pyval" where
  "sample_rank i = VDict ((''rank'', VInt i) # rank_dict)"

lemma reference_lookups:
  "map_of reference_dict ''schema_version'' = Some (VInt 1)"
  "map_of reference_dict ''status'' = Some (VStr ''pass'')"
  "map_of reference_dict ''context'' = Some (VInt 4)"
  "map_of reference_dict ''world_size'' = Some (VInt 2)"
  "map_of reference_dict ''parameter_names'' = Some (VList [VStr ''w''])"
  "map_of reference_dict ''input_weighting'' = Some (VStr ''equal-only'')"
  "map_of reference_dict ''average_tokens'' = Some (VFloat (Fin 4))"
  "map_of reference_dict ''parameters'' = Some (params [[1 / 2]])"
  "map_of reference_dict ''losses'' = Some (VList [VFloat (Fin 2)])"
  by (simp_all add: reference_dict_def)

lemma rank_lookups:
  "map_of rank_dict ''schema_version'' = Some (VInt 1)"
  "map_of rank_dict ''status'' = Some (VStr ''pass'')"
  "map_of rank_dict ''context'' = Some (VInt 4)"
  "map_of rank_dict ''world_size'' = Some (VInt 2)"
  "map_of rank_dict ''parameter_names'' = Some (VList [VStr ''w''])"
  "map_of rank_dict ''input_weighting'' = Some (VStr ''equal-only'')"
  "map_of rank_dict ''average_tokens'' = Some (VFloat (Fin 4))"
  "map_of rank_dict ''parameters'' = Some (params [[1 / 2]])"
  "map_of rank_dict ''losses'' = Some (VList [VFloat (Fin 2)])"
  "map_of rank_dict ''local_batch_rows'' = Some (VInt 1)"
  "map_of rank_dict ''local_tokens'' = Some (VInt 4)"
  "map_of rank_dict ''local_gradient_scale'' = Some (VFloat (Fin 1))"
  "map_of rank_dict ''reducer'' = Some (VStr ''per-parameter'')"
  "map_of rank_dict ''collectives'' = Some (VInt 1)"
  "map_of rank_dict ''step_collectives'' = Some (VList [VInt 1])"
  "map_of rank_dict ''persistent_storage'' = Some (VBool False)"
  "map_of rank_dict ''training_ms'' = Some (VFloat (Fin 4))"
  "map_of rank_dict ''step_training_ms'' = Some (VList [VFloat (Fin 4)])"
  "map_of rank_dict ''forward_backward_ms'' = Some (VFloat (Fin 1))"
  "map_of rank_dict ''step_forward_backward_ms'' = Some (VList [VFloat (Fin 1)])"
  "map_of rank_dict ''reducer_ms'' = Some (VFloat (Fin 1))"
  "map_of rank_dict ''step_reducer_ms'' = Some (VList [VFloat (Fin 1)])"
  "map_of rank_dict ''optimizer_ms'' = Some (VFloat (Fin 1))"
  "map_of rank_dict ''step_optimizer_ms'' = Some (VList [VFloat (Fin 1)])"
  "map_of rank_dict ''weighted_gradient_scales'' = Some (VInt 0)"
  "map_of rank_dict ''weighted_bucket_scales'' = Some (VInt 0)"
  "map_of rank_dict ''gather_scale_calls'' = Some (VInt 0)"
  "map_of rank_dict ''gather_descriptor_copy_calls'' = Some (VInt 0)"
  "map_of rank_dict ''gather_descriptor_bytes'' = Some (VInt 0)"
  "map_of rank_dict ''gather_descriptor_capacity_bytes'' = Some (VInt 0)"
  "map_of rank_dict ''plan_reuses'' = Some (VInt 0)"
  "map_of rank_dict ''plan_capacity_elements'' = Some (VInt 0)"
  "map_of rank_dict ''plan_capacity_bytes'' = Some (VInt 0)"
  "map_of rank_dict ''gradient_views'' = Some (VInt 0)"
  "map_of rank_dict ''pack_copies'' = Some (VInt 0)"
  "map_of rank_dict ''unpack_copies'' = Some (VInt 0)"
  "map_of rank_dict ''overlap_steps'' = Some (VInt 0)"
  "map_of rank_dict ''overlapped_buckets'' = Some (VInt 0)"
  "map_of rank_dict ''buckets'' = Some (VInt 0)"
  "map_of rank_dict ''engine_current_bytes'' = Some (VInt 0)"
  "map_of rank_dict ''engine_peak_bytes'' = Some (VInt 0)"
  "map_of rank_dict ''engine_cached_bytes'' = Some (VInt 0)"
  "map_of rank_dict ''engine_reserved_bytes'' = Some (VInt 0)"
  "map_of rank_dict ''engine_allocation_calls'' = Some (VInt 0)"
  "map_of rank_dict ''engine_backend_allocation_calls'' = Some (VInt 0)"
  "map_of rank_dict ''step_buckets'' = Some (VList [VInt 0])"
  "map_of rank_dict ''step_pack_copies'' = Some (VList [VInt 0])"
  "map_of rank_dict ''step_unpack_copies'' = Some (VList [VInt 0])"
  "map_of rank_dict ''step_gradient_views'' = Some (VList [VInt 0])"
  "map_of rank_dict ''step_reducer_allocation_calls'' = Some (VList [VInt 0])"
  "map_of rank_dict ''step_reducer_backend_allocation_calls'' = Some (VList [VInt 0])"
  "map_of rank_dict ''step_reducer_deallocation_calls'' = Some (VList [VInt 0])"
  "map_of rank_dict ''step_reducer_total_allocated_bytes'' = Some (VList [VInt 0])"
  "map_of rank_dict ''step_plan_reused'' = Some (VList [VInt 0])"
  "map_of rank_dict ''step_reducer_current_bytes_before'' = Some (VList [VInt 0])"
  "map_of rank_dict ''step_reducer_current_bytes_after'' = Some (VList [VInt 0])"
  "map_of rank_dict ''step_reducer_peak_bytes_after'' = Some (VList [VInt 0])"
  "map_of rank_dict ''step_overlap_enabled'' = Some (VList [VInt 0])"
  "map_of rank_dict ''step_overlapped_buckets'' = Some (VList [VInt 0])"
  "map_of rank_dict ''step_weighted_gradient_scales'' = Some (VList [VInt 0])"
  "map_of rank_dict ''step_weighted_bucket_scales'' = Some (VList [VInt 0])"
  "map_of rank_dict ''step_gather_scale_calls'' = Some (VList [VInt 0])"
  "map_of rank_dict ''step_gather_descriptor_copy_calls'' = Some (VList [VInt 0])"
  "map_of rank_dict ''step_gather_descriptor_bytes'' = Some (VList [VInt 0])"
  by (simp_all add: rank_dict_def reference_dict_def zero_fields_def zero_step_fields_def)

definition sample_args :: rargs where
  "sample_args = (default_rargs ''bin'' ''out'')\<lparr>ra_steps := 1, ra_context := 4, ra_rank_batch_rows := [1, 1], ra_tolerance := Fin 1\<rparr>"

definition sample_reference :: pyval where
  "sample_reference = VDict reference_dict"

abbreviation sample_ranks :: "pyval list" where
  "sample_ranks \<equiv> [sample_rank 0, sample_rank 1]"

lemma sample_args_simps [simp]:
  "ra_steps sample_args = 1" "ra_context sample_args = 4" "ra_rank_batch_rows sample_args = [1, 1]" "ra_tolerance sample_args = Fin 1"
  "ra_world_size sample_args = 2" "ra_reducer sample_args = ''per-parameter''" "ra_model sample_args = ''tiny''"
  "ra_input_weighting sample_args = ''equal-only''" "ra_failure_mode sample_args = ''none''" "ra_retain sample_args = False"
  "ra_overwrite sample_args = False" "ra_rccl_debug sample_args = False" "ra_timeout sample_args = Fin 20"
  by (simp_all add: sample_args_def default_rargs_def)

lemma sample_fields:
  "k \<noteq> ''rank'' \<Longrightarrow> map_of rank_dict k = Some v \<Longrightarrow> py_getitem (sample_rank i) k = Inr v"
  "k \<noteq> ''rank'' \<Longrightarrow> map_of rank_dict k = Some v \<Longrightarrow> py_get (sample_rank i) k d = Inr v"
  "map_of reference_dict k = Some v \<Longrightarrow> py_getitem sample_reference k = Inr v"
  "map_of reference_dict k = Some v \<Longrightarrow> py_get sample_reference k d = Inr v"
  by (simp_all add: py_getitem_def py_get_def sample_rank_def sample_reference_def)

lemma micro_slack: "\<not> flt (fadd (Fin 4) (rnd (1 / 1000000))) (Fin 3)"
proof -
  have "fle (fadd (Fin 4) (Fin 0)) (fadd (Fin 4) (rnd (1 / 1000000)))" by (intro fadd_mono rnd_nonneg) simp
  then have "fle (Fin 4) (fadd (Fin 4) (rnd (1 / 1000000)))" by simp
  then show ?thesis by (cases "fadd (Fin 4) (rnd (1 / 1000000))") auto
qed

lemma rnd_not_below: "0 \<le> q \<Longrightarrow> \<not> flt (rnd q) (Fin 0)"
  using rnd_nonneg [of q] by (cases "rnd q") auto

lemmas sample_eval = sample_fields rank_lookups reference_lookups get_ne_def item_ne_def item_not_def get_far_def py_ne_def py_eq_int
  py_sub_def num_arith_def py_abs_def py_gt_def py_lt_def py_le_def fsub_def micro_def rnd_not_below fzero_def py_isfinite_def
  any_value_def any_item_def any_truthy_def py_iter_def py_len_def step_item_def py_index_def list_index_def repeated_def

lemma sample_average: "average_tokens sample_args = Inr (VFloat (Fin 4))"
  by (simp add: average_tokens_def py_truediv_def num_arith_def int_truediv_def finite_or_overflow_def)

lemma sample_names: "check_names sample_args sample_ranks sample_reference = Inr ()"
  by (simp add: check_names_def names_differ_def sample_eval)

lemma sample_admission: "check_admission sample_args sample_ranks sample_reference (VFloat (Fin 4)) = Inr (VInt 1)"
  by (simp add: check_admission_def rank_weighting_bad_def expected_scale_def local_tokens_def check_reference_weighting_def
      expected_collectives_def name_count_def check_collectives_def sample_eval)

lemma sample_timings: "check_timings sample_ranks = Inr ()"
  by (simp add: check_timings_def timing_fields_def timing_bad_def interval_bad_def py_add_def micro_slack sample_eval)

lemma sample_steps: "check_steps 1 sample_ranks = Inr ()"
  by (simp add: check_steps_def step_timing_fields_def step_count_fields_def step_list_bad_def time_bad_def count_bad_def interval_bad_def
      py_add_def micro_slack sample_eval)

lemma sample_engine: "check_engine sample_ranks = Inr ()"
  by (simp add: check_engine_def engine_fields_def engine_bad_def sample_eval)

lemma sample_totals: "check_totals sample_ranks = Inr ()"
  by (simp add: check_totals_def total_fields_def total_bad_def py_sum_def py_add_def sample_eval)

lemma sample_scales:
  "check_gradient_scales sample_args (VFloat (Fin 4)) (name_count sample_reference) (enumerate 0 sample_ranks) = Inr ()"
  "check_bucket_scales sample_args (VFloat (Fin 4)) (enumerate 0 sample_ranks) = Inr ()"
  "check_gather sample_args sample_ranks = Inr ()"
  by (simp_all add: check_gradient_scales_def expected_gradient_scales_def gradient_scales_bad_def weighted_unevenly_def
      check_bucket_scales_def expected_bucket_scales_def bucket_scales_bad_def spread_over_def py_floordiv_int_def
      check_gather_def expected_gather_calls_def gather_bad_def gather_reducer_def gather_unused_bad_def numeral_2_eq_2 sample_eval)

lemma sample_plans:
  "check_plan sample_args sample_ranks = Inr ()"
  "check_views sample_args (name_count sample_reference) sample_ranks = Inr ()"
  "check_overlap sample_args sample_ranks = Inr ()"
  by (simp_all add: check_plan_def persistent_reducer_def no_plan_bad_def check_views_def view_reducer_def
      check_overlap_def overlap_reducer_def no_overlap_bad_def py_floordiv_int_def sample_eval)

lemma sample_records: "check_records sample_args sample_ranks sample_reference (VFloat (Fin 4)) = Inr ()"
  by (simp add: check_records_def sample_timings sample_steps sample_engine sample_totals sample_scales sample_plans del: enumerate_simps)

lemma sample_params: "zip_vals (params [[1 / 2]]) (params [[1 / 2]]) = Inr [(VList [VFloat (Fin (1 / 2))], VList [VFloat (Fin (1 / 2))])]"
  by (simp add: zip_vals_def params_def py_iter_def)

lemma sample_maximum: "maximum_difference (params [[1 / 2]]) (params [[1 / 2]]) = Inr (VFloat (Fin 0))"
  by (simp add: maximum_difference_def sample_params same_len_def params_def py_len_def max_step_def list_difference_def zip_vals_def py_iter_def
      abs_diff_floats py_max_default_def py_max_from_def py_lt_def fzero_def)

lemma sample_rms: "rms_difference (params [[1 / 2]]) (params [[1 / 2]]) = Inr (VFloat (Fin 0))"
proof -
  have "fsquare (Fin 0) = Inr (Fin 0)" "fsqrt (Fin 0) = Inr (Fin 0)" by code_simp+
  then have "foldM rms_step (fzero, 0) [(VList [VFloat (Fin (1 / 2))], VList [VFloat (Fin (1 / 2))])] = Inr (VFloat (Fin 0), 1)"
    by (simp add: rms_step_def same_len_def py_len_def zip_vals_def py_iter_def fzero_def py_sub_def num_arith_def fsub_def py_square_def py_add_def finite_or_overflow_def)
  then show ?thesis using \<open>fsqrt (Fin 0) = Inr (Fin 0)\<close>
    by (simp add: rms_difference_def sample_params py_truediv_def num_arith_def py_root_def)
qed

definition sample_differences :: differences where
  "sample_differences = \<lparr>df_rank = VFloat (Fin 0), df_rank_rms = VFloat (Fin 0), df_reference = VFloat (Fin 0), df_reference_rms = VFloat (Fin 0),
     df_tensors = VInt 1, df_values = VInt 1, df_tolerance = rnd (2 / 100000), df_rms_tolerance = rnd (2 / 100000)\<rparr>"

lemma sample_tiny: "tiny_differences sample_ranks sample_reference = Inr sample_differences"
proof -
  have "py_len (params [[1 / 2]]) = Inr 1" "bindE (py_iter (params [[1 / 2]])) (mapM py_len) = Inr [1]"
    by (simp_all add: params_def py_len_def py_iter_def)
  then show ?thesis
    by (simp add: tiny_differences_def max_of_def max_of_default_def sample_fields rank_lookups reference_lookups sample_maximum sample_rms
        py_max_default_def py_max_def py_max_from_def py_lt_def sample_differences_def)
qed

lemma sample_loss: "loss_difference sample_args (enumerate 0 sample_ranks) sample_reference = Inr (VFloat (Fin 0))"
  by (simp add: loss_difference_def weighted_loss_def py_mul_def py_sum_def py_add_def py_truediv_def abs_diff_def py_max_def py_max_from_def sample_eval)

definition sample_verdict :: verdict where
  "sample_verdict = \<lparr>vd_average = VFloat (Fin 4), vd_expected = VInt 1, vd_differences = sample_differences, vd_loss = VFloat (Fin 0), vd_failed = False\<rparr>"

lemma sample_judge: "judge sample_args l sample_ranks sample_reference = Inr sample_verdict"
proof -
  have "gate_failed sample_args sample_differences (VFloat (Fin 0)) = Inr False"
    by (simp add: gate_failed_def sample_differences_def py_ne_def fzero_def py_gt_def py_lt_def rnd_not_below)
  then show ?thesis
    by (simp add: judge_def sample_names sample_average sample_admission judge_differences_def sample_tiny sample_records sample_loss
        sample_verdict_def del: enumerate_simps)
qed

definition sample_launch :: launch where
  "sample_launch = \<lparr>la_completed = True, la_terminated = 0, la_codes = [0, 0],
     la_outputs = [\<lparr>po_text = ''one'', po_lines = [Inr (sample_rank 1)]\<rparr>, \<lparr>po_text = ''zero'', po_lines = [Inr (sample_rank 0)]\<rparr>],
     la_errors = ['''', ''''], la_group_ms = Fin 5,
     la_reference = Inr \<lparr>pr_code = 0, pr_out = \<lparr>po_text = ''ref'', po_lines = [Inr sample_reference]\<rparr>, pr_err = ''''\<rparr>,
     la_reference_ms = Fin 5, la_compare = (\<lambda>x y. Inl TimeoutExpired), la_gpu_ids = [Some ''1''], la_shared_total = 8, la_shared_free = 4,
     la_logs = [], la_files = []\<rparr>"

lemma sample_launch_simps [simp]:
  "la_completed sample_launch = True" "la_files sample_launch = []" "length (la_outputs sample_launch) = 2"
  "po_text (la_outputs sample_launch ! 0) = ''one''"
  by (simp_all add: sample_launch_def)

lemma sample_emitted: "emitted_records sample_launch = Inr [sample_rank 1, sample_rank 0]"
  by (simp add: emitted_records_def sample_launch_def load_record_def get_ne_def sample_fields rank_lookups py_ne_def)

lemma sample_order: "order_ranks 2 [sample_rank 1, sample_rank 0] = Inr sample_ranks"
  by (simp add: order_ranks_def sample_rank_def py_get_def numeral_2_eq_2)

lemma sample_reference_record:
  "la_reference sample_launch = Inr run \<Longrightarrow> reference_record run = Inr sample_reference"
  by (auto simp: sample_launch_def reference_record_def load_record_def get_ne_def sample_fields reference_lookups py_ne_def)

theorem ranks_in_order_witness:
  "length sample_ranks = 2 \<and> sample_ranks ! 1 \<in> set [sample_rank 1, sample_rank 0]"
  using ranks_in_order [OF sample_order, of 1] by simp

theorem gate_bounds_parameters_witness:
  "close_within (Fin 0) [[1 / 2]] [[1 / 2]] \<and> close_within (rnd (2 / 100000)) [[1 / 2]] [[1 / 2]]"
  using gate_bounds_parameters [OF sample_judge, where P = "\<lambda>_. [[1 / 2]]"]
  by (force simp: sample_verdict_def sample_fields rank_lookups reference_lookups)


definition evaluates :: "(string \<times> pyval py) list \<Rightarrow> bool" where
  "evaluates entries \<longleftrightarrow> (\<forall>e \<in> set entries. \<exists>x. snd e = Inr x)"

lemma evaluates_append [simp]: "evaluates (xs @ ys) \<longleftrightarrow> evaluates xs \<and> evaluates ys"
  by (auto simp: evaluates_def)

lemma evaluate_returns: "evaluates entries \<Longrightarrow> \<exists>v. evaluate entries = Inr v"
proof -
  assume "evaluates entries"
  then have "mapM (\<lambda>(k, v). bindE v (\<lambda>x. Inr (k, x))) entries = Inr (map (\<lambda>(k, v). (k, projr v)) entries)"
    by (induction entries) (auto simp: evaluates_def)
  then show ?thesis by (simp add: evaluate_def)
qed

lemmas entry_eval = evaluates_def all_of_def most_of_def max_of_def most_steps_def step_item_def first_of_def sample_fields rank_lookups
  reference_lookups py_index_def list_index_def py_max_def py_max_from_def py_lt_def

lemma sample_rank_entries: "evaluates (rank_entries sample_args sample_ranks sample_reference)"
  by (simp add: rank_entries_def timing_fields_def step_timing_fields_def step_count_fields_def engine_fields_def entry_eval)

lemma sample_plan_entries: "evaluates (plan_entries sample_ranks)"
  by (simp add: plan_entries_def entry_eval)

lemma sample_other_entries:
  "evaluates (head_entries sample_args sample_verdict)"
  "evaluates (tail_entries sample_args l sample_verdict sample_ranks commands preflight debug)"
  by (simp_all add: head_entries_def tail_entries_def Let_def entry_eval)

lemma sample_summary: "\<exists>summary. run_summary sample_args l sample_verdict sample_ranks sample_reference commands preflight debug = Inr summary"
  unfolding run_summary_def
  by (rule evaluate_returns) (simp add: sample_rank_entries sample_plan_entries sample_other_entries)

lemma sample_run: "\<exists>summary fs'. run_ranked sample_args None sample_launch fs = (Inr summary, fs')"
proof -
  obtain summary where "run_summary sample_args sample_launch sample_verdict sample_ranks sample_reference
      (rank_commands sample_args 20000) (resource_preflight sample_launch 2) (debug_summary sample_args sample_launch) = Inr summary"
    using sample_summary by blast
  moreover obtain run where run: "la_reference sample_launch = Inr run" by (simp add: sample_launch_def)
  moreover note sample_reference_record [OF run]
  moreover have "timeout_ms (Fin 20) = Inr 20000" by (simp add: timeout_ms_def)
  moreover have "\<not> vd_failed sample_verdict" by (simp add: sample_verdict_def)
  moreover obtain fs1 where "record_outputs sample_args sample_launch
      (snd (arrivals sample_launch (fs(in_output sample_args ''preflight.json'' \<mapsto> Whole (resource_preflight sample_launch 2))))) = (Inr (), fs1)"
    by (simp add: record_outputs_def bindS_def unlink_def write_file_def sample_launch_def)
  ultimately show ?thesis
    by (simp add: run_ranked_def prepare_output_def Let_def bindS_def clear_output_def write_file_def arrivals_def verify_run_def
        sample_emitted sample_order sample_judge sweep_def publish_def)
qed


theorem failed_run_leaves_no_summary_witness:
  "\<exists>e fs'. run_ranked sample_args (Some [''old'']) sample_launch (\<lambda>_. None) = (Inl e, fs') \<and> fs' (summary_file sample_args) = None"
proof -
  have "run_ranked sample_args (Some [''old'']) sample_launch (\<lambda>_. None) =
      (Inl (RuntimeError ''output directory is not empty; pass --overwrite''), \<lambda>_. None)"
    by (simp add: run_ranked_def prepare_output_def bindS_def)
  with failed_run_leaves_no_summary [OF this] show ?thesis by simp
qed

theorem outputs_filed_by_launch_order_witness:
  "\<exists>fs'. record_outputs sample_args sample_launch (\<lambda>_. None) = (Inr (), fs') \<and>
     fs' (in_output sample_args (''rank'' @ str_int 0 @ ''.stdout'')) = Some (Whole (VStr ''one'')) \<and>
     rank_commands sample_args 20000 ! 0 = rank_command sample_args 20000 1 1"
proof -
  obtain fs' where r: "record_outputs sample_args sample_launch (\<lambda>_. None) = (Inr (), fs')"
    by (simp add: record_outputs_def bindS_def unlink_def write_file_def sample_launch_def)
  show ?thesis using outputs_filed_by_launch_order [of sample_args 0 sample_launch, OF _ _ _ r, of 20000] r by simp
qed

end
