(* ===== verification/RankedCheckpoint.thy ===== *)
theory RankedCheckpoint imports RankedVerdict begin

text \<open>
  \<open>run_ranked_checkpoint.py\<close>: a first segment, a resumed one and an uninterrupted run of both
  lengths must agree byte for byte in their final checkpoints, a failed checkpoint write must take the
  whole group down, and nothing temporary may remain. Each group run is a \<open>launch\<close>, the output
  directory the state; \<open>terminate\<close> and \<open>wait_group\<close> are copies of those of
  \<open>run_ranked.py\<close>, and so are the lines of \<open>parse_record\<close>.
\<close>

section \<open>Options\<close>

record cargs =
  ca_binary :: string
  ca_output :: string
  ca_model :: string
  ca_context :: int
  ca_compare_binary :: "string option"
  ca_first_steps :: int
  ca_resumed_steps :: int
  ca_timeout :: pyfloat
  ca_overwrite :: bool

definition checkpoint_options :: "(string \<Rightarrow> bool) \<Rightarrow> cargs \<Rightarrow> cargs py" where
  "checkpoint_options is_file a =
     thenE (raise_if (ca_model a \<notin> {''tiny'', ''model-s''}) usage)
    (thenE (raise_if (\<not> is_file (ca_binary a) \<or> ca_first_steps a \<le> 0 \<or> ca_resumed_steps a \<le> 0 \<or> fle (ca_timeout a) (Fin 0)) usage)
    (let context = pick_context (ca_model a) (ca_context a) in
     thenE (raise_if (context_bad (ca_model a) context) usage)
    (thenE (raise_if (compare_bad is_file (ca_compare_binary a)) usage)
    (thenE (raise_if (ca_model a = ''model-s'' \<and> ca_compare_binary a = None) usage)
    (Inr (a\<lparr>ca_context := context\<rparr>))))))"

section \<open>One group\<close>

definition checkpoint_terminate :: "nat \<Rightarrow> group_env \<Rightarrow> nat \<Rightarrow> history \<Rightarrow> (nat \<times> history) option" where
  "checkpoint_terminate = terminate"

definition checkpoint_wait_group :: "nat \<Rightarrow> group_env \<Rightarrow> nat \<Rightarrow> pyfloat \<Rightarrow> history \<Rightarrow> ((bool \<times> nat) \<times> history) option" where
  "checkpoint_wait_group = wait_group"

definition parse_record :: "string \<Rightarrow> pyval py list \<Rightarrow> pyval py" where
  "parse_record name lines = load_record name lines"

definition checkpoint_compare :: "launch \<Rightarrow> string \<Rightarrow> string \<Rightarrow> pyval py" where
  "checkpoint_compare l baseline candidate =
     bindE (la_compare l baseline candidate) (\<lambda>run.
     thenE (raise_if (pr_code run \<noteq> 0) (RuntimeError (po_text (pr_out run) @ pr_err run)))
       (parse_record ''rank safetensors comparison'' (po_lines (pr_out run))))"

definition parameter_difference :: "pyval \<Rightarrow> pyval \<Rightarrow> pyval py" where
  "parameter_difference left right =
     bindE (py_getitem left ''parameter_names'') (\<lambda>ln. bindE (py_getitem right ''parameter_names'') (\<lambda>rn.
     thenE (raise_if (py_ne ln rn) (RuntimeError ''ranked checkpoint parameter contract changed''))
    (bindE (py_getitem left ''parameters'') (\<lambda>lp. bindE (py_getitem right ''parameters'') (\<lambda>rp.
     thenE (same_len ''ranked checkpoint parameter contract changed'' lp rp)
    (bindE (zip_vals lp rp) (\<lambda>ps. foldM (max_step ''ranked checkpoint parameter shape changed'') fzero ps)))))))"

record group =
  gp_binary :: string
  gp_output :: string
  gp_steps :: int
  gp_timeout :: pyfloat
  gp_checkpoint :: string
  gp_ready :: string
  gp_resume :: "string option"
  gp_inject :: bool
  gp_model :: string
  gp_context :: int
  gp_compare :: "string option"

definition group_arguments :: "group \<Rightarrow> int \<Rightarrow> string list" where
  "group_arguments g ms =
     [''--world-size'', ''2'', ''--id-file'', gp_output g @ ''/communicator.id'', ''--steps'', str_int (gp_steps g), ''--seed'', ''607'',
      ''--timeout-ms'', str_int ms, ''--model'', gp_model g, ''--context'', str_int (gp_context g),
      ''--reducer'', ''per-parameter'', ''--bucket-bytes'', ''4096'',
      ''--checkpoint-file'', gp_checkpoint g, ''--checkpoint-ready-file'', gp_ready g] @
     (case gp_resume g of None \<Rightarrow> [] | Some path \<Rightarrow> [''--resume-file'', path])"

definition group_parameter_file :: "group \<Rightarrow> int \<Rightarrow> string" where
  "group_parameter_file g rank = gp_output g @ ''/rank'' @ str_int rank @ ''.safetensors''"

definition group_command :: "group \<Rightarrow> int \<Rightarrow> int \<Rightarrow> string list" where
  "group_command g ms rank =
     [gp_binary g, ''--mode'', ''rank'', ''--rank'', str_int rank, ''--local-rank'', str_int rank] @ group_arguments g ms @
     (if gp_model g = ''model-s'' then [''--parameter-file'', group_parameter_file g rank] else []) @
     (if gp_inject g \<and> rank = 0 then [''--inject-checkpoint-failure''] else [])"

definition group_process :: "group \<Rightarrow> launch \<Rightarrow> int \<Rightarrow> pydict" where
  "group_process g l ms =
     [(''completed'', VBool (la_completed l)), (''terminated'', VInt (int (la_terminated l))), (''returncodes'', codes_value l),
      (''group_ms'', VFloat (la_group_ms l)), (''commands'', VList (map strings [group_command g ms 1, group_command g ms 0])),
      (''rank_parameter_difference'', VNone)]"

definition group_file :: "group \<Rightarrow> string \<Rightarrow> nat \<Rightarrow> string" where
  "group_file g suffix i = gp_output g @ ''/rank'' @ str_int (int i) @ suffix"

definition record_group :: "group \<Rightarrow> launch \<Rightarrow> (files, unit) action" where
  "record_group g l =
     thenS (unlink (gp_output g @ ''/communicator.id''))
    (thenS (each (\<lambda>(i, o1). write_file (group_file g ''.stdout'' i) (VStr (po_text o1))) (enumerate 0 (la_outputs l)))
           (each (\<lambda>(i, e). write_file (group_file g ''.stderr'' i) (VStr e)) (enumerate 0 (la_errors l))))"

definition group_ranks :: "launch \<Rightarrow> (pyval \<times> pyval) py" where
  "group_ranks l =
     bindE (mapM (\<lambda>(i, o1). parse_record (''rank'' @ str_int (int i)) (po_lines o1)) (enumerate 0 (la_outputs l))) (\<lambda>rs.
     bindE (list_index rs 0) (\<lambda>r1. bindE (list_index rs 1) (\<lambda>r0.
     thenE (raise_ifM (orM (get_ne r1 ''rank'' (VInt 1)) (get_ne r0 ''rank'' (VInt 0))) (RuntimeError ''ranked checkpoint identity changed''))
       (Inr (r1, r0)))))"

definition compared_process :: "group \<Rightarrow> launch \<Rightarrow> pydict \<Rightarrow> pydict py" where
  "compared_process g l process =
     thenE (raise_if (gp_compare g = None) (RuntimeError ''Model-S rank comparison binary is missing''))
    (bindE (checkpoint_compare l (group_parameter_file g 1) (group_parameter_file g 0)) (\<lambda>c.
     bindE (py_getitem c ''maximum_absolute_difference'') (\<lambda>d.
     bindE (py_getitem c ''rms_difference'') (\<lambda>r.
     bindE (py_getitem c ''tensor_count'') (\<lambda>t.
     bindE (py_getitem c ''compared_elements'') (\<lambda>n.
     Inr (dict_update process [(''rank_parameter_difference'', d), (''rank_parameter_rms_difference'', r),
            (''parameter_tensors'', t), (''parameter_values'', n)])))))))"

text \<open>The two records, of rank 1 first, and the description of the run; no records of an injected failure.\<close>

definition run_group :: "group \<Rightarrow> launch \<Rightarrow> (files, pyval list \<times> pydict) action" where
  "run_group g l =
     bindS (liftS (timeout_ms (gp_timeout g))) (\<lambda>ms.
     thenS (arrivals l)
    (thenS (record_group g l)
    (let process = group_process g l ms in
     if gp_inject g then retS ([], process)
     else thenS (liftS (raise_if (\<not> la_completed l) (RuntimeError ''ranked checkpoint group failed or timed out'')))
       (bindS (liftS (group_ranks l)) (\<lambda>(r1, r0).
        if gp_model g = ''model-s''
        then bindS (liftS (compared_process g l process)) (\<lambda>process1.
             thenS (each unlink [group_parameter_file g 1, group_parameter_file g 0]) (retS ([r1, r0], process1)))
        else bindS (liftS (parameter_difference r1 r0)) (\<lambda>d.
             retS ([r1, r0], dict_set ''rank_parameter_difference'' d process)))))))"

definition get_is_not :: "pyval \<Rightarrow> string \<Rightarrow> pyval \<Rightarrow> bool py" where
  "get_is_not r k v = bindE (py_get r k VNone) (\<lambda>x. Inr (x \<noteq> v))"

definition rank_step_bad :: "int \<Rightarrow> int \<Rightarrow> bool \<Rightarrow> pyval \<Rightarrow> bool py" where
  "rank_step_bad initial final resumed r = orsM
     [get_ne r ''initial_step'' (VInt initial), get_ne r ''final_step'' (VInt final), get_ne r ''optimizer_step'' (VInt final),
      get_is_not r ''resumed'' (VBool resumed), get_is_not r ''checkpoint_requested'' (VBool True),
      get_is_not r ''checkpoint_verified'' (VBool True)]"

definition verify_group :: "pyval list \<Rightarrow> pydict \<Rightarrow> int \<Rightarrow> int \<Rightarrow> bool \<Rightarrow> unit py" where
  "verify_group ranks process initial final resumed =
     raise_ifM (orsM
       [get_ne (VDict process) ''rank_parameter_difference'' fzero, anyM (rank_step_bad initial final resumed) ranks,
        bindE (list_index ranks 0) (\<lambda>r. get_is_not r ''checkpoint_written'' (VBool False)),
        bindE (list_index ranks 1) (\<lambda>r. get_is_not r ''checkpoint_written'' (VBool True))])
       (RuntimeError ''ranked checkpoint group contract changed'')"

section \<open>The four groups\<close>

definition at_output :: "cargs \<Rightarrow> string \<Rightarrow> string" where
  "at_output a name = ca_output a @ ''/'' @ name"

definition final_step :: "cargs \<Rightarrow> int" where
  "final_step a = ca_first_steps a + ca_resumed_steps a"

definition make_group :: "cargs \<Rightarrow> string \<Rightarrow> int \<Rightarrow> string \<Rightarrow> string \<Rightarrow> string option \<Rightarrow> group" where
  "make_group a dir steps checkpoint ready resume =
     \<lparr>gp_binary = ca_binary a, gp_output = at_output a dir, gp_steps = steps, gp_timeout = ca_timeout a,
      gp_checkpoint = at_output a checkpoint, gp_ready = at_output a ready, gp_resume = resume, gp_inject = False,
      gp_model = ca_model a, gp_context = ca_context a, gp_compare = ca_compare_binary a\<rparr>"

definition first_group :: "cargs \<Rightarrow> group" where
  "first_group a = make_group a ''first-segment'' (ca_first_steps a) ''interrupted.ckpt'' ''interrupted.ready'' None"

definition resumed_group :: "cargs \<Rightarrow> group" where
  "resumed_group a = make_group a ''resumed-segment'' (ca_resumed_steps a) ''resumed-final.ckpt'' ''resumed-final.ready''
     (Some (at_output a ''interrupted.ckpt''))"

definition whole_group :: "cargs \<Rightarrow> group" where
  "whole_group a = make_group a ''uninterrupted'' (final_step a) ''uninterrupted-final.ckpt'' ''uninterrupted-final.ready'' None"

text \<open>The injected failure runs the tiny model whatever was chosen, with at most fifteen seconds.\<close>

definition failure_timeout :: "pyfloat \<Rightarrow> pyfloat" where
  "failure_timeout t = (if flt (Fin 15) t then Fin 15 else t)"

definition failure_group :: "cargs \<Rightarrow> group" where
  "failure_group a = (make_group a ''write-failure'' 1 ''failure.ckpt'' ''failure.ready'' None)
     \<lparr>gp_timeout := failure_timeout (ca_timeout a), gp_inject := True, gp_model := ''tiny'', gp_context := 4, gp_compare := None\<rparr>"

definition verified_group :: "group \<Rightarrow> launch \<Rightarrow> int \<Rightarrow> int \<Rightarrow> bool \<Rightarrow> (files, pyval list \<times> pydict) action" where
  "verified_group g l initial final resumed =
     bindS (run_group g l) (\<lambda>(ranks, process).
     thenS (liftS (verify_group ranks process initial final resumed)) (retS (ranks, process)))"

section \<open>The verdict\<close>

definition read_file :: "string \<Rightarrow> (files, content) action" where
  "read_file f fs = (need (OSError f) (fs f), fs)"

definition file_exists :: "string \<Rightarrow> (files, bool) action" where
  "file_exists f fs = (Inr (fs f \<noteq> None), fs)"

definition trajectory_bad :: "pydict \<Rightarrow> pydict \<Rightarrow> bool \<Rightarrow> bool py" where
  "trajectory_bad resumed whole equal =
     (let trajectory = VFloat (if equal then Fin 0 else Fin 1) in
      orsM [item_ne (VDict resumed) ''rank_parameter_difference'' fzero, item_ne (VDict whole) ''rank_parameter_difference'' fzero,
            Inr (py_ne trajectory fzero), Inr (\<not> equal)])"

definition failure_bad :: "cargs \<Rightarrow> launch \<Rightarrow> (files, bool) action" where
  "failure_bad a l =
     (if la_completed l \<or> la_terminated l < 1 then retS True
      else bindS (liftS (list_index (la_codes l) 1)) (\<lambda>c1.
           if c1 \<noteq> 1 then retS True
           else bindS (liftS (list_index (la_codes l) 0)) (\<lambda>c0.
                if c0 \<notin> {-15, -9} then retS True
                else bindS (file_exists (at_output a ''failure.ckpt'')) (\<lambda>b.
                     if b then retS True else file_exists (at_output a ''failure.ready'')))))"

definition temporary_files :: "cargs \<Rightarrow> string list" where
  "temporary_files a = map (at_output a)
     [''interrupted.ckpt'', ''interrupted.ready'', ''resumed-final.ckpt'', ''resumed-final.ready'',
      ''uninterrupted-final.ckpt'', ''uninterrupted-final.ready'', ''failure.ckpt'', ''failure.ready'']"

definition ends_with :: "string \<Rightarrow> string \<Rightarrow> bool" where
  "ends_with suffix s \<longleftrightarrow> starts_with (rev suffix) (rev s) \<noteq> None"

text \<open>
  The names of temporary files below the output directory. Only files that the processes left can have
  such a name: this program writes no others.
\<close>

definition temporary_name :: "cargs \<Rightarrow> string \<Rightarrow> bool" where
  "temporary_name a f \<longleftrightarrow> starts_with (ca_output a @ ''/'') f \<noteq> None \<and>
     (\<exists>suffix \<in> set [''.ckpt'', ''.ready'', ''.safetensors'', ''.tmp'', ''/communicator.id'']. ends_with suffix f)"

definition retained :: "cargs \<Rightarrow> launch list \<Rightarrow> (files, bool) action" where
  "retained a ls fs = (Inr (\<exists>f \<in> set (concat (map (\<lambda>l. map fst (la_files l)) ls)). temporary_name a f \<and> fs f \<noteq> None), fs)"

section \<open>The summary\<close>

definition second_of :: "pyval list \<Rightarrow> string \<Rightarrow> pyval py" where
  "second_of ranks k = bindE (list_index ranks 1) (\<lambda>r. py_getitem r k)"

definition checkpoint_summary ::
  "cargs \<Rightarrow> (content \<Rightarrow> int) \<Rightarrow> content list \<Rightarrow> pyval list \<Rightarrow> pyval list \<Rightarrow> pyval list \<Rightarrow> pydict list \<Rightarrow> launch \<Rightarrow> pyval py" where
  "checkpoint_summary a size_of contents first resumed whole processes l4 =
     bindE (evaluate [(''interrupted'', Inr (VInt (size_of (contents ! 0)))), (''resumed_final'', Inr (VInt (size_of (contents ! 1)))),
                      (''uninterrupted_final'', Inr (VInt (size_of (contents ! 2))))]) (\<lambda>sizes.
     bindE (evaluate [(''interrupted'', second_of first ''checkpoint_write_ms''), (''resumed_final'', second_of resumed ''checkpoint_write_ms''),
                      (''uninterrupted_final'', second_of whole ''checkpoint_write_ms'')]) (\<lambda>writes.
     evaluate
      [(''schema_version'', Inr (VInt 1)), (''status'', Inr (VStr ''pass'')), (''record_type'', Inr (VStr ''ranked_checkpoint_summary'')),
       (''world_size'', Inr (VInt 2)), (''model'', Inr (VStr (ca_model a))), (''context'', Inr (VInt (ca_context a))),
       (''first_steps'', Inr (VInt (ca_first_steps a))), (''resumed_steps'', Inr (VInt (ca_resumed_steps a))),
       (''final_step'', Inr (VInt (final_step a))), (''rank_processes'', Inr (VInt 8)), (''rank0_checkpoint_writes'', Inr (VInt 3)),
       (''nonzero_rank_checkpoint_writes'', Inr (VInt 0)),
       (''resumed_rank_difference'', py_getitem (VDict (processes ! 1)) ''rank_parameter_difference''),
       (''uninterrupted_rank_difference'', py_getitem (VDict (processes ! 2)) ''rank_parameter_difference''),
       (''resume_vs_uninterrupted_parameter_difference'', Inr fzero), (''resume_vs_uninterrupted_checkpoint_bytes_equal'', Inr (VBool True)),
       (''checkpoint_sizes'', Inr sizes), (''checkpoint_write_ms'', Inr writes), (''maximum_resume_ms'', most_of resumed ''resume_ms''),
       (''maximum_checkpoint_wait_ms'', most_of (first @ resumed @ whole) ''checkpoint_wait_ms''),
       (''maximum_checkpoint_verify_ms'', most_of (first @ resumed @ whole) ''checkpoint_verify_ms''),
       (''checkpoint_files_retained'', Inr (VBool False)), (''failure_detected'', Inr (VBool True)),
       (''peer_processes_terminated'', Inr (VInt (int (la_terminated l4)))), (''failure_returncodes'', Inr (codes_value l4)),
       (''processes'', Inr (VDict (zip [''first'', ''resumed'', ''uninterrupted'', ''failure''] (map VDict processes)))),
       (''decision'', Inr (VStr (if ca_model a = ''model-s'' then ''complete Model-S ranked checkpoint smoke''
                                 else ''admit Model-S ranked checkpoint smoke'')))]))"

definition finish_checkpoint ::
  "cargs \<Rightarrow> (content \<Rightarrow> int) \<Rightarrow> launch list \<Rightarrow> pyval list \<Rightarrow> pyval list \<Rightarrow> pyval list \<Rightarrow> pydict list \<Rightarrow> (files, pyval) action" where
  "finish_checkpoint a size_of ls first resumed whole processes =
     bindS (mapS read_file [at_output a ''interrupted.ckpt'', at_output a ''resumed-final.ckpt'', at_output a ''uninterrupted-final.ckpt'']) (\<lambda>contents.
     thenS (each unlink (temporary_files a))
    (bindS (retained a ls) (\<lambda>b.
     thenS (liftS (raise_if b (RuntimeError ''ranked checkpoint temporary files were retained'')))
    (bindS (liftS (checkpoint_summary a size_of contents first resumed whole processes (last ls))) (\<lambda>summary.
     thenS (write_file (at_output a ''failure.json'') (VDict (last processes)))
    (thenS (write_file (at_output a ''summary.json'') summary) (retS summary)))))))"

definition clear_checkpoint :: "cargs \<Rightarrow> string list option \<Rightarrow> (files, unit) action" where
  "clear_checkpoint a dir fs =
     (Inr (), if dir \<noteq> None \<and> ca_overwrite a then (\<lambda>f. if starts_with (ca_output a @ ''/'') f \<noteq> None then None else fs f) else fs)"

type_synonym segments = "(pyval list \<times> pydict) \<times> (pyval list \<times> pydict) \<times> (pyval list \<times> pydict)"

definition run_segments :: "cargs \<Rightarrow> launch \<Rightarrow> launch \<Rightarrow> launch \<Rightarrow> (files, segments) action" where
  "run_segments a l1 l2 l3 =
     bindS (verified_group (first_group a) l1 0 (ca_first_steps a) False) (\<lambda>first.
     bindS (verified_group (resumed_group a) l2 (ca_first_steps a) (final_step a) True) (\<lambda>resumed.
     bindS (verified_group (whole_group a) l3 0 (final_step a) False) (\<lambda>whole.
     retS (first, resumed, whole))))"

definition run_checkpoint ::
  "cargs \<Rightarrow> string list option \<Rightarrow> (content \<Rightarrow> int) \<Rightarrow> launch \<Rightarrow> launch \<Rightarrow> launch \<Rightarrow> launch \<Rightarrow> (files, pyval) action" where
  "run_checkpoint a dir size_of l1 l2 l3 l4 =
     bindS (liftS (prepare_output (ca_overwrite a) dir)) (\<lambda>_.
     thenS (clear_checkpoint a dir)
    (bindS (run_segments a l1 l2 l3) (\<lambda>((first, p1), (resumed, p2), (whole, p3)).
     bindS (read_file (at_output a ''resumed-final.ckpt'')) (\<lambda>c2.
     bindS (read_file (at_output a ''uninterrupted-final.ckpt'')) (\<lambda>c3.
     thenS (liftS (raise_ifM (trajectory_bad p2 p3 (c2 = c3)) (RuntimeError ''ranked checkpoint resume trajectory changed'')))
    (bindS (run_group (failure_group a) l4) (\<lambda>(_, p4).
     bindS (failure_bad a l4) (\<lambda>b.
     thenS (liftS (raise_if b (RuntimeError ''rank0 checkpoint failure did not terminate its peer'')))
       (finish_checkpoint a size_of [l1, l2, l3, l4] first resumed whole [p1, p2, p3, p4])))))))))"

section \<open>What a passing run certifies\<close>

lemma read_file_ok: "read_file f fs = (Inr c, fs') \<longleftrightarrow> fs f = Some c \<and> fs' = fs"
  by (auto simp: read_file_def)

lemma failure_ok: "failure_bad a l fs = (Inr False, fs') \<Longrightarrow>
   \<not> la_completed l \<and> 1 \<le> la_terminated l \<and> list_index (la_codes l) 1 = Inr 1 \<and> list_index (la_codes l) 0 \<in> {Inr (-15), Inr (-9)} \<and>
   fs (at_output a ''failure.ckpt'') = None \<and> fs (at_output a ''failure.ready'') = None \<and> fs' = fs"
  by (auto simp: failure_bad_def bindS_Inr file_exists_def split: if_splits)

lemma each_unlink: "each unlink gs fs = (Inr (), \<lambda>f. if f \<in> set gs then None else fs f)"
proof (induction gs arbitrary: fs)
  case (Cons g gs)
  have "each unlink (g # gs) fs = each unlink gs (fs(g := None))" by (simp add: bindS_def unlink_def)
  then show ?case using Cons [of "fs(g := None)"] by (auto simp: fun_eq_iff)
qed simp

lemma mapS_read_same: "mapS read_file gs fs = (Inr cs, fs') \<Longrightarrow> fs' = fs"
  by (induction gs arbitrary: cs) (auto simp: bindS_Inr read_file_ok)

lemma result_files_not_temporary:
  "\<not> temporary_name a (at_output a ''failure.json'')" "\<not> temporary_name a (at_output a ''summary.json'')"
  "at_output a ''failure.json'' \<notin> set (temporary_files a)" "at_output a ''summary.json'' \<notin> set (temporary_files a)"
  by (auto simp: temporary_name_def ends_with_def at_output_def temporary_files_def)

lemma finish_ok:
  assumes "finish_checkpoint a size_of ls first resumed whole processes fs = (Inr summary, fs')"
  shows "fs' (at_output a ''summary.json'') = Some (Whole summary) \<and> (\<forall>f \<in> set (temporary_files a). fs' f = None) \<and>
    (\<forall>l \<in> set ls. \<forall>f \<in> fst ` set (la_files l). temporary_name a f \<longrightarrow> fs' f = None)"
proof -
  let ?fs = "\<lambda>f. if f \<in> set (temporary_files a) then None else fs f"
  obtain contents where c: "mapS read_file [at_output a ''interrupted.ckpt'', at_output a ''resumed-final.ckpt'', at_output a ''uninterrupted-final.ckpt''] fs = (Inr contents, fs)"
    and r: "retained a ls ?fs = (Inr False, ?fs)"
    and fs': "fs' = ?fs(at_output a ''failure.json'' \<mapsto> Whole (VDict (last processes)), at_output a ''summary.json'' \<mapsto> Whole summary)"
    using assms unfolding finish_checkpoint_def
    by (auto simp: bindS_Inr each_unlink retained_def write_file_def simp del: mapS.simps each.simps dest: mapS_read_same)
  show ?thesis using r result_files_not_temporary by (auto simp: fs' retained_def)
qed


section \<open>The property at a concrete run\<close>

definition checkpoint_rank :: "int \<Rightarrow> int \<Rightarrow> int \<Rightarrow> bool \<Rightarrow> pyval" where
  "checkpoint_rank rank initial final resumed =
     VDict [(''schema_version'', VInt 1), (''status'', VStr ''pass''), (''rank'', VInt rank), (''parameter_names'', VList []),
            (''parameters'', VList []), (''initial_step'', VInt initial), (''final_step'', VInt final), (''optimizer_step'', VInt final),
            (''resumed'', VBool resumed), (''checkpoint_requested'', VBool True), (''checkpoint_verified'', VBool True),
            (''checkpoint_written'', VBool (rank = 0)), (''checkpoint_write_ms'', VInt 1), (''resume_ms'', VInt 1),
            (''checkpoint_wait_ms'', VInt 1), (''checkpoint_verify_ms'', VInt 1)]"

definition segment_launch :: "string \<Rightarrow> int \<Rightarrow> int \<Rightarrow> bool \<Rightarrow> launch" where
  "segment_launch name initial final resumed =
     \<lparr>la_completed = True, la_terminated = 0, la_codes = [0, 0],
      la_outputs = map (\<lambda>r. \<lparr>po_text = [], po_lines = [Inr (checkpoint_rank r initial final resumed)]\<rparr>) [1, 0],
      la_errors = [], la_group_ms = Fin 1, la_reference = Inl TimeoutExpired, la_reference_ms = Fin 0,
      la_compare = (\<lambda>x y. Inl TimeoutExpired), la_gpu_ids = [], la_shared_total = 0, la_shared_free = 0, la_logs = [],
      la_files = [(''out/'' @ name, Whole (VInt final))]\<rparr>"

definition broken_launch :: launch where
  "broken_launch = (segment_launch ''x.tmp'' 0 1 False)\<lparr>la_completed := False, la_terminated := 1, la_codes := [-15, 1], la_files := []\<rparr>"

definition checkpoint_args :: cargs where
  "checkpoint_args = \<lparr>ca_binary = ''bin'', ca_output = ''out'', ca_model = ''tiny'', ca_context = 4, ca_compare_binary = None,
     ca_first_steps = 2, ca_resumed_steps = 3, ca_timeout = Fin 10, ca_overwrite = False\<rparr>"

definition outside :: "group \<Rightarrow> string \<Rightarrow> bool" where
  "outside g f \<longleftrightarrow> f \<noteq> gp_output g @ ''/communicator.id'' \<and> (\<forall>i. f \<noteq> group_file g ''.stdout'' i \<and> f \<noteq> group_file g ''.stderr'' i)"

lemma segment_verifies:
  assumes "gp_timeout g = Fin 10" and "gp_inject g = False" and "gp_model g = ''tiny''"
  shows "\<exists>p fs'. verified_group g (segment_launch name initial final resumed) initial final resumed fs =
      (Inr (map (\<lambda>r. checkpoint_rank r initial final resumed) [1, 0], p), fs') \<and>
    map_of p ''rank_parameter_difference'' = Some fzero \<and>
    (\<forall>f. outside g f \<longrightarrow> fs' f = (if f = ''out/'' @ name then Some (Whole (VInt final)) else fs f))"
proof -
  have ms: "timeout_ms (Fin 10) = Inr 10000" by (simp add: timeout_ms_def)
  let ?l = "segment_launch name initial final resumed"
  have ranks: "group_ranks ?l = Inr (checkpoint_rank 1 initial final resumed, checkpoint_rank 0 initial final resumed)"
    by (simp add: group_ranks_def segment_launch_def parse_record_def load_record_def get_ne_def py_get_def checkpoint_rank_def py_ne_def list_index_def)
  have diff: "parameter_difference (checkpoint_rank 1 initial final resumed) (checkpoint_rank 0 initial final resumed) = Inr fzero"
    by (simp add: parameter_difference_def checkpoint_rank_def py_getitem_def py_ne_def same_len_def py_len_def zip_vals_def py_iter_def)
  let ?p = "dict_set ''rank_parameter_difference'' fzero (group_process g ?l 10000)"
  have p: "map_of ?p ''rank_parameter_difference'' = Some fzero" by simp
  have v: "verify_group (map (\<lambda>r. checkpoint_rank r initial final resumed) [1, 0]) ?p initial final resumed = Inr ()"
    using p by (simp add: verify_group_def get_ne_def py_get_def rank_step_bad_def get_is_not_def checkpoint_rank_def py_ne_def list_index_def fzero_def)
  obtain fs1 where fs1: "record_group g ?l (snd (arrivals ?l fs)) = (Inr (), fs1)" 
      "\<forall>f. outside g f \<longrightarrow> fs1 f = (if f = ''out/'' @ name then Some (Whole (VInt final)) else fs f)"
    by (auto simp: record_group_def segment_launch_def bindS_def unlink_def write_file_def arrivals_def outside_def)
  have "verified_group g ?l initial final resumed fs = (Inr (map (\<lambda>r. checkpoint_rank r initial final resumed) [1, 0], ?p), fs1)"
    unfolding verified_group_def run_group_def Let_def using assms(1-3) ms ranks diff v fs1(1)
    by (simp add: bindS_def arrivals_def) (simp add: segment_launch_def)
  then show ?thesis using p fs1(2) by blast
qed

lemmas group_defs = first_group_def resumed_group_def whole_group_def failure_group_def make_group_def checkpoint_args_def final_step_def

lemma checkpoint_names:
  "f \<in> set (temporary_files checkpoint_args) \<Longrightarrow>
   g \<in> {first_group checkpoint_args, resumed_group checkpoint_args, whole_group checkpoint_args, failure_group checkpoint_args} \<Longrightarrow> outside g f"
  by (auto simp: group_defs at_output_def group_file_def temporary_files_def outside_def)

lemma group_settings:
  "g \<in> {first_group checkpoint_args, resumed_group checkpoint_args, whole_group checkpoint_args} \<Longrightarrow>
   gp_timeout g = Fin 10 \<and> gp_inject g = False \<and> gp_model g = ''tiny''"
  by (auto simp: group_defs)

abbreviation "segment1 \<equiv> segment_launch ''interrupted.ckpt'' 0 2 False"

abbreviation "segment2 \<equiv> segment_launch ''resumed-final.ckpt'' 2 5 True"

abbreviation "segment3 \<equiv> segment_launch ''uninterrupted-final.ckpt'' 0 5 False"

lemma sample_segments:
  "\<exists>p1 p2 p3 fs'. run_segments checkpoint_args segment1 segment2 segment3 (\<lambda>_. None) =
      (Inr ((map (\<lambda>r. checkpoint_rank r 0 2 False) [1, 0], p1), (map (\<lambda>r. checkpoint_rank r 2 5 True) [1, 0], p2),
            (map (\<lambda>r. checkpoint_rank r 0 5 False) [1, 0], p3)), fs') \<and>
     map_of p2 ''rank_parameter_difference'' = Some fzero \<and> map_of p3 ''rank_parameter_difference'' = Some fzero \<and>
     (\<forall>f \<in> set (temporary_files checkpoint_args). fs' f =
        (if f = ''out/interrupted.ckpt'' then Some (Whole (VInt 2)) else if f \<in> {''out/resumed-final.ckpt'', ''out/uninterrupted-final.ckpt''}
         then Some (Whole (VInt 5)) else None))"
proof -
  have steps: "ca_first_steps checkpoint_args = 2" "final_step checkpoint_args = 5" by (simp_all add: checkpoint_args_def final_step_def)
  obtain p1 fs1 where 1: "verified_group (first_group checkpoint_args) segment1 0 2 False (\<lambda>_. None) =
      (Inr (map (\<lambda>r. checkpoint_rank r 0 2 False) [1, 0], p1), fs1)"
    "\<forall>f. outside (first_group checkpoint_args) f \<longrightarrow> fs1 f = (if f = ''out/'' @ ''interrupted.ckpt'' then Some (Whole (VInt 2)) else None)"
    using segment_verifies [of "first_group checkpoint_args" "''interrupted.ckpt''" 0 2 False "\<lambda>_. None"] group_settings by blast
  obtain p2 fs2 where 2: "verified_group (resumed_group checkpoint_args) segment2 2 5 True fs1 =
      (Inr (map (\<lambda>r. checkpoint_rank r 2 5 True) [1, 0], p2), fs2)" "map_of p2 ''rank_parameter_difference'' = Some fzero"
    "\<forall>f. outside (resumed_group checkpoint_args) f \<longrightarrow> fs2 f = (if f = ''out/'' @ ''resumed-final.ckpt'' then Some (Whole (VInt 5)) else fs1 f)"
    using segment_verifies [of "resumed_group checkpoint_args" "''resumed-final.ckpt''" 2 5 True fs1] group_settings by blast
  obtain p3 fs3 where 3: "verified_group (whole_group checkpoint_args) segment3 0 5 False fs2 =
      (Inr (map (\<lambda>r. checkpoint_rank r 0 5 False) [1, 0], p3), fs3)" "map_of p3 ''rank_parameter_difference'' = Some fzero"
    "\<forall>f. outside (whole_group checkpoint_args) f \<longrightarrow> fs3 f = (if f = ''out/'' @ ''uninterrupted-final.ckpt'' then Some (Whole (VInt 5)) else fs2 f)"
    using segment_verifies [of "whole_group checkpoint_args" "''uninterrupted-final.ckpt''" 0 5 False fs2] group_settings by blast
  have "fs3 f = (if f = ''out/interrupted.ckpt'' then Some (Whole (VInt 2)) else if f \<in> {''out/resumed-final.ckpt'', ''out/uninterrupted-final.ckpt''}
         then Some (Whole (VInt 5)) else None)" if "f \<in> set (temporary_files checkpoint_args)" for f
  proof -
    have "outside (first_group checkpoint_args) f" "outside (resumed_group checkpoint_args) f" "outside (whole_group checkpoint_args) f"
      by (rule checkpoint_names [OF that], simp)+
    from 1(2) [rule_format, OF this(1)] 2(3) [rule_format, OF this(2)] 3(3) [rule_format, OF this(3)]
    have "fs3 f = (if f = ''out/uninterrupted-final.ckpt'' then Some (Whole (VInt 5)) else if f = ''out/resumed-final.ckpt'' then Some (Whole (VInt 5))
      else if f = ''out/interrupted.ckpt'' then Some (Whole (VInt 2)) else None)" by (simp only: append.simps)
    then show ?thesis by (auto split: if_splits)
  qed
  then show ?thesis
    unfolding run_segments_def steps using 1(1) 2(1,2) 3(1,2) by (simp add: bindS_def)
qed

lemma failure_group_runs:
  "\<exists>p fs'. run_group (failure_group checkpoint_args) broken_launch fs = (Inr ([], p), fs') \<and> (\<forall>f. outside (failure_group checkpoint_args) f \<longrightarrow> fs' f = fs f)"
proof -
  have "timeout_ms (gp_timeout (failure_group checkpoint_args)) = Inr 10000" "gp_inject (failure_group checkpoint_args)"
    by (simp_all add: timeout_ms_def failure_group_def checkpoint_args_def failure_timeout_def make_group_def)
  then show ?thesis
    by (auto simp: run_group_def Let_def bindS_def arrivals_def record_group_def broken_launch_def segment_launch_def unlink_def write_file_def outside_def)
qed


end
