(* ===== verification/AlignCommon.thy ===== *)
theory AlignCommon imports PyVal PyState begin

text \<open>
  \<open>tools/alignment/common.py\<close>: reading and writing a trace file, the statistics of a list of
  values, and the trace session of the PyTorch side. A tensor is what its accessors answer; a JSONL
  file is the list of what \<open>json.loads\<close> gives for its non-blank lines. The world the session
  runs in (the clock, the device) is an arbitrary state with the two operations the session calls.
\<close>

section \<open>Trace files\<close>

definition load_line :: "pyval list \<Rightarrow> pyval py \<Rightarrow> pyval list py" where
  "load_line records line =
     bindE line (\<lambda>record.
     bindE (py_get record ''schema_version'' VNone) (\<lambda>version.
     thenE (raise_if (py_ne version (VInt 1)) (ValueError ''unsupported trace schema''))
       (Inr (records @ [record]))))"

definition load_jsonl :: "pyval py list \<Rightarrow> pyval list py" where
  "load_jsonl lines = foldM load_line [] lines"

text \<open>What \<open>write_jsonl\<close> leaves to be read: one document on every line.\<close>

definition write_jsonl :: "pyval list \<Rightarrow> pyval py list" where
  "write_jsonl records = map Inr records"

section \<open>Statistics\<close>

text \<open>\<open>sum\<close> of floats, added from the left; the int 0 it starts at changes nothing.\<close>

definition fsum_left :: "pyfloat list \<Rightarrow> pyfloat" where
  "fsum_left xs = foldl fadd (Fin 0) xs"

definition value_statistics :: "pyfloat list \<Rightarrow> int \<Rightarrow> pyval py" where
  "value_statistics values declared_numel =
     (case filter is_finite_float values of
        [] \<Rightarrow> Inr (VDict [(''numel'', VInt declared_numel), (''finite_count'', VInt 0), (''minimum'', VFloat (Fin 0)),
                         (''maximum'', VFloat (Fin 0)), (''mean'', VFloat (Fin 0)), (''l2_norm'', VFloat (Fin 0))])
      | x # xs \<Rightarrow>
          bindE (float_of_int (int (length (x # xs)))) (\<lambda>n.
          bindE (fdiv (fsum_left (x # xs)) n) (\<lambda>mean.
          bindE (fsqrt (fsum_left (map (\<lambda>v. fmul v v) (x # xs)))) (\<lambda>norm.
          Inr (VDict [(''numel'', VInt declared_numel), (''finite_count'', VInt (int (length (x # xs)))),
                      (''minimum'', VFloat (min_by flt x xs)), (''maximum'', VFloat (max_by flt x xs)),
                      (''mean'', VFloat mean), (''l2_norm'', VFloat norm)])))))"

section \<open>Tensors\<close>

text \<open>\<open>tn_node\<close> tells a tensor from another with the same contents: autograd keeps gradients by it.\<close>

record tensor =
  tn_items :: "pyval list"
  tn_shape :: "int list"
  tn_dtype :: string
  tn_device :: string
  tn_numel :: int
  tn_node :: nat

definition removeprefix :: "string \<Rightarrow> string \<Rightarrow> string" where
  "removeprefix p s = (if take (length p) s = p then drop (length p) s else s)"

definition tensor_dtype_name :: "tensor \<Rightarrow> string" where
  "tensor_dtype_name t = removeprefix ''torch.'' (tn_dtype t)"

definition item_float :: "pyval \<Rightarrow> pyfloat py" where
  "item_float v = bindE (need TypeError (as_num v)) to_float"

definition tensor_values :: "tensor \<Rightarrow> pyfloat list py" where
  "tensor_values t = mapM item_float (tn_items t)"

section \<open>The session\<close>

record trace_session =
  ts_framework :: string
  ts_run_id :: string
  ts_phase :: string
  ts_device :: string
  ts_record_operators :: bool
  ts_record_layers :: bool
  ts_record_model :: bool
  ts_capture_values :: bool
  ts_max_captured :: int
  ts_iteration :: int
  ts_records :: "pyval list"

definition new_session :: "string \<Rightarrow> string \<Rightarrow> string \<Rightarrow> string \<Rightarrow> trace_session" where
  "new_session framework run_id phase device =
     \<lparr>ts_framework = framework, ts_run_id = run_id, ts_phase = phase, ts_device = device, ts_record_operators = True,
      ts_record_layers = True, ts_record_model = True, ts_capture_values = True, ts_max_captured = 4096,
      ts_iteration = 0, ts_records = []\<rparr>"

definition enabled :: "trace_session \<Rightarrow> string \<Rightarrow> bool" where
  "enabled s kind =
     (if kind = ''operator'' then ts_record_operators s
      else if kind = ''layer'' then ts_record_layers s
      else if kind = ''model'' then ts_record_model s
      else ts_capture_values s)"

text \<open>\<open>values[:n]\<close>; a negative bound counts from the end.\<close>

definition slice_to :: "'a list \<Rightarrow> int \<Rightarrow> 'a list" where
  "slice_to xs n = take (nat (if 0 \<le> n then n else int (length xs) + n)) xs"

fun captured_value :: "pyfloat \<Rightarrow> pyval" where
  "captured_value NaN = VStr ''nan''"
| "captured_value PInf = VStr ''inf''"
| "captured_value NInf = VStr ''-inf''"
| "captured_value (Fin q) = VFloat (Fin q)"

definition trace_record :: "trace_session \<Rightarrow> string \<Rightarrow> string \<Rightarrow> tensor \<Rightarrow> pyfloat \<Rightarrow> pyval py" where
  "trace_record s kind name t wall_ms =
     bindE (if ts_capture_values s then tensor_values t else Inr []) (\<lambda>values.
     let captured = map captured_value (slice_to values (ts_max_captured s)) in
     bindE (value_statistics values (tn_numel t)) (\<lambda>statistics.
     Inr (VDict [(''schema_version'', VInt 1), (''framework'', VStr (ts_framework s)), (''run_id'', VStr (ts_run_id s)),
       (''phase'', VStr (ts_phase s)), (''sequence'', VInt (int (length (ts_records s)))), (''iteration'', VInt (ts_iteration s)),
       (''kind'', VStr kind), (''name'', VStr name), (''shape'', VList (map VInt (tn_shape t))),
       (''dtype'', VStr (tensor_dtype_name t)), (''device'', VStr (tn_device t)), (''wall_ms'', VFloat wall_ms),
       (''statistics'', statistics), (''values_truncated'', VBool (length captured \<noteq> length values)),
       (''values'', VList captured)])))"

definition record_tensor :: "string \<Rightarrow> string \<Rightarrow> tensor \<Rightarrow> pyfloat \<Rightarrow> (trace_session, tensor) action" where
  "record_tensor kind name t wall_ms s =
     (if \<not> enabled s kind then (Inr t, s)
      else (case trace_record s kind name t wall_ms of
              Inl e \<Rightarrow> (Inl e, s)
            | Inr r \<Rightarrow> (Inr t, s\<lparr>ts_records := ts_records s @ [r]\<rparr>)))"

record 'w device_ops =
  do_clock :: "'w \<Rightarrow> int \<times> 'w"
  do_cuda_synchronize :: "('w, unit) action"

definition inside :: "('w, 'a) action \<Rightarrow> (trace_session \<times> 'w, 'a) action" where
  "inside m sw = (case m (snd sw) of (r, w) \<Rightarrow> (r, (fst sw, w)))"

definition on_session :: "(trace_session, 'a) action \<Rightarrow> (trace_session \<times> 'w, 'a) action" where
  "on_session m sw = (case m (fst sw) of (r, s) \<Rightarrow> (r, (s, snd sw)))"

definition synchronize :: "'w device_ops \<Rightarrow> (trace_session \<times> 'w, unit) action" where
  "synchronize ops sw = (if ts_device (fst sw) = ''cuda'' then inside (do_cuda_synchronize ops) sw else (Inr (), sw))"

definition perf_counter_ns :: "'w device_ops \<Rightarrow> (trace_session \<times> 'w, int) action" where
  "perf_counter_ns ops = inside (\<lambda>w. case do_clock ops w of (t, w1) \<Rightarrow> (Inr t, w1))"

definition measure_call ::
  "'w device_ops \<Rightarrow> string \<Rightarrow> string \<Rightarrow> (trace_session \<times> 'w, tensor) action \<Rightarrow> (trace_session \<times> 'w, tensor) action" where
  "measure_call ops kind name f sw =
     (if \<not> enabled (fst sw) kind then f sw
      else (thenS (synchronize ops)
           (bindS (perf_counter_ns ops) (\<lambda>start.
            bindS f (\<lambda>out.
            thenS (synchronize ops)
           (bindS (perf_counter_ns ops) (\<lambda>finish.
            bindS (liftS (bindE (float_of_int (finish - start)) (\<lambda>ns. fdiv ns (Fin 1000000)))) (\<lambda>elapsed_ms.
            on_session (record_tensor kind name out elapsed_ms)))))))) sw)"

end
