(* ===== verification/PyText.thy ===== *)
theory PyText imports PyVal PyState begin

text \<open>
  Text and small process helpers the tools share: \<open>str.splitlines\<close>, the first line of a tool's
  version answer, and an output directory as the dict of the documents it holds by relative path.
\<close>

section \<open>Lines\<close>

definition is_line_break :: "char \<Rightarrow> bool" where
  "is_line_break c \<longleftrightarrow> c \<in> set [CHR 0x0A, CHR 0x0B, CHR 0x0C, CHR 0x0D, CHR 0x1C, CHR 0x1D, CHR 0x1E]"

text \<open>The pair \<open>\r\n\<close> is one break; a break at the end does not open another line.\<close>

fun splitlines_from :: "string \<Rightarrow> string \<Rightarrow> string list" where
  "splitlines_from line [] = (if line = [] then [] else [line])"
| "splitlines_from line (c # s) =
     (if is_line_break c
      then line # (case s of [] \<Rightarrow> [] | d # t \<Rightarrow> if c = CHR 0x0D \<and> d = CHR 0x0A then splitlines_from [] t else splitlines_from [] s)
      else splitlines_from (line @ [c]) s)"

definition splitlines :: "string \<Rightarrow> string list" where
  "splitlines s = splitlines_from [] s"

section \<open>Fields of a known type\<close>

text \<open>
  A field that every writer of the documents writes as a string or as an int; anything else there is
  outside the model, which stops with \<open>TypeError\<close>.
\<close>

definition text_field :: "pyval \<Rightarrow> string \<Rightarrow> string py" where
  "text_field r k = bindE (py_getitem r k) (\<lambda>v. case v of VStr s \<Rightarrow> Inr s | _ \<Rightarrow> Inl TypeError)"

definition int_field :: "pyval \<Rightarrow> string \<Rightarrow> int py" where
  "int_field r k = bindE (py_getitem r k) (\<lambda>v. case v of VInt i \<Rightarrow> Inr i | _ \<Rightarrow> Inl TypeError)"

section \<open>Processes\<close>

record proc_result =
  px_code :: int
  px_out :: string
  px_err :: string

text \<open>A finished process; \<open>None\<close> where the program is not found.\<close>

definition stripped_output :: "proc_result \<Rightarrow> string option" where
  "stripped_output r = (if px_code r = 0 then Some (strip (px_out r)) else None)"

definition first_line :: "proc_result option \<Rightarrow> string option" where
  "first_line found =
     (case found of None \<Rightarrow> None
      | Some r \<Rightarrow> (case splitlines (if px_out r = [] then px_err r else px_out r) of [] \<Rightarrow> None | l # ls \<Rightarrow> Some l))"

definition text_or_none :: "string option \<Rightarrow> pyval" where
  "text_or_none t = (case t of None \<Rightarrow> VNone | Some s \<Rightarrow> VStr s)"

section \<open>An output directory\<close>

type_synonym outdir = "(string \<times> pyval) list"

definition put :: "string \<Rightarrow> pyval \<Rightarrow> (outdir, unit) action" where
  "put name v d = (Inr (), dict_set name v d)"

text \<open>
  \<open>None\<close> is a directory that does not exist. A directory that is not empty is refused unless it
  may be overwritten, and then emptied.
\<close>

definition fresh_directory :: "bool \<Rightarrow> outdir option \<Rightarrow> outdir py" where
  "fresh_directory overwrite d =
     (if (case d of None \<Rightarrow> False | Some entries \<Rightarrow> entries \<noteq> []) \<and> \<not> overwrite then Inl (SystemExit 1)
      else Inr (if overwrite then [] else (case d of None \<Rightarrow> [] | Some entries \<Rightarrow> entries)))"

lemma fresh_directory_empty: "fresh_directory overwrite d = Inr d' \<Longrightarrow> d' = []"
  by (auto simp: fresh_directory_def split: if_splits option.splits)

lemma put_Inr [simp]: "put name v d = (Inr u, d') \<longleftrightarrow> d' = dict_set name v d"
  by (auto simp: put_def)

lemma put_not_Inl [simp]: "put name v d \<noteq> (Inl e, d')"
  by (simp add: put_def)

end
