(* ===== verification/AlignCompare.thy ===== *)
theory AlignCompare imports AlignCommon PyText begin

text \<open>
  \<open>tools/alignment/compare.py\<close>: the comparison of two traces checkpoint by checkpoint, the
  comparison of their timings, and the report with its exit status. The \<open>kind\<close> and
  \<open>name\<close> of a record are strings and its \<open>iteration\<close> an int, as both writers of the
  traces make them; the model stops with \<open>TypeError\<close> at anything else. Everything else in a
  record is an arbitrary JSON value.
\<close>

section \<open>Occurrences\<close>

type_synonym key = "string \<times> string \<times> nat"

definition count_of :: "('k \<times> nat) list \<Rightarrow> 'k \<Rightarrow> nat" where
  "count_of counts k = (case map_of counts k of None \<Rightarrow> 0 | Some n \<Rightarrow> n)"

definition occurrence_step ::
  "((string \<times> string) \<times> nat) list \<times> (key \<times> pyval) list \<Rightarrow> pyval \<Rightarrow> (((string \<times> string) \<times> nat) list \<times> (key \<times> pyval) list) py" where
  "occurrence_step st record =
     bindE (text_field record ''kind'') (\<lambda>kind.
     bindE (text_field record ''name'') (\<lambda>name.
     let occurrence = count_of (fst st) (kind, name) in
     Inr (dict_set (kind, name) (occurrence + 1) (fst st), dict_set (kind, name, occurrence) record (snd st))))"

definition occurrence_records :: "pyval list \<Rightarrow> (key \<times> pyval) list py" where
  "occurrence_records records = bindE (foldM occurrence_step ([], []) records) (\<lambda>st. Inr (snd st))"

definition all_keys :: "(key \<times> 'a) list \<Rightarrow> (key \<times> 'b) list \<Rightarrow> key list" where
  "all_keys l r = sort (remdups (map fst l @ map fst r))"

section \<open>Two lists of values\<close>

definition tiny_reference :: pyfloat where "tiny_reference = rnd (1 / 10 ^ 12)"

datatype pair_class = Numeric pyfloat pyfloat | Differs | Agrees

definition classify :: "pyval \<times> pyval \<Rightarrow> pair_class py" where
  "classify p =
     (if is_number (fst p) \<and> is_number (snd p)
      then bindE (item_float (fst p)) (\<lambda>a. bindE (item_float (snd p)) (\<lambda>r. Inr (Numeric a r)))
      else Inr (if py_ne (fst p) (snd p) then Differs else Agrees))"

definition numeric_pairs :: "pair_class list \<Rightarrow> (nat \<times> pyfloat \<times> pyfloat) list" where
  "numeric_pairs cs = [(i, a, r). (i, Numeric a r) \<leftarrow> enumerate 0 cs]"

definition special_mismatches :: "pair_class list \<Rightarrow> nat list" where
  "special_mismatches cs = [i. (i, Differs) \<leftarrow> enumerate 0 cs]"

definition difference :: "pyfloat \<Rightarrow> pyfloat \<Rightarrow> pyfloat" where
  "difference a r = fabs (fsub a r)"

text \<open>\<open>max(differences, key=..., default=(None, 0.0))\<close>.\<close>

definition largest_difference :: "(nat \<times> pyfloat) list \<Rightarrow> nat option \<times> pyfloat" where
  "largest_difference ds =
     (case ds of [] \<Rightarrow> (None, Fin 0)
      | d # rest \<Rightarrow> (case max_by (\<lambda>x y. flt (snd x) (snd y)) d rest of (i, v) \<Rightarrow> (Some i, v)))"

definition relative_error :: "nat \<times> pyfloat \<times> pyfloat \<Rightarrow> pyfloat py" where
  "relative_error p =
     (case p of (_, a, r) \<Rightarrow>
        fdiv (difference a r) (if flt (fabs r) tiny_reference then tiny_reference else fabs r))"

definition float_max :: "pyfloat list \<Rightarrow> pyfloat" where
  "float_max xs = (case xs of [] \<Rightarrow> Fin 0 | x # ys \<Rightarrow> max_by flt x ys)"

definition mean_square :: "pyfloat list \<Rightarrow> pyfloat py" where
  "mean_square ds =
     (if ds = [] then Inr (Fin 0)
      else bindE (float_of_int (int (length ds))) (\<lambda>n. fdiv (fsum_left (map (\<lambda>d. fmul d d) ds)) n))"

definition norm_of :: "pyfloat list \<Rightarrow> pyfloat py" where
  "norm_of xs = fsqrt (fsum_left (map (\<lambda>x. fmul x x) xs))"

definition cosine_of :: "pyfloat list \<Rightarrow> pyfloat list \<Rightarrow> pyfloat py" where
  "cosine_of as rs =
     bindE (norm_of as) (\<lambda>left_norm.
     bindE (norm_of rs) (\<lambda>right_norm.
     if left_norm \<noteq> Fin 0 \<and> right_norm \<noteq> Fin 0
     then fdiv (fsum_left (map (\<lambda>(a, r). fmul a r) (zip as rs))) (fmul left_norm right_norm)
     else Inr (if feq left_norm right_norm then Fin 1 else Fin 0)))"

definition close :: "pyfloat \<Rightarrow> pyfloat \<Rightarrow> pyfloat \<Rightarrow> pyfloat \<Rightarrow> bool" where
  "close atol rtol a r \<longleftrightarrow> fle (difference a r) (fadd atol (fmul rtol (fabs r)))"

definition within_tolerance :: "pyfloat \<Rightarrow> pyfloat \<Rightarrow> pair_class list \<Rightarrow> bool" where
  "within_tolerance atol rtol cs \<longleftrightarrow>
     special_mismatches cs = [] \<and> (\<forall>(i, a, r) \<in> set (numeric_pairs cs). close atol rtol a r)"

definition value_at :: "pyval \<Rightarrow> nat option \<Rightarrow> pyval py" where
  "value_at vs i = (case i of None \<Rightarrow> Inr VNone | Some n \<Rightarrow> py_index vs (int n))"

definition index_value :: "nat option \<Rightarrow> pyval" where
  "index_value i = (case i of None \<Rightarrow> VNone | Some n \<Rightarrow> VInt (int n))"

definition numeric_result :: "pyval \<Rightarrow> pyval \<Rightarrow> pyfloat \<Rightarrow> pyfloat \<Rightarrow> pydict py" where
  "numeric_result left right atol rtol =
     bindE (py_iter left) (\<lambda>ls. bindE (py_iter right) (\<lambda>rs.
     bindE (mapM classify (zip ls rs)) (\<lambda>cs.
     let numeric = numeric_pairs cs; special = special_mismatches cs;
         differences = map (\<lambda>(i, a, r). (i, difference a r)) numeric;
         largest = largest_difference differences in
     bindE (mapM relative_error numeric) (\<lambda>relative.
     bindE (mean_square (map snd differences)) (\<lambda>mse.
     bindE (cosine_of (map (\<lambda>(i, a, r). a) numeric) (map (\<lambda>(i, a, r). r) numeric)) (\<lambda>cosine.
     let diagnostic = (if special = [] then fst largest else Some (hd special)) in
     bindE (value_at left diagnostic) (\<lambda>lv. bindE (value_at right diagnostic) (\<lambda>rv.
     Inr [(''status'', VStr (if within_tolerance atol rtol cs then ''pass'' else ''numeric_mismatch'')),
          (''max_abs'', VFloat (snd largest)), (''max_rel'', VFloat (float_max relative)), (''mse'', VFloat mse),
          (''cosine'', VFloat cosine), (''maximum_error_index'', index_value diagnostic), (''microllm_at_max'', lv),
          (''pytorch_at_max'', rv), (''special_value_mismatches'', VInt (int (length special)))]))))))))"

section \<open>One checkpoint\<close>

definition status_of :: "string \<Rightarrow> pydict \<Rightarrow> pydict" where
  "status_of s d = dict_set ''status'' (VStr s) d"

definition py_or :: "pyval \<Rightarrow> pyval py \<Rightarrow> pyval py" where
  "py_or a b = (if py_truthy a then Inr a else b)"

definition fields_of :: "pyval \<Rightarrow> pyval \<Rightarrow> string \<Rightarrow> (pyval \<times> pyval) py" where
  "fields_of l r k = bindE (py_getitem l k) (\<lambda>a. bindE (py_getitem r k) (\<lambda>b. Inr (a, b)))"

definition value_result :: "pyval \<Rightarrow> pyval \<Rightarrow> int \<Rightarrow> int \<Rightarrow> pyfloat \<Rightarrow> pyfloat \<Rightarrow> pydict \<Rightarrow> pydict py" where
  "value_result lv rv nl nr atol rtol result =
     (if nl \<noteq> nr
      then Inr (dict_update (status_of ''value_count_mismatch'' result)
                  [(''microllm_value_count'', VInt nl), (''pytorch_value_count'', VInt nr)])
      else if \<not> py_truthy lv
      then Inr (dict_update result [(''max_abs'', VFloat (Fin 0)), (''max_rel'', VFloat (Fin 0)), (''mse'', VFloat (Fin 0)),
                  (''cosine'', VFloat (Fin 1)), (''maximum_error_index'', VNone)])
      else bindE (numeric_result lv rv atol rtol) (\<lambda>u. Inr (dict_update result u)))"

definition compare_contents :: "pyval \<Rightarrow> pyval \<Rightarrow> pyfloat \<Rightarrow> pyfloat \<Rightarrow> pydict \<Rightarrow> pydict py" where
  "compare_contents l r atol rtol result =
     bindE (py_getitem l ''values'') (\<lambda>lv. bindE (py_getitem r ''values'') (\<lambda>rv.
     bindE (py_len lv) (\<lambda>nl. bindE (py_len rv) (\<lambda>nr.
     value_result lv rv nl nr atol rtol result))))"

definition compare_captured :: "pyfloat \<Rightarrow> pyfloat \<Rightarrow> bool \<Rightarrow> pyval \<Rightarrow> pyval \<Rightarrow> pydict \<Rightarrow> pydict py" where
  "compare_captured atol rtol allow_truncated l r result =
     bindE (bindE (py_getitem l ''values_truncated'') (\<lambda>t. py_or t (py_getitem r ''values_truncated''))) (\<lambda>truncated.
     if py_truthy truncated \<and> \<not> allow_truncated then Inr (status_of ''truncated'' (dict_set ''partial_values'' truncated result))
     else compare_contents l r atol rtol (dict_set ''partial_values'' truncated result))"

definition with_metadata :: "pydict \<Rightarrow> pyval \<times> pyval \<Rightarrow> pyval \<times> pyval \<Rightarrow> pydict" where
  "with_metadata result shapes dtypes =
     dict_update result [(''microllm_shape'', fst shapes), (''pytorch_shape'', snd shapes),
                         (''microllm_dtype'', fst dtypes), (''pytorch_dtype'', snd dtypes)]"

definition compare_records :: "pyfloat \<Rightarrow> pyfloat \<Rightarrow> bool \<Rightarrow> pyval \<Rightarrow> pyval \<Rightarrow> pydict \<Rightarrow> pydict py" where
  "compare_records atol rtol allow_truncated l r result =
     bindE (fields_of l r ''shape'') (\<lambda>shapes.
     bindE (fields_of l r ''dtype'') (\<lambda>dtypes.
     if py_ne (fst shapes) (snd shapes) \<or> py_ne (fst dtypes) (snd dtypes)
     then Inr (status_of ''metadata_mismatch'' (with_metadata result shapes dtypes))
     else compare_captured atol rtol allow_truncated l r (with_metadata result shapes dtypes)))"

definition key_result :: "key \<Rightarrow> pydict" where
  "key_result k = (case k of (kind, name, n) \<Rightarrow> [(''kind'', VStr kind), (''name'', VStr name), (''occurrence'', VInt (int n))])"

definition missing_framework :: "'a option \<Rightarrow> pyval" where
  "missing_framework l = VStr (if l = None then ''microllm'' else ''pytorch'')"

definition compare_key ::
  "pyfloat \<Rightarrow> pyfloat \<Rightarrow> bool \<Rightarrow> (key \<times> pyval) list \<Rightarrow> (key \<times> pyval) list \<Rightarrow> key \<Rightarrow> pyval py" where
  "compare_key atol rtol allow_truncated left_map right_map k =
     (let result = key_result k @ [(''status'', VStr ''pass'')] in
      case (map_of left_map k, map_of right_map k) of
        (Some l, Some r) \<Rightarrow> bindE (compare_records atol rtol allow_truncated l r result) (\<lambda>d. Inr (VDict d))
      | (l, r) \<Rightarrow> Inr (VDict (dict_set ''missing_framework'' (missing_framework l) (status_of ''missing'' result))))"

definition compare_values :: "pyval list \<Rightarrow> pyval list \<Rightarrow> pyfloat \<Rightarrow> pyfloat \<Rightarrow> bool \<Rightarrow> pyval list py" where
  "compare_values left right atol rtol allow_truncated =
     bindE (occurrence_records left) (\<lambda>left_map.
     bindE (occurrence_records right) (\<lambda>right_map.
     mapM (compare_key atol rtol allow_truncated left_map right_map) (all_keys left_map right_map)))"

end
