(* ===== verification/PyFloatBounds.thy ===== *)
theory PyFloatBounds imports PyFloat begin

text \<open>
  Bounds on rounded results: powers of two are exact, nothing but zero rounds to zero unless it is
  below the smallest subnormal, and the square root of a positive float is at least the square root
  of that subnormal. Together: a product of two nonzero norms does not underflow.
\<close>

lemma ilog2_pow2: "ilog2 (pow2 e) = e"
proof -
  have "pow2 (ilog2 (pow2 e)) \<le> pow2 e" "pow2 e < pow2 (ilog2 (pow2 e) + 1)" using ilog2_bounds [of "pow2 e"] by simp_all
  then show ?thesis by (simp add: pow2_le pow2_less)
qed

lemma round_mag_pow2: "- 1074 \<le> e \<Longrightarrow> round_mag (pow2 e) = pow2 e"
  by (intro antisym round_mag_below round_mag_above) (auto simp: ulp_exp_def ilog2_pow2)

lemma rnd_pow2: "- 1074 \<le> e \<Longrightarrow> e < 1024 \<Longrightarrow> rnd (pow2 e) = Fin (pow2 e)"
  using pow2_le [of 1024 e] by (simp add: rnd_def round_mag_pow2 Let_def)

lemma rnd_at_least: "- 1074 \<le> e \<Longrightarrow> e < 1024 \<Longrightarrow> pow2 e \<le> q \<Longrightarrow> fle (Fin (pow2 e)) (rnd q)"
  using rnd_mono [of "pow2 e" q] by (simp add: rnd_pow2)

definition least_float :: rat where "least_float = pow2 (- 1074)"

definition root_float :: rat where "root_float = pow2 (- 537)"

lemma least_float_pos [simp]: "0 < least_float" and root_float_pos [simp]: "0 < root_float"
  by (simp_all add: least_float_def root_float_def)

lemma root_float_square: "root_float * root_float = least_float"
  by (simp add: root_float_def least_float_def pow2_add [symmetric])

lemma rnd_least_float: "least_float \<le> q \<Longrightarrow> fle (Fin least_float) (rnd q)"
  unfolding least_float_def by (rule rnd_at_least) simp_all

lemma rnd_pos: "least_float \<le> q \<Longrightarrow> rnd q \<noteq> Fin 0 \<and> flt (Fin 0) (rnd q)"
  using rnd_least_float [of q] less_le_trans [OF least_float_pos] by (cases "rnd q") force+

text \<open>What is rounded and not zero is at least the smallest subnormal.\<close>

lemma round_mag_least: "0 < a \<Longrightarrow> round_mag a = 0 \<or> least_float \<le> round_mag a"
proof -
  assume a: "0 < a"
  let ?k = "round_half_even (a / pow2 (ulp_exp a))"
  have k: "0 \<le> ?k" using a round_half_even_ge [of 0] by simp
  show ?thesis
  proof (cases "?k = 0")
    case False
    then have "1 \<le> (of_int ?k :: rat)" using k by simp
    then have "1 * pow2 (ulp_exp a) \<le> of_int ?k * pow2 (ulp_exp a)" by (intro mult_right_mono) simp_all
    moreover have "least_float \<le> pow2 (ulp_exp a)" by (simp add: pow2_le ulp_exp_def least_float_def)
    ultimately show ?thesis unfolding round_mag_def by linarith
  qed (simp add: round_mag_def)
qed

lemma rnd_least: "rnd q = Fin r \<Longrightarrow> r = 0 \<or> least_float \<le> \<bar>r\<bar>"
  using round_mag_least [of "\<bar>q\<bar>"] by (auto simp: rnd_def Let_def abs_if split: if_splits)

text \<open>The floats that are a sum of squares: no negative one among them.\<close>

definition nonneg_float :: "pyfloat \<Rightarrow> bool" where
  "nonneg_float x \<longleftrightarrow> x = NaN \<or> x = PInf \<or> (\<exists>q. x = Fin q \<and> (q = 0 \<or> least_float \<le> q))"

lemma nonneg_rnd: "0 \<le> q \<Longrightarrow> nonneg_float (rnd q)"
  using rnd_nonneg [of q] rnd_least [of q] by (cases "rnd q") (auto simp: nonneg_float_def)

lemma nonneg_square: "nonneg_float (fmul x x)"
  using nonneg_rnd [of "q * q" for q] by (cases x) (auto simp: nonneg_float_def)

lemma nonneg_fadd: "nonneg_float x \<Longrightarrow> nonneg_float y \<Longrightarrow> nonneg_float (fadd x y)"
proof -
  assume x: "nonneg_float x" and y: "nonneg_float y"
  have p: "0 \<le> least_float" by (simp add: least_float_def)
  have fin: "0 \<le> q" if "nonneg_float (Fin q)" for q using that p by (auto simp: nonneg_float_def)
  show ?thesis
  proof (cases x)
    case (Fin a)
    show ?thesis
    proof (cases y)
      case (Fin b)
      then have "0 \<le> a + b" using fin [of a] fin [of b] x y \<open>x = Fin a\<close> by simp
      then show ?thesis using Fin \<open>x = Fin a\<close> by (simp add: nonneg_rnd)
    qed (use \<open>x = Fin a\<close> y in \<open>auto simp: nonneg_float_def\<close>)
  qed (use x y in \<open>cases y; auto simp: nonneg_float_def\<close>)+
qed

lemma isqrt_ge: "m * m \<le> n \<Longrightarrow> m \<le> isqrt n"
proof (rule ccontr)
  assume a: "m * m \<le> n" "\<not> m \<le> isqrt n"
  then have "(isqrt n + 1) * (isqrt n + 1) \<le> m * m" by (intro mult_mono) auto
  then show False using isqrt_bounds [of n] a(1) by linarith
qed

lemma sqrt_approx_ge: "least_float \<le> q \<Longrightarrow> root_float \<le> sqrt_approx q"
proof -
  assume q: "least_float \<le> q"
  then have pos: "0 < q" using least_float_pos by linarith
  define e where "e = ilog2 q"
  define k where "k = nat (max 0 (57 - e div 2))"
  define s where "s = q * 4 ^ k"
  define r where "r = isqrt (nat \<lfloor>s\<rfloor>)"
  have app: "of_nat r / 2 ^ k \<le> sqrt_approx q"
    unfolding sqrt_approx_def Let_def k_def [unfolded e_def, symmetric] s_def [symmetric] r_def [symmetric]
    by (intro divide_right_mono) simp_all
  have "least_float < pow2 (e + 1)" using q ilog2_bounds [OF pos] unfolding e_def by linarith
  then have "- 1074 < e + 1" unfolding least_float_def pow2_less .
  then have e: "- 1074 \<le> e" by simp
  have le: "pow2 e \<le> q" using ilog2_bounds [OF pos] by (simp add: e_def)
  have four: "(4::rat) ^ k = pow2 (2 * int k)" by (simp add: pow2_def nat_mult_distrib power_mult)
  have s: "pow2 (e + 2 * int k) \<le> s" using le unfolding s_def four pow2_add by (intro mult_right_mono) simp_all
  define j where "j = nat (e div 2 + int k)"
  have j: "2 * int j \<le> e + 2 * int k" "int j - int k \<ge> - 537" using e by (auto simp: j_def k_def max_def) 
  have "pow2 (2 * int j) \<le> s" using s j(1) by (metis order_trans pow2_le)
  then have "(of_int (2 ^ (2 * j)) :: rat) \<le> s" by (simp add: pow2_def nat_mult_distrib)
  then have "2 ^ (2 * j) \<le> \<lfloor>s\<rfloor>" by (simp only: le_floor_iff)
  then have "nat (2 ^ (2 * j)) \<le> nat \<lfloor>s\<rfloor>" by (rule nat_mono)
  then have "(2::nat) ^ j * 2 ^ j \<le> nat \<lfloor>s\<rfloor>" by (simp add: nat_power_eq power_add [symmetric] mult_2)
  then have "2 ^ j \<le> r" unfolding r_def by (rule isqrt_ge)
  then have "(of_nat (2 ^ j) :: rat) \<le> of_nat r" by (simp only: of_nat_le_iff)
  then have "(2 ^ j :: rat) / 2 ^ k \<le> of_nat r / 2 ^ k" by (intro divide_right_mono) simp_all
  moreover have "(2 ^ j :: rat) / 2 ^ k = pow2 (int j - int k)" unfolding pow2_diff by (simp add: pow2_def)
  moreover have "root_float \<le> pow2 (int j - int k)" using j(2) by (simp add: pow2_le root_float_def)
  ultimately show ?thesis using app by linarith
qed

text \<open>The square root of such a sum never raises; unless it is zero it is at least \<open>2\<close> to the \<open>- 537\<close>.\<close>

lemma fsqrt_nonneg:
  assumes "nonneg_float x"
  shows "\<exists>n. fsqrt x = Inr n \<and> (n = Fin 0 \<or> n = NaN \<or> fle (Fin (root_float)) n)"
proof -
  have root: "fle (Fin root_float) (rnd (sqrt_approx q))" if "least_float \<le> q" for q
    using sqrt_approx_ge [OF that] unfolding root_float_def by (intro rnd_at_least) simp_all
  consider "x = NaN" | "x = PInf" | "x = Fin 0" | q where "x = Fin q" "least_float \<le> q"
    using assms unfolding nonneg_float_def by blast
  then show ?thesis
  proof cases
    case 4
    then have "0 < q" using least_float_pos by linarith
    then show ?thesis using 4 root [of q] by simp
  qed simp_all
qed

lemma norm_product_nonzero:
  assumes "x = NaN \<or> fle (Fin (root_float)) x" and "y = NaN \<or> fle (Fin (root_float)) y"
  shows "fmul x y \<noteq> Fin 0"
proof (cases x)
  case (Fin a)
  show ?thesis
  proof (cases y)
    case (Fin b)
    have "root_float \<le> a" "root_float \<le> b" using assms \<open>x = Fin a\<close> Fin by simp_all
    then have "root_float * root_float \<le> a * b" using root_float_pos by (intro mult_mono) linarith+
    then have "least_float \<le> a * b" unfolding root_float_square .
    then show ?thesis using rnd_pos \<open>x = Fin a\<close> Fin by simp
  qed (use assms \<open>x = Fin a\<close> in \<open>auto simp: finf_def\<close>)
qed (use assms in \<open>cases y; auto simp: finf_def\<close>)+

lemma fdiv_total: "y \<noteq> Fin 0 \<Longrightarrow> \<exists>z. fdiv x y = Inr z"
  by (cases y; cases x) auto

end
