(* ===== verification/AlignSelf.thy ===== *)
theory AlignSelf imports AlignVerdict begin

text \<open>
  The comparison never fails on traces with the fields it reads, whatever numbers they hold, and a
  trace compared with itself passes at every checkpoint; in particular a trace a session recorded.
\<close>

section \<open>Traces the comparison can read\<close>

definition traced_value :: "pyval \<Rightarrow> bool" where
  "traced_value v \<longleftrightarrow> is_str v \<or> \<not> isl (item_float v)"

definition values_traced :: "(pyval \<Rightarrow> bool) \<Rightarrow> pyval \<Rightarrow> bool" where
  "values_traced ok r \<longleftrightarrow>
     (case py_getitem r ''values'' of Inr (VList xs) \<Rightarrow> list_all ok xs \<and> length xs < 2 ^ 53 | _ \<Rightarrow> False)"

definition traced :: "pyval \<Rightarrow> bool" where
  "traced r \<longleftrightarrow> \<not> isl (text_field r ''kind'') \<and> \<not> isl (text_field r ''name'') \<and> \<not> isl (py_getitem r ''shape'') \<and>
     \<not> isl (py_getitem r ''dtype'') \<and> \<not> isl (py_getitem r ''values_truncated'') \<and> values_traced traced_value r"

lemma not_isl: "\<not> isl r \<longleftrightarrow> (\<exists>x. r = Inr x)"
  by (cases r) auto

lemma mapM_total: "(\<And>x. x \<in> set xs \<Longrightarrow> \<not> isl (f x)) \<Longrightarrow> \<not> isl (mapM f xs)"
  by (induction xs) (auto simp: not_isl bindE_Inr_iff)

lemma bindE_total: "\<not> isl m \<Longrightarrow> (\<And>x. m = Inr x \<Longrightarrow> \<not> isl (f x)) \<Longrightarrow> \<not> isl (bindE m f)"
  by (cases m) auto

lemma isl_bindE_Inr [simp]: "isl (bindE m (\<lambda>x. Inr (f x))) = isl m"
  by (cases m) auto

lemma bindE_then: "m = Inr x \<Longrightarrow> \<not> isl (f x) \<Longrightarrow> \<not> isl (bindE m f)"
  by simp

section \<open>No arithmetic of the comparison fails\<close>

lemma tiny_reference_pos: "tiny_reference \<noteq> Fin 0 \<and> flt (Fin 0) tiny_reference"
proof -
  have "least_float \<le> pow2 (- 40)" by (simp add: least_float_def pow2_le)
  also have "pow2 (- 40) \<le> 1 / 10 ^ 12" by (simp add: pow2_def)
  finally show ?thesis unfolding tiny_reference_def by (rule rnd_pos)
qed

lemma relative_error_total: "\<not> isl (relative_error p)"
proof (cases p)
  case (fields i a r)
  have "(if flt (fabs r) tiny_reference then tiny_reference else fabs r) \<noteq> Fin 0" using tiny_reference_pos by auto
  then show ?thesis using fdiv_total by (simp add: fields relative_error_def not_isl)
qed

lemma mean_square_total: "length ds < 2 ^ 53 \<Longrightarrow> \<not> isl (mean_square ds)"
proof (cases "ds = []")
  case False
  assume l: "length ds < 2 ^ 53"
  have "\<bar>int (length ds)\<bar> < 2 ^ 53" using l by simp
  then have n: "float_of_int (int (length ds)) = Inr (Fin (of_int (int (length ds))))" by (rule float_of_int_exact)
  have "Fin (of_int (int (length ds))) \<noteq> Fin 0" using False by simp
  then obtain z where "fdiv (fsum_left (map (\<lambda>d. fmul d d) ds)) (Fin (of_int (int (length ds)))) = Inr z"
    using fdiv_total by blast
  then show ?thesis unfolding mean_square_def n by (simp del: fdiv.simps of_int_of_nat_eq)
qed (simp add: mean_square_def)

lemma fsum_left_nonneg: "(\<And>x. x \<in> set xs \<Longrightarrow> nonneg_float x) \<Longrightarrow> nonneg_float (fsum_left xs)"
proof -
  have "nonneg_float (foldl fadd a xs)" if "nonneg_float a" "\<And>x. x \<in> set xs \<Longrightarrow> nonneg_float x" for a
    using that by (induction xs arbitrary: a) (simp_all add: nonneg_fadd)
  moreover have "nonneg_float (Fin 0)" by (simp add: nonneg_float_def)
  ultimately show "(\<And>x. x \<in> set xs \<Longrightarrow> nonneg_float x) \<Longrightarrow> nonneg_float (fsum_left xs)"
    unfolding fsum_left_def by blast
qed

lemma norm_of_range: "\<exists>n. norm_of xs = Inr n \<and> (n = Fin 0 \<or> n = NaN \<or> fle (Fin root_float) n)"
  unfolding norm_of_def by (intro fsqrt_nonneg fsum_left_nonneg) (auto simp: nonneg_square)

lemma cosine_of_total: "\<not> isl (cosine_of as rs)"
proof -
  obtain m n where m: "norm_of as = Inr m" "m = Fin 0 \<or> m = NaN \<or> fle (Fin root_float) m"
    and n: "norm_of rs = Inr n" "n = Fin 0 \<or> n = NaN \<or> fle (Fin root_float) n"
    using norm_of_range by blast
  show ?thesis
  proof (cases "m \<noteq> Fin 0 \<and> n \<noteq> Fin 0")
    case True
    then have "fmul m n \<noteq> Fin 0" using m(2) n(2) by (intro norm_product_nonzero) auto
    then show ?thesis using True m(1) n(1) fdiv_total by (simp add: cosine_of_def not_isl)
  qed (auto simp: cosine_of_def m(1) n(1))
qed

lemma classify_total: "traced_value (fst p) \<Longrightarrow> traced_value (snd p) \<Longrightarrow> \<not> isl (classify p)"
  by (cases "fst p"; cases "snd p") (auto simp: classify_def traced_value_def not_isl)

lemma special_less: "special_mismatches cs \<noteq> [] \<Longrightarrow> hd (special_mismatches cs) < length cs"
  using set_special hd_in_set by blast

lemma largest_index: "fst (largest_difference (map (\<lambda>(i, a, r). (i, difference a r)) (numeric_pairs cs))) = Some i \<Longrightarrow> i < length cs"
proof -
  assume a: "fst (largest_difference (map (\<lambda>(i, a, r). (i, difference a r)) (numeric_pairs cs))) = Some i"
  let ?ds = "map (\<lambda>(i, a, r). (i, difference a r)) (numeric_pairs cs)"
  have "\<exists>v. (i, v) \<in> set ?ds"
  proof (cases ?ds)
    case (Cons d rest)
    then have "fst (max_by (\<lambda>x y. flt (snd x) (snd y)) d rest) = i"
      using a by (simp add: largest_difference_def split: prod.splits)
    then show ?thesis using max_by_in [of "\<lambda>x y. flt (snd x) (snd y)" d rest] Cons by (metis list.set_intros(1) list.simps(15) prod.collapse)
  qed (use a in \<open>simp add: largest_difference_def\<close>)
  then show ?thesis using set_numeric_pairs by fastforce
qed

lemma value_at_total: "(\<And>n. i = Some n \<Longrightarrow> n < length xs) \<Longrightarrow> \<not> isl (value_at (VList xs) i)"
  by (cases i) (simp_all add: value_at_def py_index_def)

lemma numeric_pairs_length: "length (numeric_pairs cs) \<le> length cs"
proof -
  have "length (concat (map f zs)) \<le> length zs" if "\<And>z. length (f z) \<le> 1"
    for f :: "nat \<times> pair_class \<Rightarrow> (nat \<times> pyfloat \<times> pyfloat) list" and zs
  proof (induction zs)
    case (Cons z zs)
    then show ?case using that [of z] by simp
  qed simp
  from this [of _ "enumerate 0 cs"] show ?thesis by (simp add: numeric_pairs_def split: prod.splits pair_class.splits)
qed

lemma numeric_result_total:
  assumes "list_all traced_value xs" and "list_all traced_value ys" and "length xs = length ys" and "length xs < 2 ^ 53"
  shows "\<not> isl (numeric_result (VList xs) (VList ys) atol rtol)"
proof -
  have "\<not> isl (mapM classify (zip xs ys))"
    using assms(1,2) by (intro mapM_total classify_total) (auto simp: list_all_iff dest: set_zip_leftD set_zip_rightD)
  then obtain cs where cs: "mapM classify (zip xs ys) = Inr cs" by (auto simp: not_isl)
  have len: "length cs = length xs" using mapM_length [OF cs] assms(3) by simp
  have "length (numeric_pairs cs) \<le> length cs" by (rule numeric_pairs_length)
  then have small: "length (map snd (map (\<lambda>(i, a, r). (i, difference a r)) (numeric_pairs cs))) < 2 ^ 53"
    using assms(4) len by simp
  let ?i = "if special_mismatches cs = [] then fst (largest_difference (map (\<lambda>(i, a, r). (i, difference a r)) (numeric_pairs cs)))
     else Some (hd (special_mismatches cs))"
  have i: "?i = Some n \<Longrightarrow> n < length cs" for n using largest_index special_less by (auto split: if_splits)
  show ?thesis
    unfolding numeric_result_def Let_def
    by (rule bindE_then, simp add: py_iter_def, rule bindE_then, simp add: py_iter_def, rule bindE_then, rule cs,
        intro bindE_total mapM_total relative_error_total mean_square_total small cosine_of_total value_at_total)
       (use i len assms(3) in auto)
qed


section \<open>The comparison returns\<close>

lemma value_result_total:
  assumes "list_all traced_value xs" and "list_all traced_value ys" and "length xs < 2 ^ 53"
  shows "\<not> isl (value_result (VList xs) (VList ys) (int (length xs)) (int (length ys)) atol rtol d)"
  using numeric_result_total [of xs ys atol rtol] assms by (auto simp: value_result_def)

lemma compare_contents_total:
  assumes "traced l" and "traced r"
  shows "\<not> isl (compare_contents l r atol rtol d)"
proof -
  obtain xs ys where "py_getitem l ''values'' = Inr (VList xs)" "py_getitem r ''values'' = Inr (VList ys)"
    and "list_all traced_value xs" "list_all traced_value ys" "length xs < 2 ^ 53"
    using assms by (auto simp: traced_def values_traced_def split: sum.splits pyval.splits)
  then show ?thesis using value_result_total by (simp add: compare_contents_def py_len_def)
qed

lemma compare_records_total:
  assumes "traced l" and "traced r"
  shows "\<not> isl (compare_records atol rtol allow l r d)"
proof -
  obtain ls rs ld rd lt rt where f: "py_getitem l ''shape'' = Inr ls" "py_getitem r ''shape'' = Inr rs"
    "py_getitem l ''dtype'' = Inr ld" "py_getitem r ''dtype'' = Inr rd"
    "py_getitem l ''values_truncated'' = Inr lt" "py_getitem r ''values_truncated'' = Inr rt"
    using assms unfolding traced_def not_isl by blast
  show ?thesis using compare_contents_total [OF assms]
    by (simp add: compare_records_def fields_of_def f compare_captured_def py_or_def)
qed

lemma nth_match_in: "nth_match records k = Some r \<Longrightarrow> r \<in> set records"
proof -
  assume a: "nth_match records k = Some r"
  obtain kind name i where k: "k = (kind, name, i)" by (cases k)
  have "r \<in> set (matching records kind name)" using a by (auto simp: nth_match_def k split: if_splits)
  then show ?thesis by (simp add: matching_def)
qed

lemma occurrence_total: "list_all traced records \<Longrightarrow> \<exists>m. occurrence_records records = Inr m"
proof -
  assume t: "list_all traced records"
  have "\<exists>t. foldM occurrence_step s records = Inr t" for s
    using t
  proof (induction records arbitrary: s)
    case (Cons r rs)
    obtain k n where "text_field r ''kind'' = Inr k" "text_field r ''name'' = Inr n"
      using Cons.prems by (auto simp: traced_def not_isl)
    then show ?case using Cons by (simp add: occurrence_step_def Let_def)
  qed simp
  then obtain st where "foldM occurrence_step ([], []) records = Inr st" by blast
  then show ?thesis by (simp add: occurrence_records_def)
qed

lemma comparison_returns_aux:
  assumes "list_all traced left" and "list_all traced right"
  shows "\<exists>results. compare_values left right atol rtol allow = Inr results"
proof -
  obtain lm rm where m: "occurrence_records left = Inr lm" "occurrence_records right = Inr rm"
    using occurrence_total assms by blast
  have maps: "map_of lm = nth_match left" "map_of rm = nth_match right" using occurrence_map m by blast+
  have "\<not> isl (compare_key atol rtol allow lm rm k)" for k
  proof (cases "nth_match left k = None \<or> nth_match right k = None")
    case False
    then obtain l r where lr: "nth_match left k = Some l" "nth_match right k = Some r" by fastforce
    then have "traced l" "traced r" using nth_match_in assms by (auto simp: list_all_iff)
    then show ?thesis using compare_records_total by (simp add: compare_key_def maps lr)
  qed (cases "nth_match left k"; cases "nth_match right k"; simp add: compare_key_def maps)
  then have "\<not> isl (mapM (compare_key atol rtol allow lm rm) (all_keys lm rm))" by (rule mapM_total)
  then show ?thesis using m by (simp add: compare_values_def not_isl)
qed


text \<open>
  C6. The comparison returns on every pair of traces whose records have the fields it reads and whose
  values are strings or numbers in the range of a float, however many checkpoints either lacks and
  whatever NaNs, infinities, zeros or subnormals they hold: no division of the error statistics is by
  zero, the cosine's product of the two norms does not underflow to zero, and no index is out of range.
\<close>

theorem comparison_returns:
  assumes "list_all traced left" and "list_all traced right"
  shows "\<exists>results. compare_values left right atol rtol allow = Inr results"
  using assms by (rule comparison_returns_aux)

section \<open>A trace agrees with itself\<close>

definition clean_value :: "pyval \<Rightarrow> bool" where
  "clean_value v \<longleftrightarrow> is_str v \<or> (case item_float v of Inr x \<Rightarrow> is_finite_float x | _ \<Rightarrow> False)"

definition plain_field :: "pyval \<Rightarrow> string \<Rightarrow> bool" where
  "plain_field r k \<longleftrightarrow> (case py_getitem r k of Inr v \<Rightarrow> plain v | _ \<Rightarrow> False)"

definition clean :: "pyval \<Rightarrow> bool" where
  "clean r \<longleftrightarrow> traced r \<and> plain_field r ''shape'' \<and> plain_field r ''dtype'' \<and> values_traced clean_value r"

definition truncated_record :: "pyval \<Rightarrow> bool" where
  "truncated_record r \<longleftrightarrow> (case py_getitem r ''values_truncated'' of Inr v \<Rightarrow> py_truthy v | _ \<Rightarrow> True)"

definition tolerances_ok :: "pyfloat \<Rightarrow> pyfloat \<Rightarrow> bool" where
  "tolerances_ok atol rtol \<longleftrightarrow> fle (Fin 0) atol \<and> fle (Fin 0) rtol \<and> is_finite_float rtol"

lemma fadd_nonneg: "fle (Fin 0) x \<Longrightarrow> fle (Fin 0) y \<Longrightarrow> fle (Fin 0) (fadd x y)"
  by (cases x; cases y) (auto intro: rnd_nonneg)

lemma close_self: "tolerances_ok atol rtol \<Longrightarrow> is_finite_float x \<Longrightarrow> close atol rtol x x"
proof -
  assume t: "tolerances_ok atol rtol" and x: "is_finite_float x"
  have "fle (Fin 0) (fmul rtol (fabs x))" using t x by (cases rtol; cases x) (auto simp: tolerances_ok_def intro: rnd_nonneg)
  then show ?thesis using t x by (simp add: close_def difference_def fsub_self tolerances_ok_def fadd_nonneg)
qed

lemma classify_self:
  assumes "clean_value v" and "tolerances_ok atol rtol"
  shows "\<exists>c. classify (v, v) = Inr c \<and> c \<noteq> Differs \<and> (\<forall>a r. c = Numeric a r \<longrightarrow> close atol rtol a r)"
proof (cases "is_str v")
  case True
  then show ?thesis by (cases v) (auto simp: classify_def py_ne_def)
next
  case False
  then obtain x where x: "item_float v = Inr x" "is_finite_float x"
    using assms(1) by (auto simp: clean_value_def split: sum.splits)
  then have "is_number v" by (auto simp: item_float_def is_number_as_num bindE_Inr_iff)
  then show ?thesis using x close_self [OF assms(2)] by (simp add: classify_def)
qed

lemma within_self:
  assumes "list_all clean_value xs" and "tolerances_ok atol rtol" and "mapM classify (zip xs xs) = Inr cs"
  shows "within_tolerance atol rtol cs"
proof -
  have c: "cs ! i \<noteq> Differs \<and> (\<forall>a r. cs ! i = Numeric a r \<longrightarrow> close atol rtol a r)" if i: "i < length cs" for i
  proof -
    have l: "i < length xs" using i mapM_length [OF assms(3)] by simp
    then have "classify (xs ! i, xs ! i) = Inr (cs ! i)" using mapM_nth [OF assms(3), of i] by simp
    moreover have "clean_value (xs ! i)" using l assms(1) by (simp add: list_all_length)
    ultimately show ?thesis using classify_self [OF _ assms(2)] by fastforce
  qed
  have "special_mismatches cs = []" using c set_special [of "hd (special_mismatches cs)" cs] by (meson hd_in_set)
  then show ?thesis using c by (auto simp: within_tolerance_def set_numeric_pairs)
qed

lemma value_result_self:
  assumes "value_result (VList xs) (VList xs) (int (length xs)) (int (length xs)) atol rtol d = Inr d'"
    and "list_all clean_value xs" and "tolerances_ok atol rtol" and "status_is d ''pass''"
  shows "status_is d' ''pass''"
  using assms(1)
proof (cases rule: value_result_cases)
  case (numeric u)
  obtain cs where cs: "mapM classify (zip xs xs) = Inr cs"
    "status_is (dict_update d u) (if within_tolerance atol rtol cs then ''pass'' else ''numeric_mismatch'')"
    using numeric_result_status [OF numeric(2)] by (auto simp: py_iter_def)
  then show ?thesis using within_self [OF assms(2,3) cs(1)] numeric(3) by simp
qed (use assms(4) in simp_all)

lemma compare_records_self:
  assumes "clean r" and "tolerances_ok atol rtol" and "allow \<or> \<not> truncated_record r" and "status_is d ''pass''"
  shows "\<exists>d'. compare_records atol rtol allow r r d = Inr d' \<and> status_is d' ''pass''"
proof -
  obtain d' where d': "compare_records atol rtol allow r r d = Inr d'"
    using compare_records_total [of r r atol rtol allow d] assms(1) by (auto simp: clean_def not_isl)
  obtain s dt t xs where f: "py_getitem r ''shape'' = Inr s" "plain s" "py_getitem r ''dtype'' = Inr dt" "plain dt"
    "py_getitem r ''values_truncated'' = Inr t" "py_getitem r ''values'' = Inr (VList xs)" "list_all clean_value xs"
    using assms(1) by (auto simp: clean_def traced_def plain_field_def values_traced_def not_isl split: sum.splits pyval.splits)
  let ?e = "dict_set ''partial_values'' t (with_metadata d (s, s) (dt, dt))"
  have "\<not> (py_truthy t \<and> \<not> allow)" using assms(3) f(5) by (auto simp: truncated_record_def)
  then have "value_result (VList xs) (VList xs) (int (length xs)) (int (length xs)) atol rtol ?e = Inr d'"
    using d' f py_eq_refl
    by (auto simp: compare_records_def fields_of_def py_ne_def compare_captured_def py_or_def compare_contents_def py_len_def split: if_splits)
  moreover have "status_is ?e ''pass''" using assms(4) by (simp add: with_metadata_facts)
  ultimately show ?thesis using value_result_self [OF _ f(7) assms(2)] d' by blast
qed

lemma self_comparison_aux:
  assumes "list_all clean records" and "tolerances_ok atol rtol" and "allow \<or> \<not> list_ex truncated_record records"
  shows "\<exists>results. compare_values records records atol rtol allow = Inr results \<and>
    (\<forall>v \<in> set results. \<exists>d. v = VDict d \<and> status_is d ''pass'')"
proof -
  have "list_all traced records" using assms(1) by (auto simp: list_all_iff clean_def)
  then obtain results where res: "compare_values records records atol rtol allow = Inr results"
    using comparison_returns_aux by blast
  obtain m where m: "occurrence_records records = Inr m"
    and r: "mapM (compare_key atol rtol allow m m) (all_keys m m) = Inr results"
    using res by (auto simp: compare_values_def bindE_Inr_iff)
  have "\<exists>d. v = VDict d \<and> status_is d ''pass''" if v: "v \<in> set results" for v
  proof -
    obtain k where k: "k \<in> set (all_keys m m)" "compare_key atol rtol allow m m k = Inr v"
      using mapM_setD [OF r v] by blast
    then have "k \<in> fst ` set m" by (simp add: all_keys_set)
    then obtain x where x: "map_of m k = Some x" by (metis map_of_eq_None_iff not_None_eq)
    then have "x \<in> set records" using occurrence_map [OF m] nth_match_in by metis
    then have "clean x" "allow \<or> \<not> truncated_record x" using assms(1,3) by (auto simp: list_all_iff list_ex_iff)
    then obtain d where "compare_records atol rtol allow x x (key_result k @ [(''status'', VStr ''pass'')]) = Inr d" "status_is d ''pass''"
      using compare_records_self [OF _ assms(2) _ status_result] by blast
    then show ?thesis using k(2) x by (auto simp: compare_key_def)
  qed
  then show ?thesis using res by blast
qed


text \<open>
  A trace compared with itself passes at every checkpoint, with any non-negative tolerances (a
  relative one that is finite): special values are strings and equal, a finite number differs from
  itself by zero. Only a truncated record fails, unless truncated records are allowed.
\<close>

theorem self_comparison_passes:
  assumes "list_all clean records" and "tolerances_ok atol rtol" and "allow \<or> \<not> list_ex truncated_record records"
  shows "\<exists>results. compare_values records records atol rtol allow = Inr results \<and>
    (\<forall>v \<in> set results. \<exists>d. v = VDict d \<and> status_is d ''pass'')"
  using assms by (rule self_comparison_aux)

section \<open>The records of a session\<close>

definition recorded_at :: "nat \<Rightarrow> pyval \<Rightarrow> bool" where
  "recorded_at i r \<longleftrightarrow> py_get r ''schema_version'' VNone = Inr (VInt 1) \<and> py_getitem r ''sequence'' = Inr (VInt (int i)) \<and> clean r"

definition session_ok :: "trace_session \<Rightarrow> bool" where
  "session_ok s \<longleftrightarrow> 0 \<le> ts_max_captured s \<and> ts_max_captured s < 2 ^ 53 \<and>
     (\<forall>i < length (ts_records s). recorded_at i (ts_records s ! i))"

lemma captured_clean: "clean_value (captured_value x)" "traced_value (captured_value x)"
  by (cases x; simp add: clean_value_def traced_value_def item_float_def)+

lemma slice_to_length: "0 \<le> n \<Longrightarrow> length (slice_to xs n) \<le> nat n"
  by (simp add: slice_to_def)

lemma trace_record_clean:
  assumes "trace_record s kind name t ms = Inr r" and "0 \<le> ts_max_captured s" and "ts_max_captured s < 2 ^ 53"
  shows "recorded_at (length (ts_records s)) r"
proof -
  obtain vs st where r: "r = VDict [(''schema_version'', VInt 1), (''framework'', VStr (ts_framework s)), (''run_id'', VStr (ts_run_id s)),
       (''phase'', VStr (ts_phase s)), (''sequence'', VInt (int (length (ts_records s)))), (''iteration'', VInt (ts_iteration s)),
       (''kind'', VStr kind), (''name'', VStr name), (''shape'', VList (map VInt (tn_shape t))),
       (''dtype'', VStr (tensor_dtype_name t)), (''device'', VStr (tn_device t)), (''wall_ms'', VFloat ms),
       (''statistics'', st), (''values_truncated'', VBool (length (map captured_value (slice_to vs (ts_max_captured s))) \<noteq> length vs)),
       (''values'', VList (map captured_value (slice_to vs (ts_max_captured s))))]"
    using assms(1) unfolding trace_record_def bindE_Inr_iff Let_def by blast
  have "length (slice_to vs (ts_max_captured s)) < 2 ^ 53"
    using slice_to_length [OF assms(2), of vs] assms(2,3) by (simp add: nat_less_iff)
  then show ?thesis
    by (simp add: recorded_at_def r py_get_def py_getitem_def clean_def traced_def text_field_def plain_field_def values_traced_def
        list_all_iff captured_clean)
qed

lemma record_tensor_ok:
  assumes "session_ok s" and "record_tensor kind name t ms s = (r, s')"
  shows "session_ok s' \<and> (\<forall>x. r = Inr x \<longrightarrow> x = t)"
proof (cases "enabled s kind")
  case True
  show ?thesis
  proof (cases "trace_record s kind name t ms")
    case (Inr x)
    then have "s' = s\<lparr>ts_records := ts_records s @ [x]\<rparr>" "r = Inr t" using assms(2) True by (simp_all add: record_tensor_def)
    moreover have "recorded_at (length (ts_records s)) x"
      using trace_record_clean [OF Inr] assms(1) by (simp add: session_ok_def)
    ultimately show ?thesis using assms(1) by (auto simp: session_ok_def nth_append less_Suc_eq)
  qed (use assms True in \<open>auto simp: record_tensor_def\<close>)
qed (use assms in \<open>auto simp: record_tensor_def\<close>)

definition keeps_session :: "(trace_session \<times> 'w, 'a) action \<Rightarrow> bool" where
  "keeps_session m \<longleftrightarrow> (\<forall>sw r sw'. m sw = (r, sw') \<longrightarrow> session_ok (fst sw) \<longrightarrow> session_ok (fst sw'))"

lemma keeps_bindS: "keeps_session m \<Longrightarrow> (\<And>x. keeps_session (f x)) \<Longrightarrow> keeps_session (bindS m f)"
  unfolding keeps_session_def bindS_def by (fastforce split: prod.splits sum.splits)

lemma keeps_inside: "keeps_session (inside m)" and keeps_liftS: "keeps_session (liftS x)"
  by (auto simp: keeps_session_def inside_def split: prod.splits)

lemma keeps_synchronize: "keeps_session (synchronize ops)"
  using keeps_inside [of "do_cuda_synchronize ops"] by (auto simp: keeps_session_def synchronize_def split: if_splits)

lemma keeps_record: "keeps_session (on_session (record_tensor kind name t ms))"
  using record_tensor_ok by (fastforce simp: keeps_session_def on_session_def split: prod.splits)

lemma measure_keeps_session_aux:
  assumes "\<And>sw r sw'. f sw = (r, sw') \<Longrightarrow> session_ok (fst sw) \<Longrightarrow> session_ok (fst sw')"
    and "session_ok (fst sw)" and "measure_call ops kind name f sw = (r, sw')"
  shows "session_ok (fst sw')"
proof -
  have f: "keeps_session f" using assms(1) by (auto simp: keeps_session_def)
  have "keeps_session (measure_call ops kind name f)"
  proof (unfold keeps_session_def, intro allI impI)
    fix sw r sw'
    assume m: "measure_call ops kind name f sw = (r, sw')" and ok: "session_ok (fst sw)"
    have all: "keeps_session (thenS (synchronize ops)
           (bindS (perf_counter_ns ops) (\<lambda>start.
            bindS f (\<lambda>out.
            thenS (synchronize ops)
           (bindS (perf_counter_ns ops) (\<lambda>finish.
            bindS (liftS (bindE (float_of_int (finish - start)) (\<lambda>ns. fdiv ns (Fin 1000000)))) (\<lambda>elapsed_ms.
            on_session (record_tensor kind name out elapsed_ms))))))))"
      by (intro keeps_bindS keeps_synchronize keeps_liftS keeps_record f; simp add: perf_counter_ns_def keeps_inside)
    show "session_ok (fst sw')"
    proof (cases "enabled (fst sw) kind")
      case True
      have "session_ok (fst sw) \<longrightarrow> session_ok (fst sw')"
        using m True all [unfolded keeps_session_def, rule_format] unfolding measure_call_def by metis
      then show ?thesis using ok by blast
    next
      case False
      then have "f sw = (r, sw')" using m by (simp add: measure_call_def)
      then show ?thesis using f ok unfolding keeps_session_def by blast
    qed
  qed
  then show ?thesis using assms(2,3) unfolding keeps_session_def by blast
qed

text \<open>
  A trace session stays well-formed through \<open>record\<close> and \<open>measure\<close>: its records are
  numbered from zero without a gap, each has the fields the comparison reads, and special values are
  held as strings. This holds whether the measured function returns or raises, as long as it too keeps
  the session well-formed (it may record more on it).
\<close>

theorem measure_keeps_session:
  assumes "\<And>sw r sw'. f sw = (r, sw') \<Longrightarrow> session_ok (fst sw) \<Longrightarrow> session_ok (fst sw')"
    and "session_ok (fst sw)" and "measure_call ops kind name f sw = (r, sw')"
  shows "session_ok (fst sw')"
  using assms by (rule measure_keeps_session_aux)

lemma recorded_trace_aux:
  assumes "session_ok s"
  shows "load_jsonl (write_jsonl (ts_records s)) = Inr (ts_records s)" and "list_all clean (ts_records s)"
proof -
  have rec: "\<exists>i. recorded_at i r" if "r \<in> set (ts_records s)" for r
    using assms that by (auto simp: session_ok_def in_set_conv_nth)
  have "foldM load_line acc (map Inr rs) = Inr (acc @ rs)" if "\<And>r. r \<in> set rs \<Longrightarrow> \<exists>i. recorded_at i r" for acc rs
    using that
  proof (induction rs arbitrary: acc)
    case (Cons r rs)
    then obtain i where "recorded_at i r" by auto
    then show ?case using Cons by (simp add: load_line_def recorded_at_def py_ne_def)
  qed simp
  then show "load_jsonl (write_jsonl (ts_records s)) = Inr (ts_records s)"
    using rec by (simp add: load_jsonl_def write_jsonl_def)
  show "list_all clean (ts_records s)" using rec by (auto simp: list_all_iff recorded_at_def)
qed

text \<open>
  What a session recorded survives the trace file: the lines \<open>write_jsonl\<close> writes are read
  back as the same records, and comparing the two traces passes at every checkpoint unless a record was
  truncated and that is not allowed.
\<close>

theorem recorded_trace_roundtrip:
  assumes "session_ok s" and "tolerances_ok atol rtol" and "allow \<or> \<not> list_ex truncated_record (ts_records s)"
  shows "\<exists>records results. load_jsonl (write_jsonl (ts_records s)) = Inr records \<and> records = ts_records s \<and>
    compare_values (ts_records s) records atol rtol allow = Inr results \<and>
    (\<forall>v \<in> set results. \<exists>d. v = VDict d \<and> status_is d ''pass'')"
  using recorded_trace_aux [OF assms(1)] self_comparison_aux [OF _ assms(2,3)] by blast


section \<open>The properties at concrete traces\<close>

definition sample_record :: "string \<Rightarrow> pyval list \<Rightarrow> pyval" where
  "sample_record name values =
     VDict [(''kind'', VStr ''operator''), (''name'', VStr name), (''shape'', VList [VInt (int (length values))]), (''dtype'', VStr ''float32''),
            (''values_truncated'', VBool False), (''values'', VList values)]"

definition sample_trace :: "pyval list" where
  "sample_trace = [sample_record ''add'' [VFloat (Fin 2), VStr ''nan''], sample_record ''add'' [VFloat (Fin (- 3))], sample_record ''mul'' []]"

lemma sample_clean: "list_all clean sample_trace"
  by (simp add: sample_trace_def sample_record_def clean_def traced_def text_field_def py_getitem_def values_traced_def
      traced_value_def item_float_def plain_field_def clean_value_def)

lemma sample_traced: "list_all traced sample_trace" "list_all traced (tl sample_trace)"
  using sample_clean by (auto simp: sample_trace_def clean_def)

theorem comparison_verdicts_witness:
  "\<exists>results keys. compare_values sample_trace (tl sample_trace) (Fin 0) (Fin 0) False = Inr results \<and>
     list_all2 (verdict_ok (Fin 0) (Fin 0) False sample_trace (tl sample_trace)) keys results \<and>
     set keys = checkpoint_keys sample_trace (tl sample_trace) \<and> (''operator'', ''add'', 1) \<in> set keys"
proof -
  obtain results where r: "compare_values sample_trace (tl sample_trace) (Fin 0) (Fin 0) False = Inr results"
    using comparison_returns_aux [OF sample_traced] by blast
  have "(''operator'', ''add'', 1) \<in> checkpoint_keys sample_trace (tl sample_trace)"
    by (simp add: checkpoint_keys_def nth_match_def matching_def sample_trace_def sample_record_def text_field_def py_getitem_def)
  then show ?thesis using comparison_verdicts [OF r] r by blast
qed

theorem comparison_returns_witness:
  "\<exists>results. compare_values sample_trace (tl sample_trace) (Fin 1) (Fin 0) False = Inr results"
  by (rule comparison_returns [OF sample_traced])

theorem self_comparison_passes_witness:
  "\<exists>results. compare_values sample_trace sample_trace (Fin 0) (Fin 0) False = Inr results \<and>
     (\<forall>v \<in> set results. \<exists>d. v = VDict d \<and> status_is d ''pass'')"
  by (rule self_comparison_passes [OF sample_clean])
     (simp_all add: tolerances_ok_def sample_trace_def truncated_record_def sample_record_def py_getitem_def)

definition sample_tensor :: tensor where
  "sample_tensor = \<lparr>tn_items = [VFloat (Fin 2), VInt 3], tn_shape = [2], tn_dtype = ''torch.float32'', tn_device = ''cpu'', tn_numel = 2, tn_node = 0\<rparr>"

definition sample_session :: trace_session where
  "sample_session = snd (record_tensor ''layer'' ''block'' sample_tensor (Fin 0) (new_session ''pytorch'' ''run'' ''forward'' ''cpu''))"

lemma sample_session_ok: "session_ok sample_session"
proof -
  have "session_ok (new_session ''pytorch'' ''run'' ''forward'' ''cpu'')" by (simp add: session_ok_def new_session_def)
  then show ?thesis unfolding sample_session_def using record_tensor_ok by (metis prod.collapse)
qed

theorem measure_keeps_session_witness:
  "session_ok (fst (snd (measure_call \<lparr>do_clock = (\<lambda>w. (w, w + 7 :: int)), do_cuda_synchronize = (\<lambda>w. (Inr (), w))\<rparr>
     ''operator'' ''add'' (\<lambda>sw. (Inr sample_tensor, sw)) (sample_session, 0))))"
  by (rule measure_keeps_session [where f = "\<lambda>sw. (Inr sample_tensor, sw)" and sw = "(sample_session, 0)", OF _ _ prod.collapse [symmetric]])
     (auto simp: sample_session_ok)

theorem recorded_trace_roundtrip_witness:
  "\<exists>records results. load_jsonl (write_jsonl (ts_records sample_session)) = Inr records \<and> records = ts_records sample_session \<and>
     compare_values (ts_records sample_session) records (Fin 0) (Fin 0) True = Inr results \<and>
     (\<forall>v \<in> set results. \<exists>d. v = VDict d \<and> status_is d ''pass'')"
  by (rule recorded_trace_roundtrip [OF sample_session_ok]) (simp_all add: tolerances_ok_def)

end
