(* ===== verification/TorchRunner.thy ===== *)
theory TorchRunner imports AlignSelf RankedArgs begin

text \<open>
  The model of \<open>tools/alignment/pytorch_runner.py\<close>: its tensor routines and the traced forward
  pass. PyTorch is a parameter: \<open>tp_call\<close> answers the operation its first argument names, on
  tensors, lists of tensors and plain values, without changing its operands, and the autograd
  operations act on the world the clock and the device are part of. What the file itself decides is
  modelled: which operation is applied to which operands, and what is measured or recorded under
  which name. Number fields of the configuration are integers: where Python would floor-divide
  floats and fail at the reshape they are used in, the division already is a \<open>TypeError\<close>.
\<close>

section \<open>PyTorch\<close>

datatype targ = Ten tensor | Tens "tensor list" | Val pyval

abbreviation Num :: "int \<Rightarrow> targ" where
  "Num i \<equiv> Val (VInt i)"

abbreviation Text :: "string \<Rightarrow> targ" where
  "Text s \<equiv> Val (VStr s)"

record 'w torch =
  tp_call :: "string \<Rightarrow> targ list \<Rightarrow> tensor py"
  tp_device :: "'w device_ops"
  tp_cuda_available :: bool
  tp_inference :: "bool \<Rightarrow> ('w, unit) action"
  tp_requires_grad :: "tensor \<Rightarrow> ('w, tensor) action"
  tp_backward :: "tensor \<Rightarrow> ('w, unit) action"
  tp_grad :: "tensor \<Rightarrow> 'w \<Rightarrow> tensor option"
  tp_version :: string
  tp_hip_version :: pyval

definition dim_at :: "tensor \<Rightarrow> int \<Rightarrow> int py" where
  "dim_at t i = list_index (tn_shape t) i"

text \<open>An elementwise operation or a product of two tensors, and \<open>t.reshape(dims)\<close>.\<close>

definition two :: "'w torch \<Rightarrow> string \<Rightarrow> tensor \<Rightarrow> tensor \<Rightarrow> tensor py" where
  "two tp f a b = tp_call tp f [Ten a, Ten b]"

definition reshape :: "'w torch \<Rightarrow> tensor \<Rightarrow> pyval list \<Rightarrow> tensor py" where
  "reshape tp t dims = tp_call tp ''reshape'' [Ten t, Val (VList dims)]"

definition swap_dims :: "'w torch \<Rightarrow> tensor \<Rightarrow> int \<Rightarrow> int \<Rightarrow> tensor py" where
  "swap_dims tp t i j = tp_call tp ''transpose'' [Ten t, Num i, Num j]"

section \<open>Tensor routines\<close>

text \<open>\<open>view_shape[i] = n\<close>.\<close>

definition set_index :: "'a list \<Rightarrow> int \<Rightarrow> 'a \<Rightarrow> 'a list py" where
  "set_index xs i v = bindE (list_index xs i) (\<lambda>_. Inr (xs[nat (if 0 \<le> i then i else int (length xs) + i) := v]))"

definition rope_angles :: "'w torch \<Rightarrow> tensor \<Rightarrow> int \<Rightarrow> int \<Rightarrow> pyval \<Rightarrow> tensor py" where
  "rope_angles tp v sequence_dim position_offset base =
     bindE (dim_at v (- 1)) (\<lambda>width.
     bindE (dim_at v sequence_dim) (\<lambda>len.
     bindE (tp_call tp ''arange'' [Num position_offset, Num (position_offset + len), Text (tn_dtype v), Text (tn_device v)]) (\<lambda>positions.
     bindE (tp_call tp ''arange'' [Num 0, Num width, Num 2, Text (tn_dtype v), Text (tn_device v)]) (\<lambda>even_dims.
     bindE (tp_call tp ''neg'' [Ten even_dims]) (\<lambda>negated.
     bindE (tp_call tp ''div'' [Ten negated, Num width]) (\<lambda>exponents.
     bindE (tp_call tp ''pow'' [Val base, Ten exponents]) (\<lambda>frequencies.
     bindE (tp_call tp ''[:, None]'' [Ten positions]) (\<lambda>column.
     bindE (tp_call tp ''[None, :]'' [Ten frequencies]) (\<lambda>row.
     two tp ''mul'' column row)))))))))"

definition rope_view_shape :: "tensor \<Rightarrow> int \<Rightarrow> int list py" where
  "rope_view_shape v sequence_dim =
     bindE (dim_at v sequence_dim) (\<lambda>len.
     bindE (set_index (replicate (length (tn_shape v)) 1) sequence_dim len) (\<lambda>shape1.
     bindE (dim_at v (- 1)) (\<lambda>width. set_index shape1 (- 1) (width div 2))))"

definition rotate_pairs :: "'w torch \<Rightarrow> tensor \<Rightarrow> tensor \<Rightarrow> tensor \<Rightarrow> tensor py" where
  "rotate_pairs tp v cosine sine =
     bindE (tp_call tp ''[..., 0::2]'' [Ten v]) (\<lambda>even.
     bindE (tp_call tp ''[..., 1::2]'' [Ten v]) (\<lambda>odd.
     bindE (two tp ''mul'' even cosine) (\<lambda>ec.
     bindE (two tp ''mul'' odd sine) (\<lambda>os.
     bindE (two tp ''sub'' ec os) (\<lambda>fst_part.
     bindE (two tp ''mul'' even sine) (\<lambda>es.
     bindE (two tp ''mul'' odd cosine) (\<lambda>oc.
     bindE (two tp ''add'' es oc) (\<lambda>snd_part.
     bindE (tp_call tp ''stack'' [Tens [fst_part, snd_part], Num (- 1)]) (\<lambda>pairs.
     tp_call tp ''flatten'' [Ten pairs, Num (- 2)])))))))))"

definition rope :: "'w torch \<Rightarrow> tensor \<Rightarrow> int \<Rightarrow> int \<Rightarrow> pyval \<Rightarrow> tensor py" where
  "rope tp v sequence_dim position_offset base =
     bindE (rope_angles tp v sequence_dim position_offset base) (\<lambda>angles.
     bindE (rope_view_shape v sequence_dim) (\<lambda>view_shape.
     bindE (tp_call tp ''cos'' [Ten angles]) (\<lambda>c.
     bindE (reshape tp c (map VInt view_shape)) (\<lambda>cosine.
     bindE (tp_call tp ''sin'' [Ten angles]) (\<lambda>s.
     bindE (reshape tp s (map VInt view_shape)) (\<lambda>sine.
     rotate_pairs tp v cosine sine))))))"

definition causal_softmax :: "'w torch \<Rightarrow> tensor \<Rightarrow> tensor py" where
  "causal_softmax tp scores =
     bindE (dim_at scores (- 1)) (\<lambda>sequence.
     bindE (tp_call tp ''ones'' [Num sequence, Num sequence, Text ''bool'', Text (tn_device scores)]) (\<lambda>ones.
     bindE (tp_call tp ''triu'' [Ten ones, Num 1]) (\<lambda>future.
     bindE (tp_call tp ''masked_fill'' [Ten scores, Ten future, Val (VFloat NInf)]) (\<lambda>masked.
     tp_call tp ''softmax'' [Ten masked, Num (- 1)]))))"

definition repeat_heads :: "'w torch \<Rightarrow> int \<Rightarrow> int \<Rightarrow> tensor \<Rightarrow> tensor py" where
  "repeat_heads tp repeats axis t =
     (if repeats \<noteq> 1 then tp_call tp ''repeat_interleave'' [Ten t, Num repeats, Num axis] else Inr t)"

definition attention_probabilities :: "'w torch \<Rightarrow> tensor \<Rightarrow> tensor \<Rightarrow> pyfloat \<Rightarrow> tensor py" where
  "attention_probabilities tp query key scale =
     bindE (swap_dims tp key (- 2) (- 1)) (\<lambda>key_t.
     bindE (two tp ''matmul'' query key_t) (\<lambda>products.
     bindE (tp_call tp ''mul'' [Ten products, Val (VFloat scale)]) (\<lambda>scores.
     causal_softmax tp scores)))"

definition causal_gqa_attention :: "'w torch \<Rightarrow> tensor \<Rightarrow> tensor \<Rightarrow> tensor \<Rightarrow> int \<Rightarrow> pyfloat \<Rightarrow> tensor py" where
  "causal_gqa_attention tp query key v repeats scale =
     bindE (repeat_heads tp repeats 1 key) (\<lambda>key1.
     bindE (repeat_heads tp repeats 1 v) (\<lambda>v1.
     bindE (attention_probabilities tp query key1 scale) (\<lambda>probabilities.
     two tp ''matmul'' probabilities v1)))"

definition causal_gqa_attention_bthd :: "'w torch \<Rightarrow> tensor \<Rightarrow> tensor \<Rightarrow> tensor \<Rightarrow> int \<Rightarrow> pyfloat \<Rightarrow> tensor py" where
  "causal_gqa_attention_bthd tp query key v repeats scale =
     bindE (repeat_heads tp repeats 1 key) (\<lambda>key1.
     bindE (repeat_heads tp repeats 2 v) (\<lambda>v1.
     bindE (attention_probabilities tp query key1 scale) (\<lambda>probabilities.
     bindE (swap_dims tp v1 1 2) (\<lambda>v_t.
     bindE (two tp ''matmul'' probabilities v_t) (\<lambda>context.
     swap_dims tp context 1 2)))))"

definition default_epsilon :: pyval where
  "default_epsilon = VFloat (rnd (1 / 100000))"

definition rms_norm :: "'w torch \<Rightarrow> tensor \<Rightarrow> tensor \<Rightarrow> pyval \<Rightarrow> tensor py" where
  "rms_norm tp v weight epsilon =
     bindE (dim_at v (- 1)) (\<lambda>width. tp_call tp ''rms_norm'' [Ten v, Val (VList [VInt width]), Ten weight, Val epsilon])"


section \<open>The traced forward pass\<close>

type_synonym params = "(string \<times> tensor) list"

type_synonym ('w, 'a) traced = "(trace_session \<times> 'w, 'a) action"

definition param :: "params \<Rightarrow> string \<Rightarrow> tensor py" where
  "param ps name = need (KeyError name) (map_of ps name)"

text \<open>\<open>op(name, fn)\<close>, where \<open>fn\<close> computes a tensor.\<close>

definition op_call :: "'w torch \<Rightarrow> string \<Rightarrow> tensor py \<Rightarrow> ('w, tensor) traced" where
  "op_call tp name r = measure_call (tp_device tp) ''operator'' name (liftS r)"

definition floordiv :: "pyval \<Rightarrow> pyval \<Rightarrow> pyval py" where
  "floordiv v w =
     (case (as_num v, as_num w) of
        (Some (NI i), Some (NI j)) \<Rightarrow> if j = 0 then Inl ZeroDivisionError else Inr (VInt (i div j))
      | _ \<Rightarrow> Inl TypeError)"

text \<open>The argument of \<open>range\<close>.\<close>

definition range_of :: "pyval \<Rightarrow> int list py" where
  "range_of v = (case as_num v of Some (NI n) \<Rightarrow> Inr (map int [0..<nat n]) | _ \<Rightarrow> Inl TypeError)"

definition head_dimension :: "pyval \<Rightarrow> pyval py" where
  "head_dimension c =
     bindE (py_getitem c ''dimension'') (\<lambda>d.
     bindE (py_getitem c ''heads'') (\<lambda>h.
     bindE (floordiv d h) (\<lambda>each. py_get c ''head_dimension'' each)))"

text \<open>\<open>t @ parameters[name]\<close>.\<close>

definition project :: "'w torch \<Rightarrow> params \<Rightarrow> string \<Rightarrow> tensor \<Rightarrow> ('w, tensor) traced" where
  "project tp ps name t = op_call tp ''matmul'' (bindE (param ps name) (\<lambda>w. two tp ''matmul'' t w))"

definition norm_with :: "'w torch \<Rightarrow> params \<Rightarrow> string \<Rightarrow> tensor \<Rightarrow> ('w, tensor) traced" where
  "norm_with tp ps name t = op_call tp ''rms_norm'' (bindE (param ps name) (\<lambda>w. rms_norm tp t w default_epsilon))"

definition flatten_rows :: "'w torch \<Rightarrow> pyval \<Rightarrow> tensor \<Rightarrow> ('w, tensor) traced" where
  "flatten_rows tp c t = op_call tp ''reshape'' (bindE (py_getitem c ''dimension'') (\<lambda>d. reshape tp t [VInt (- 1), d]))"

text \<open>\<open>t.reshape(tokens.shape[0], tokens.shape[1], ...)\<close>.\<close>

definition batch_shape :: "tensor \<Rightarrow> pyval list py" where
  "batch_shape tokens = bindE (dim_at tokens 0) (\<lambda>b. bindE (dim_at tokens 1) (\<lambda>s. Inr [VInt b, VInt s]))"

definition unflatten :: "'w torch \<Rightarrow> tensor \<Rightarrow> pyval \<Rightarrow> string \<Rightarrow> pyval list \<Rightarrow> tensor \<Rightarrow> ('w, tensor) traced" where
  "unflatten tp tokens c k extra t =
     op_call tp ''reshape'' (bindE (batch_shape tokens) (\<lambda>bs. bindE (py_getitem c k) (\<lambda>n. reshape tp t (bs @ n # extra))))"

definition qk_norm :: "'w torch \<Rightarrow> params \<Rightarrow> pyval \<Rightarrow> string \<Rightarrow> tensor \<Rightarrow> ('w, tensor) traced" where
  "qk_norm tp ps c name t =
     op_call tp ''rms_norm'' (bindE (param ps name) (\<lambda>w.
       bindE (py_get c ''rms_norm_epsilon'' default_epsilon) (\<lambda>epsilon. rms_norm tp t w epsilon)))"

definition normalize_heads :: "'w torch \<Rightarrow> params \<Rightarrow> pyval \<Rightarrow> string \<Rightarrow> tensor \<times> tensor \<Rightarrow> ('w, tensor \<times> tensor) traced" where
  "normalize_heads tp ps c prefix qk =
     bindS (liftS (py_get c ''qk_norm'' (VBool False))) (\<lambda>flag.
     if py_truthy flag
     then bindS (qk_norm tp ps c (prefix @ ''.attention.q_norm.weight'') (fst qk)) (\<lambda>query.
          bindS (qk_norm tp ps c (prefix @ ''.attention.k_norm.weight'') (snd qk)) (\<lambda>key.
          retS (query, key)))
     else retS qk)"

definition rotate_heads :: "'w torch \<Rightarrow> pyval \<Rightarrow> tensor \<Rightarrow> ('w, tensor) traced" where
  "rotate_heads tp c t =
     bindS (op_call tp ''transpose'' (swap_dims tp t 1 2)) (\<lambda>swapped.
     op_call tp ''rope'' (bindE (py_getitem c ''rope_base'') (\<lambda>base. rope tp swapped 2 0 base)))"

text \<open>Query, key and value of a block.\<close>

definition split_heads :: "'w torch \<Rightarrow> params \<Rightarrow> tensor \<Rightarrow> pyval \<Rightarrow> string \<Rightarrow> tensor \<Rightarrow> pyval \<Rightarrow>
    ('w, (tensor \<times> tensor) \<times> tensor) traced" where
  "split_heads tp ps tokens c prefix flat head =
     bindS (project tp ps (prefix @ ''.attention.q_proj.weight'') flat) (\<lambda>q0.
     bindS (unflatten tp tokens c ''heads'' [head] q0) (\<lambda>query.
     bindS (project tp ps (prefix @ ''.attention.k_proj.weight'') flat) (\<lambda>k0.
     bindS (unflatten tp tokens c ''kv_heads'' [head] k0) (\<lambda>key.
     bindS (project tp ps (prefix @ ''.attention.v_proj.weight'') flat) (\<lambda>v0.
     bindS (unflatten tp tokens c ''kv_heads'' [head] v0) (\<lambda>v.
     retS ((query, key), v)))))))"

definition attention_scale :: "pyval \<Rightarrow> pyfloat py" where
  "attention_scale head = bindE (item_float head) (\<lambda>x. bindE (fsqrt x) (\<lambda>root_hd. fdiv (Fin 1) root_hd))"

definition head_repeats :: "pyval \<Rightarrow> int py" where
  "head_repeats c =
     bindE (py_getitem c ''heads'') (\<lambda>h.
     bindE (py_getitem c ''kv_heads'') (\<lambda>kv.
     bindE (floordiv h kv) (\<lambda>r. case r of VInt i \<Rightarrow> Inr i | _ \<Rightarrow> Inl TypeError)))"

definition attend :: "'w torch \<Rightarrow> params \<Rightarrow> tensor \<Rightarrow> pyval \<Rightarrow> string \<Rightarrow> pyval \<Rightarrow> tensor \<times> tensor \<Rightarrow> tensor \<Rightarrow> ('w, tensor) traced" where
  "attend tp ps tokens c prefix head qk v =
     bindS (liftS (head_repeats c)) (\<lambda>repeats.
     bindS (op_call tp ''causal_gqa_attention_bthd''
              (bindE (attention_scale head) (\<lambda>scale. causal_gqa_attention_bthd tp (fst qk) (snd qk) v repeats scale))) (\<lambda>context0.
     bindS (op_call tp ''reshape'' (bindE (py_getitem c ''heads'') (\<lambda>h. bindE (py_mul h head) (\<lambda>n.
              reshape tp context0 [VInt (- 1), n])))) (\<lambda>context1.
     bindS (project tp ps (prefix @ ''.attention.o_proj.weight'') context1) (\<lambda>attention.
     unflatten tp tokens c ''dimension'' [] attention))))"

definition feed_forward :: "'w torch \<Rightarrow> params \<Rightarrow> tensor \<Rightarrow> pyval \<Rightarrow> string \<Rightarrow> tensor \<Rightarrow> ('w, tensor) traced" where
  "feed_forward tp ps tokens c prefix joined =
     bindS (norm_with tp ps (prefix @ ''.ffn_norm.weight'') joined) (\<lambda>normalized.
     bindS (flatten_rows tp c normalized) (\<lambda>flat.
     bindS (project tp ps (prefix @ ''.feed_forward.gate_proj.weight'') flat) (\<lambda>gate.
     bindS (project tp ps (prefix @ ''.feed_forward.up_proj.weight'') flat) (\<lambda>up.
     bindS (op_call tp ''swiglu'' (bindE (tp_call tp ''silu'' [Ten gate]) (\<lambda>silu. two tp ''mul'' silu up))) (\<lambda>activated.
     bindS (project tp ps (prefix @ ''.feed_forward.down_proj.weight'') activated) (\<lambda>down0.
     bindS (unflatten tp tokens c ''dimension'' [] down0) (\<lambda>down.
     op_call tp ''add'' (two tp ''add'' joined down))))))))"

definition block_forward :: "'w torch \<Rightarrow> params \<Rightarrow> tensor \<Rightarrow> pyval \<Rightarrow> string \<Rightarrow> tensor \<Rightarrow> ('w, tensor) traced" where
  "block_forward tp ps tokens c prefix hidden =
     bindS (norm_with tp ps (prefix @ ''.attention_norm.weight'') hidden) (\<lambda>normalized.
     bindS (flatten_rows tp c normalized) (\<lambda>flat.
     bindS (liftS (head_dimension c)) (\<lambda>head.
     bindS (split_heads tp ps tokens c prefix flat head) (\<lambda>(qk0, v).
     bindS (normalize_heads tp ps c prefix qk0) (\<lambda>qk.
     bindS (rotate_heads tp c (fst qk)) (\<lambda>query.
     bindS (rotate_heads tp c (snd qk)) (\<lambda>key.
     bindS (attend tp ps tokens c prefix head (query, key) v) (\<lambda>attention.
     bindS (op_call tp ''add'' (two tp ''add'' hidden attention)) (\<lambda>joined.
     feed_forward tp ps tokens c prefix joined)))))))))"

fun run_blocks :: "'w torch \<Rightarrow> params \<Rightarrow> tensor \<Rightarrow> pyval \<Rightarrow> int list \<Rightarrow> tensor \<Rightarrow> ('w, tensor) traced" where
  "run_blocks tp ps tokens c [] hidden = retS hidden"
| "run_blocks tp ps tokens c (i # layers) hidden =
     bindS (measure_call (tp_device tp) ''layer'' (''model.blocks.'' @ str_int i)
              (block_forward tp ps tokens c (''blocks.'' @ str_int i) hidden))
       (run_blocks tp ps tokens c layers)"

definition output_logits :: "'w torch \<Rightarrow> params \<Rightarrow> tensor \<Rightarrow> pyval \<Rightarrow> tensor \<Rightarrow> ('w, tensor) traced" where
  "output_logits tp ps tokens c hidden =
     bindS (measure_call (tp_device tp) ''layer'' ''model.final_norm'' (norm_with tp ps ''final_norm.weight'' hidden)) (\<lambda>normalized.
     bindS (flatten_rows tp c normalized) (\<lambda>flat.
     bindS (project tp ps ''output_head.weight'' flat) (\<lambda>logits0.
     bindS (unflatten tp tokens c ''vocabulary_size'' [] logits0) (\<lambda>logits.
     on_session (record_tensor ''output'' ''model.logits'' logits (Fin 0))))))"

definition forward_body :: "'w torch \<Rightarrow> params \<Rightarrow> tensor \<Rightarrow> pyval \<Rightarrow> ('w, tensor) traced" where
  "forward_body tp ps tokens c =
     bindS (on_session (record_tensor ''input'' ''model.tokens'' tokens (Fin 0))) (\<lambda>_.
     bindS (measure_call (tp_device tp) ''layer'' ''model.embedding''
              (op_call tp ''embedding'' (bindE (param ps ''token_embedding.weight'') (\<lambda>w. two tp ''embedding'' tokens w)))) (\<lambda>hidden.
     bindS (liftS (bindE (py_getitem c ''layers'') range_of)) (\<lambda>layers.
     bindS (run_blocks tp ps tokens c layers hidden) (\<lambda>hidden1.
     output_logits tp ps tokens c hidden1))))"

definition model_forward :: "'w torch \<Rightarrow> params \<Rightarrow> tensor \<Rightarrow> pyval \<Rightarrow> ('w, tensor) traced" where
  "model_forward tp ps tokens c = measure_call (tp_device tp) ''model'' ''model.forward'' (forward_body tp ps tokens c)"

definition model_loss :: "'w torch \<Rightarrow> params \<Rightarrow> tensor \<Rightarrow> tensor \<Rightarrow> pyval \<Rightarrow> ('w, tensor) traced" where
  "model_loss tp ps tokens targets c =
     bindS (model_forward tp ps tokens c) (\<lambda>logits.
     liftS (bindE (py_getitem c ''vocabulary_size'') (\<lambda>n.
            bindE (reshape tp logits [VInt (- 1), n]) (\<lambda>rows.
            bindE (reshape tp targets [VInt (- 1)]) (\<lambda>labels. two tp ''cross_entropy'' rows labels)))))"

end
