(* ===== verification/TorchTrace.thy ===== *)
theory TorchTrace imports TorchRunner "HOL-Library.Sublist" begin

text \<open>
  What a forward pass leaves in a trace session: the checkpoints of a fixed plan that the session has
  enabled, in the order of the plan. \<open>logs m plan\<close> says it of one action, and is closed under
  sequencing, so that a pass gets its plan by walking through its text, as a verification condition
  is computed.
\<close>

section \<open>Checkpoints\<close>

type_synonym checkpoint = "string \<times> string"

definition checkpoint_of :: "pyval \<Rightarrow> checkpoint" where
  "checkpoint_of r =
     (case (text_field r ''kind'', text_field r ''name'') of (Inr k, Inr n) \<Rightarrow> (k, n) | _ \<Rightarrow> ([], []))"

definition checkpoints :: "trace_session \<Rightarrow> checkpoint list" where
  "checkpoints s = map checkpoint_of (ts_records s)"

definition wanted :: "trace_session \<Rightarrow> checkpoint list \<Rightarrow> checkpoint list" where
  "wanted s plan = filter (\<lambda>c. enabled s (fst c)) plan"

text \<open>Two sessions that differ in their records only.\<close>

definition same_session :: "trace_session \<Rightarrow> trace_session \<Rightarrow> bool" where
  "same_session s s' \<longleftrightarrow> s' = s\<lparr>ts_records := ts_records s'\<rparr>"

definition leaves_trail :: "trace_session \<Rightarrow> checkpoint list \<Rightarrow> 'a py \<Rightarrow> trace_session \<Rightarrow> bool" where
  "leaves_trail s plan r s' \<longleftrightarrow>
     (\<exists>trail. checkpoints s' = checkpoints s @ trail \<and> prefix trail (wanted s plan) \<and>
        (\<not> isl r \<longrightarrow> trail = wanted s plan)) \<and> same_session s s'"

definition logs :: "('w, 'a) traced \<Rightarrow> checkpoint list \<Rightarrow> bool" where
  "logs m plan \<longleftrightarrow> (\<forall>sw r sw'. m sw = (r, sw') \<longrightarrow> leaves_trail (fst sw) plan r (fst sw'))"

lemma same_session_refl: "same_session s s"
  by (simp add: same_session_def)

lemma same_session_trans: "same_session a b \<Longrightarrow> same_session b c \<Longrightarrow> same_session a c"
  unfolding same_session_def by (cases a; cases b; cases c) simp

lemma same_session_enabled: "same_session s s' \<Longrightarrow> enabled s' = enabled s"
  by (cases s; cases s') (simp add: same_session_def enabled_def fun_eq_iff)

lemma same_session_wanted: "same_session s s' \<Longrightarrow> wanted s' = wanted s"
  by (simp add: wanted_def fun_eq_iff same_session_enabled)

lemma wanted_append [simp]: "wanted s (p @ q) = wanted s p @ wanted s q"
  by (simp add: wanted_def)

lemma wanted_Nil [simp]: "wanted s [] = []"
  by (simp add: wanted_def)

section \<open>The plan of a sequence\<close>

lemma logs_unchanged: "(\<And>sw r sw'. m sw = (r, sw') \<Longrightarrow> fst sw' = fst sw) \<Longrightarrow> logs m []"
  by (auto simp: logs_def leaves_trail_def same_session_refl)

lemma logs_fails: "(\<And>sw. m sw = (Inl e, sw)) \<Longrightarrow> logs m p"
  by (auto simp: logs_def leaves_trail_def same_session_refl)

lemma logs_liftS: "logs (liftS r) []" and logs_retS: "logs (retS x) []" and logs_inside: "logs (AlignCommon.inside a) []"
  by (rule logs_unchanged, auto simp: AlignCommon.inside_def split: prod.splits)+

lemma leaves_trans:
  assumes "leaves_trail s p r s1" and "\<not> isl r" and "leaves_trail s1 q r' s'"
  shows "leaves_trail s (p @ q) r' s'"
proof -
  have e: "checkpoints s1 = checkpoints s @ wanted s p" and ss: "same_session s s1" using assms(1,2) by (auto simp: leaves_trail_def)
  obtain trail where t: "checkpoints s' = checkpoints s1 @ trail" "prefix trail (wanted s1 q)" "\<not> isl r' \<longrightarrow> trail = wanted s1 q"
    "same_session s1 s'" using assms(3) by (auto simp: leaves_trail_def)
  show ?thesis unfolding leaves_trail_def
  proof (intro conjI exI [of _ "wanted s p @ trail"])
    show "checkpoints s' = checkpoints s @ wanted s p @ trail" using t(1) e by simp
    show "prefix (wanted s p @ trail) (wanted s (p @ q))" using t(2) ss by (simp add: same_session_wanted)
    show "\<not> isl r' \<longrightarrow> wanted s p @ trail = wanted s (p @ q)" using t(3) ss by (simp add: same_session_wanted)
    show "same_session s s'" using ss t(4) by (rule same_session_trans)
  qed
qed

lemma leaves_stop: "leaves_trail s p (Inl e) s' \<Longrightarrow> leaves_trail s (p @ q) (Inl e) s'"
  by (auto simp: leaves_trail_def)

lemma logs_bindS: "logs m p \<Longrightarrow> (\<And>x. logs (f x) q) \<Longrightarrow> logs (bindS m f) (p @ q)"
  unfolding logs_def bindS_def
  by (fastforce split: prod.splits sum.splits intro: leaves_trans leaves_stop)

lemma logs_thenS: "logs m [] \<Longrightarrow> (\<And>x. logs (f x) q) \<Longrightarrow> logs (bindS m f) q"
  using logs_bindS [of m "[]" f q] by simp

lemma logs_pair: "(\<And>a b. logs (f a b) p) \<Longrightarrow> logs (case x of (a, b) \<Rightarrow> f a b) p"
  by (cases x) simp

lemma logs_plan: "logs m p \<Longrightarrow> p = q \<Longrightarrow> logs m q"
  by simp

lemma trace_record_checkpoint: "trace_record s kind name t ms = Inr r \<Longrightarrow> checkpoint_of r = (kind, name)"
  unfolding trace_record_def bindE_Inr_iff Let_def
  by (auto simp: checkpoint_of_def text_field_def py_getitem_def)

lemma logs_record: "logs (on_session (record_tensor kind name t ms)) [(kind, name)]"
proof -
  have "leaves_trail s [(kind, name)] r s'" if m: "record_tensor kind name t ms s = (r, s')" for s s' r
    using m trace_record_checkpoint [of s kind name t ms]
    by (cases "trace_record s kind name t ms")
       (auto simp: record_tensor_def leaves_trail_def checkpoints_def wanted_def same_session_def split: if_splits)
  then show ?thesis by (auto simp: logs_def on_session_def split: prod.splits)
qed

lemma logs_synchronize: "logs (synchronize ops) []"
  by (rule logs_unchanged) (auto simp: synchronize_def AlignCommon.inside_def split: prod.splits if_splits)

lemma logs_measure:
  assumes "logs f p"
  shows "logs (measure_call ops kind name f) (p @ [(kind, name)])"
proof -
  have timed: "logs (thenS (synchronize ops)
           (bindS (perf_counter_ns ops) (\<lambda>start.
            bindS f (\<lambda>out.
            thenS (synchronize ops)
           (bindS (perf_counter_ns ops) (\<lambda>finish.
            bindS (liftS (bindE (float_of_int (finish - start)) (\<lambda>ns. fdiv ns (Fin 1000000)))) (\<lambda>elapsed_ms.
            on_session (record_tensor kind name out elapsed_ms)))))))) (p @ [(kind, name)])"
    unfolding perf_counter_ns_def
    by (intro logs_thenS logs_synchronize logs_inside logs_liftS logs_record logs_bindS assms) (simp add: logs_inside)?
  show ?thesis unfolding logs_def
  proof (intro allI impI)
    fix sw r sw' assume m: "measure_call ops kind name f sw = (r, sw')"
    show "leaves_trail (fst sw) (p @ [(kind, name)]) r (fst sw')"
    proof (cases "enabled (fst sw) kind")
      case True
      then show ?thesis using m timed [unfolded logs_def, rule_format] unfolding measure_call_def by metis
    next
      case False
      then have "f sw = (r, sw')" using m by (simp add: measure_call_def)
      then have "leaves_trail (fst sw) p r (fst sw')" using assms [unfolded logs_def] by blast
      then show ?thesis using False by (simp add: leaves_trail_def wanted_def)
    qed
  qed
qed


section \<open>The plan of a forward pass\<close>

abbreviation op_point :: "string \<Rightarrow> checkpoint" where
  "op_point name \<equiv> (''operator'', name)"

definition norm_plan :: "pyval \<Rightarrow> checkpoint list" where
  "norm_plan c =
     (case py_get c ''qk_norm'' (VBool False) of
        Inr flag \<Rightarrow> if py_truthy flag then [op_point ''rms_norm'', op_point ''rms_norm''] else []
      | Inl e \<Rightarrow> [])"

definition head_plan :: "checkpoint list" where
  "head_plan = map op_point [''matmul'', ''reshape'', ''matmul'', ''reshape'', ''matmul'', ''reshape'']"

definition attend_plan :: "checkpoint list" where
  "attend_plan = map op_point [''causal_gqa_attention_bthd'', ''reshape'', ''matmul'', ''reshape'']"

definition ffn_plan :: "checkpoint list" where
  "ffn_plan = map op_point [''rms_norm'', ''reshape'', ''matmul'', ''matmul'', ''swiglu'', ''matmul'', ''reshape'', ''add'']"

definition block_plan :: "pyval \<Rightarrow> checkpoint list" where
  "block_plan c =
     map op_point [''rms_norm'', ''reshape''] @ head_plan @ norm_plan c @
     map op_point [''transpose'', ''rope'', ''transpose'', ''rope''] @ attend_plan @ [op_point ''add''] @ ffn_plan"

definition layer_plan :: "pyval \<Rightarrow> int \<Rightarrow> checkpoint list" where
  "layer_plan c i = block_plan c @ [(''layer'', ''model.blocks.'' @ str_int i)]"

definition layers_plan :: "pyval \<Rightarrow> checkpoint list" where
  "layers_plan c =
     (case bindE (py_getitem c ''layers'') range_of of Inr layers \<Rightarrow> concat (map (layer_plan c) layers) | Inl e \<Rightarrow> [])"

definition output_plan :: "checkpoint list" where
  "output_plan = [op_point ''rms_norm'', (''layer'', ''model.final_norm''), op_point ''reshape'', op_point ''matmul'', op_point ''reshape'',
     (''output'', ''model.logits'')]"

definition forward_plan :: "pyval \<Rightarrow> checkpoint list" where
  "forward_plan c =
     [(''input'', ''model.tokens''), op_point ''embedding'', (''layer'', ''model.embedding'')] @ layers_plan c @ output_plan @
     [(''model'', ''model.forward'')]"

lemma logs_op: "logs (op_call tp name r) [op_point name]"
  unfolding op_call_def using logs_measure [OF logs_liftS] by fastforce

lemma logs_project: "logs (project tp ps name t) [op_point ''matmul'']"
  and logs_norm_with: "logs (norm_with tp ps name t) [op_point ''rms_norm'']"
  and logs_flatten: "logs (flatten_rows tp c t) [op_point ''reshape'']"
  and logs_unflatten: "logs (unflatten tp tokens c k extra t) [op_point ''reshape'']"
  and logs_qk_norm: "logs (qk_norm tp ps c name t) [op_point ''rms_norm'']"
  unfolding project_def norm_with_def flatten_rows_def unflatten_def qk_norm_def by (rule logs_op)+

lemmas logs_calls = logs_op logs_project logs_norm_with logs_flatten logs_unflatten logs_qk_norm logs_liftS logs_retS

lemma logs_rotate: "logs (rotate_heads tp c t) (map op_point [''transpose'', ''rope''])"
  unfolding rotate_heads_def by (rule logs_plan, (rule logs_bindS logs_calls)+) simp

lemma logs_normalize: "logs (normalize_heads tp ps c pre qk) (norm_plan c)"
proof (cases "py_get c ''qk_norm'' (VBool False)")
  case (Inl e)
  then show ?thesis by (intro logs_fails) (simp add: normalize_heads_def)
next
  case (Inr flag)
  have "logs (bindS (qk_norm tp ps c (pre @ ''.attention.q_norm.weight'') (fst qk)) (\<lambda>query.
          bindS (qk_norm tp ps c (pre @ ''.attention.k_norm.weight'') (snd qk)) (\<lambda>key. retS (query, key))))
          (map op_point [''rms_norm'', ''rms_norm''])"
    by (rule logs_plan, (rule logs_bindS logs_calls)+) simp
  then show ?thesis using Inr by (simp add: normalize_heads_def norm_plan_def logs_retS [unfolded retS_def [abs_def]])
qed

lemma logs_split: "logs (split_heads tp ps tokens c pre flat head) head_plan"
  unfolding split_heads_def head_plan_def by (rule logs_plan, (rule logs_bindS logs_calls)+) simp

lemma logs_attend: "logs (attend tp ps tokens c pre head qk v) attend_plan"
  unfolding attend_def attend_plan_def by (rule logs_plan, (rule logs_bindS logs_calls)+) simp

lemma logs_feed_forward: "logs (feed_forward tp ps tokens c pre t) ffn_plan"
  unfolding feed_forward_def ffn_plan_def by (rule logs_plan, (rule logs_bindS logs_calls)+) simp

lemma logs_block: "logs (block_forward tp ps tokens c pre hidden) (block_plan c)"
  unfolding block_forward_def block_plan_def
  by (rule logs_plan, (rule logs_bindS logs_calls logs_split logs_normalize logs_rotate logs_attend logs_feed_forward logs_pair)+) simp

lemma logs_layer: "logs (measure_call ops ''layer'' (''model.blocks.'' @ str_int i) (block_forward tp ps tokens c pre hidden)) (layer_plan c i)"
  unfolding layer_plan_def by (intro logs_measure logs_block)

lemma logs_blocks: "logs (run_blocks tp ps tokens c layers hidden) (concat (map (layer_plan c) layers))"
proof (induction layers arbitrary: hidden)
  case (Cons i layers)
  then show ?case unfolding run_blocks.simps list.map concat.simps by (intro logs_bindS logs_layer)
qed (simp add: logs_retS)

lemma logs_output: "logs (output_logits tp ps tokens c hidden) output_plan"
  unfolding output_logits_def output_plan_def
  by (rule logs_plan, (rule logs_bindS logs_calls logs_measure logs_record)+) simp

lemma logs_layers:
  "logs (bindS (liftS (bindE (py_getitem c ''layers'') range_of)) (\<lambda>layers.
     bindS (run_blocks tp ps tokens c layers hidden) (\<lambda>hidden1. output_logits tp ps tokens c hidden1))) (layers_plan c @ output_plan)"
proof (cases "bindE (py_getitem c ''layers'') range_of")
  case (Inl e)
  then show ?thesis by (intro logs_fails) simp
next
  case (Inr layers)
  then show ?thesis by (simp add: layers_plan_def logs_bindS logs_blocks logs_output)
qed

lemma logs_body: "logs (forward_body tp ps tokens c) ([(''input'', ''model.tokens'')] @ ([op_point ''embedding''] @ [(''layer'', ''model.embedding'')]) @
    layers_plan c @ output_plan)"
  unfolding forward_body_def by (intro logs_bindS logs_record logs_measure logs_op logs_layers)

lemma logs_forward: "logs (model_forward tp ps tokens c) (forward_plan c)"
  unfolding model_forward_def forward_plan_def by (rule logs_plan, rule logs_measure, rule logs_body) simp

lemma logs_loss: "logs (model_loss tp ps tokens targets c) (forward_plan c)"
  unfolding model_loss_def by (rule logs_plan, rule logs_bindS, rule logs_forward, rule logs_liftS) simp

section \<open>A forward pass keeps its session well-formed\<close>

lemma keeps_retS: "keeps_session (retS x)"
  by (simp add: keeps_session_def)

lemma keeps_measure: "keeps_session f \<Longrightarrow> keeps_session (measure_call ops kind name f)"
  using measure_keeps_session_aux [of f] unfolding keeps_session_def by blast

lemma keeps_op: "keeps_session (op_call tp name r)"
  unfolding op_call_def by (intro keeps_measure keeps_liftS)

lemma keeps_normalize: "keeps_session (normalize_heads tp ps c pre qk)"
  unfolding normalize_heads_def qk_norm_def by (intro keeps_bindS keeps_liftS) (simp add: keeps_bindS keeps_op keeps_retS)

lemmas block_parts = norm_with_def flatten_rows_def split_heads_def project_def unflatten_def rotate_heads_def attend_def feed_forward_def

lemma keeps_pair: "(\<And>a b. keeps_session (f a b)) \<Longrightarrow> keeps_session (case x of (a, b) \<Rightarrow> f a b)"
  by (cases x) simp

lemma keeps_block: "keeps_session (block_forward tp ps tokens c pre hidden)"
  unfolding block_forward_def block_parts by (intro keeps_bindS keeps_op keeps_liftS keeps_retS keeps_normalize keeps_pair)

lemma keeps_blocks: "keeps_session (run_blocks tp ps tokens c layers hidden)"
  by (induction layers arbitrary: hidden) (simp_all add: keeps_bindS keeps_measure keeps_block keeps_retS)

lemma keeps_forward: "keeps_session (model_forward tp ps tokens c)"
  unfolding model_forward_def forward_body_def output_logits_def block_parts
  by (intro keeps_bindS keeps_op keeps_liftS keeps_record keeps_measure keeps_blocks)

end
