(* ===== verification/TorchMain.thy ===== *)
theory TorchMain imports TorchTrace PyText begin

text \<open>
  The command of \<open>tools/alignment/pytorch_runner.py\<close>: its options, the parameters it reads, the
  sessions it runs and the files it writes. The state is the world of PyTorch and the output
  directory; a session lives in the part of the command that made it. The properties say what the
  trace files hold, and that the run record is written last.
\<close>

section \<open>Options and inputs\<close>

record runner_args =
  pr_device :: string
  pr_run_id :: string
  pr_warmup :: int
  pr_repetitions :: int
  pr_max_captured :: int

definition default_runner_args :: runner_args where
  "default_runner_args =
     \<lparr>pr_device = ''cpu'', pr_run_id = ''tiny-alignment'', pr_warmup = 2, pr_repetitions = 10, pr_max_captured = 4096\<rparr>"

definition runner_parse_args :: "runner_args \<Rightarrow> runner_args py" where
  "runner_parse_args a =
     thenE (raise_if (pr_device a \<notin> {''cpu'', ''cuda''}) usage)
    (thenE (raise_if (pr_warmup a < 0 \<or> pr_repetitions a \<le> 0 \<or> pr_max_captured a \<le> 0) usage) (Inr a))"

text \<open>What the directory of the C++ run holds: the parameter trace and \<open>microllm_run.json\<close>.\<close>

record runner_input =
  ri_parameters :: "pyval py list"
  ri_run :: "pyval py"

definition check_parameter :: "pyval \<Rightarrow> unit py" where
  "check_parameter r =
     bindE (orM (bindE (py_getitem r ''kind'') (\<lambda>k. Inr (py_ne k (VStr ''parameter''))))
                (bindE (py_getitem r ''values_truncated'') (\<lambda>t. Inr (py_truthy t)))) (\<lambda>bad.
     if bad then bindE (py_getitem r ''name'') (\<lambda>_. Inl (ValueError ''parameter trace is incomplete'')) else Inr ())"

definition load_parameter :: "'w torch \<Rightarrow> string \<Rightarrow> params \<Rightarrow> pyval \<Rightarrow> params py" where
  "load_parameter tp device ps r =
     thenE (check_parameter r)
    (bindE (py_getitem r ''values'') (\<lambda>values.
     bindE (tp_call tp ''tensor'' [Val values, Text ''float32'', Text device]) (\<lambda>t.
     bindE (py_getitem r ''shape'') (\<lambda>shape.
     bindE (tp_call tp ''reshape'' [Ten t, Val shape]) (\<lambda>t1.
     bindE (text_field r ''name'') (\<lambda>name. Inr (dict_set name t1 ps)))))))"

definition load_parameters :: "'w torch \<Rightarrow> pyval py list \<Rightarrow> string \<Rightarrow> params py" where
  "load_parameters tp lines device =
     bindE (load_jsonl lines) (\<lambda>records.
     bindE (foldM (load_parameter tp device) [] records) (\<lambda>ps.
     thenE (raise_if (ps = []) (ValueError ''parameter trace is empty'')) (Inr ps)))"

section \<open>Sessions\<close>

definition make_session :: "runner_args \<Rightarrow> string \<Rightarrow> bool \<Rightarrow> bool \<Rightarrow> bool \<Rightarrow> bool \<Rightarrow> trace_session" where
  "make_session a phase operators layers model capture =
     (new_session ''pytorch'' (pr_run_id a) phase (pr_device a))
       \<lparr>ts_record_operators := operators, ts_record_layers := layers, ts_record_model := model, ts_capture_values := capture,
        ts_max_captured := pr_max_captured a\<rparr>"

type_synonym ('w, 'a) lab = "('w \<times> outdir, 'a) action"

definition on_world :: "('w, 'a) action \<Rightarrow> ('w, 'a) lab" where
  "on_world m wd = (case m (fst wd) of (r, w) \<Rightarrow> (r, (w, snd wd)))"

definition on_directory :: "(outdir, 'a) action \<Rightarrow> ('w, 'a) lab" where
  "on_directory m wd = (case m (snd wd) of (r, d) \<Rightarrow> (r, (fst wd, d)))"

text \<open>Runs \<open>m\<close> on a session and gives the session it left.\<close>

definition with_session :: "trace_session \<Rightarrow> ('w, 'a) traced \<Rightarrow> ('w, 'a \<times> trace_session) lab" where
  "with_session s m wd =
     (case m (s, fst wd) of (r, (s1, w)) \<Rightarrow> ((case r of Inl e \<Rightarrow> Inl e | Inr x \<Rightarrow> Inr (x, s1)), (w, snd wd)))"

definition write_trace :: "string \<Rightarrow> trace_session \<Rightarrow> ('w, unit) lab" where
  "write_trace name s = on_directory (put name (VList (ts_records s)))"

fun times :: "nat \<Rightarrow> ('s, unit) action \<Rightarrow> ('s, unit) action" where
  "times 0 m = retS ()"
| "times (Suc n) m = thenS m (times n m)"

text \<open>\<open>for iteration in range(n): session.iteration = iteration; ...\<close>.\<close>

fun timed_passes :: "('w, tensor) traced \<Rightarrow> int list \<Rightarrow> trace_session \<Rightarrow> ('w, trace_session) lab" where
  "timed_passes m [] s = retS s"
| "timed_passes m (i # iterations) s =
     bindS (with_session (s\<lparr>ts_iteration := i\<rparr>) m) (\<lambda>(_, s1). timed_passes m iterations s1)"

definition iterations :: "runner_args \<Rightarrow> int list" where
  "iterations a = map int [0..<nat (pr_repetitions a)]"

section \<open>The inference part\<close>

definition warm_up :: "runner_args \<Rightarrow> ('w, tensor) traced \<Rightarrow> ('w, unit) lab" where
  "warm_up a forward =
     times (nat (pr_warmup a))
       (bindS (with_session (make_session a ''disabled'' False False False False) forward) (\<lambda>_. retS ()))"

definition trace_values :: "runner_args \<Rightarrow> ('w, tensor) traced \<Rightarrow> ('w, unit) lab" where
  "trace_values a forward =
     bindS (with_session ((make_session a ''values'' True True True True)\<lparr>ts_iteration := 0\<rparr>) forward) (\<lambda>(_, s).
     write_trace ''pytorch_values.jsonl'' s)"

definition time_operators :: "runner_args \<Rightarrow> ('w, tensor) traced \<Rightarrow> ('w, unit) lab" where
  "time_operators a forward =
     bindS (timed_passes forward (iterations a) (make_session a ''operator_timing'' True False False False))
       (write_trace ''pytorch_operator_timing.jsonl'')"

definition time_layers :: "runner_args \<Rightarrow> ('w, tensor) traced \<Rightarrow> ('w, unit) lab" where
  "time_layers a forward =
     bindS (timed_passes forward (iterations a) (make_session a ''layer_timing'' False True True False))
       (write_trace ''pytorch_layer_timing.jsonl'')"

text \<open>\<open>with torch.inference_mode(): ...\<close>.\<close>

definition inference_mode :: "'w torch \<Rightarrow> ('w, unit) lab \<Rightarrow> ('w, unit) lab" where
  "inference_mode tp m = thenS (on_world (tp_inference tp True)) (finallyS m (on_world (tp_inference tp False)))"

definition run_inference :: "'w torch \<Rightarrow> runner_args \<Rightarrow> ('w, tensor) traced \<Rightarrow> ('w, unit) lab" where
  "run_inference tp a forward =
     inference_mode tp
       (thenS (warm_up a forward) (thenS (trace_values a forward) (thenS (time_operators a forward) (time_layers a forward))))"

section \<open>The training part\<close>

definition differentiable_parameters :: "'w torch \<Rightarrow> params \<Rightarrow> ('w, params) lab" where
  "differentiable_parameters tp ps =
     mapS (\<lambda>(name, t).
       bindS (liftS (bindE (tp_call tp ''detach'' [Ten t]) (\<lambda>d. tp_call tp ''clone'' [Ten d]))) (\<lambda>copy.
       bindS (on_world (tp_requires_grad tp copy)) (\<lambda>leaf. retS (name, leaf)))) ps"

fun record_gradients :: "'w torch \<Rightarrow> params \<Rightarrow> ('w, unit) traced" where
  "record_gradients tp [] = retS ()"
| "record_gradients tp ((name, t) # ps) =
     bindS (AlignCommon.inside (\<lambda>w. (Inr (tp_grad tp t w), w))) (\<lambda>gradient.
     case gradient of
       None \<Rightarrow> liftS (Inl (RuntimeError ''missing gradient for parameter''))
     | Some g \<Rightarrow> bindS (on_session (record_tensor ''parameter'' (''gradient.'' @ name) g (Fin 0))) (\<lambda>_. record_gradients tp ps))"

definition trace_gradients :: "'w torch \<Rightarrow> params \<Rightarrow> tensor \<Rightarrow> ('w, unit) traced" where
  "trace_gradients tp training loss =
     bindS (on_session (record_tensor ''output'' ''training.loss'' loss (Fin 0))) (\<lambda>_. record_gradients tp training)"

definition trace_training ::
  "'w torch \<Rightarrow> runner_args \<Rightarrow> params \<Rightarrow> (params \<Rightarrow> ('w, tensor) traced) \<Rightarrow> trace_session \<Rightarrow> ('w, trace_session) lab" where
  "trace_training tp a ps loss_of disabled =
     bindS (differentiable_parameters tp ps) (\<lambda>training.
     bindS (with_session disabled (loss_of training)) (\<lambda>(loss, disabled1).
     bindS (on_world (tp_backward tp loss)) (\<lambda>_.
     bindS (with_session (make_session a ''training_values'' False False False True) (trace_gradients tp training loss)) (\<lambda>(_, s).
     bindS (write_trace ''pytorch_training_values.jsonl'' s) (\<lambda>_. retS disabled1)))))"

text \<open>One warm-up or timed step: fresh parameters and their loss.\<close>

definition fresh_loss ::
  "'w torch \<Rightarrow> params \<Rightarrow> (params \<Rightarrow> ('w, tensor) traced) \<Rightarrow> trace_session \<Rightarrow> ('w, tensor \<times> trace_session) lab" where
  "fresh_loss tp ps loss_of disabled =
     bindS (differentiable_parameters tp ps) (\<lambda>leaves. with_session disabled (loss_of leaves))"

fun warm_backward ::
  "'w torch \<Rightarrow> params \<Rightarrow> (params \<Rightarrow> ('w, tensor) traced) \<Rightarrow> nat \<Rightarrow> trace_session \<Rightarrow> ('w, trace_session) lab" where
  "warm_backward tp ps loss_of 0 disabled = retS disabled"
| "warm_backward tp ps loss_of (Suc n) disabled =
     bindS (fresh_loss tp ps loss_of disabled) (\<lambda>(loss, disabled1).
     bindS (on_world (tp_backward tp loss)) (\<lambda>_. warm_backward tp ps loss_of n disabled1))"

definition run_backward :: "'w torch \<Rightarrow> tensor \<Rightarrow> ('w, tensor) traced" where
  "run_backward tp loss =
     measure_call (tp_device tp) ''model'' ''model.backward'' (bindS (AlignCommon.inside (tp_backward tp loss)) (\<lambda>_. retS loss))"

fun backward_passes ::
  "'w torch \<Rightarrow> params \<Rightarrow> (params \<Rightarrow> ('w, tensor) traced) \<Rightarrow> int list \<Rightarrow> trace_session \<Rightarrow> trace_session \<Rightarrow> ('w, trace_session) lab" where
  "backward_passes tp ps loss_of [] disabled s = retS s"
| "backward_passes tp ps loss_of (i # its) disabled s =
     bindS (fresh_loss tp ps loss_of disabled) (\<lambda>(loss, disabled1).
     bindS (with_session (s\<lparr>ts_iteration := i\<rparr>) (run_backward tp loss)) (\<lambda>(_, s1).
     backward_passes tp ps loss_of its disabled1 s1))"

definition time_backward ::
  "'w torch \<Rightarrow> runner_args \<Rightarrow> params \<Rightarrow> (params \<Rightarrow> ('w, tensor) traced) \<Rightarrow> trace_session \<Rightarrow> ('w, unit) lab" where
  "time_backward tp a ps loss_of disabled =
     bindS (warm_backward tp ps loss_of (nat (pr_warmup a)) disabled) (\<lambda>disabled1.
     bindS (backward_passes tp ps loss_of (iterations a) disabled1 (make_session a ''backward_timing'' False False True False))
       (write_trace ''pytorch_backward_timing.jsonl''))"

section \<open>The command\<close>

definition runner_metadata :: "'w torch \<Rightarrow> runner_args \<Rightarrow> pyval \<Rightarrow> pyval" where
  "runner_metadata tp a c =
     VDict [(''schema_version'', VInt 1), (''framework'', VStr ''pytorch''), (''run_id'', VStr (pr_run_id a)),
       (''device'', VStr (pr_device a)), (''torch_version'', VStr (tp_version tp)), (''torch_hip_version'', tp_hip_version tp),
       (''warmup'', VInt (pr_warmup a)), (''repetitions'', VInt (pr_repetitions a)), (''model'', c)]"

definition int_tensor :: "'w torch \<Rightarrow> int list \<Rightarrow> string \<Rightarrow> string \<Rightarrow> tensor py" where
  "int_tensor tp row dtype device = tp_call tp ''tensor'' [Val (VList [VList (map VInt row)]), Text dtype, Text device]"

definition runner_inputs :: "'w torch \<Rightarrow> runner_input \<Rightarrow> runner_args \<Rightarrow> (runner_args \<times> params \<times> pyval \<times> tensor \<times> tensor) py" where
  "runner_inputs tp input a0 =
     bindE (runner_parse_args a0) (\<lambda>a.
     thenE (raise_if (pr_device a = ''cuda'' \<and> \<not> tp_cuda_available tp)
              (RuntimeError ''PyTorch CUDA/ROCm device requested but unavailable''))
    (bindE (load_parameters tp (ri_parameters input) (pr_device a)) (\<lambda>ps.
     bindE (bindE (ri_run input) (\<lambda>doc. py_getitem doc ''model'')) (\<lambda>c.
     bindE (int_tensor tp [0, 1, 2, 3] ''int32'' (pr_device a)) (\<lambda>tokens.
     bindE (int_tensor tp [1, 2, 3, 0] ''int64'' (pr_device a)) (\<lambda>targets.
     Inr (a, ps, c, tokens, targets)))))))"

definition run_training :: "'w torch \<Rightarrow> runner_args \<Rightarrow> params \<Rightarrow> (params \<Rightarrow> ('w, tensor) traced) \<Rightarrow> ('w, unit) lab" where
  "run_training tp a ps loss_of =
     bindS (trace_training tp a ps loss_of (make_session a ''disabled'' False False False False)) (time_backward tp a ps loss_of)"

definition runner_main :: "'w torch \<Rightarrow> runner_input \<Rightarrow> runner_args \<Rightarrow> ('w, string list) lab" where
  "runner_main tp input a0 =
     bindS (liftS (runner_inputs tp input a0)) (\<lambda>(a, ps, c, tokens, targets).
     bindS (run_inference tp a (model_forward tp ps tokens c)) (\<lambda>_.
     bindS (run_training tp a ps (\<lambda>leaves. model_loss tp leaves tokens targets c)) (\<lambda>_.
     bindS (on_directory (put ''pytorch_run.json'' (runner_metadata tp a c))) (\<lambda>_.
     retS [''framework=pytorch'', ''device='' @ pr_device a, ''status=pass'']))))"


section \<open>What a session holds after a pass\<close>

lemma with_session_Inr: "with_session s m wd = (Inr (x, s1), wd') \<longleftrightarrow> m (s, fst wd) = (Inr x, (s1, fst wd')) \<and> snd wd' = snd wd"
  by (cases wd') (auto simp: with_session_def split: prod.splits sum.splits)

lemma on_world_Inr: "on_world m wd = (Inr x, wd') \<longleftrightarrow> m (fst wd) = (Inr x, fst wd') \<and> snd wd' = snd wd"
  by (cases wd') (auto simp: on_world_def split: prod.splits)

lemma write_trace_Inr: "write_trace name s wd = (r, wd') \<longleftrightarrow> r = Inr () \<and> wd' = (fst wd, dict_set name (VList (ts_records s)) (snd wd))"
  by (auto simp: write_trace_def on_directory_def put_def)

lemma wanted_iteration [simp]: "wanted (s\<lparr>ts_iteration := i\<rparr>) = wanted s" and checkpoints_iteration [simp]: "checkpoints (s\<lparr>ts_iteration := i\<rparr>) = checkpoints s"
  by (simp_all add: wanted_def enabled_def checkpoints_def fun_eq_iff)

lemma session_pass:
  assumes "logs m plan" and "with_session s m wd = (Inr (x, s1), wd')"
  shows "checkpoints s1 = checkpoints s @ wanted s plan \<and> wanted s1 = wanted s"
proof -
  have "m (s, fst wd) = (Inr x, (s1, fst wd'))" using assms(2) by (simp add: with_session_Inr)
  then have "leaves_trail s plan (Inr x) s1" using assms(1) unfolding logs_def by fastforce
  then show ?thesis by (auto simp: leaves_trail_def same_session_wanted)
qed

lemma timed_passes_trace:
  assumes "logs m plan" and "timed_passes m its s wd = (Inr s1, wd')"
  shows "checkpoints s1 = checkpoints s @ concat (replicate (length its) (wanted s plan)) \<and> snd wd' = snd wd"
  using assms(2)
proof (induction its arbitrary: s wd)
  case (Cons i its)
  then obtain x s2 wd1 where p: "with_session (s\<lparr>ts_iteration := i\<rparr>) m wd = (Inr (x, s2), wd1)"
    and rest: "timed_passes m its s2 wd1 = (Inr s1, wd')"
    by (auto simp: bindS_Inr)
  have "checkpoints s2 = checkpoints s @ wanted s plan" "wanted s2 = wanted s" using session_pass [OF assms(1) p] by simp_all
  then show ?case using Cons.IH [OF rest] p by (simp add: with_session_Inr)
qed simp

definition quiet :: "('w, 'a) lab \<Rightarrow> bool" where
  "quiet m \<longleftrightarrow> (\<forall>wd r wd'. m wd = (r, wd') \<longrightarrow> snd wd' = snd wd)"

lemma quiet_bindS: "quiet m \<Longrightarrow> (\<And>x. quiet (f x)) \<Longrightarrow> quiet (bindS m f)"
  unfolding quiet_def bindS_def by (fastforce split: prod.splits sum.splits)

lemma quiet_basic: "quiet (liftS r)" "quiet (retS x)" "quiet (on_world w)" "quiet (with_session s m)"
  by (auto simp: quiet_def on_world_def with_session_def split: prod.splits)

lemma quiet_mapS: "(\<And>x. quiet (f x)) \<Longrightarrow> quiet (mapS f xs)"
  by (induction xs) (simp_all add: quiet_bindS quiet_basic)

lemma quiet_pair: "(\<And>a b. quiet (f a b)) \<Longrightarrow> quiet (case x of (a, b) \<Rightarrow> f a b)"
  by (cases x) simp

lemma quiet_times: "quiet m \<Longrightarrow> quiet (times n m)"
  by (induction n) (simp_all add: quiet_bindS quiet_basic)

lemma quiet_differentiable: "quiet (differentiable_parameters tp ps)"
  unfolding differentiable_parameters_def by (intro quiet_mapS quiet_pair quiet_bindS quiet_basic)

lemma quiet_fresh_loss: "quiet (fresh_loss tp ps loss_of disabled)"
  unfolding fresh_loss_def by (intro quiet_bindS quiet_differentiable quiet_basic)

lemma quiet_timed: "quiet (timed_passes m its s)"
  by (induction its arbitrary: s) (auto intro!: quiet_bindS quiet_basic quiet_pair)

lemma quiet_warm_up: "quiet (warm_up a forward)"
  unfolding warm_up_def by (intro quiet_times quiet_bindS quiet_basic)

lemma quiet_warm_backward: "quiet (warm_backward tp ps loss_of n disabled)"
  by (induction n arbitrary: disabled) (auto intro!: quiet_bindS quiet_basic quiet_pair quiet_fresh_loss)

lemma quiet_backward_passes: "quiet (backward_passes tp ps loss_of its disabled s)"
  by (induction its arbitrary: disabled s) (auto intro!: quiet_bindS quiet_basic quiet_pair quiet_fresh_loss)

section \<open>What each part writes\<close>

definition writes :: "('w, 'a) lab \<Rightarrow> string \<Rightarrow> checkpoint list \<Rightarrow> bool" where
  "writes m name trail \<longleftrightarrow>
     (\<forall>wd x wd'. m wd = (Inr x, wd') \<longrightarrow>
        (\<exists>s. snd wd' = dict_set name (VList (ts_records s)) (snd wd) \<and> checkpoints s = trail))"

lemma fresh_session: "checkpoints (make_session a phase operators layers model capture) = []"
  by (simp add: checkpoints_def make_session_def new_session_def)

lemma session_switches:
  "wanted (make_session a phase operators layers model capture) plan =
     filter (\<lambda>c. if fst c = ''operator'' then operators else if fst c = ''layer'' then layers else if fst c = ''model'' then model else capture) plan"
  by (simp add: wanted_def enabled_def make_session_def new_session_def)

lemma writes_values:
  assumes "logs forward plan"
  shows "writes (trace_values a forward) ''pytorch_values.jsonl'' plan"
  unfolding writes_def
proof (intro allI impI)
  fix wd x wd' assume m: "trace_values a forward wd = (Inr x, wd')"
  define s0 where "s0 = (make_session a ''values'' True True True True)\<lparr>ts_iteration := 0\<rparr>"
  obtain y s wd1 where p: "with_session s0 forward wd = (Inr (y, s), wd1)" and w: "write_trace ''pytorch_values.jsonl'' s wd1 = (Inr x, wd')"
    using m by (auto simp: trace_values_def bindS_Inr s0_def)
  have "wanted s0 plan = plan" by (simp add: s0_def session_switches)
  then have "checkpoints s = plan" using session_pass [OF assms p] by (simp add: s0_def fresh_session)
  then show "\<exists>s. snd wd' = dict_set ''pytorch_values.jsonl'' (VList (ts_records s)) (snd wd) \<and> checkpoints s = plan"
    using w p by (auto simp: write_trace_Inr with_session_Inr)
qed

lemma writes_timed:
  assumes "logs m plan" and "checkpoints s = []"
  shows "writes (bindS (timed_passes m its s) (write_trace name)) name (concat (replicate (length its) (wanted s plan)))"
  unfolding writes_def using timed_passes_trace [OF assms(1)] assms(2) by (fastforce simp: bindS_Inr write_trace_Inr)

definition operator_points :: "checkpoint list \<Rightarrow> checkpoint list" where
  "operator_points plan = filter (\<lambda>c. fst c = ''operator'') plan"

definition layer_points :: "checkpoint list \<Rightarrow> checkpoint list" where
  "layer_points plan = filter (\<lambda>c. fst c \<in> {''layer'', ''model''}) plan"

lemma iterations_length: "length (iterations a) = nat (pr_repetitions a)"
  by (simp add: iterations_def)

lemma writes_operators:
  assumes "logs forward plan"
  shows "writes (time_operators a forward) ''pytorch_operator_timing.jsonl''
    (concat (replicate (nat (pr_repetitions a)) (operator_points plan)))"
proof -
  let ?s = "make_session a ''operator_timing'' True False False False"
  have points: "wanted ?s plan = operator_points plan"
    unfolding session_switches operator_points_def by (rule filter_cong) simp_all
  have "writes (bindS (timed_passes forward (iterations a) ?s) (write_trace ''pytorch_operator_timing.jsonl'')) ''pytorch_operator_timing.jsonl''
      (concat (replicate (length (iterations a)) (wanted ?s plan)))"
    by (rule writes_timed [OF assms fresh_session])
  then show ?thesis unfolding time_operators_def points iterations_length .
qed

lemma writes_layers:
  assumes "logs forward plan"
  shows "writes (time_layers a forward) ''pytorch_layer_timing.jsonl'' (concat (replicate (nat (pr_repetitions a)) (layer_points plan)))"
proof -
  let ?s = "make_session a ''layer_timing'' False True True False"
  have points: "wanted ?s plan = layer_points plan"
    unfolding session_switches layer_points_def by (rule filter_cong) auto
  have "writes (bindS (timed_passes forward (iterations a) ?s) (write_trace ''pytorch_layer_timing.jsonl'')) ''pytorch_layer_timing.jsonl''
      (concat (replicate (length (iterations a)) (wanted ?s plan)))"
    by (rule writes_timed [OF assms fresh_session])
  then show ?thesis unfolding time_layers_def points iterations_length .
qed

definition gradient_points :: "params \<Rightarrow> checkpoint list" where
  "gradient_points ps = (''output'', ''training.loss'') # map (\<lambda>(name, t). (''parameter'', ''gradient.'' @ name)) ps"

lemma logs_gradients: "logs (record_gradients tp ps) (map (\<lambda>(name, t). (''parameter'', ''gradient.'' @ name)) ps)"
proof (induction ps)
  case (Cons p ps)
  obtain name t where p: "p = (name, t)" by (cases p)
  have "logs (case gradient of None \<Rightarrow> liftS (Inl (RuntimeError ''missing gradient for parameter''))
     | Some g \<Rightarrow> bindS (on_session (record_tensor ''parameter'' (''gradient.'' @ name) g (Fin 0))) (\<lambda>_. record_gradients tp ps))
      ([(''parameter'', ''gradient.'' @ name)] @ map (\<lambda>(name, t). (''parameter'', ''gradient.'' @ name)) ps)" for gradient
  proof (cases gradient)
    case None
    then show ?thesis by (intro logs_fails) simp
  next
    case (Some g)
    show ?thesis unfolding Some option.case by (intro logs_bindS logs_record Cons.IH)
  qed
  then show ?case unfolding p record_gradients.simps list.map prod.case
    by (intro logs_thenS logs_inside) simp
next
  case Nil
  show ?case unfolding record_gradients.simps list.map by (rule logs_retS)
qed

lemma differentiable_names: "differentiable_parameters tp ps wd = (Inr leaves, wd') \<Longrightarrow> map fst leaves = map fst ps"
proof (induction ps arbitrary: wd leaves)
  case (Cons p ps)
  obtain name t where p: "p = (name, t)" by (cases p)
  obtain rest wd1 leaf where "leaves = (name, leaf) # rest" "differentiable_parameters tp ps wd1 = (Inr rest, wd')"
    using Cons.prems unfolding p by (fastforce simp: differentiable_parameters_def bindS_Inr)
  then show ?case using Cons.IH by (simp add: p)
qed (simp add: differentiable_parameters_def)

lemma gradient_points_names: "map fst ps = map fst qs \<Longrightarrow> gradient_points ps = gradient_points qs"
proof -
  have "gradient_points ps = (''output'', ''training.loss'') # map (\<lambda>n. (''parameter'', ''gradient.'' @ n)) (map fst ps)" for ps
    by (auto simp: gradient_points_def split: prod.splits)
  then show "map fst ps = map fst qs \<Longrightarrow> gradient_points ps = gradient_points qs" by metis
qed

lemma writes_training: "writes (trace_training tp a ps loss_of disabled) ''pytorch_training_values.jsonl'' (gradient_points ps)"
  unfolding writes_def
proof (intro allI impI)
  fix wd x wd' assume m: "trace_training tp a ps loss_of disabled wd = (Inr x, wd')"
  define s0 where "s0 = make_session a ''training_values'' False False False True"
  obtain training wd1 where d: "differentiable_parameters tp ps wd = (Inr training, wd1)"
    and m1: "bindS (with_session disabled (loss_of training)) (\<lambda>(loss, disabled1).
     bindS (on_world (tp_backward tp loss)) (\<lambda>_.
     bindS (with_session s0 (trace_gradients tp training loss)) (\<lambda>(_, s).
     bindS (write_trace ''pytorch_training_values.jsonl'' s) (\<lambda>_. retS disabled1)))) wd1 = (Inr x, wd')"
    using m unfolding trace_training_def s0_def [symmetric] bindS_Inr [of "differentiable_parameters tp ps"] by blast
  obtain loss disabled1 wd2 where l: "with_session disabled (loss_of training) wd1 = (Inr (loss, disabled1), wd2)"
    and m2: "bindS (on_world (tp_backward tp loss)) (\<lambda>_.
     bindS (with_session s0 (trace_gradients tp training loss)) (\<lambda>(_, s).
     bindS (write_trace ''pytorch_training_values.jsonl'' s) (\<lambda>_. retS disabled1))) wd2 = (Inr x, wd')"
    using m1 unfolding bindS_Inr [of "with_session disabled (loss_of training)"] by auto
  obtain u wd3 y s wd4 where b: "on_world (tp_backward tp loss) wd2 = (Inr u, wd3)"
    and p: "with_session s0 (trace_gradients tp training loss) wd3 = (Inr (y, s), wd4)"
    and m3: "bindS (write_trace ''pytorch_training_values.jsonl'' s) (\<lambda>_. retS disabled1) wd4 = (Inr x, wd')"
    using m2 unfolding bindS_Inr [of "on_world (tp_backward tp loss)"] bindS_Inr [of "with_session s0 (trace_gradients tp training loss)"] by auto
  have w: "write_trace ''pytorch_training_values.jsonl'' s wd4 = (Inr (), wd')" using m3 by (auto simp: bindS_Inr write_trace_Inr)
  have "logs (trace_gradients tp training loss) ([(''output'', ''training.loss'')] @ map (\<lambda>(name, t). (''parameter'', ''gradient.'' @ name)) training)"
    unfolding trace_gradients_def by (intro logs_bindS logs_record logs_gradients)
  then have "logs (trace_gradients tp training loss) (gradient_points training)" by (simp add: gradient_points_def)
  from session_pass [OF this p] have "checkpoints s = wanted s0 (gradient_points training)" by (simp add: s0_def fresh_session)
  also have "\<dots> = gradient_points training"
    unfolding s0_def session_switches gradient_points_def by (auto simp: filter_id_conv)
  finally have c: "checkpoints s = gradient_points ps" using gradient_points_names [OF differentiable_names [OF d]] by simp
  have "snd wd1 = snd wd" using quiet_differentiable [of tp ps] d unfolding quiet_def by blast
  then have "snd wd4 = snd wd" using l b p by (simp add: with_session_Inr on_world_Inr)
  then show "\<exists>s. snd wd' = dict_set ''pytorch_training_values.jsonl'' (VList (ts_records s)) (snd wd) \<and> checkpoints s = gradient_points ps"
    using w c by (auto simp: write_trace_Inr)
qed


lemma logs_backward: "logs (run_backward tp loss) [(''model'', ''model.backward'')]"
proof -
  have "logs (bindS (AlignCommon.inside (tp_backward tp loss)) (\<lambda>_. retS loss)) []"
    by (intro logs_thenS logs_inside logs_retS)
  then show ?thesis unfolding run_backward_def using logs_measure by fastforce
qed

lemma backward_passes_trace:
  assumes "backward_passes tp ps loss_of its disabled s wd = (Inr s1, wd')"
  shows "checkpoints s1 = checkpoints s @ concat (replicate (length its) (wanted s [(''model'', ''model.backward'')]))"
  using assms
proof (induction its arbitrary: disabled s wd)
  case (Cons i its)
  obtain loss disabled1 wd1 where f: "fresh_loss tp ps loss_of disabled wd = (Inr (loss, disabled1), wd1)"
    and m: "bindS (with_session (s\<lparr>ts_iteration := i\<rparr>) (run_backward tp loss)) (\<lambda>(_, s1).
     backward_passes tp ps loss_of its disabled1 s1) wd1 = (Inr s1, wd')"
    using Cons.prems unfolding backward_passes.simps bindS_Inr [of "fresh_loss tp ps loss_of disabled"] by auto
  obtain x s2 wd2 where p: "with_session (s\<lparr>ts_iteration := i\<rparr>) (run_backward tp loss) wd1 = (Inr (x, s2), wd2)"
    and rest: "backward_passes tp ps loss_of its disabled1 s2 wd2 = (Inr s1, wd')"
    using m unfolding bindS_Inr [of "with_session (s\<lparr>ts_iteration := i\<rparr>) (run_backward tp loss)"] by auto
  have "checkpoints s2 = checkpoints s @ wanted s [(''model'', ''model.backward'')]" "wanted s2 = wanted s"
    using session_pass [OF logs_backward p] by simp_all
  then show ?case using Cons.IH [OF rest] by simp
qed simp

lemma writes_backward:
  "writes (time_backward tp a ps loss_of disabled) ''pytorch_backward_timing.jsonl''
     (replicate (nat (pr_repetitions a)) (''model'', ''model.backward''))"
  unfolding writes_def
proof (intro allI impI)
  fix wd x wd' assume m: "time_backward tp a ps loss_of disabled wd = (Inr x, wd')"
  define s0 where "s0 = make_session a ''backward_timing'' False False True False"
  obtain disabled1 wd1 s wd2 where u: "warm_backward tp ps loss_of (nat (pr_warmup a)) disabled wd = (Inr disabled1, wd1)"
    and b: "backward_passes tp ps loss_of (iterations a) disabled1 s0 wd1 = (Inr s, wd2)"
    and w: "write_trace ''pytorch_backward_timing.jsonl'' s wd2 = (Inr x, wd')"
    using m unfolding time_backward_def s0_def [symmetric] bindS_Inr by blast
  have "wanted s0 [(''model'', ''model.backward'')] = [(''model'', ''model.backward'')]" "checkpoints s0 = []"
    by (simp_all add: s0_def session_switches fresh_session)
  then have c: "checkpoints s = replicate (nat (pr_repetitions a)) (''model'', ''model.backward'')"
    using backward_passes_trace [OF b] by (simp add: iterations_length)
  have "snd wd2 = snd wd" using quiet_warm_backward quiet_backward_passes u b unfolding quiet_def by metis
  then show "\<exists>s. snd wd' = dict_set ''pytorch_backward_timing.jsonl'' (VList (ts_records s)) (snd wd) \<and>
      checkpoints s = replicate (nat (pr_repetitions a)) (''model'', ''model.backward'')"
    using w c by (auto simp: write_trace_Inr)
qed

section \<open>The trace files\<close>

text \<open>The checkpoints of a trace file, in order.\<close>

definition file_trace :: "outdir \<Rightarrow> string \<Rightarrow> checkpoint list option" where
  "file_trace d name = (case map_of d name of Some (VList records) \<Rightarrow> Some (map checkpoint_of records) | _ \<Rightarrow> None)"

lemma writes_file: "writes m name trail \<Longrightarrow> m wd = (Inr x, wd') \<Longrightarrow>
    file_trace (snd wd') name = Some trail \<and> (\<forall>other. other \<noteq> name \<longrightarrow> map_of (snd wd') other = map_of (snd wd) other)"
  unfolding writes_def file_trace_def checkpoints_def by fastforce

lemma file_trace_kept: "map_of d' name = map_of d name \<Longrightarrow> file_trace d' name = file_trace d name"
  by (simp add: file_trace_def)

lemma finallyS_Inr: "finallyS m f w = (Inr x, w') \<Longrightarrow> \<exists>w1 u. m w = (Inr x, w1) \<and> f w1 = (Inr u, w')"
  by (auto simp: finallyS_def split: prod.splits sum.splits)

definition inference_files :: "runner_args \<Rightarrow> checkpoint list \<Rightarrow> outdir \<Rightarrow> bool" where
  "inference_files a plan d \<longleftrightarrow>
     file_trace d ''pytorch_values.jsonl'' = Some plan \<and>
     file_trace d ''pytorch_operator_timing.jsonl'' = Some (concat (replicate (nat (pr_repetitions a)) (operator_points plan))) \<and>
     file_trace d ''pytorch_layer_timing.jsonl'' = Some (concat (replicate (nat (pr_repetitions a)) (layer_points plan)))"

definition training_files :: "runner_args \<Rightarrow> params \<Rightarrow> outdir \<Rightarrow> bool" where
  "training_files a ps d \<longleftrightarrow>
     file_trace d ''pytorch_training_values.jsonl'' = Some (gradient_points ps) \<and>
     file_trace d ''pytorch_backward_timing.jsonl'' = Some (replicate (nat (pr_repetitions a)) (''model'', ''model.backward''))"

lemma run_inference_files:
  assumes "logs forward plan" and "run_inference tp a forward wd = (Inr x, wd')"
  shows "inference_files a plan (snd wd')"
proof -
  obtain wd0 wd4 where i0: "on_world (tp_inference tp True) wd = (Inr (), wd0)"
    and body: "thenS (warm_up a forward) (thenS (trace_values a forward) (thenS (time_operators a forward) (time_layers a forward))) wd0 = (Inr x, wd4)"
    and i1: "on_world (tp_inference tp False) wd4 = (Inr (), wd')"
    using assms(2) unfolding run_inference_def inference_mode_def bindS_Inr [of "on_world (tp_inference tp True)"]
    by (auto dest!: finallyS_Inr)
  obtain wd1 wd2 wd3 where v: "trace_values a forward wd1 = (Inr (), wd2)" and o: "time_operators a forward wd2 = (Inr (), wd3)"
    and l: "time_layers a forward wd3 = (Inr x, wd4)"
    using body unfolding bindS_Inr by (metis old.unit.exhaust)
  have d: "snd wd' = snd wd4" using i1 by (simp add: on_world_Inr)
  note fv = writes_file [OF writes_values [OF assms(1)] v] and fo = writes_file [OF writes_operators [OF assms(1)] o]
    and fl = writes_file [OF writes_layers [OF assms(1)] l]
  have "file_trace (snd wd4) ''pytorch_values.jsonl'' = file_trace (snd wd2) ''pytorch_values.jsonl''"
    "file_trace (snd wd4) ''pytorch_operator_timing.jsonl'' = file_trace (snd wd3) ''pytorch_operator_timing.jsonl''"
    by (intro file_trace_kept, use fo fl in simp)+
  then show ?thesis using fv fo fl d by (simp add: inference_files_def)
qed

lemma run_training_files:
  assumes "run_training tp a ps loss_of wd = (Inr x, wd')"
  shows "training_files a ps (snd wd') \<and>
    (\<forall>other. other \<notin> {''pytorch_training_values.jsonl'', ''pytorch_backward_timing.jsonl''} \<longrightarrow> map_of (snd wd') other = map_of (snd wd) other)"
proof -
  obtain disabled wd1 where t: "trace_training tp a ps loss_of (make_session a ''disabled'' False False False False) wd = (Inr disabled, wd1)"
    and b: "time_backward tp a ps loss_of disabled wd1 = (Inr x, wd')"
    using assms unfolding run_training_def bindS_Inr by blast
  note ft = writes_file [OF writes_training t] and fb = writes_file [OF writes_backward b]
  have "file_trace (snd wd') ''pytorch_training_values.jsonl'' = file_trace (snd wd1) ''pytorch_training_values.jsonl''"
    using fb by (auto intro!: file_trace_kept)
  then show ?thesis using ft fb by (simp add: training_files_def)
qed


text \<open>
  C10. When the command returns, the five trace files hold the checkpoints of the forward pass in the order of
  its plan: the values file all of them, the operator file only operators and the layer file only layers
  and the model, once for every repetition; the training file holds the loss and one gradient for every
  parameter, and the backward file one entry for every repetition. The run record is the one of these options.
\<close>

theorem runner_trace_files:
  assumes "runner_main tp input a0 wd = (Inr out, wd')"
  shows "\<exists>a ps c tokens targets. runner_inputs tp input a0 = Inr (a, ps, c, tokens, targets) \<and>
    inference_files a (forward_plan c) (snd wd') \<and> training_files a ps (snd wd') \<and>
    map_of (snd wd') ''pytorch_run.json'' = Some (runner_metadata tp a c) \<and> last out = ''status=pass''"
proof -
  obtain a ps c tokens targets where inputs: "runner_inputs tp input a0 = Inr (a, ps, c, tokens, targets)"
    and m: "bindS (run_inference tp a (model_forward tp ps tokens c)) (\<lambda>_.
     bindS (run_training tp a ps (\<lambda>leaves. model_loss tp leaves tokens targets c)) (\<lambda>_.
     bindS (on_directory (put ''pytorch_run.json'' (runner_metadata tp a c))) (\<lambda>_.
     retS [''framework=pytorch'', ''device='' @ pr_device a, ''status=pass'']))) wd = (Inr out, wd')"
    using assms by (cases "runner_inputs tp input a0") (auto simp: runner_main_def)
  obtain wd1 wd2 where i: "run_inference tp a (model_forward tp ps tokens c) wd = (Inr (), wd1)"
    and t: "run_training tp a ps (\<lambda>leaves. model_loss tp leaves tokens targets c) wd1 = (Inr (), wd2)"
    and w: "bindS (on_directory (put ''pytorch_run.json'' (runner_metadata tp a c))) (\<lambda>_.
     retS [''framework=pytorch'', ''device='' @ pr_device a, ''status=pass'']) wd2 = (Inr out, wd')"
    using m unfolding bindS_Inr [of "run_inference tp a (model_forward tp ps tokens c)"]
      bindS_Inr [of "run_training tp a ps (\<lambda>leaves. model_loss tp leaves tokens targets c)"] by auto
  have d: "snd wd' = dict_set ''pytorch_run.json'' (runner_metadata tp a c) (snd wd2)" and out: "last out = ''status=pass''"
    using w by (auto simp: bindS_Inr on_directory_def put_def)
  have kept: "file_trace (snd wd') n = file_trace (snd wd2) n" if "n \<noteq> ''pytorch_run.json''" for n
    using that d by (simp add: file_trace_def)
  note fi = run_inference_files [OF logs_forward i] and ft = run_training_files [OF t]
  have same: "file_trace (snd wd2) n = file_trace (snd wd1) n"
    if "n \<notin> {''pytorch_training_values.jsonl'', ''pytorch_backward_timing.jsonl''}" for n
    using that ft by (intro file_trace_kept) blast
  have "inference_files a (forward_plan c) (snd wd')" using fi by (simp add: inference_files_def kept same)
  moreover have "training_files a ps (snd wd')" using ft by (simp add: training_files_def kept)
  ultimately show ?thesis using inputs d out by auto
qed

end
