(* ===== verification/TorchProps.thy ===== *)
theory TorchProps imports TorchMain begin

text \<open>
  Properties of the PyTorch side: a pass that fails leaves a prefix of its trace, the run record is
  written last, and the two attention layouts compute the same.
\<close>

section \<open>A pass that fails\<close>

text \<open>
  C12. A forward pass appends to its session the enabled checkpoints of the plan in order. If it raises, what
  it appended is a prefix of them; nothing else of the session changes, and it stays well-formed.
\<close>

theorem forward_pass_trace:
  assumes "model_forward tp ps tokens c (s, w) = (r, (s', w'))" and "session_ok s"
  shows "\<exists>trail. checkpoints s' = checkpoints s @ trail \<and> prefix trail (wanted s (forward_plan c)) \<and>
     (\<not> isl r \<longrightarrow> trail = wanted s (forward_plan c)) \<and> same_session s s' \<and> session_ok s'"
proof -
  have "leaves_trail s (forward_plan c) r s'" using logs_forward assms(1) unfolding logs_def by fastforce
  moreover have "session_ok s'" using keeps_forward assms unfolding keeps_session_def by fastforce
  ultimately show ?thesis unfolding leaves_trail_def by blast
qed

section \<open>The run record\<close>

definition keeps_file :: "string \<Rightarrow> ('w, 'a) lab \<Rightarrow> bool" where
  "keeps_file n m \<longleftrightarrow> (\<forall>wd r wd'. m wd = (r, wd') \<longrightarrow> map_of (snd wd') n = map_of (snd wd) n)"

lemma keeps_file_bindS: "keeps_file n m \<Longrightarrow> (\<And>x. keeps_file n (f x)) \<Longrightarrow> keeps_file n (bindS m f)"
  unfolding keeps_file_def bindS_def by (fastforce split: prod.splits sum.splits)

lemma keeps_file_quiet: "quiet m \<Longrightarrow> keeps_file n m"
  unfolding quiet_def keeps_file_def by metis

lemma keeps_file_write: "name \<noteq> n \<Longrightarrow> keeps_file n (write_trace name s)"
  by (auto simp: keeps_file_def write_trace_Inr)

lemma keeps_file_finally: "keeps_file n m \<Longrightarrow> keeps_file n f \<Longrightarrow> keeps_file n (finallyS m f)"
  unfolding keeps_file_def finallyS_def by (fastforce split: prod.splits sum.splits)

lemma keeps_file_pair: "(\<And>a b. keeps_file n (f a b)) \<Longrightarrow> keeps_file n (case x of (a, b) \<Rightarrow> f a b)"
  by (cases x) simp

lemmas keeps_file_parts = keeps_file_bindS keeps_file_finally keeps_file_pair keeps_file_write
  keeps_file_quiet [OF quiet_warm_up] keeps_file_quiet [OF quiet_timed] keeps_file_quiet [OF quiet_differentiable]
  keeps_file_quiet [OF quiet_warm_backward] keeps_file_quiet [OF quiet_backward_passes] quiet_basic [THEN keeps_file_quiet]

lemma run_inference_keeps: "keeps_file ''pytorch_run.json'' (run_inference tp a forward)"
  unfolding run_inference_def inference_mode_def trace_values_def time_operators_def time_layers_def
  by (intro keeps_file_parts) simp_all

lemma run_training_keeps: "keeps_file ''pytorch_run.json'' (run_training tp a ps loss_of)"
  unfolding run_training_def trace_training_def time_backward_def
  by (intro keeps_file_parts) simp_all


section \<open>The two attention layouts\<close>

text \<open>
  The value of \<open>causal_gqa_attention_bthd\<close> has its heads in dimension 2. It is the other layout's
  result, transposed, for the transposed value, for any tensor operations in which repeating dimension 2
  and then swapping dimensions 1 and 2 is the same as swapping them and then repeating dimension 1, and the
  operations return.
\<close>

theorem attention_layouts_agree:
  assumes "\<And>t u n x. tp_call tp ''repeat_interleave'' [Ten t, Num n, Num 2] = Inr u \<Longrightarrow> swap_dims tp u 1 2 = Inr x \<Longrightarrow>
      \<exists>t'. swap_dims tp t 1 2 = Inr t' \<and> tp_call tp ''repeat_interleave'' [Ten t', Num n, Num 1] = Inr x"
    and "causal_gqa_attention_bthd tp query key v repeats scale = Inr out"
  shows "\<exists>v' inner. swap_dims tp v 1 2 = Inr v' \<and> causal_gqa_attention tp query key v' repeats scale = Inr inner \<and>
      swap_dims tp inner 1 2 = Inr out"
proof -
  obtain key1 v1 p vt inner where k: "repeat_heads tp repeats 1 key = Inr key1" and v1: "repeat_heads tp repeats 2 v = Inr v1"
    and p: "attention_probabilities tp query key1 scale = Inr p" and vt: "swap_dims tp v1 1 2 = Inr vt"
    and inner: "two tp ''matmul'' p vt = Inr inner" and out: "swap_dims tp inner 1 2 = Inr out"
    using assms(2) unfolding causal_gqa_attention_bthd_def bindE_Inr_iff by blast
  have "\<exists>v'. swap_dims tp v 1 2 = Inr v' \<and> repeat_heads tp repeats 1 v' = Inr vt"
  proof (cases "repeats = 1")
    case True
    then show ?thesis using v1 vt by (simp add: repeat_heads_def)
  next
    case False
    then have "tp_call tp ''repeat_interleave'' [Ten v, Num repeats, Num 2] = Inr v1" using v1 by (simp add: repeat_heads_def)
    from assms(1) [OF this vt] show ?thesis using False by (simp add: repeat_heads_def)
  qed
  then show ?thesis using k p inner out by (auto simp: causal_gqa_attention_def)
qed

end
