(* ===== verification/TorchSample.thy ===== *)
theory TorchSample imports TorchProps begin

text \<open>
  The properties of the PyTorch side at a concrete run: tensor operations that answer without values,
  one block, and the proof that the command returns on them.
\<close>

section \<open>Actions that return\<close>

definition gives :: "('s, 'a) action \<Rightarrow> ('a \<Rightarrow> bool) \<Rightarrow> bool" where
  "gives m P \<longleftrightarrow> (\<forall>s. \<exists>x s'. m s = (Inr x, s') \<and> P x)"

definition ok :: "'a py \<Rightarrow> ('a \<Rightarrow> bool) \<Rightarrow> bool" where
  "ok r P \<longleftrightarrow> (\<exists>x. r = Inr x \<and> P x)"

named_theorems gives_intro \<open>an action returns when its parts do\<close>

lemma gives_bindS [gives_intro]: "gives m P \<Longrightarrow> (\<And>x. P x \<Longrightarrow> gives (f x) Q) \<Longrightarrow> gives (bindS m f) Q"
  unfolding gives_def by (metis bindS_step)

lemma gives_liftS [gives_intro]: "ok r P \<Longrightarrow> gives (liftS r) P"
  by (auto simp: gives_def ok_def)

lemma gives_retS [gives_intro]: "P x \<Longrightarrow> gives (retS x) P"
  by (auto simp: gives_def)

lemma ok_bindE [gives_intro]: "ok r P \<Longrightarrow> (\<And>x. P x \<Longrightarrow> ok (f x) Q) \<Longrightarrow> ok (bindE r f) Q"
  by (auto simp: ok_def)

lemma ok_Inr [gives_intro]: "P x \<Longrightarrow> ok (Inr x) P"
  by (simp add: ok_def)

lemma gives_any: "gives m P \<Longrightarrow> gives m (\<lambda>_. True)"
  unfolding gives_def by blast

section \<open>Tensor operations that answer without values\<close>

definition good :: "tensor \<Rightarrow> bool" where
  "good t \<longleftrightarrow> tn_items t = [] \<and> length (tn_shape t) = 4"

definition four_dims :: "tensor \<Rightarrow> int list" where
  "four_dims t = take 4 (tn_shape t @ [1, 1, 1, 1])"

definition axis_of :: "int \<Rightarrow> nat" where
  "axis_of i = nat (if 0 \<le> i then i else 4 + i)"

definition base_tensor :: tensor where
  "base_tensor = \<lparr>tn_items = [], tn_shape = [1, 4, 1, 2], tn_dtype = ''torch.float32'', tn_device = ''cpu'', tn_numel = 0, tn_node = 0\<rparr>"

text \<open>\<open>transpose\<close> and \<open>repeat_interleave\<close> act on the shape, the others keep it.\<close>

definition shape_call :: "string \<Rightarrow> targ list \<Rightarrow> tensor py" where
  "shape_call f args =
     (case args of
        [Ten t, Val (VInt i), Val (VInt j)] \<Rightarrow>
          if f = ''transpose''
          then Inr (t\<lparr>tn_items := [], tn_shape := (four_dims t)[axis_of i := four_dims t ! axis_of j, axis_of j := four_dims t ! axis_of i]\<rparr>)
          else Inr (t\<lparr>tn_items := [], tn_shape := (four_dims t)[axis_of j := i * (four_dims t ! axis_of j)]\<rparr>)
      | _ \<Rightarrow> Inr base_tensor)"

definition sample_torch :: "int torch" where
  "sample_torch =
     \<lparr>tp_call = shape_call, tp_device = \<lparr>do_clock = (\<lambda>w. (0, w + 1)), do_cuda_synchronize = (\<lambda>w. (Inr (), w))\<rparr>,
      tp_cuda_available = False, tp_inference = (\<lambda>_ w. (Inr (), w)), tp_requires_grad = (\<lambda>t w. (Inr t, w)),
      tp_backward = (\<lambda>_ w. (Inr (), w)), tp_grad = (\<lambda>t w. Some base_tensor), tp_version = ''2.0'', tp_hip_version = VNone\<rparr>"

abbreviation (input) tp where "tp \<equiv> sample_torch"

lemma call_good [gives_intro]: "ok (tp_call tp f args) good"
  by (auto simp: sample_torch_def shape_call_def ok_def good_def base_tensor_def four_dims_def split: list.split targ.split pyval.split)

lemma two_good [gives_intro]: "ok (two tp f a b) good" and reshape_good [gives_intro]: "ok (reshape tp a dims) good"
  and swap_good [gives_intro]: "ok (swap_dims tp a i j) good"
  by (simp_all add: two_def reshape_def swap_dims_def call_good)

lemma dim_good: "good t \<Longrightarrow> - 4 \<le> i \<Longrightarrow> i < 4 \<Longrightarrow> ok (dim_at t i) (\<lambda>_. True)"
  by (simp add: dim_at_def good_def list_index_def ok_def)

lemma rope_good [gives_intro]: "good t \<Longrightarrow> ok (rope tp t 2 0 base) good"
proof -
  assume t: "good t"
  have d: "ok (dim_at t 2) (\<lambda>_. True)" "ok (dim_at t (- 1)) (\<lambda>_. True)" using t by (simp_all add: dim_good)
  have a: "ok (rope_angles tp t 2 0 base) good"
    unfolding rope_angles_def by (rule d gives_intro)+
  have s: "ok (rope_view_shape t 2) (\<lambda>_. True)"
    using t unfolding rope_view_shape_def set_index_def dim_at_def list_index_def good_def by (simp add: ok_def)
  have r: "ok (rotate_pairs tp t u v) good" for u v
    unfolding rotate_pairs_def by (rule gives_intro)+
  show ?thesis unfolding rope_def by (rule a s r gives_intro)+
qed

lemma softmax_good [gives_intro]: "good t \<Longrightarrow> ok (causal_softmax tp t) good"
proof -
  assume "good t"
  then have d: "ok (dim_at t (- 1)) (\<lambda>_. True)" by (simp add: dim_good)
  show ?thesis unfolding causal_softmax_def by (rule d gives_intro)+
qed

lemma repeat_good [gives_intro]: "good t \<Longrightarrow> ok (repeat_heads tp n i t) good"
  by (simp add: repeat_heads_def call_good ok_Inr)

lemma attention_good [gives_intro]: "good q \<Longrightarrow> good k \<Longrightarrow> good v \<Longrightarrow> ok (causal_gqa_attention_bthd tp q k v n scale) good"
  unfolding causal_gqa_attention_bthd_def attention_probabilities_def by (rule gives_intro | assumption)+

lemma rms_norm_good [gives_intro]: "good t \<Longrightarrow> ok (rms_norm tp t w e) good"
  unfolding rms_norm_def by (rule gives_intro dim_good | simp)+

section \<open>Measuring and recording return\<close>

lemma record_good: "good t \<Longrightarrow> gives (on_session (record_tensor kind name t ms)) (\<lambda>x. x = t)"
  by (auto simp: gives_def on_session_def record_tensor_def trace_record_def tensor_values_def good_def value_statistics_def Let_def
      split: prod.splits)

lemma clock_zero: "gives (perf_counter_ns (tp_device tp)) (\<lambda>x. x = 0)" and sync: "gives (synchronize (tp_device tp)) (\<lambda>_. True)"
  by (auto simp: gives_def perf_counter_ns_def synchronize_def AlignCommon.inside_def sample_torch_def)

lemma measure_good [gives_intro]:
  assumes "gives f good"
  shows "gives (measure_call (tp_device tp) kind name f) good"
proof -
  have zero: "ok (bindE (float_of_int (finish - start)) (\<lambda>ns. fdiv ns (Fin 1000000))) (\<lambda>_. True)"
    if "start = 0" "finish = 0" for start finish
  proof -
    have "float_of_int 0 = Inr (Fin 0)" using float_of_int_exact [of 0] by simp
    then show ?thesis using that fdiv_total [of "Fin 1000000" "Fin 0"] by (auto simp: ok_def simp del: fdiv.simps)
  qed
  have "gives (on_session (record_tensor kind name t ms)) good" if "good t" for t ms
    using record_good [OF that] that unfolding gives_def by metis
  then have "gives (thenS (synchronize (tp_device tp))
           (bindS (perf_counter_ns (tp_device tp)) (\<lambda>start.
            bindS f (\<lambda>out.
            thenS (synchronize (tp_device tp))
           (bindS (perf_counter_ns (tp_device tp)) (\<lambda>finish.
            bindS (liftS (bindE (float_of_int (finish - start)) (\<lambda>ns. fdiv ns (Fin 1000000)))) (\<lambda>elapsed_ms.
            on_session (record_tensor kind name out elapsed_ms)))))))) good"
    by (intro gives_bindS [OF sync] gives_bindS [OF clock_zero] gives_bindS [OF assms] gives_bindS [OF gives_liftS [OF zero]])
  then show ?thesis using assms unfolding gives_def measure_call_def by simp
qed

lemma op_good [gives_intro]: "ok r good \<Longrightarrow> gives (op_call tp name r) good"
  unfolding op_call_def by (intro measure_good gives_liftS)


section \<open>A forward pass returns\<close>

definition sample_config :: pyval where
  "sample_config =
     VDict [(''layers'', VInt 1), (''dimension'', VInt 4), (''heads'', VInt 2), (''kv_heads'', VInt 1), (''rope_base'', VInt 10000),
            (''vocabulary_size'', VInt 8)]"

definition sample_names :: "string list" where
  "sample_names = ''token_embedding.weight'' # map (\<lambda>n. ''blocks.0.'' @ n @ ''.weight'')
     [''attention_norm'', ''attention.q_proj'', ''attention.k_proj'', ''attention.v_proj'', ''attention.o_proj'', ''ffn_norm'',
      ''feed_forward.gate_proj'', ''feed_forward.up_proj'', ''feed_forward.down_proj''] @ [''final_norm.weight'', ''output_head.weight'']"

definition ready :: "params \<Rightarrow> bool" where
  "ready ps \<longleftrightarrow> map fst ps = sample_names"

lemma param_ready: "ready ps \<Longrightarrow> n \<in> set sample_names \<Longrightarrow> ok (param ps n) (\<lambda>_. True)"
proof -
  assume "ready ps" and "n \<in> set sample_names"
  then have "n \<in> fst ` set ps" unfolding ready_def by (metis list.set_map)
  then obtain t where "map_of ps n = Some t" by (metis map_of_eq_None_iff not_None_eq)
  then show ?thesis by (simp add: param_def need_def ok_def)
qed

lemma config_facts [gives_intro]:
  "ok (py_getitem sample_config ''dimension'') (\<lambda>_. True)" "ok (py_getitem sample_config ''heads'') (\<lambda>v. v = VInt 2)"
  "ok (py_getitem sample_config ''kv_heads'') (\<lambda>v. v = VInt 1)" "ok (py_getitem sample_config ''rope_base'') (\<lambda>_. True)"
  "ok (py_getitem sample_config ''vocabulary_size'') (\<lambda>_. True)"
  by (simp_all add: ok_def sample_config_def py_getitem_def need_def)

lemma head_dimension_sample: "ok (head_dimension sample_config) (\<lambda>v. v = VInt 2)"
  by (simp add: ok_def head_dimension_def sample_config_def py_getitem_def py_get_def need_def floordiv_def)

lemma layers_sample: "ok (bindE (py_getitem sample_config ''layers'') range_of) (\<lambda>v. v = [0])"
  by (simp add: ok_def sample_config_def py_getitem_def need_def range_of_def)

lemma batch_good: "good tokens \<Longrightarrow> ok (batch_shape tokens) (\<lambda>_. True)"
  unfolding batch_shape_def by (rule gives_intro dim_good | simp)+

lemma project_good: "ready ps \<Longrightarrow> n \<in> set sample_names \<Longrightarrow> gives (project tp ps n t) good"
  unfolding project_def by (rule gives_intro param_ready | assumption)+

lemma norm_good: "ready ps \<Longrightarrow> n \<in> set sample_names \<Longrightarrow> good t \<Longrightarrow> gives (norm_with tp ps n t) good"
  unfolding norm_with_def by (rule gives_intro param_ready | assumption)+

lemma flatten_good [gives_intro]: "gives (flatten_rows tp sample_config t) good"
  unfolding flatten_rows_def by (rule gives_intro)+

lemma unflatten_good:
  "good tokens \<Longrightarrow> k \<in> {''dimension'', ''heads'', ''kv_heads'', ''vocabulary_size''} \<Longrightarrow> gives (unflatten tp tokens sample_config k extra t) good"
proof -
  assume t: "good tokens" and k: "k \<in> {''dimension'', ''heads'', ''kv_heads'', ''vocabulary_size''}"
  have c: "ok (py_getitem sample_config k) (\<lambda>_. True)"
    using k by (elim insertE emptyE) (simp_all add: ok_def sample_config_def py_getitem_def need_def)
  show ?thesis
    unfolding unflatten_def by (rule op_good ok_bindE [OF batch_good [OF t]] ok_bindE [OF c] reshape_good)+
qed

lemma normalize_good: "good (fst qk) \<Longrightarrow> good (snd qk) \<Longrightarrow> gives (normalize_heads tp ps sample_config pre qk) (\<lambda>x. x = qk)"
  by (simp add: normalize_heads_def py_get_def sample_config_def gives_def)

lemma rotate_good [gives_intro]: "gives (rotate_heads tp sample_config t) good"
  unfolding rotate_heads_def by (rule gives_intro | assumption)+

lemma split_good:
  "ready ps \<Longrightarrow> good tokens \<Longrightarrow>
     gives (split_heads tp ps tokens sample_config ''blocks.0'' flat h) (\<lambda>x. good (fst (fst x)) \<and> good (snd (fst x)) \<and> good (snd x))"
  unfolding split_heads_def
  by (rule gives_bindS gives_retS project_good unflatten_good | assumption | simp add: sample_names_def)+

lemma scale_sample: "ok (attention_scale (VInt 2)) (\<lambda>_. True)"
proof -
  have f: "item_float (VInt 2) = Inr (Fin 2)" using float_of_int_exact [of 2] by (simp add: item_float_def need_def)
  have "least_float \<le> pow2 (- 40)" by (simp add: least_float_def pow2_le)
  also have "pow2 (- 40) \<le> 2" by (simp add: pow2_def)
  finally have "least_float \<le> 2" .
  then have "fle (Fin root_float) (rnd (sqrt_approx 2))"
    using sqrt_approx_ge [of 2] unfolding root_float_def by (intro rnd_at_least) simp_all
  moreover have "\<not> fle (Fin root_float) (Fin 0)" using root_float_pos by (simp add: fle_def del: root_float_pos)
  ultimately have "rnd (sqrt_approx 2) \<noteq> Fin 0" by metis
  then obtain z where "fdiv (Fin 1) (rnd (sqrt_approx 2)) = Inr z" using fdiv_total by blast
  then show ?thesis by (simp add: attention_scale_def f ok_def del: fdiv.simps)
qed

lemma repeats_sample: "ok (head_repeats sample_config) (\<lambda>_. True)"
  by (simp add: ok_def head_repeats_def sample_config_def py_getitem_def need_def floordiv_def)

lemma attend_good:
  "ready ps \<Longrightarrow> good tokens \<Longrightarrow> good (fst qk) \<Longrightarrow> good (snd qk) \<Longrightarrow> good v \<Longrightarrow>
     gives (attend tp ps tokens sample_config ''blocks.0'' (VInt 2) qk v) good"
proof -
  assume a: "ready ps" "good tokens" "good (fst qk)" "good (snd qk)" "good v"
  have p: "ok (bindE (py_getitem sample_config ''heads'') (\<lambda>h. bindE (py_mul h (VInt 2)) (\<lambda>n. reshape tp t [VInt (- 1), n]))) good" for t
    using reshape_good by (simp add: sample_config_def py_getitem_def need_def py_mul_def num_arith_def)
  have n: "''blocks.0'' @ ''.attention.o_proj.weight'' \<in> set sample_names" by (simp add: sample_names_def)
  show ?thesis unfolding attend_def
    by (intro gives_bindS [OF gives_liftS [OF repeats_sample]] gives_bindS [OF op_good [OF ok_bindE [OF scale_sample attention_good]]]
        gives_bindS [OF op_good [OF p]] gives_bindS [OF project_good [OF a(1) n]] unflatten_good a) simp
qed

lemma feed_forward_good: "ready ps \<Longrightarrow> good tokens \<Longrightarrow> good t \<Longrightarrow> gives (feed_forward tp ps tokens sample_config ''blocks.0'' t) good"
proof -
  assume a: "ready ps" "good tokens" "good t"
  have n: "''blocks.0'' @ ''.ffn_norm.weight'' \<in> set sample_names" "''blocks.0'' @ ''.feed_forward.gate_proj.weight'' \<in> set sample_names"
    "''blocks.0'' @ ''.feed_forward.up_proj.weight'' \<in> set sample_names" "''blocks.0'' @ ''.feed_forward.down_proj.weight'' \<in> set sample_names"
    by (simp_all add: sample_names_def)
  show ?thesis unfolding feed_forward_def
    by (intro gives_bindS [OF norm_good [OF a(1) n(1) a(3)]] gives_bindS [OF flatten_good] gives_bindS [OF project_good [OF a(1) n(2)]]
        gives_bindS [OF project_good [OF a(1) n(3)]] gives_bindS [OF project_good [OF a(1) n(4)]] gives_bindS [OF op_good]
        gives_bindS [OF unflatten_good [OF a(2)]] op_good ok_bindE [OF call_good] two_good) simp
qed

lemma block_good: "ready ps \<Longrightarrow> good tokens \<Longrightarrow> good t \<Longrightarrow> gives (block_forward tp ps tokens sample_config ''blocks.0'' t) good"
proof -
  assume a: "ready ps" "good tokens" "good t"
  have n: "''blocks.0'' @ ''.attention_norm.weight'' \<in> set sample_names" by (simp add: sample_names_def)
  have rest: "gives (bindS (normalize_heads tp ps sample_config ''blocks.0'' qk0) (\<lambda>qk.
     bindS (rotate_heads tp sample_config (fst qk)) (\<lambda>query.
     bindS (rotate_heads tp sample_config (snd qk)) (\<lambda>key.
     bindS (attend tp ps tokens sample_config ''blocks.0'' h (query, key) v) (\<lambda>attention.
     bindS (op_call tp ''add'' (two tp ''add'' t attention)) (\<lambda>joined.
     feed_forward tp ps tokens sample_config ''blocks.0'' joined)))))) good"
    if "good (fst qk0)" "good (snd qk0)" "good v" "h = VInt 2" for qk0 v h
    unfolding that(4)
    by (intro gives_bindS [OF normalize_good [OF that(1,2)]] gives_bindS [OF rotate_good] gives_bindS [OF attend_good [OF a(1,2)]]
        gives_bindS [OF op_good [OF two_good]] feed_forward_good a) (simp_all add: that)
  show ?thesis unfolding block_forward_def
    by (intro gives_bindS [OF norm_good [OF a(1) n a(3)]] gives_bindS [OF flatten_good] gives_bindS [OF gives_liftS [OF head_dimension_sample]]
        gives_bindS [OF split_good [OF a(1,2)]]) (auto split: prod.splits intro!: rest)
qed

lemma forward_good: "ready ps \<Longrightarrow> good tokens \<Longrightarrow> gives (model_forward tp ps tokens sample_config) good"
proof -
  assume a: "ready ps" "good tokens"
  have n: "''token_embedding.weight'' \<in> set sample_names" "''final_norm.weight'' \<in> set sample_names" "''output_head.weight'' \<in> set sample_names"
    by (simp_all add: sample_names_def)
  have blocks: "gives (run_blocks tp ps tokens sample_config layers t) good" if "layers = [0]" "good t" for layers t
  proof -
    have p: "''blocks.'' @ str_int 0 = ''blocks.0''" by code_simp
    show ?thesis unfolding that(1) run_blocks.simps p
      by (intro gives_bindS [OF measure_good [OF block_good [OF a that(2)]]] gives_retS)
  qed
  have record_output: "gives (on_session (record_tensor ''output'' ''model.logits'' t (Fin 0))) good" if "good t" for t
    using record_good [OF that] that unfolding gives_def by metis
  have out: "gives (output_logits tp ps tokens sample_config t) good" if "good t" for t
    unfolding output_logits_def
    by (intro gives_bindS [OF measure_good [OF norm_good [OF a(1) n(2) that]]] gives_bindS [OF flatten_good]
        gives_bindS [OF project_good [OF a(1) n(3)]] gives_bindS [OF unflatten_good [OF a(2)]] record_output) simp
  show ?thesis unfolding model_forward_def forward_body_def
    by (intro measure_good gives_bindS [OF record_good [OF a(2)]] gives_bindS [OF measure_good [OF op_good [OF ok_bindE [OF param_ready [OF a(1) n(1)] two_good]]]]
        gives_bindS [OF gives_liftS [OF layers_sample]] gives_bindS [OF blocks] out)
qed

lemma loss_good: "ready ps \<Longrightarrow> good tokens \<Longrightarrow> gives (model_loss tp ps tokens targets sample_config) good"
  unfolding model_loss_def by (rule gives_bindS [OF forward_good] gives_intro | assumption)+


section \<open>The command returns\<close>

lemma session_gives: "gives m P \<Longrightarrow> gives (with_session s m) (\<lambda>x. P (fst x))"
  unfolding gives_def with_session_def by (metis (mono_tags, lifting) fst_conv old.prod.case old.sum.simps(6) surj_pair)

lemma write_gives: "gives (write_trace name s) (\<lambda>_. True)"
  by (auto simp: gives_def write_trace_def on_directory_def put_def)

lemma world_gives: "gives (on_world (tp_inference tp b)) (\<lambda>_. True)" "gives (on_world (tp_backward tp t)) (\<lambda>_. True)"
  by (auto simp: gives_def on_world_def sample_torch_def)

lemma gives_unit: "gives m (\<lambda>_. True) \<Longrightarrow> gives (bindS m (\<lambda>_. retS ())) (\<lambda>_ :: unit. True)"
  by (rule gives_bindS, assumption, rule gives_retS) simp

lemma times_gives: "gives m (\<lambda>_. True) \<Longrightarrow> gives (times n m) (\<lambda>_. True)"
  by (induction n) (simp_all add: gives_retS gives_bindS)

lemma timed_gives: "gives m good \<Longrightarrow> gives (timed_passes m its s) (\<lambda>_. True)"
proof (induction its arbitrary: s)
  case (Cons i its)
  show ?case unfolding timed_passes.simps
    by (rule gives_bindS [OF session_gives [OF Cons.prems]]) (use Cons in \<open>auto split: prod.split\<close>)
qed (simp add: gives_retS)

lemma gives_finally:
  assumes "gives m P" and "gives f Q"
  shows "gives (finallyS m f) P"
proof -
  have "\<exists>x s'. finallyS m f s = (Inr x, s') \<and> P x" for s
  proof -
    obtain x s1 where m: "m s = (Inr x, s1)" "P x" using assms(1) unfolding gives_def by blast
    obtain y s2 where "f s1 = (Inr y, s2)" using assms(2) unfolding gives_def by blast
    then show ?thesis using m by (simp add: finallyS_def)
  qed
  then show ?thesis by (simp add: gives_def)
qed

lemma inference_gives: "gives forward good \<Longrightarrow> gives (run_inference tp a forward) (\<lambda>_. True)"
proof -
  assume f: "gives forward good"
  have v: "gives (trace_values a forward) (\<lambda>_. True)"
    unfolding trace_values_def by (rule gives_bindS [OF session_gives [OF f]]) (auto split: prod.split intro: write_gives)
  have w: "gives (warm_up a forward) (\<lambda>_. True)"
    unfolding warm_up_def by (intro times_gives gives_unit gives_any [OF session_gives [OF f]])
  have "gives (thenS (warm_up a forward) (thenS (trace_values a forward) (thenS (time_operators a forward) (time_layers a forward)))) (\<lambda>_. True)"
    unfolding time_operators_def time_layers_def
    by (intro gives_bindS [OF w] gives_bindS [OF v] gives_bindS [OF gives_bindS [OF timed_gives [OF f] write_gives]]
        gives_bindS [OF timed_gives [OF f] write_gives])
  then show ?thesis unfolding run_inference_def inference_mode_def
    by (intro gives_bindS [OF world_gives(1)] gives_finally [OF _ world_gives(1)])
qed

lemma differentiable_gives: "gives (differentiable_parameters tp ps) (\<lambda>ls. map fst ls = map fst ps)"
proof -
  have leaf: "gives (case x of (name, t) \<Rightarrow>
       bindS (liftS (bindE (tp_call tp ''detach'' [Ten t]) (\<lambda>d. tp_call tp ''clone'' [Ten d]))) (\<lambda>copy.
       bindS (on_world (tp_requires_grad tp copy)) (\<lambda>leaf. retS (name, leaf)))) (\<lambda>y. fst y = fst x)" for x
  proof (cases x)
    case (Pair name t)
    have "gives (on_world (tp_requires_grad tp copy)) (\<lambda>_. True)" for copy
      by (auto simp: gives_def on_world_def sample_torch_def)
    then show ?thesis unfolding Pair prod.case
      by (intro gives_bindS [OF gives_liftS [OF ok_bindE [OF call_good call_good]]] gives_bindS [of _ "\<lambda>_. True"] gives_retS) simp_all
  qed
  have "gives (mapS f xs) (\<lambda>ys. map fst ys = map fst xs)" if "\<And>x. gives (f x) (\<lambda>y. fst y = fst x)"
    for f :: "'a \<times> 'b \<Rightarrow> ('s, 'a \<times> 'c) action" and xs
  proof (induction xs)
    case (Cons x xs)
    show ?case unfolding mapS.simps by (intro gives_bindS [OF that] gives_bindS [OF Cons.IH] gives_retS) simp
  qed (simp add: gives_def)
  then show ?thesis unfolding differentiable_parameters_def using leaf by blast
qed

lemma gradients_give: "gives (record_gradients tp ps) (\<lambda>_. True)"
proof (induction ps)
  case (Cons p ps)
  obtain name t where p: "p = (name, t)" by (cases p)
  have g: "gives (AlignCommon.inside (\<lambda>w. (Inr (tp_grad tp t w), w))) (\<lambda>x. x = Some base_tensor)"
    by (auto simp: gives_def AlignCommon.inside_def sample_torch_def)
  have b: "good base_tensor" by (simp add: good_def base_tensor_def)
  show ?case unfolding p record_gradients.simps
    by (intro gives_bindS [OF g]) (auto intro!: gives_bindS [OF record_good [OF b]] Cons.IH)
qed (simp add: gives_def)

lemma trace_gradients_gives: "good loss \<Longrightarrow> gives (trace_gradients tp ps loss) (\<lambda>_. True)"
  unfolding trace_gradients_def by (intro gives_bindS [OF record_good] gradients_give)

definition trains :: "(params \<Rightarrow> (int, tensor) traced) \<Rightarrow> bool" where
  "trains loss_of \<longleftrightarrow> (\<forall>ps. ready ps \<longrightarrow> gives (loss_of ps) good)"

lemma fresh_loss_gives: "trains loss_of \<Longrightarrow> ready ps \<Longrightarrow> gives (fresh_loss tp ps loss_of disabled) (\<lambda>x. good (fst x))"
  unfolding fresh_loss_def
  by (rule gives_bindS [OF differentiable_gives], rule session_gives) (simp add: trains_def ready_def)

lemma training_gives: "trains loss_of \<Longrightarrow> ready ps \<Longrightarrow> gives (trace_training tp a ps loss_of disabled) (\<lambda>_. True)"
proof -
  assume t: "trains loss_of" "ready ps"
  have l: "gives (loss_of leaves) good" if "map fst leaves = map fst ps" for leaves
    using t that by (simp add: trains_def ready_def)
  have rest: "gives (bindS (on_world (tp_backward tp loss)) (\<lambda>_.
     bindS (with_session (make_session a ''training_values'' False False False True) (trace_gradients tp training loss)) (\<lambda>(_, s).
     bindS (write_trace ''pytorch_training_values.jsonl'' s) (\<lambda>_. retS disabled1)))) (\<lambda>_. True)"
    if "good loss" for loss training disabled1
    by (intro gives_bindS [OF world_gives(2)] gives_bindS [OF session_gives [OF trace_gradients_gives [OF that]]])
       (auto split: prod.split intro: gives_bindS [OF write_gives] gives_retS)
  show ?thesis unfolding trace_training_def
    by (intro gives_bindS [OF differentiable_gives] gives_bindS [OF session_gives [OF l]]) (auto split: prod.split intro!: rest)
qed

lemma warm_backward_gives: "trains loss_of \<Longrightarrow> ready ps \<Longrightarrow> gives (warm_backward tp ps loss_of n disabled) (\<lambda>_. True)"
proof (induction n arbitrary: disabled)
  case (Suc n)
  show ?case unfolding warm_backward.simps
    by (intro gives_bindS [OF fresh_loss_gives [OF Suc.prems]])
       (auto split: prod.split intro!: gives_bindS [OF world_gives(2)] Suc)
qed (simp add: gives_def)

lemma run_backward_gives: "good loss \<Longrightarrow> gives (run_backward tp loss) good"
proof -
  assume "good loss"
  moreover have "gives (AlignCommon.inside (tp_backward tp loss)) (\<lambda>_. True)"
    by (auto simp: gives_def AlignCommon.inside_def sample_torch_def)
  ultimately show ?thesis unfolding run_backward_def by (intro measure_good gives_bindS gives_retS)
qed

lemma backward_passes_gives: "trains loss_of \<Longrightarrow> ready ps \<Longrightarrow> gives (backward_passes tp ps loss_of its disabled s) (\<lambda>_. True)"
proof (induction its arbitrary: disabled s)
  case (Cons i its)
  show ?case unfolding backward_passes.simps
    by (intro gives_bindS [OF fresh_loss_gives [OF Cons.prems]])
       (auto split: prod.split intro!: gives_bindS [OF session_gives [OF run_backward_gives]] Cons)
qed (simp add: gives_def)

lemma run_training_gives: "trains loss_of \<Longrightarrow> ready ps \<Longrightarrow> gives (run_training tp a ps loss_of) (\<lambda>_. True)"
  unfolding run_training_def time_backward_def
  by (intro gives_bindS [OF training_gives] gives_bindS [OF warm_backward_gives] gives_bindS [OF backward_passes_gives] write_gives)


definition sample_parameter :: "string \<Rightarrow> pyval" where
  "sample_parameter name =
     VDict [(''schema_version'', VInt 1), (''kind'', VStr ''parameter''), (''name'', VStr name), (''shape'', VList [VInt 1]),
            (''values_truncated'', VBool False), (''values'', VList [])]"

definition sample_input :: runner_input where
  "sample_input =
     \<lparr>ri_parameters = map (\<lambda>n. Inr (sample_parameter n)) sample_names, ri_run = Inr (VDict [(''model'', sample_config)])\<rparr>"

definition sample_options :: runner_args where
  "sample_options = default_runner_args\<lparr>pr_warmup := 1, pr_repetitions := 2\<rparr>"

lemma load_sample_lines: "load_jsonl (map (\<lambda>n. Inr (sample_parameter n)) names) = Inr (map sample_parameter names)"
proof -
  have "foldM load_line acc (map (\<lambda>n. Inr (sample_parameter n)) names) = Inr (acc @ map sample_parameter names)" for acc
    by (induction names arbitrary: acc) (simp_all add: load_line_def sample_parameter_def py_get_def py_ne_def)
  then show ?thesis by (simp add: load_jsonl_def)
qed

lemma load_sample: "\<exists>ps. load_parameters tp (ri_parameters sample_input) device = Inr ps \<and> ready ps"
proof -
  have one: "load_parameter tp device ps (sample_parameter n) = Inr (dict_set n base_tensor ps)" for ps n
    by (simp add: load_parameter_def check_parameter_def sample_parameter_def py_getitem_def need_def orM_def py_ne_def text_field_def
        sample_torch_def shape_call_def)
  have all: "\<exists>ps. foldM (load_parameter tp device) acc (map sample_parameter names) = Inr ps \<and> map fst ps = map fst acc @ names"
    if "distinct (map fst acc @ names)" for acc names
    using that
  proof (induction names arbitrary: acc)
    case (Cons n names)
    have "map fst (dict_set n base_tensor acc) = map fst acc @ [n]" using Cons.prems by (induction acc) auto
    then show ?case using Cons.IH [of "dict_set n base_tensor acc"] Cons.prems one by simp
  qed simp
  have "distinct sample_names" by (simp add: sample_names_def)
  then obtain ps where "foldM (load_parameter tp device) [] (map sample_parameter sample_names) = Inr ps" "map fst ps = sample_names"
    using all [of "[]" sample_names] by auto
  moreover from this have "ps \<noteq> []" by (auto simp: sample_names_def)
  ultimately show ?thesis by (simp add: load_parameters_def sample_input_def load_sample_lines ready_def)
qed

lemma sample_inputs: "\<exists>ps tokens targets. runner_inputs tp sample_input sample_options = Inr (sample_options, ps, sample_config, tokens, targets) \<and>
    ready ps \<and> good tokens"
proof -
  obtain ps where ps: "load_parameters tp (ri_parameters sample_input) ''cpu'' = Inr ps" "ready ps" using load_sample by blast
  obtain tokens where "int_tensor tp [0, 1, 2, 3] ''int32'' ''cpu'' = Inr tokens" "good tokens"
    using call_good unfolding int_tensor_def ok_def by blast
  moreover obtain targets where "int_tensor tp [1, 2, 3, 0] ''int64'' ''cpu'' = Inr targets"
    using call_good unfolding int_tensor_def ok_def by blast
  moreover have "runner_parse_args sample_options = Inr sample_options" "pr_device sample_options = ''cpu''"
    by (simp_all add: runner_parse_args_def sample_options_def default_runner_args_def)
  moreover have "bindE (ri_run sample_input) (\<lambda>doc. py_getitem doc ''model'') = Inr sample_config"
    by (simp add: sample_input_def py_getitem_def need_def)
  ultimately show ?thesis using ps by (simp add: runner_inputs_def)
qed

lemma sample_main: "\<exists>out wd'. runner_main tp sample_input sample_options wd = (Inr out, wd')"
proof -
  obtain ps tokens targets where i: "runner_inputs tp sample_input sample_options = Inr (sample_options, ps, sample_config, tokens, targets)"
    and ps: "ready ps" and t: "good tokens" using sample_inputs by blast
  have f: "gives (model_forward tp ps tokens sample_config) good" by (rule forward_good [OF ps t])
  have "trains (\<lambda>leaves. model_loss tp leaves tokens targets sample_config)" using loss_good t by (simp add: trains_def)
  then have "gives (bindS (run_inference tp sample_options (model_forward tp ps tokens sample_config)) (\<lambda>_.
     bindS (run_training tp sample_options ps (\<lambda>leaves. model_loss tp leaves tokens targets sample_config)) (\<lambda>_.
     bindS (on_directory (put ''pytorch_run.json'' (runner_metadata tp sample_options sample_config))) (\<lambda>_.
     retS [''framework=pytorch'', ''device='' @ pr_device sample_options, ''status=pass''])))) (\<lambda>_. True)"
    by (intro gives_bindS [OF inference_gives [OF f]] gives_bindS [OF run_training_gives [OF _ ps]] gives_bindS [of _ "\<lambda>_. True"] gives_retS)
       (auto simp: gives_def on_directory_def put_def)
  then show ?thesis unfolding gives_def runner_main_def i bindS_liftS prod.case by blast
qed

theorem runner_trace_files_witness:
  "\<exists>out wd' ps. runner_main sample_torch sample_input sample_options (0, []) = (Inr out, wd') \<and> last out = ''status=pass'' \<and>
     inference_files sample_options (forward_plan sample_config) (snd wd') \<and> training_files sample_options ps (snd wd')"
proof -
  obtain out wd' where m: "runner_main sample_torch sample_input sample_options (0, []) = (Inr out, wd')" using sample_main by blast
  obtain ps where i: "\<exists>tokens targets. runner_inputs tp sample_input sample_options = Inr (sample_options, ps, sample_config, tokens, targets)"
    using sample_inputs by blast
  then show ?thesis using runner_trace_files [OF m] m by auto
qed


theorem forward_pass_trace_witness:
  "\<exists>r s' w'. model_forward sample_torch [] base_tensor sample_config (new_session ''pytorch'' ''run'' ''values'' ''cpu'', 0) = (r, (s', w')) \<and>
     prefix (checkpoints s') (forward_plan sample_config) \<and> session_ok s'"
proof -
  define s0 where "s0 = new_session ''pytorch'' ''run'' ''values'' ''cpu''"
  obtain r s' w' where m: "model_forward sample_torch [] base_tensor sample_config (s0, 0) = (r, (s', w'))" by (metis surj_pair)
  have "session_ok s0" by (simp add: session_ok_def s0_def new_session_def)
  from forward_pass_trace [OF m this] obtain trail where t: "checkpoints s' = checkpoints s0 @ trail"
    "prefix trail (wanted s0 (forward_plan sample_config))" "session_ok s'" by blast
  have "checkpoints s0 = []" "wanted s0 plan = plan" for plan
    by (simp_all add: s0_def checkpoints_def wanted_def enabled_def new_session_def)
  then show ?thesis using m t unfolding s0_def by auto
qed


text \<open>Two key and value heads, each read by two query heads.\<close>

theorem attention_layouts_agree_witness:
  "\<exists>out v' inner. causal_gqa_attention_bthd sample_torch base_tensor base_tensor base_tensor 2 (Fin 1) = Inr out \<and>
     swap_dims sample_torch base_tensor 1 2 = Inr v' \<and>
     causal_gqa_attention sample_torch base_tensor base_tensor v' 2 (Fin 1) = Inr inner \<and> swap_dims sample_torch inner 1 2 = Inr out"
proof -
  have law: "\<exists>t'. swap_dims tp t 1 2 = Inr t' \<and> tp_call tp ''repeat_interleave'' [Ten t', Num n, Num 1] = Inr x"
    if "tp_call tp ''repeat_interleave'' [Ten t, Num n, Num 2] = Inr u" "swap_dims tp u 1 2 = Inr x" for t u n x
  proof -
    have "length (four_dims t) = 4" by (simp add: four_dims_def)
    then obtain a b c d where s: "four_dims t = [a, b, c, d]" by (auto simp: numeral_eq_Suc length_Suc_conv)
    have u: "u = t\<lparr>tn_items := [], tn_shape := [a, b, n * c, d]\<rparr>"
      using that(1) by (simp add: sample_torch_def shape_call_def axis_of_def s numeral_eq_Suc)
    have "x = t\<lparr>tn_items := [], tn_shape := [a, n * c, b, d]\<rparr>"
      using that(2) by (simp add: swap_dims_def sample_torch_def shape_call_def axis_of_def four_dims_def u numeral_eq_Suc)
    moreover have "swap_dims tp t 1 2 = Inr (t\<lparr>tn_items := [], tn_shape := [a, c, b, d]\<rparr>)"
      by (simp add: swap_dims_def sample_torch_def shape_call_def axis_of_def s numeral_eq_Suc)
    moreover have "tp_call tp ''repeat_interleave'' [Ten (t\<lparr>tn_items := [], tn_shape := [a, c, b, d]\<rparr>), Num n, Num 1] =
        Inr (t\<lparr>tn_items := [], tn_shape := [a, n * c, b, d]\<rparr>)"
      by (simp add: sample_torch_def shape_call_def axis_of_def four_dims_def numeral_eq_Suc)
    ultimately show ?thesis by auto
  qed
  have b: "good base_tensor" by (simp add: good_def base_tensor_def)
  obtain out where out: "causal_gqa_attention_bthd sample_torch base_tensor base_tensor base_tensor 2 (Fin 1) = Inr out"
    using attention_good [OF b b b] unfolding ok_def by blast
  have "\<exists>v' inner. swap_dims tp base_tensor 1 2 = Inr v' \<and>
     causal_gqa_attention tp base_tensor base_tensor v' 2 (Fin 1) = Inr inner \<and> swap_dims tp inner 1 2 = Inr out"
    by (rule attention_layouts_agree, rule law, assumption+, rule out)
  then show ?thesis using out by blast
qed

end
