(* ===== verification/TorchOps.thy ===== *)
theory TorchOps imports TorchRunner begin

text \<open>
  \<open>python/microllm/torch_ops.py\<close>: loading the custom operator library and registering the
  gradient formulas, once. The flag \<open>_FORMULAS_REGISTERED\<close> is state of the module; the two calls
  of \<open>torch.library\<close> and \<open>torch.ops\<close> are operations on the world and may raise.
\<close>

section \<open>Gradient formulas\<close>

text \<open>A formula maps the saved tensors and the gradient of the output to the gradients of the operands.\<close>

type_synonym formula = "tensor list \<Rightarrow> tensor \<Rightarrow> (tensor \<times> tensor) py"

definition add_backward :: formula where
  "add_backward saved gradient = Inr (gradient, gradient)"

text \<open>What \<open>multiply_setup\<close> saves for the backward pass: the operands, not the output.\<close>

definition multiply_setup :: "tensor list \<Rightarrow> tensor \<Rightarrow> tensor list" where
  "multiply_setup inputs output = inputs"

definition multiply_backward :: "'w torch \<Rightarrow> formula" where
  "multiply_backward tp saved gradient =
     (case saved of
        [left, right] \<Rightarrow>
          bindE (two tp ''mul'' gradient right) (\<lambda>for_left.
          bindE (two tp ''mul'' gradient left) (\<lambda>for_right. Inr (for_left, for_right)))
      | _ \<Rightarrow> Inl (ValueError ''unpack''))"

section \<open>Registration\<close>

record 'w op_world =
  ow_register :: "string \<Rightarrow> formula \<Rightarrow> (tensor list \<Rightarrow> tensor \<Rightarrow> tensor list) option \<Rightarrow> ('w, unit) action"
  ow_load :: "string \<Rightarrow> ('w, unit) action"
  ow_environ :: "string option"

text \<open>The state is the module's flag and the world.\<close>

type_synonym ('w, 'a) op_module = "(bool \<times> 'w, 'a) action"

definition on_torch :: "('w, 'a) action \<Rightarrow> ('w, 'a) op_module" where
  "on_torch m fw = (case m (snd fw) of (r, w) \<Rightarrow> (r, (fst fw, w)))"

definition set_registered :: "('w, unit) op_module" where
  "set_registered fw = (Inr (), (True, snd fw))"

definition register_formulas :: "'w torch \<Rightarrow> 'w op_world \<Rightarrow> ('w, unit) op_module" where
  "register_formulas tp ow fw =
     (if fst fw then (Inr (), fw)
      else thenS (on_torch (ow_register ow ''microllm::add'' add_backward None))
          (thenS (on_torch (ow_register ow ''microllm::multiply'' (multiply_backward tp) (Some multiply_setup)))
                 set_registered) fw)"

definition resolve_library :: "'w op_world \<Rightarrow> string option \<Rightarrow> string option" where
  "resolve_library ow path =
     (case path of None \<Rightarrow> ow_environ ow | Some p \<Rightarrow> if p = [] then ow_environ ow else Some p)"

definition load_library :: "'w torch \<Rightarrow> 'w op_world \<Rightarrow> string option \<Rightarrow> ('w, unit) op_module" where
  "load_library tp ow path =
     (case resolve_library ow path of
        None \<Rightarrow> liftS (Inl (RuntimeError ''set MICROLLM_TORCH_OP_LIBRARY or pass the Custom Op library path''))
      | Some resolved \<Rightarrow>
          if resolved = []
          then liftS (Inl (RuntimeError ''set MICROLLM_TORCH_OP_LIBRARY or pass the Custom Op library path''))
          else thenS (on_torch (ow_load ow resolved)) (register_formulas tp ow))"

section \<open>The operators\<close>

definition op_add :: "'w torch \<Rightarrow> tensor \<Rightarrow> tensor \<Rightarrow> tensor py" where
  "op_add tp left right = two tp ''microllm.add'' left right"

definition op_multiply :: "'w torch \<Rightarrow> tensor \<Rightarrow> tensor \<Rightarrow> tensor py" where
  "op_multiply tp left right = two tp ''microllm.multiply'' left right"

definition op_softmax :: "'w torch \<Rightarrow> tensor \<Rightarrow> tensor py" where
  "op_softmax tp t = tp_call tp ''microllm.softmax'' [Ten t]"

definition op_softmax_out :: "'w torch \<Rightarrow> tensor \<Rightarrow> tensor \<Rightarrow> tensor py" where
  "op_softmax_out tp t out = two tp ''microllm.softmax_out'' t out"

definition op_swiglu :: "'w torch \<Rightarrow> tensor \<Rightarrow> tensor \<Rightarrow> tensor py" where
  "op_swiglu tp gate up = two tp ''microllm.swiglu'' gate up"

section \<open>Registered once\<close>

text \<open>Loads of a list of paths, one after the other; a call that raises leaves the next ones to run.\<close>

fun load_all :: "'w torch \<Rightarrow> 'w op_world \<Rightarrow> string option list \<Rightarrow> bool \<times> 'w \<Rightarrow> bool \<times> 'w" where
  "load_all tp ow [] fw = fw"
| "load_all tp ow (p # ps) fw = load_all tp ow ps (snd (load_library tp ow p fw))"

text \<open>A world that writes down what is loaded and registered, and never refuses.\<close>

datatype op_event = Loaded string | Registered string

definition logging_world :: "string option \<Rightarrow> op_event list op_world" where
  "logging_world environ =
     \<lparr>ow_register = (\<lambda>name f s w. (Inr (), w @ [Registered name])), ow_load = (\<lambda>p w. (Inr (), w @ [Loaded p])), ow_environ = environ\<rparr>"

definition registrations :: "op_event list \<Rightarrow> string list" where
  "registrations w = [name. Registered name \<leftarrow> w]"

definition loads :: "op_event list \<Rightarrow> string list" where
  "loads w = [p. Loaded p \<leftarrow> w]"

definition usable :: "string option \<Rightarrow> string option \<Rightarrow> string list" where
  "usable environ path =
     (case path of
        Some p \<Rightarrow> if p \<noteq> [] then [p] else (case environ of Some e \<Rightarrow> if e \<noteq> [] then [e] else [] | None \<Rightarrow> [])
      | None \<Rightarrow> (case environ of Some e \<Rightarrow> if e \<noteq> [] then [e] else [] | None \<Rightarrow> []))"

lemma load_logged:
  "snd (load_library tp (logging_world environ) path (flag, w)) =
     (case usable environ path of
        [] \<Rightarrow> (flag, w)
      | p # ps \<Rightarrow> (True, w @ Loaded p # (if flag then [] else [Registered ''microllm::add'', Registered ''microllm::multiply''])))"
  by (cases path; cases environ)
     (simp_all add: load_library_def resolve_library_def usable_def logging_world_def on_torch_def bindS_def register_formulas_def set_registered_def)

lemma registered_log:
  "registrations (snd (load_all tp (logging_world environ) paths (flag, w))) =
     registrations w @ (if flag \<or> concat (map (usable environ) paths) = [] then [] else [''microllm::add'', ''microllm::multiply'']) \<and>
   loads (snd (load_all tp (logging_world environ) paths (flag, w))) = loads w @ concat (map (usable environ) paths)"
proof (induction paths arbitrary: flag w)
  case (Cons path paths)
  have u: "usable environ path = [] \<or> (\<exists>p. usable environ path = [p])"
    by (auto simp: usable_def split: option.splits)
  show ?case
  proof (cases "usable environ path")
    case Nil
    then have "load_all tp (logging_world environ) (path # paths) (flag, w) = load_all tp (logging_world environ) paths (flag, w)"
      by (simp add: load_logged)
    then show ?thesis using Cons.IH [of flag w] Nil by simp
  next
    case c: (Cons p ps)
    then have ps: "usable environ path = [p]" using u by auto
    define w1 where "w1 = w @ Loaded p # (if flag then [] else [Registered ''microllm::add'', Registered ''microllm::multiply''])"
    have "load_all tp (logging_world environ) (path # paths) (flag, w) = load_all tp (logging_world environ) paths (True, w1)"
      by (simp add: load_logged ps w1_def)
    then show ?thesis using Cons.IH [of True w1] ps by (simp add: w1_def registrations_def loads_def)
  qed
qed (simp add: registrations_def loads_def)

text \<open>
  However often the library is loaded, under whatever paths, the two gradient formulas are registered
  exactly once, at the first load that has a path to load, and every load with a path loads its library.
\<close>

theorem formulas_registered_once:
  "registrations (snd (load_all tp (logging_world environ) paths (False, []))) =
     (if concat (map (usable environ) paths) = [] then [] else [''microllm::add'', ''microllm::multiply'']) \<and>
   loads (snd (load_all tp (logging_world environ) paths (False, []))) = concat (map (usable environ) paths)"
  using registered_log [of tp environ paths False "[]"] by (simp add: registrations_def loads_def)

section \<open>The formulas are the adjoints of the derivatives\<close>

definition dot :: "rat list \<Rightarrow> rat list \<Rightarrow> rat" where
  "dot xs ys = sum_list (map2 (*) xs ys)"

lemma dot_product_rule:
  "length g = length l \<Longrightarrow> length l = length r \<Longrightarrow> length r = length dl \<Longrightarrow> length dl = length dr \<Longrightarrow>
     dot g (map2 (+) (map2 (*) dl r) (map2 (*) l dr)) = dot (map2 (*) g r) dl + dot (map2 (*) g l) dr"
proof (induction g arbitrary: l r dl dr)
  case (Cons x g)
  then show ?case by (cases l; cases r; cases dl; cases dr) (simp_all add: dot_def algebra_simps)
qed (simp add: dot_def)


section \<open>The formulas at concrete tensors\<close>

text \<open>Integer tensors, multiplied exactly.\<close>

definition exact_values :: "tensor \<Rightarrow> rat list" where
  "exact_values t = map (\<lambda>v. case v of VInt i \<Rightarrow> of_int i | _ \<Rightarrow> 0) (tn_items t)"

definition int_values :: "tensor \<Rightarrow> int list" where
  "int_values t = map (\<lambda>v. case v of VInt i \<Rightarrow> i | _ \<Rightarrow> 0) (tn_items t)"

definition ints_tensor :: "int list \<Rightarrow> tensor" where
  "ints_tensor xs = \<lparr>tn_items = map VInt xs, tn_shape = [int (length xs)], tn_dtype = ''torch.int64'', tn_device = ''cpu'',
     tn_numel = int (length xs), tn_node = 0\<rparr>"

definition exact_call :: "string \<Rightarrow> targ list \<Rightarrow> tensor py" where
  "exact_call f args =
     (case args of [Ten a, Ten b] \<Rightarrow> Inr (ints_tensor (map2 (*) (int_values a) (int_values b))) | _ \<Rightarrow> Inl (RuntimeError f))"

definition exact_torch :: "unit torch" where
  "exact_torch =
     \<lparr>tp_call = exact_call, tp_device = \<lparr>do_clock = (\<lambda>w. (0, w)), do_cuda_synchronize = (\<lambda>w. (Inr (), w))\<rparr>, tp_cuda_available = False,
      tp_inference = (\<lambda>_ w. (Inr (), w)), tp_requires_grad = (\<lambda>t w. (Inr t, w)), tp_backward = (\<lambda>_ w. (Inr (), w)),
      tp_grad = (\<lambda>t w. None), tp_version = ''2.0'', tp_hip_version = VNone\<rparr>"

lemma exact_values_ints: "exact_values t = map of_int (int_values t)"
  by (auto simp: exact_values_def int_values_def split: pyval.split)

lemma int_values_tensor [simp]: "int_values (ints_tensor xs) = xs"
  by (simp add: int_values_def ints_tensor_def comp_def)

lemma exact_multiplies: "tp_call exact_torch ''mul'' [Ten a, Ten b] = Inr t \<Longrightarrow>
    exact_values t = map2 (*) (exact_values a) (exact_values b)"
  by (auto simp: exact_torch_def exact_call_def exact_values_ints zip_map1 zip_map2 comp_def case_prod_unfold)


end
