(* ===== verification/HeaderScan.thy ===== *)
theory HeaderScan imports PyText begin

text \<open>
  The declaration scanner of \<open>scripts/audit_test_coverage.py\<close>: \<open>re.findall\<close> of
  \<open>(?:T1|...|Tn)\s+([A-Za-z_]\w*)\s*\(\<close> over a header. A return type is a list of
  pieces, literal text or white space. No piece can match in two ways that both let the rest match
  (an identifier cannot start with white space, and what follows it is not a word character), so the
  matcher does not go back. Texts are ASCII.
\<close>

section \<open>The matcher\<close>

datatype piece = Lit string | Spaces0 | Spaces1

definition skip_spaces :: "string \<Rightarrow> string" where
  "skip_spaces s = dropWhile is_space s"

definition spaces1 :: "string \<Rightarrow> string option" where
  "spaces1 s = (case s of [] \<Rightarrow> None | c # cs \<Rightarrow> if is_space c then Some (skip_spaces cs) else None)"

definition match_lit :: "string \<Rightarrow> string \<Rightarrow> string option" where
  "match_lit p s = (if take (length p) s = p then Some (drop (length p) s) else None)"

fun match_piece :: "piece \<Rightarrow> string \<Rightarrow> string option" where
  "match_piece (Lit p) s = match_lit p s"
| "match_piece Spaces0 s = Some (skip_spaces s)"
| "match_piece Spaces1 s = spaces1 s"

fun match_pieces :: "piece list \<Rightarrow> string \<Rightarrow> string option" where
  "match_pieces [] s = Some s"
| "match_pieces (p # ps) s = (case match_piece p s of None \<Rightarrow> None | Some rest \<Rightarrow> match_pieces ps rest)"

definition is_letter :: "char \<Rightarrow> bool" where
  "is_letter c \<longleftrightarrow> CHR ''a'' \<le> c \<and> c \<le> CHR ''z'' \<or> CHR ''A'' \<le> c \<and> c \<le> CHR ''Z'' \<or> c = CHR ''_''"

definition is_word :: "char \<Rightarrow> bool" where
  "is_word c \<longleftrightarrow> is_letter c \<or> is_digit c"

definition match_name :: "string \<Rightarrow> (string \<times> string) option" where
  "match_name s =
     (case s of [] \<Rightarrow> None
      | c # cs \<Rightarrow> if is_letter c then Some (c # takeWhile is_word cs, dropWhile is_word cs) else None)"

text \<open>What follows the return type: white space, the name, an opening parenthesis.\<close>

definition match_tail :: "string \<Rightarrow> (string \<times> string) option" where
  "match_tail s =
     (case spaces1 s of None \<Rightarrow> None
      | Some s1 \<Rightarrow>
          (case match_name s1 of None \<Rightarrow> None
           | Some (name, s2) \<Rightarrow>
               (case skip_spaces s2 of [] \<Rightarrow> None | c # s3 \<Rightarrow> if c = CHR ''('' then Some (name, s3) else None)))"

fun match_declaration :: "piece list list \<Rightarrow> string \<Rightarrow> (string \<times> string) option" where
  "match_declaration [] s = None"
| "match_declaration (t # ts) s =
     (case match_pieces t s of None \<Rightarrow> match_declaration ts s
      | Some rest \<Rightarrow> (case match_tail rest of None \<Rightarrow> match_declaration ts s | Some r \<Rightarrow> Some r))"

section \<open>The scan\<close>

lemma skip_spaces_length: "length (skip_spaces s) \<le> length s"
  by (simp add: skip_spaces_def length_dropWhile_le)

lemma spaces1_length: "spaces1 s = Some r \<Longrightarrow> length r < length s"
  using skip_spaces_length by (auto simp: spaces1_def less_Suc_eq_le split: list.splits if_splits)

lemma match_piece_length: "match_piece p s = Some r \<Longrightarrow> length r \<le> length s"
  by (cases p) (auto simp: match_lit_def skip_spaces_length dest: spaces1_length split: if_splits)

lemma match_pieces_length: "match_pieces ps s = Some r \<Longrightarrow> length r \<le> length s"
  by (induction ps s rule: match_pieces.induct) (fastforce dest: match_piece_length split: option.splits)+

lemma match_name_length: "match_name s = Some (n, r) \<Longrightarrow> length r < length s"
  using length_dropWhile_le [of is_word] by (auto simp: match_name_def less_Suc_eq_le split: list.splits if_splits)

lemma match_tail_length: "match_tail s = Some (n, r) \<Longrightarrow> length r < length s"
proof -
  assume "match_tail s = Some (n, r)"
  then obtain s1 s2 where "spaces1 s = Some s1" "match_name s1 = Some (n, s2)" "skip_spaces s2 = CHR ''('' # r"
    by (auto simp: match_tail_def split: option.splits list.splits if_splits)
  then show ?thesis using spaces1_length [of s s1] match_name_length [of s1 n s2] skip_spaces_length [of s2] by simp
qed

lemma match_declaration_length: "match_declaration ts s = Some (n, r) \<Longrightarrow> length r < length s"
proof (induction ts)
  case (Cons t ts)
  show ?case
  proof (cases "match_pieces t s")
    case (Some rest)
    then show ?thesis using Cons match_pieces_length [OF Some] match_tail_length [of rest n r] by (auto split: option.splits)
  qed (use Cons in simp)
qed simp

function find_names :: "piece list list \<Rightarrow> string \<Rightarrow> string list" where
  "find_names ts [] = []"
| "find_names ts (c # cs) =
     (case match_declaration ts (c # cs) of None \<Rightarrow> find_names ts cs | Some (name, rest) \<Rightarrow> name # find_names ts rest)"
  by pat_completeness auto
termination by (relation "measure (length \<circ> snd)") (auto dest: match_declaration_length)

text \<open>The set \<open>public_names\<close> returns, without the repetitions.\<close>

definition public_names :: "piece list list \<Rightarrow> string \<Rightarrow> string list" where
  "public_names types text = remdups (find_names types text)"

section \<open>A header it was written for\<close>

text \<open>A declaration of the plain kind: a literal return type, a name, the rest up to its semicolon.\<close>

record header_entry =
  dc_type :: string
  dc_name :: string
  dc_body :: string

definition print_declaration :: "header_entry \<Rightarrow> string" where
  "print_declaration d = dc_type d @ CHR '' '' # dc_name d @ CHR ''('' # dc_body d @ [CHR '';'', CHR 0x0A]"

definition name_ok :: "string \<Rightarrow> bool" where
  "name_ok n \<longleftrightarrow> n \<noteq> [] \<and> is_letter (hd n) \<and> list_all is_word n"

definition declaration_ok :: "string list \<Rightarrow> header_entry \<Rightarrow> bool" where
  "declaration_ok types d \<longleftrightarrow>
     dc_type d \<in> set types \<and> name_ok (dc_name d) \<and> CHR ''('' \<notin> set (dc_body d) \<and> CHR '';'' \<notin> set (dc_body d)"

definition type_ok :: "string \<Rightarrow> bool" where
  "type_ok t \<longleftrightarrow> t \<noteq> [] \<and> list_all (\<lambda>c. \<not> is_space c \<and> c \<noteq> CHR '';'' \<and> c \<noteq> CHR ''('') t"

abbreviation literals :: "string list \<Rightarrow> piece list list" where
  "literals types \<equiv> map (\<lambda>t. [Lit t]) types"

lemma word_not_space: "is_word c \<Longrightarrow> \<not> is_space c" and word_not_paren: "is_word c \<Longrightarrow> c \<noteq> CHR ''(''"
  and word_not_semicolon: "is_word c \<Longrightarrow> c \<noteq> CHR '';''"
  by (auto simp: is_word_def is_letter_def is_digit_def is_space_def less_eq_char_def)

lemma match_tail_name:
  assumes "name_ok n"
  shows "match_tail (CHR '' '' # n @ CHR ''('' # rest) = Some (n, rest)"
proof -
  obtain c cs where n: "n = c # cs" "is_letter c" "list_all is_word cs" using assms by (cases n) (auto simp: name_ok_def)
  have sp: "\<not> is_space c" using n(2) word_not_space by (simp add: is_word_def)
  have w: "\<not> is_word CHR ''(''" using word_not_paren by blast
  have "takeWhile is_word (cs @ CHR ''('' # rest) = cs" "dropWhile is_word (cs @ CHR ''('' # rest) = CHR ''('' # rest"
    using n(3) w by (simp_all add: takeWhile_append2 dropWhile_append2 list_all_iff)
  then show ?thesis using n(2) sp
    by (simp add: match_tail_def n(1) spaces1_def skip_spaces_def match_name_def is_space_def)
qed

lemma dropWhile_stops: "\<not> P x \<Longrightarrow> dropWhile P (u @ x # v) = dropWhile P u @ x # v"
  by (induction u) simp_all

text \<open>A match that starts before a semicolon cannot reach an opening parenthesis past it.\<close>

lemma tail_before_semicolon:
  assumes "CHR ''('' \<notin> set u"
  shows "match_tail (u @ CHR '';'' # v) = None"
proof -
  have w: "\<not> is_word CHR '';''" using word_not_semicolon by blast
  have sp: "\<not> is_space CHR '';''" by (simp add: is_space_def)
  have s1: "\<exists>u1. s1 = u1 @ CHR '';'' # v \<and> set u1 \<subseteq> set u" if "spaces1 (u @ CHR '';'' # v) = Some s1" for s1
    using that sp set_dropWhileD [of _ is_space]
    by (cases u) (fastforce simp: spaces1_def skip_spaces_def dropWhile_stops split: if_splits)+
  have s2: "\<exists>u2. s2 = u2 @ CHR '';'' # v \<and> set u2 \<subseteq> set u1" if "match_name (u1 @ CHR '';'' # v) = Some (n, s2)" for u1 n s2
    using that w set_dropWhileD [of _ is_word]
    by (cases u1) (fastforce simp: match_name_def is_word_def dropWhile_stops split: if_splits)+
  have last: "case skip_spaces (u2 @ CHR '';'' # v) of [] \<Rightarrow> True | c # s3 \<Rightarrow> c \<noteq> CHR ''(''" if "CHR ''('' \<notin> set u2" for u2
  proof (cases "dropWhile is_space u2")
    case (Cons c cs)
    then have "c \<in> set u2" by (metis list.set_intros(1) set_dropWhileD)
    then show ?thesis using that Cons sp by (auto simp: skip_spaces_def dropWhile_stops)
  qed (simp add: skip_spaces_def dropWhile_stops sp)
  show ?thesis
  proof (rule ccontr)
    assume "match_tail (u @ CHR '';'' # v) \<noteq> None"
    then obtain s1 n s2 s3 where m: "spaces1 (u @ CHR '';'' # v) = Some s1" "match_name s1 = Some (n, s2)" "skip_spaces s2 = CHR ''('' # s3"
      by (auto simp: match_tail_def split: option.splits list.splits if_splits)
    obtain u1 where u1: "s1 = u1 @ CHR '';'' # v" "set u1 \<subseteq> set u" using s1 [OF m(1)] by blast
    obtain u2 where u2: "s2 = u2 @ CHR '';'' # v" "set u2 \<subseteq> set u1" using s2 m(2) u1(1) by blast
    have "CHR ''('' \<notin> set u2" using assms u1(2) u2(2) by blast
    from last [OF this] show False using m(3) u2(1) by simp
  qed
qed

lemma take_past: "\<not> n \<le> length u \<Longrightarrow> x \<in> set (take n (u @ x # v))"
  by (cases "n - length u") simp_all

lemma lit_before_semicolon:
  assumes "type_ok t" and "match_lit t (u @ CHR '';'' # v) = Some r"
  shows "\<exists>u'. r = u' @ CHR '';'' # v \<and> set u' \<subseteq> set u"
proof -
  have t: "take (length t) (u @ CHR '';'' # v) = t" and r: "r = drop (length t) (u @ CHR '';'' # v)"
    using assms(2) by (auto simp: match_lit_def split: if_splits)
  have "length t \<le> length u"
  proof (rule ccontr)
    assume "\<not> length t \<le> length u"
    then have "CHR '';'' \<in> set (take (length t) (u @ CHR '';'' # v))" by (rule take_past)
    then have "CHR '';'' \<in> set t" unfolding t .
    then show False using assms(1) by (auto simp: type_ok_def list_all_iff)
  qed
  then show ?thesis using r by (auto intro: exI [of _ "drop (length t) u"] dest: in_set_dropD)
qed

lemma declaration_before_semicolon:
  "list_all type_ok types \<Longrightarrow> CHR ''('' \<notin> set u \<Longrightarrow> match_declaration (literals types) (u @ CHR '';'' # v) = None"
proof (induction types)
  case (Cons t types)
  have none: "match_tail r = None" if l: "match_lit t (u @ CHR '';'' # v) = Some r" for r
  proof -
    obtain u' where "r = u' @ CHR '';'' # v" "set u' \<subseteq> set u" using lit_before_semicolon [OF _ l] Cons.prems(1) by auto
    then show ?thesis using tail_before_semicolon [of u' v] Cons.prems(2) by auto
  qed
  show ?case using Cons none by (auto split: option.splits)
qed simp

lemma find_past_semicolon:
  "list_all type_ok types \<Longrightarrow> CHR ''('' \<notin> set u \<Longrightarrow> find_names (literals types) (u @ CHR '';'' # v) = find_names (literals types) v"
proof (induction u)
  case Nil
  then show ?case using declaration_before_semicolon [of types "[]" v] by simp
next
  case (Cons c u)
  then show ?case using declaration_before_semicolon [of types "c # u" v] by simp
qed

lemma lit_space_none:
  assumes "type_ok t'" and "type_ok t" and "t' \<noteq> t" and "match_lit t' (t @ CHR '' '' # rest) = Some r"
  shows "match_tail r = None"
proof -
  have p: "take (length t') (t @ CHR '' '' # rest) = t'" and r: "r = drop (length t') (t @ CHR '' '' # rest)"
    using assms(4) by (auto simp: match_lit_def split: if_splits)
  have "length t' \<le> length t"
  proof (rule ccontr)
    assume "\<not> length t' \<le> length t"
    then have "CHR '' '' \<in> set (take (length t') (t @ CHR '' '' # rest))" by (rule take_past)
    then have "CHR '' '' \<in> set t'" unfolding p .
    then show False using assms(1) by (auto simp: type_ok_def list_all_iff is_space_def)
  qed
  moreover have "length t' \<noteq> length t" using p assms(3) by auto
  ultimately have d: "drop (length t') t \<noteq> []" "r = drop (length t') t @ CHR '' '' # rest" using r by auto
  then obtain c cs where c: "drop (length t') t = c # cs" by (cases "drop (length t') t") auto
  then have "c \<in> set t" by (metis in_set_dropD list.set_intros(1))
  then have "\<not> is_space c" using assms(2) by (auto simp: type_ok_def list_all_iff)
  then show ?thesis using c d by (simp add: match_tail_def spaces1_def)
qed

lemma match_printed:
  assumes "list_all type_ok types" and "t \<in> set types" and "name_ok n"
  shows "match_declaration (literals types) (t @ CHR '' '' # n @ CHR ''('' # rest) = Some (n, rest)"
  using assms(1,2)
proof (induction types)
  case (Cons t' types)
  have ok: "type_ok t" "type_ok t'" using Cons.prems by (auto simp: list_all_iff)
  show ?case
  proof (cases "t' = t")
    case True
    then show ?thesis using match_tail_name [OF assms(3)] by (simp add: match_lit_def)
  next
    case False
    then have "match_declaration (literals types) (t @ CHR '' '' # n @ CHR ''('' # rest) = Some (n, rest)" using Cons by simp
    then show ?thesis using lit_space_none [OF ok(2,1) False] by (auto split: option.splits)
  qed
qed simp

lemma lit_not_newline: "type_ok t \<Longrightarrow> match_lit t (CHR 0x0A # v) = None"
  by (cases t) (auto simp: type_ok_def match_lit_def is_space_def)

lemma find_past_newline: "list_all type_ok types \<Longrightarrow> find_names (literals types) (CHR 0x0A # v) = find_names (literals types) v"
proof -
  have "list_all type_ok types \<Longrightarrow> match_declaration (literals types) (CHR 0x0A # v) = None"
    by (induction types) (simp_all add: lit_not_newline)
  then show "list_all type_ok types \<Longrightarrow> find_names (literals types) (CHR 0x0A # v) = find_names (literals types) v" by simp
qed

lemma scan_finds_declarations_aux:
  assumes "list_all type_ok types" and "list_all (declaration_ok types) ds"
  shows "find_names (literals types) (concat (map print_declaration ds)) = map dc_name ds"
  using assms(2)
proof (induction ds)
  case (Cons d ds)
  define rest where "rest = dc_body d @ CHR '';'' # CHR 0x0A # concat (map print_declaration ds)"
  have ok: "declaration_ok types d" using Cons.prems by simp
  have shown: "concat (map print_declaration (d # ds)) = dc_type d @ CHR '' '' # dc_name d @ CHR ''('' # rest"
    by (simp add: print_declaration_def rest_def)
  have m: "match_declaration (literals types) (dc_type d @ CHR '' '' # dc_name d @ CHR ''('' # rest) = Some (dc_name d, rest)"
    using ok by (intro match_printed [OF assms(1)]) (simp_all add: declaration_ok_def)
  have ne: "dc_type d \<noteq> []" using ok assms(1) by (auto simp: declaration_ok_def list_all_iff type_ok_def)
  then obtain c cs where c: "dc_type d @ CHR '' '' # dc_name d @ CHR ''('' # rest = c # cs" by (cases "dc_type d") auto
  have "find_names (literals types) (concat (map print_declaration (d # ds))) = dc_name d # find_names (literals types) rest"
    using m unfolding shown c by simp
  also have "find_names (literals types) rest = find_names (literals types) (concat (map print_declaration ds))"
    unfolding rest_def using ok find_past_semicolon [OF assms(1)] find_past_newline [OF assms(1)] by (simp add: declaration_ok_def)
  finally show ?case using Cons by simp
qed simp

text \<open>
  C35. The scan of a header made of plain declarations returns their names, all of them and in order:
  whatever the argument lists hold (types of the list included, but no parentheses and semicolons),
  and although a type may be a prefix of another.
\<close>

theorem scan_finds_declarations:
  assumes "list_all type_ok types" and "list_all (declaration_ok types) ds"
  shows "find_names (literals types) (concat (map print_declaration ds)) = map dc_name ds"
  using assms by (rule scan_finds_declarations_aux)

definition sample_declarations :: "header_entry list" where
  "sample_declarations =
     [\<lparr>dc_type = ''Tensor'', dc_name = ''add'', dc_body = ''const Tensor& a, Tensor b)''\<rparr>,
      \<lparr>dc_type = ''TensorPair'', dc_name = ''split_2'', dc_body = ''Tensor t)''\<rparr>]"

theorem scan_finds_declarations_witness:
  "find_names (literals [''TensorPair'', ''Tensor'']) (concat (map print_declaration sample_declarations)) = [''add'', ''split_2'']"
proof -
  have "list_all type_ok [''TensorPair'', ''Tensor'']" by (simp add: type_ok_def is_space_def)
  moreover have "list_all (declaration_ok [''TensorPair'', ''Tensor'']) sample_declarations"
    by (simp add: sample_declarations_def declaration_ok_def name_ok_def is_word_def is_letter_def is_digit_def less_eq_char_def)
  ultimately show ?thesis using scan_finds_declarations by (fastforce simp: sample_declarations_def)
qed

end
