(* ===== verification/CoverageAudit.thy ===== *)
theory CoverageAudit imports HeaderScan PyVal begin

text \<open>
  \<open>scripts/audit_test_coverage.py\<close>: the coverage manifest against the public headers, the test
  files and the CMake lists. A repository is its files by relative path; the order of the list is the one
  \<open>rglob\<close> gives. An error is what its message names. Names in the manifest are strings.
\<close>

section \<open>Repository and manifest\<close>

type_synonym repository = "(string \<times> string) list"

definition read_text :: "repository \<Rightarrow> string \<Rightarrow> string py" where
  "read_text repo path = need (OSError ''No such file or directory'') (map_of repo path)"

definition names_of :: "pyval \<Rightarrow> string list py" where
  "names_of v = bindE (py_iter v) (mapM (\<lambda>x. case x of VStr s \<Rightarrow> Inr s | _ \<Rightarrow> Inl TypeError))"

definition manifest_names :: "pyval \<Rightarrow> string \<Rightarrow> string list py" where
  "manifest_names m k = bindE (py_getitem m k) names_of"

definition manifest_items :: "pyval \<Rightarrow> string \<Rightarrow> pydict py" where
  "manifest_items m k = bindE (py_getitem m k) (\<lambda>v. case v of VDict d \<Rightarrow> Inr d | _ \<Rightarrow> Inl AttributeError)"

datatype audit_error =
    Mismatch string "string list" "string list"
  | MissingTest string string string
  | NoGate string string
  | AbsentCase string string string
  | AbsentGraphCase string string
  | AbsentIntegration string string
  | Unregistered string

definition sorted_difference :: "string list \<Rightarrow> string list \<Rightarrow> string list" where
  "sorted_difference xs ys = sort (remdups (filter (\<lambda>x. x \<notin> set ys) xs))"

definition compare_names :: "string \<Rightarrow> string list \<Rightarrow> string list \<Rightarrow> audit_error list" where
  "compare_names label declared covered =
     (if set declared = set covered then []
      else [Mismatch label (sorted_difference declared covered) (sorted_difference covered declared)])"

section \<open>Declared names\<close>

definition ops_types :: "piece list list" where
  "ops_types = map (\<lambda>t. [Lit t])
     [''TensorPair'', ''TensorTriple'', ''Tensor'', ''Bf16FfnDiagnostics'', ''Fp8DispatchStats'', ''Fp8DynamicQuantStats'',
      ''Bf16PlanCacheStats'', ''bool'', ''AttentionLayoutPlanCacheStats'', ''Fp32MatmulSolutionKey'', ''Fp32MatmulSolutionStats'',
      ''Bf16GroupedQkvKey'', ''Bf16GroupedQkvStats'', ''Bf16GroupedGateUpKey'', ''Bf16GroupedGateUpStats'', ''MatmulImplementation'',
      ''AdamWTuningKey'', ''AdamWTuningCacheLoadReport'', ''AdamWImplementation'', ''AdamWMultiTensorStats'', ''std::size_t'', ''void'']"

definition tuning_types :: "piece list list" where
  "tuning_types = map (\<lambda>t. [Lit t]) [''MatmulAutotuneReport'', ''AdamWAutotuneReport'', ''void'']"

definition graph_types :: "piece list list" where
  "graph_types =
     [[Lit ''Value''], [Lit ''ValueTriple''], [Lit ''std::pair<Value,'', Spaces0, Lit ''Value>''], [Lit ''GraphSnapshot''], [Lit ''bool''],
      [Lit ''void''], [Lit ''const'', Spaces1, Lit ''Tensor&''], [Lit ''Tensor&'']]"

definition weight_io_types :: "piece list list" where
  "weight_io_types = map (\<lambda>t. [Lit t])
     [''StateDict'', ''SafetensorsIndex'', ''SafetensorsVisitReport'', ''bool'', ''std::vector<SafetensorsTensorInfo>'', ''void'']"

definition weight_model_types :: "piece list list" where
  "weight_model_types = map (\<lambda>t. [Lit t])
     [''io::StateDict'', ''LoadWeightsReport'', ''WeightMapping'', ''WeightAliases'', ''Int8WeightPreparationReport'',
      ''Bf16GroupedQkvPrewarmReport'', ''void'']"

definition expected_weight_io :: "string list" where
  "expected_weight_io =
     [''save_safetensors'', ''load_safetensors'', ''load_safetensors_files'', ''load_safetensors_index'', ''inspect_safetensors'',
      ''inspect_safetensors_index'', ''visit_safetensors'', ''safetensors_payloads_equal'']"

definition expected_weight_model :: "string list" where
  "expected_weight_model =
     [''state_dict'', ''load_state_dict'', ''load_safetensors'', ''load_safetensors_files'', ''load_safetensors_index'', ''save_safetensors'',
      ''qwen_style_weight_mapping'', ''qwen3_tied_weight_aliases'', ''set_bf16_ffn_arena_enabled'', ''set_bf16_ffn_norm_fusion_enabled'',
      ''set_bf16_qkv_arena_enabled'', ''set_bf16_attention_norm_fusion_enabled'', ''set_attention_core_arena_enabled'',
      ''set_cached_attention_split_sequence'', ''set_cached_attention_materialized_scores'', ''set_cached_attention_split_pv'',
      ''prewarm_bf16_grouped_qkv'', ''prepare_int8_inference_weights'']"

definition header_names :: "repository \<Rightarrow> string \<Rightarrow> piece list list \<Rightarrow> string list py" where
  "header_names repo path types = bindE (read_text repo path) (\<lambda>text. Inr (public_names types text))"

definition declared_ops :: "repository \<Rightarrow> string list py" where
  "declared_ops repo =
     bindE (header_names repo ''include/microllm/ops/ops.h'' ops_types) (\<lambda>ops.
     bindE (header_names repo ''include/microllm/ops/tuning.h'' tuning_types) (\<lambda>tuning. Inr (ops @ tuning)))"

definition covered_names :: "pyval \<Rightarrow> string \<Rightarrow> string \<Rightarrow> string list py" where
  "covered_names m k l = bindE (manifest_names m k) (\<lambda>xs. bindE (manifest_names m l) (\<lambda>ys. Inr (xs @ ys)))"

definition check_ops :: "repository \<Rightarrow> pyval \<Rightarrow> audit_error list py" where
  "check_ops repo m =
     bindE (declared_ops repo) (\<lambda>declared.
     bindE (covered_names m ''tensor_ops'' ''operator_infrastructure'') (\<lambda>covered. Inr (compare_names ''ops.h'' declared covered)))"

definition check_graph :: "repository \<Rightarrow> pyval \<Rightarrow> audit_error list py" where
  "check_graph repo m =
     bindE (header_names repo ''include/microllm/autograd/autograd.h'' graph_types) (\<lambda>declared.
     bindE (covered_names m ''graph_ops'' ''graph_infrastructure'') (\<lambda>covered. Inr (compare_names ''autograd.h'' declared covered)))"

definition check_weight_io :: "repository \<Rightarrow> audit_error list py" where
  "check_weight_io repo =
     bindE (header_names repo ''include/microllm/io/safetensors.h'' weight_io_types) (\<lambda>declared.
     Inr (compare_names ''safetensors.h'' declared expected_weight_io))"

definition check_weight_model :: "repository \<Rightarrow> audit_error list py" where
  "check_weight_model repo =
     bindE (header_names repo ''include/microllm/model/model.h'' weight_model_types) (\<lambda>declared.
     Inr (compare_names ''model weight API'' (filter (\<lambda>n. n \<noteq> ''to'') declared) expected_weight_model))"

section \<open>Test files and cases\<close>

text \<open>\<open>for name, test_file in MANIFEST[k].items(): if not (ROOT / test_file).is_file(): ...\<close>.\<close>

definition check_test_files :: "repository \<Rightarrow> pyval \<Rightarrow> string \<Rightarrow> audit_error list py" where
  "check_test_files repo m k =
     bindE (manifest_items m k) (\<lambda>items.
     bindE (mapM (\<lambda>(name, v). case v of
              VStr f \<Rightarrow> Inr (if map_of repo f = None then [MissingTest k name f] else [])
            | _ \<Rightarrow> Inl TypeError) items) (\<lambda>errors. Inr (concat errors)))"

fun in_text :: "string \<Rightarrow> string \<Rightarrow> bool" where
  "in_text c [] = (c = [])"
| "in_text c (x # xs) = (match_lit c (x # xs) \<noteq> None \<or> in_text c xs)"

text \<open>\<open>case not in parity_text or case not in oracle_text\<close>.\<close>

definition absent :: "string \<Rightarrow> string \<Rightarrow> pyval \<Rightarrow> bool py" where
  "absent parity oracle_src case_name =
     (case case_name of VStr c \<Rightarrow> Inr (\<not> in_text c parity \<or> \<not> in_text c oracle_src) | _ \<Rightarrow> Inl TypeError)"

definition text_of :: "pyval \<Rightarrow> string" where
  "text_of v = (case v of VStr s \<Rightarrow> s | _ \<Rightarrow> [])"

definition check_gate :: "string \<Rightarrow> string \<Rightarrow> string \<Rightarrow> pyval \<Rightarrow> string \<Rightarrow> audit_error list py" where
  "check_gate parity oracle_src name gates kind =
     bindE (py_get gates kind VNone) (\<lambda>c.
     if \<not> py_truthy c then Inr [NoGate name kind]
     else bindE (absent parity oracle_src c) (\<lambda>missing. Inr (if missing then [AbsentCase name kind (text_of c)] else [])))"

definition check_tensor_ops :: "string \<Rightarrow> string \<Rightarrow> pyval \<Rightarrow> audit_error list py" where
  "check_tensor_ops parity oracle_src m =
     bindE (manifest_items m ''tensor_ops'') (\<lambda>items.
     bindE (mapM (\<lambda>(name, gates). bindE (mapM (check_gate parity oracle_src name gates) [''torch'', ''shape'']) (\<lambda>es. Inr (concat es))) items)
       (\<lambda>errors. Inr (concat errors)))"

definition check_graph_ops :: "string \<Rightarrow> string \<Rightarrow> pyval \<Rightarrow> audit_error list py" where
  "check_graph_ops parity oracle_src m =
     bindE (manifest_items m ''graph_ops'') (\<lambda>items.
     bindE (mapM (\<lambda>(name, c). bindE (absent parity oracle_src c) (\<lambda>missing. Inr (if missing then [AbsentGraphCase name (text_of c)] else []))) items)
       (\<lambda>errors. Inr (concat errors)))"

definition check_integration :: "string \<Rightarrow> string \<Rightarrow> pyval \<Rightarrow> audit_error list py" where
  "check_integration parity oracle_src m =
     bindE (manifest_items m ''integration_oracles'') (\<lambda>items.
     bindE (mapM (\<lambda>(subsystem, cases). bindE (py_iter cases) (\<lambda>cs.
              bindE (mapM (\<lambda>c. bindE (absent parity oracle_src c) (\<lambda>missing.
                 Inr (if missing then [AbsentIntegration subsystem (text_of c)] else []))) cs) (\<lambda>es. Inr (concat es)))) items)
       (\<lambda>errors. Inr (concat errors)))"

section \<open>Discovered tests\<close>

fun path_parts :: "string \<Rightarrow> string list" where
  "path_parts [] = [[]]"
| "path_parts (c # cs) =
     (if c = CHR ''/'' then [] # path_parts cs
      else (case path_parts cs of p # ps \<Rightarrow> (c # p) # ps | [] \<Rightarrow> [[c]]))"

definition file_name :: "string \<Rightarrow> string" where
  "file_name path = last (path_parts path)"

definition ends_with :: "string \<Rightarrow> string \<Rightarrow> bool" where
  "ends_with e s \<longleftrightarrow> drop (length s - length e) s = e"

definition starts_with :: "string \<Rightarrow> string \<Rightarrow> bool" where
  "starts_with p s \<longleftrightarrow> take (length p) s = p"

definition is_test :: "string \<Rightarrow> bool" where
  "is_test path \<longleftrightarrow>
     \<not> starts_with ''build'' (hd (path_parts path)) \<and> ''.git'' \<notin> set (path_parts path) \<and> ''__pycache__'' \<notin> set (path_parts path) \<and>
     ((\<exists>e \<in> set [''_test.c'', ''_test.cc'', ''_test.cpp'', ''_test.cxx'']. ends_with e (file_name path)) \<or>
      starts_with ''test_'' (file_name path) \<and> ends_with ''.py'' (file_name path))"

definition discovered :: "repository \<Rightarrow> string list" where
  "discovered repo = filter is_test (remdups (map fst repo))"

fun join_lines :: "string list \<Rightarrow> string" where
  "join_lines [] = []"
| "join_lines [t] = t"
| "join_lines (t # ts) = t @ CHR 0x0A # join_lines ts"

definition cmake_text :: "repository \<Rightarrow> string" where
  "cmake_text repo = join_lines (map snd (filter (\<lambda>(p, t). file_name p = ''CMakeLists.txt'') repo))"

definition check_discovered :: "repository \<Rightarrow> pyval \<Rightarrow> audit_error list py" where
  "check_discovered repo m =
     bindE (manifest_names m ''test_files'') (\<lambda>listed. Inr (compare_names ''test file'' (discovered repo) listed))"

definition check_registered :: "repository \<Rightarrow> audit_error list" where
  "check_registered repo =
     map Unregistered (filter (\<lambda>p. \<not> in_text (file_name p) (cmake_text repo)) (sort (discovered repo)))"

section \<open>The audit\<close>

definition check_cases :: "repository \<Rightarrow> pyval \<Rightarrow> audit_error list py" where
  "check_cases repo m =
     bindE (read_text repo ''python/tests/test_operator_parity.py'') (\<lambda>parity.
     bindE (read_text repo ''tests/torch/operator_oracle.cpp'') (\<lambda>oracle_src.
     bindE (check_tensor_ops parity oracle_src m) (\<lambda>es1.
     bindE (check_graph_ops parity oracle_src m) (\<lambda>es2.
     bindE (check_integration parity oracle_src m) (\<lambda>es3. Inr (es1 @ es2 @ es3))))))"

definition audit :: "repository \<Rightarrow> pyval \<Rightarrow> audit_error list py" where
  "audit repo m =
     bindE (check_ops repo m) (\<lambda>ops.
     bindE (check_graph repo m) (\<lambda>graph.
     bindE (check_weight_io repo) (\<lambda>weight_io.
     bindE (check_weight_model repo) (\<lambda>weight_model.
     bindE (mapM (check_test_files repo m) [''weight_api'', ''profiling_api'', ''distributed_api'']) (\<lambda>files.
     bindE (check_cases repo m) (\<lambda>cases_errors.
     bindE (check_discovered repo m) (\<lambda>tests.
     Inr (ops @ graph @ weight_io @ weight_model @ concat files @ cases_errors @ tests @ check_registered repo))))))))"

text \<open>The counts of the last line: operators, graph operators, test files, each without repetition.\<close>

definition distinct_count :: "string list \<Rightarrow> nat" where
  "distinct_count xs = length (remdups xs)"

definition audit_main :: "repository \<Rightarrow> pyval \<Rightarrow> (nat \<times> nat \<times> nat) py" where
  "audit_main repo m =
     bindE (audit repo m) (\<lambda>errors.
     thenE (raise_if (errors \<noteq> []) (SystemExit 1))
    (bindE (covered_names m ''tensor_ops'' ''operator_infrastructure'') (\<lambda>ops.
     bindE (covered_names m ''graph_ops'' ''graph_infrastructure'') (\<lambda>graph.
     bindE (manifest_names m ''test_files'') (\<lambda>listed.
     Inr (distinct_count ops, distinct_count graph, distinct_count listed))))))"


section \<open>What a passing audit means\<close>

lemma mapM_concat_Nil: "mapM f xs = Inr ys \<Longrightarrow> concat ys = [] \<Longrightarrow> x \<in> set xs \<Longrightarrow> f x = Inr []"
  by (induction xs arbitrary: ys) (auto simp: bindE_Inr_iff)

lemma compare_names_Nil: "compare_names label xs ys = [] \<longleftrightarrow> set xs = set ys"
  by (simp add: compare_names_def)

lemma check_gate_Nil:
  assumes "check_gate parity oracle_src name gates kind = Inr []"
  shows "\<exists>c. py_get gates kind VNone = Inr (VStr c) \<and> c \<noteq> [] \<and> in_text c parity \<and> in_text c oracle_src"
  using assms by (auto simp: check_gate_def absent_def bindE_Inr_iff split: if_splits pyval.splits)

definition gated :: "string \<Rightarrow> string \<Rightarrow> string \<times> pyval \<Rightarrow> bool" where
  "gated parity oracle_src item \<longleftrightarrow>
     (\<forall>kind \<in> {''torch'', ''shape''}. \<exists>c. py_get (snd item) kind VNone = Inr (VStr c) \<and> c \<noteq> [] \<and> in_text c parity \<and> in_text c oracle_src)"

lemma check_tensor_ops_Nil:
  assumes "check_tensor_ops parity oracle_src m = Inr []"
  shows "\<exists>items. manifest_items m ''tensor_ops'' = Inr items \<and> (\<forall>item \<in> set items. gated parity oracle_src item)"
proof -
  let ?f = "\<lambda>(name, gates). bindE (mapM (check_gate parity oracle_src name gates) [''torch'', ''shape'']) (\<lambda>es. Inr (concat es))"
  obtain items errors where i: "manifest_items m ''tensor_ops'' = Inr items" and e: "mapM ?f items = Inr errors" "concat errors = []"
    using assms unfolding check_tensor_ops_def bindE_Inr_iff by blast
  have "gated parity oracle_src item" if "item \<in> set items" for item
  proof -
    obtain name gates where p: "item = (name, gates)" by (cases item)
    from mapM_concat_Nil [OF e that] obtain es where es: "mapM (check_gate parity oracle_src name gates) [''torch'', ''shape''] = Inr es" "concat es = []"
      by (auto simp: p bindE_Inr_iff)
    show ?thesis unfolding gated_def p snd_conv
    proof (intro ballI)
      fix kind assume "kind \<in> {''torch'', ''shape''}"
      then have "kind \<in> set [''torch'', ''shape'']" by simp
      from check_gate_Nil [OF mapM_concat_Nil [OF es this]]
      show "\<exists>c. py_get gates kind VNone = Inr (VStr c) \<and> c \<noteq> [] \<and> in_text c parity \<and> in_text c oracle_src" .
    qed
  qed
  then show ?thesis using i by blast
qed

definition audited :: "repository \<Rightarrow> pyval \<Rightarrow> bool" where
  "audited repo m \<longleftrightarrow>
     (\<exists>declared covered. declared_ops repo = Inr declared \<and> covered_names m ''tensor_ops'' ''operator_infrastructure'' = Inr covered \<and>
        set declared = set covered) \<and>
     (\<exists>parity oracle_src items. read_text repo ''python/tests/test_operator_parity.py'' = Inr parity \<and>
        read_text repo ''tests/torch/operator_oracle.cpp'' = Inr oracle_src \<and> manifest_items m ''tensor_ops'' = Inr items \<and>
        (\<forall>item \<in> set items. gated parity oracle_src item)) \<and>
     (\<exists>listed. manifest_names m ''test_files'' = Inr listed \<and> set listed = set (discovered repo)) \<and>
     (\<forall>p \<in> set (discovered repo). in_text (file_name p) (cmake_text repo))"

lemma check_ops_Nil:
  assumes "check_ops repo m = Inr []"
  shows "\<exists>declared covered. declared_ops repo = Inr declared \<and> covered_names m ''tensor_ops'' ''operator_infrastructure'' = Inr covered \<and>
    set declared = set covered"
  using assms by (auto simp: check_ops_def bindE_Inr_iff compare_names_Nil)

lemma check_discovered_Nil:
  assumes "check_discovered repo m = Inr []"
  shows "\<exists>listed. manifest_names m ''test_files'' = Inr listed \<and> set listed = set (discovered repo)"
  using assms by (auto simp: check_discovered_def bindE_Inr_iff compare_names_Nil)

lemma check_registered_Nil: "check_registered repo = [] \<Longrightarrow> p \<in> set (discovered repo) \<Longrightarrow> in_text (file_name p) (cmake_text repo)"
  by (auto simp: check_registered_def filter_empty_conv)

lemma check_cases_Nil:
  assumes "check_cases repo m = Inr []"
  shows "\<exists>parity oracle_src. read_text repo ''python/tests/test_operator_parity.py'' = Inr parity \<and>
    read_text repo ''tests/torch/operator_oracle.cpp'' = Inr oracle_src \<and> check_tensor_ops parity oracle_src m = Inr []"
  using assms unfolding check_cases_def bindE_Inr_iff by (metis append_is_Nil_conv sum.inject(2))

lemma audit_Nil:
  assumes "audit repo m = Inr []"
  shows "check_ops repo m = Inr [] \<and> check_cases repo m = Inr [] \<and> check_discovered repo m = Inr [] \<and> check_registered repo = []"
proof -
  obtain eops egraph eio emodel efiles ecases etests where a: "check_ops repo m = Inr eops" "check_cases repo m = Inr ecases"
    "check_discovered repo m = Inr etests" "[] = eops @ egraph @ eio @ emodel @ concat efiles @ ecases @ etests @ check_registered repo"
    using assms unfolding audit_def bindE_Inr_iff by (metis sum.inject(2))
  from a(4) have "eops = []" "ecases = []" "etests = []" "check_registered repo = []" by auto
  then show ?thesis using a(1-3) by simp
qed

text \<open>
  An audit that passes means: the operators the headers declare are exactly the ones the manifest covers;
  every tensor operator has a PyTorch case and a shape case, each named in both oracle sources; the test
  files of the manifest are the ones in the repository; and each of them is named in a CMake list.
\<close>

theorem passing_audit:
  assumes "audit_main repo m = Inr out"
  shows "audited repo m"
proof -
  have "audit repo m = Inr []" using assms by (auto simp: audit_main_def bindE_Inr_iff)
  from audit_Nil [OF this] have n: "check_ops repo m = Inr []" "check_cases repo m = Inr []" "check_discovered repo m = Inr []"
    "check_registered repo = []" by simp_all
  obtain parity oracle_src where c: "read_text repo ''python/tests/test_operator_parity.py'' = Inr parity"
    "read_text repo ''tests/torch/operator_oracle.cpp'' = Inr oracle_src" "check_tensor_ops parity oracle_src m = Inr []"
    using check_cases_Nil [OF n(2)] by blast
  show ?thesis unfolding audited_def
    using check_ops_Nil [OF n(1)] c(1,2) check_tensor_ops_Nil [OF c(3)] check_discovered_Nil [OF n(3)] check_registered_Nil [OF n(4)]
    by blast
qed

section \<open>A repository that passes\<close>

definition void_header :: "string list \<Rightarrow> string" where
  "void_header names = concat (map (\<lambda>n. print_declaration \<lparr>dc_type = ''void'', dc_name = n, dc_body = '')''\<rparr>) names)"

definition sample_repository :: repository where
  "sample_repository =
     [(''include/microllm/ops/ops.h'', void_header [''add'']), (''include/microllm/ops/tuning.h'', []),
      (''include/microllm/autograd/autograd.h'', []), (''include/microllm/io/safetensors.h'', void_header expected_weight_io),
      (''include/microllm/model/model.h'', void_header expected_weight_model), (''python/tests/test_operator_parity.py'', ''add bad_add''),
      (''tests/torch/operator_oracle.cpp'', ''bad_add''), (''CMakeLists.txt'', ''test_operator_parity.py'')]"

definition sample_manifest :: pyval where
  "sample_manifest =
     VDict [(''tensor_ops'', VDict [(''add'', VDict [(''torch'', VStr ''add''), (''shape'', VStr ''bad_add'')])]),
       (''operator_infrastructure'', VDict []), (''graph_ops'', VDict []), (''graph_infrastructure'', VDict []), (''weight_api'', VDict []),
       (''profiling_api'', VDict []), (''distributed_api'', VDict []), (''integration_oracles'', VDict []),
       (''test_files'', VList [VStr ''python/tests/test_operator_parity.py''])]"

lemma void_names:
  assumes "list_all type_ok types" and "''void'' \<in> set types" and "list_all name_ok names"
  shows "find_names (literals types) (void_header names) = names"
proof -
  let ?d = "\<lambda>n. \<lparr>dc_type = ''void'', dc_name = n, dc_body = '')''\<rparr>"
  have "list_all (declaration_ok types) (map ?d names)" using assms(2,3) by (simp add: list_all_iff declaration_ok_def)
  from scan_finds_declarations_aux [OF assms(1) this] show ?thesis by (simp add: void_header_def comp_def)
qed

lemma type_lists: "list_all type_ok [''StateDict'', ''SafetensorsIndex'', ''SafetensorsVisitReport'', ''bool'', ''std::vector<SafetensorsTensorInfo>'', ''void'']"
  "list_all type_ok [''io::StateDict'', ''LoadWeightsReport'', ''WeightMapping'', ''WeightAliases'', ''Int8WeightPreparationReport'',
      ''Bf16GroupedQkvPrewarmReport'', ''void'']"
  "list_all type_ok [''TensorPair'', ''TensorTriple'', ''Tensor'', ''Bf16FfnDiagnostics'', ''Fp8DispatchStats'', ''Fp8DynamicQuantStats'',
      ''Bf16PlanCacheStats'', ''bool'', ''AttentionLayoutPlanCacheStats'', ''Fp32MatmulSolutionKey'', ''Fp32MatmulSolutionStats'',
      ''Bf16GroupedQkvKey'', ''Bf16GroupedQkvStats'', ''Bf16GroupedGateUpKey'', ''Bf16GroupedGateUpStats'', ''MatmulImplementation'',
      ''AdamWTuningKey'', ''AdamWTuningCacheLoadReport'', ''AdamWImplementation'', ''AdamWMultiTensorStats'', ''std::size_t'', ''void'']"
  by code_simp+

lemma sample_names_ok: "list_all name_ok expected_weight_io" "list_all name_ok expected_weight_model" "list_all name_ok [''add'']"
  by code_simp+

lemma sample_headers:
  "find_names weight_io_types (void_header expected_weight_io) = expected_weight_io"
  "find_names weight_model_types (void_header expected_weight_model) = expected_weight_model"
  "find_names ops_types (void_header [''add'']) = [''add'']"
  unfolding weight_io_types_def weight_model_types_def ops_types_def
  by (intro void_names type_lists sample_names_ok; simp)+

lemma sample_texts:
  "read_text sample_repository ''include/microllm/ops/ops.h'' = Inr (void_header [''add''])"
  "read_text sample_repository ''include/microllm/ops/tuning.h'' = Inr []"
  "read_text sample_repository ''include/microllm/autograd/autograd.h'' = Inr []"
  "read_text sample_repository ''include/microllm/io/safetensors.h'' = Inr (void_header expected_weight_io)"
  "read_text sample_repository ''include/microllm/model/model.h'' = Inr (void_header expected_weight_model)"
  "read_text sample_repository ''python/tests/test_operator_parity.py'' = Inr ''add bad_add''"
  "read_text sample_repository ''tests/torch/operator_oracle.cpp'' = Inr ''bad_add''"
  by (simp_all add: read_text_def need_def sample_repository_def)

lemma sample_items:
  "manifest_items sample_manifest ''tensor_ops'' = Inr [(''add'', VDict [(''torch'', VStr ''add''), (''shape'', VStr ''bad_add'')])]"
  "manifest_items sample_manifest ''graph_ops'' = Inr []" "manifest_items sample_manifest ''integration_oracles'' = Inr []"
  "manifest_items sample_manifest ''weight_api'' = Inr []" "manifest_items sample_manifest ''profiling_api'' = Inr []"
  "manifest_items sample_manifest ''distributed_api'' = Inr []"
  "covered_names sample_manifest ''tensor_ops'' ''operator_infrastructure'' = Inr [''add'']"
  "covered_names sample_manifest ''graph_ops'' ''graph_infrastructure'' = Inr []"
  "manifest_names sample_manifest ''test_files'' = Inr [''python/tests/test_operator_parity.py'']"
  by (simp_all add: manifest_items_def manifest_names_def covered_names_def names_of_def py_iter_def sample_manifest_def py_getitem_def need_def)

lemma sample_discovered: "discovered sample_repository = [''python/tests/test_operator_parity.py'']"
  by code_simp

lemma sample_cmake: "cmake_text sample_repository = ''test_operator_parity.py''" "in_text ''test_operator_parity.py'' ''test_operator_parity.py''"
  "file_name ''python/tests/test_operator_parity.py'' = ''test_operator_parity.py''"
  by code_simp+

lemma sample_gates: "check_gate ''add bad_add'' ''bad_add'' ''add'' (VDict [(''torch'', VStr ''add''), (''shape'', VStr ''bad_add'')]) kind = Inr []"
  if "kind \<in> {''torch'', ''shape''}"
  using that by (auto simp: check_gate_def py_get_def absent_def match_lit_def)

lemma sample_passes: "audit sample_repository sample_manifest = Inr []"
proof -
  have "check_ops sample_repository sample_manifest = Inr []"
    by (simp add: check_ops_def declared_ops_def header_names_def sample_texts public_names_def sample_headers sample_items compare_names_def)
  moreover have "check_graph sample_repository sample_manifest = Inr []"
    by (simp add: check_graph_def header_names_def sample_texts public_names_def sample_items compare_names_def)
  moreover have "check_weight_io sample_repository = Inr []"
    by (simp add: check_weight_io_def header_names_def sample_texts public_names_def sample_headers compare_names_def)
  moreover have "''to'' \<notin> set expected_weight_model" by (simp add: expected_weight_model_def)
  then have "filter (\<lambda>n. n \<noteq> ''to'') expected_weight_model = expected_weight_model" by (auto simp: filter_id_conv)
  then have "set (filter (\<lambda>n. n \<noteq> ''to'') (remdups expected_weight_model)) = set expected_weight_model" by (metis set_filter set_remdups)
  then have "check_weight_model sample_repository = Inr []"
    by (simp add: check_weight_model_def header_names_def sample_texts public_names_def sample_headers compare_names_def)
  moreover have "check_cases sample_repository sample_manifest = Inr []"
    by (simp add: check_cases_def sample_texts check_tensor_ops_def check_graph_ops_def check_integration_def sample_items sample_gates)
  moreover have "check_discovered sample_repository sample_manifest = Inr []"
    by (simp add: check_discovered_def sample_items sample_discovered compare_names_def)
  moreover have "check_registered sample_repository = []"
    by (simp add: check_registered_def sample_discovered sample_cmake del: in_text.simps)
  ultimately show ?thesis by (simp add: audit_def check_test_files_def sample_items)
qed

theorem passing_audit_witness:
  "audit_main sample_repository sample_manifest = Inr (1, 0, 1) \<and> audited sample_repository sample_manifest"
proof -
  have "audit_main sample_repository sample_manifest = Inr (1, 0, 1)"
    by (simp add: audit_main_def sample_passes sample_items distinct_count_def)
  then show ?thesis using passing_audit by blast
qed

end
