(* ===== verification/PackageInit.thy ===== *)
theory PackageInit imports PyState begin

text \<open>
  \<open>python/microllm/__init__.py\<close>: the exported names and the module's \<open>__getattr__\<close>, which
  imports a submodule when one of its names is first read. Importing is a parameter: it gives the module's
  attributes or raises (\<open>_capi\<close> does when the library is not found). The state is the package's
  globals and the submodules imported so far.
\<close>

section \<open>Names\<close>

definition capi_names :: "string list" where
  "capi_names =
     [''DType'', ''Device'', ''Event'', ''Stream'', ''MicroLLMError'', ''Tensor'', ''add'', ''add_out'', ''causal_gqa_attention_out'',
      ''cross_entropy_out'', ''cross_entropy_backward_out'', ''embedding_out'', ''embedding_backward_add'', ''hip_device_count'', ''matmul'',
      ''matmul_out'', ''multiply'', ''multiply_out'', ''softmax'', ''softmax_out'', ''rms_norm_out'', ''rms_norm_backward_out'', ''rope_out'',
      ''rope_backward_out'', ''rms_norm_bf16_out'', ''swiglu_out'', ''swiglu_backward_out'', ''softmax_backward_out'']"

definition profiling_names :: "string list" where
  "profiling_names =
     [''HipEventProfileScope'', ''ProfileScope'', ''calibrate_python_rocprof_clock'', ''export_perfetto'', ''hip_event_profile_scope'',
      ''merge_rocprof_perfetto'', ''profile'', ''profile_scope'', ''roctx_available'']"

definition all_names :: "string list" where
  "all_names = sort (remdups (capi_names @ profiling_names @ [''torch_ops'']))"

section \<open>Attribute lookup\<close>

datatype 'v package_value = Member 'v | Module "(string \<times> 'v) list"

record 'v package =
  pk_globals :: "(string \<times> 'v package_value) list"
  pk_imported :: "string list"

type_synonym 'v importer = "string \<Rightarrow> (string \<times> 'v) list py"

definition import_module :: "'v importer \<Rightarrow> string \<Rightarrow> ('v package, (string \<times> 'v) list) action" where
  "import_module load m p =
     (case load m of Inl e \<Rightarrow> (Inl e, p) | Inr attrs \<Rightarrow> (Inr attrs, p\<lparr>pk_imported := pk_imported p @ [m]\<rparr>))"

definition set_global :: "string \<Rightarrow> 'v package_value \<Rightarrow> ('v package, 'v package_value) action" where
  "set_global name v p = (Inr v, p\<lparr>pk_globals := dict_set name v (pk_globals p)\<rparr>)"

definition member_of :: "'v importer \<Rightarrow> string \<Rightarrow> string \<Rightarrow> ('v package, 'v package_value) action" where
  "member_of load m name =
     bindS (import_module load m) (\<lambda>attrs.
     bindS (liftS (need AttributeError (map_of attrs name))) (\<lambda>v. set_global name (Member v)))"

definition package_getattr :: "'v importer \<Rightarrow> string \<Rightarrow> ('v package, 'v package_value) action" where
  "package_getattr load name =
     (if name \<in> set capi_names then member_of load ''_capi'' name
      else if name \<in> set profiling_names then member_of load ''profiling'' name
      else if name = ''torch_ops'' then bindS (import_module load ''torch_ops'') (\<lambda>attrs. set_global name (Module attrs))
      else liftS (Inl AttributeError))"

text \<open>Python asks \<open>__getattr__\<close> only for a name the globals do not have.\<close>

definition read_attribute :: "'v importer \<Rightarrow> string \<Rightarrow> ('v package, 'v package_value) action" where
  "read_attribute load name p =
     (case map_of (pk_globals p) name of Some v \<Rightarrow> (Inr v, p) | None \<Rightarrow> package_getattr load name p)"

section \<open>Properties\<close>

definition home_module :: "string \<Rightarrow> string" where
  "home_module name = (if name \<in> set capi_names then ''_capi'' else if name \<in> set profiling_names then ''profiling'' else ''torch_ops'')"

lemma names_disjoint: "set capi_names \<inter> set profiling_names = {}" "''torch_ops'' \<notin> set capi_names \<union> set profiling_names"
  by (simp_all add: capi_names_def profiling_names_def)

lemma set_all_names: "set all_names = set capi_names \<union> set profiling_names \<union> {''torch_ops''}"
  by (auto simp: all_names_def)

lemma getattr_effect:
  assumes "package_getattr load name p = (r, p')"
  shows "name \<notin> set all_names \<and> r = Inl AttributeError \<and> p' = p \<or>
     name \<in> set all_names \<and> set (pk_imported p') \<subseteq> insert (home_module name) (set (pk_imported p)) \<and>
       (case r of Inl e \<Rightarrow> pk_globals p' = pk_globals p
        | Inr v \<Rightarrow> pk_globals p' = dict_set name v (pk_globals p) \<and> pk_imported p' = pk_imported p @ [home_module name])"
proof -
  have member: "set (pk_imported p') \<subseteq> insert m (set (pk_imported p)) \<and>
       (case r of Inl e \<Rightarrow> pk_globals p' = pk_globals p
        | Inr v \<Rightarrow> pk_globals p' = dict_set name v (pk_globals p) \<and> pk_imported p' = pk_imported p @ [m])"
    if "member_of load m name p = (r, p')" for m
    using that by (cases "load m"; cases "map_of (projr (load m)) name")
       (auto simp: member_of_def import_module_def set_global_def bindS_def need_def)
  show ?thesis
    using assms member names_disjoint unfolding package_getattr_def home_module_def set_all_names
    by (cases "load ''torch_ops''") (auto simp: import_module_def set_global_def bindS_def split: if_splits)
qed

text \<open>
  Reading an exported name imports only the submodule it lives in, and once it has been read, reading it
  again gives the same value without importing anything; a name that is not exported and not set is an
  \<open>AttributeError\<close> that imports nothing.
\<close>

theorem attributes_are_lazy:
  assumes "read_attribute load name p = (r, p')"
  shows "(name \<notin> set all_names \<and> map_of (pk_globals p) name = None \<longrightarrow> r = Inl AttributeError \<and> p' = p) \<and>
     set (pk_imported p') \<subseteq> insert (home_module name) (set (pk_imported p)) \<and>
     (\<forall>v. r = Inr v \<longrightarrow> read_attribute load name p' = (Inr v, p'))"
proof (cases "map_of (pk_globals p) name")
  case None
  then have "package_getattr load name p = (r, p')" using assms by (simp add: read_attribute_def)
  then show ?thesis using getattr_effect [of load name p r p'] None by (auto simp: read_attribute_def)
next
  case (Some v)
  then show ?thesis using assms by (auto simp: read_attribute_def)
qed

theorem attributes_are_lazy_witness:
  "\<exists>p'. read_attribute (\<lambda>m. Inr [(''add'', 3 :: int)]) ''add'' \<lparr>pk_globals = [], pk_imported = []\<rparr> = (Inr (Member 3), p') \<and>
     read_attribute (\<lambda>m. Inr [(''add'', 3)]) ''add'' p' = (Inr (Member 3), p') \<and> set (pk_imported p') \<subseteq> {''_capi''}"
proof -
  obtain p' where r: "read_attribute (\<lambda>m. Inr [(''add'', 3 :: int)]) ''add'' \<lparr>pk_globals = [], pk_imported = []\<rparr> = (Inr (Member 3), p')"
    by (simp add: read_attribute_def package_getattr_def capi_names_def member_of_def import_module_def set_global_def bindS_def need_def)
  have "home_module ''add'' = ''_capi''" by (simp add: home_module_def capi_names_def)
  then show ?thesis using attributes_are_lazy [OF r] r by simp
qed

end
