(* ===== verification/PyStats.thy ===== *)
theory PyStats imports PyVal begin

text \<open>
  \<open>sorted\<close>, \<open>min\<close> and the means of the \<open>statistics\<close> module over lists of JSON
  values. Comparing a number with a string, or anything else with anything, raises; so does a sum
  over something that is not a number.
\<close>

definition py_sorted :: "pyval list \<Rightarrow> pyval list py" where
  "py_sorted xs =
     (if list_all is_number xs then Inr (sort_by val_lt xs)
      else if list_all is_str xs then Inr (sort_by (\<lambda>v w. py_lt v w = Inr True) xs)
      else if length xs < 2 then Inr xs else Inl TypeError)"

definition py_min :: "pyval list \<Rightarrow> pyval py" where
  "py_min xs =
     (case xs of [] \<Rightarrow> Inl (ValueError ''min() iterable argument is empty'')
      | y # ys \<Rightarrow> foldM (\<lambda>m z. bindE (py_lt z m) (\<lambda>b. Inr (if b then z else m))) y ys)"

definition py_median :: "pyval list \<Rightarrow> pyval py" where
  "py_median xs =
     bindE (py_sorted xs) (\<lambda>data.
     let n = length data; i = n div 2 in
     if n = 0 then Inl (ValueError ''no median for empty data'')
     else if odd n then Inr (data ! i)
     else bindE (py_add (data ! (i - 1)) (data ! i)) (\<lambda>s. py_truediv s (VInt 2)))"

text \<open>\<open>fsum\<close> adds exactly and rounds once; infinities of both signs have no sum.\<close>

definition py_fsum :: "pyfloat list \<Rightarrow> pyfloat py" where
  "py_fsum xs =
     (if PInf \<in> set xs \<and> NInf \<in> set xs then Inl (ValueError ''-inf + inf in fsum'')
      else if NaN \<in> set xs then Inr NaN
      else if PInf \<in> set xs then Inr PInf
      else if NInf \<in> set xs then Inr NInf
      else finite_or_overflow (rnd (sum_list (map (\<lambda>x. case x of Fin q \<Rightarrow> q | _ \<Rightarrow> 0) xs))))"

definition py_fmean :: "pyval list \<Rightarrow> pyfloat py" where
  "py_fmean vs =
     bindE (mapM (\<lambda>v. bindE (need TypeError (as_num v)) to_float) vs) (\<lambda>xs.
     bindE (py_fsum xs) (\<lambda>total.
     if xs = [] then Inl (ValueError ''fmean requires at least one data point'')
     else bindE (float_of_int (int (length xs))) (\<lambda>n. fdiv total n)))"

lemma py_sorted_set: "py_sorted xs = Inr ys \<Longrightarrow> mset ys = mset xs"
  by (auto simp: py_sorted_def split: if_splits)

lemma py_sorted_numbers: "list_all is_number xs \<Longrightarrow> py_sorted xs = Inr (sort_by val_lt xs)"
  by (simp add: py_sorted_def)

lemma py_sorted_length: "py_sorted xs = Inr ys \<Longrightarrow> length ys = length xs"
  using py_sorted_set [THEN arg_cong [where f = size]] by simp

lemma py_min_number:
  "list_all is_number xs \<Longrightarrow> xs \<noteq> [] \<Longrightarrow> py_min xs = Inr (min_by val_lt (hd xs) (tl xs))"
proof (cases xs)
  case (Cons x ys)
  have "foldM (\<lambda>m z. bindE (py_lt z m) (\<lambda>b. Inr (if b then z else m))) x ys = Inr (min_by val_lt x ys)"
    if "is_number x" "list_all is_number ys" for x ys
    using that by (induction ys arbitrary: x) (auto simp: py_lt_num)
  then show ?thesis if "list_all is_number xs" using that Cons by (simp add: py_min_def)
qed simp

end
