(* ===== verification/OptLog.thy ===== *)
theory OptLog imports PyText PyStats begin

text \<open>
  \<open>docs/optimization-log/scripts/validate_log.py\<close>, its first validators: the results ledger, the
  planned steps, the BF16 policy table, and the evidence of experiments 030 to 034. A validator
  appends the messages of what is wrong and gives its counts; what it cannot read raises. A table is the
  header and the row dicts of \<open>csv.DictReader\<close>, a JSON file the document \<open>json.loads\<close>
  gives, \<open>lf_pow\<close> is \<open>**\<close> on two floats, raising where its complex result could not be compared,
  \<open>lf_str\<close> the text an f-string gives a value that is no string. Record keys are compared by \<open>==\<close>.
\<close>

section \<open>Files\<close>

record table =
  tb_header :: "string list"
  tb_rows :: "pyval list"

record log_files =
  lf_table :: "string \<Rightarrow> table py"
  lf_lines :: "string \<Rightarrow> pyval py list py"
  lf_json :: "string \<Rightarrow> pyval py"
  lf_is_file :: "string \<Rightarrow> bool"
  lf_pow :: "pyfloat \<Rightarrow> pyfloat \<Rightarrow> pyfloat py"
  lf_str :: "pyval \<Rightarrow> string"

text \<open>What a validator adds to the errors, and what it returns.\<close>

type_synonym 'a noted = "(string list \<times> 'a) py"

definition note_if :: "bool \<Rightarrow> string \<Rightarrow> string list" where
  "note_if b message = (if b then [message] else [])"

definition note_rows :: "('a \<Rightarrow> string list py) \<Rightarrow> 'a list \<Rightarrow> string list py" where
  "note_rows f xs = bindE (mapM f xs) (\<lambda>ns. Inr (concat ns))"

section \<open>The text of a float\<close>

definition lower_char :: "char \<Rightarrow> char" where
  "lower_char c = (if CHR ''A'' \<le> c \<and> c \<le> CHR ''Z'' then char_of (of_char c + 32 :: nat) else c)"

definition digits_of :: "string \<Rightarrow> string option" where
  "digits_of s = (if s = [] then Some [] else if digits_ok False s then Some (filter is_digit s) else None)"

fun split_at_char :: "(char \<Rightarrow> bool) \<Rightarrow> string \<Rightarrow> string \<times> string option" where
  "split_at_char p [] = ([], None)"
| "split_at_char p (c # cs) =
     (if p c then ([], Some cs) else (case split_at_char p cs of (a, b) \<Rightarrow> (c # a, b)))"

text \<open>Decimal digits with a point: the integer the digits make, and how many follow the point.\<close>

definition parse_mantissa :: "string \<Rightarrow> (nat \<times> nat) option" where
  "parse_mantissa s =
     (case split_at_char (\<lambda>c. c = CHR ''.'') s of (whole, fraction) \<Rightarrow>
        (case (digits_of whole, digits_of (case fraction of None \<Rightarrow> [] | Some f \<Rightarrow> f)) of
           (Some w, Some f) \<Rightarrow> if w = [] \<and> f = [] then None else Some (nat_of_digits (w @ f), length f)
         | _ \<Rightarrow> None))"

definition parse_exponent :: "string \<Rightarrow> int option" where
  "parse_exponent s =
     (case s of [] \<Rightarrow> None
      | c # t \<Rightarrow>
          if c = CHR ''-'' then map_option (\<lambda>n. - int n) (parse_nat t)
          else if c = CHR ''+'' then map_option int (parse_nat t)
          else map_option int (parse_nat s))"

definition decimal_value :: "nat \<times> nat \<Rightarrow> int \<Rightarrow> rat" where
  "decimal_value m e =
     (let k = e - int (snd m) in if 0 \<le> k then of_nat (fst m) * 10 ^ nat k else of_nat (fst m) / 10 ^ nat (- k))"

definition parse_unsigned :: "string \<Rightarrow> pyfloat option" where
  "parse_unsigned s =
     (if map lower_char s \<in> {''inf'', ''infinity''} then Some PInf
      else if map lower_char s = ''nan'' then Some NaN
      else (case split_at_char (\<lambda>c. c = CHR ''e'' \<or> c = CHR ''E'') s of (mantissa, exponent) \<Rightarrow>
              (case (parse_mantissa mantissa, case exponent of None \<Rightarrow> Some 0 | Some e \<Rightarrow> parse_exponent e) of
                 (Some m, Some e) \<Rightarrow> Some (rnd (decimal_value m e))
               | _ \<Rightarrow> None)))"

definition float_of_str :: "string \<Rightarrow> pyfloat py" where
  "float_of_str s =
     need (ValueError ''could not convert string to float'')
       (case strip s of [] \<Rightarrow> None
        | c # t \<Rightarrow>
            if c = CHR ''-'' then map_option fneg (parse_unsigned t)
            else if c = CHR ''+'' then parse_unsigned t
            else parse_unsigned (c # t))"

definition py_float :: "pyval \<Rightarrow> pyfloat py" where
  "py_float v = (case v of VStr s \<Rightarrow> float_of_str s | _ \<Rightarrow> bindE (need TypeError (as_num v)) to_float)"

definition row_float :: "pyval \<Rightarrow> string \<Rightarrow> pyfloat py" where
  "row_float row k = bindE (py_getitem row k) py_float"

definition row_int :: "pyval \<Rightarrow> string \<Rightarrow> int py" where
  "row_int row k = bindE (py_getitem row k) py_int"

section \<open>The results ledger\<close>

definition expected_columns :: "string list" where
  "expected_columns =
     [''experiment'', ''commit'', ''date'', ''status'', ''score'', ''qwen_train'', ''qwen_generate'', ''deepseek_train'', ''deepseek_generate'',
      ''qwen_train_mem'', ''qwen_generate_mem'', ''deepseek_train_mem'', ''deepseek_generate_mem'', ''description'']"

definition statuses :: "string list" where
  "statuses = [''baseline'', ''keep'', ''discard'', ''crash'', ''invalid'']"

definition pad_left :: "nat \<Rightarrow> string \<Rightarrow> string" where
  "pad_left n s = replicate (n - length s) CHR ''0'' @ s"

text \<open>\<open>f'{n:03d}'\<close>.\<close>

definition three_digits :: "int \<Rightarrow> string" where
  "three_digits n = (if n < 0 then CHR ''-'' # pad_left 2 (str_int (- n)) else pad_left 3 (str_int n))"

definition bad_metric :: "pyfloat \<Rightarrow> bool" where
  "bad_metric x \<longleftrightarrow> \<not> is_finite_float x \<or> flt x (Fin 0)"

definition metric_columns :: "string list" where
  "metric_columns = take 9 (drop 4 expected_columns)"

definition millionth :: pyfloat where
  "millionth = rnd (1 / 1000000)"

definition expected_score :: "log_files \<Rightarrow> pyfloat list \<Rightarrow> pyfloat py" where
  "expected_score fs ratios =
     (if list_all (flt (Fin 0)) ratios then lf_pow fs (foldl fmul (Fin 1) ratios) (Fin (1 / 4)) else Inr (Fin 0))"

definition text_value :: "pyval \<Rightarrow> string \<Rightarrow> string py" where
  "text_value row k = bindE (py_getitem row k) (\<lambda>v. case v of VStr s \<Rightarrow> Inr s | _ \<Rightarrow> Inl TypeError)"

definition known_status :: "pyval \<Rightarrow> bool" where
  "known_status v \<longleftrightarrow> (case v of VStr s \<Rightarrow> s \<in> set statuses | _ \<Rightarrow> False)"

definition result_row :: "log_files \<Rightarrow> int list \<times> string list \<Rightarrow> pyval \<Rightarrow> (int list \<times> string list) py" where
  "result_row fs acc row =
     (case acc of (seen, errors) \<Rightarrow>
        bindE (row_int row ''experiment'') (\<lambda>e.
        bindE (py_getitem row ''status'') (\<lambda>status.
        bindE (mapM (row_float row) metric_columns) (\<lambda>values.
        bindE (mapM (row_float row) [''qwen_train'', ''qwen_generate'', ''deepseek_train'', ''deepseek_generate'']) (\<lambda>ratios.
        bindE (expected_score fs ratios) (\<lambda>expected.
        bindE (row_float row ''score'') (\<lambda>score.
        bindE (text_value row ''description'') (\<lambda>description.
        Inr (seen @ [e],
          errors @ note_if (e \<in> set seen) (''duplicate experiment: '' @ three_digits e) @
          note_if (\<not> known_status status) (''invalid status in experiment '' @ three_digits e) @
          note_if (list_ex bad_metric values) (''non-finite/negative metric in experiment '' @ three_digits e) @
          note_if (flt millionth (fabs (fsub score expected))) (''score mismatch in experiment '' @ three_digits e) @
          note_if (CHR 0x09 \<in> set description \<or> strip description = []) (''invalid description in experiment '' @ three_digits e))))))))))"

definition validate_results :: "log_files \<Rightarrow> nat noted" where
  "validate_results fs =
     bindE (lf_table fs ''results.tsv'') (\<lambda>t.
     if tb_header t \<noteq> expected_columns then Inr ([''results.tsv header does not match SCHEMA.md''], 0)
     else bindE (foldM (result_row fs) ([], []) (tb_rows t)) (\<lambda>(ordered, errors).
          Inr (errors @ note_if (ordered \<noteq> sort ordered) ''experiment numbers are not strictly increasing'', length (tb_rows t))))"

section \<open>Planned steps and the BF16 policy\<close>

definition step_names :: "string list" where
  "step_names =
     [''baseline'', ''parallel-cross-entropy'', ''transpose-aware-gemm'', ''parallel-rmsnorm'', ''device-kv-cache'', ''device-sampling'',
      ''memory-pool'', ''autograd-buffers'', ''batched-fmha'', ''fusion-autotune'', ''bf16'', ''fp8'', ''hip-graph-final'']"

definition step_files :: "string list" where
  "step_files = map (\<lambda>(i, n). pad_left 2 (str_nat i) @ ''-'' @ n @ ''.md'') (enumerate 0 step_names)"

definition validate_steps :: "log_files \<Rightarrow> string list \<times> nat" where
  "validate_steps fs =
     (concat (map (\<lambda>f. note_if (\<not> lf_is_file fs (''steps/'' @ f)) (''missing planned step: '' @ f)) step_files), length step_files)"

definition policy_columns :: "string list" where
  "policy_columns =
     [''model'', ''fp32_tokens_per_second'', ''bf16_policy_tokens_per_second'', ''throughput_ratio'', ''fp32_engine_bytes'',
      ''bf16_engine_bytes'', ''extra_engine_bytes'', ''exact_tokens'', ''decision'']"

definition one_of :: "string list \<Rightarrow> pyval \<Rightarrow> bool" where
  "one_of names v \<longleftrightarrow> (case v of VStr s \<Rightarrow> s \<in> set names | _ \<Rightarrow> False)"

text \<open>The model a message names; it is only looked up when there is something to say.\<close>

definition shown :: "log_files \<Rightarrow> pyval \<Rightarrow> string" where
  "shown fs v = (case v of VStr s \<Rightarrow> s | _ \<Rightarrow> lf_str fs v)"

definition note_model :: "log_files \<Rightarrow> pyval \<Rightarrow> bool \<Rightarrow> string \<Rightarrow> string list py" where
  "note_model fs row b message = (if b then bindE (py_getitem row ''model'') (\<lambda>m. Inr [message @ shown fs m]) else Inr [])"

definition policy_row :: "log_files \<Rightarrow> pyval \<Rightarrow> string list py" where
  "policy_row fs row =
     bindE (row_float row ''fp32_tokens_per_second'') (\<lambda>fp32.
     bindE (row_float row ''bf16_policy_tokens_per_second'') (\<lambda>candidate.
     bindE (row_float row ''throughput_ratio'') (\<lambda>ratio.
     bindE (fdiv candidate fp32) (\<lambda>quotient.
     bindE (note_model fs row (flt millionth (fabs (fsub ratio quotient))) ''BF16 policy ratio mismatch: '') (\<lambda>n1.
     bindE (row_int row ''fp32_engine_bytes'') (\<lambda>fp32_bytes.
     bindE (row_int row ''bf16_engine_bytes'') (\<lambda>candidate_bytes.
     bindE (row_int row ''extra_engine_bytes'') (\<lambda>extra_bytes.
     bindE (note_model fs row (extra_bytes \<noteq> candidate_bytes - fp32_bytes) ''BF16 policy memory mismatch: '') (\<lambda>n2.
     bindE (py_getitem row ''exact_tokens'') (\<lambda>exact.
     bindE (note_model fs row (\<not> one_of [''true'', ''false''] exact) ''BF16 policy token gate is invalid: '') (\<lambda>n3.
     bindE (py_getitem row ''decision'') (\<lambda>decision.
     bindE (note_model fs row (\<not> one_of [''keep'', ''discard''] decision) ''BF16 policy decision is invalid: '') (\<lambda>n4.
     Inr (n1 @ n2 @ n3 @ n4))))))))))))))"

definition validate_bf16_policy :: "log_files \<Rightarrow> nat noted" where
  "validate_bf16_policy fs =
     bindE (lf_table fs ''bf16-model-policy.tsv'') (\<lambda>t.
     if tb_header t \<noteq> policy_columns then Inr ([''bf16-model-policy.tsv header does not match its contract''], 0)
     else bindE (note_rows (policy_row fs) (tb_rows t)) (\<lambda>errors. Inr (errors, length (tb_rows t))))"


section \<open>Records and summaries\<close>

definition json_lines :: "log_files \<Rightarrow> string \<Rightarrow> pyval list py" where
  "json_lines fs path = bindE (lf_lines fs path) (mapM id)"

text \<open>A value that can be an element of a set: no list and no dict.\<close>

definition hashable :: "pyval \<Rightarrow> pyval py" where
  "hashable v = (if is_list v \<or> is_dict v then Inl TypeError else Inr v)"

definition key_tuple :: "string list \<Rightarrow> pyval \<Rightarrow> pyval list py" where
  "key_tuple columns row = bindE (mapM (py_getitem row) columns) (mapM hashable)"

fun distinct_keys :: "pyval list list \<Rightarrow> nat" where
  "distinct_keys [] = 0"
| "distinct_keys (k # ks) = (if \<exists>j \<in> set ks. list_all2 py_eq k j then distinct_keys ks else Suc (distinct_keys ks))"

definition key_count :: "string list \<Rightarrow> pyval list \<Rightarrow> nat py" where
  "key_count columns rows = bindE (mapM (key_tuple columns) rows) (\<lambda>ks. Inr (distinct_keys ks))"

text \<open>\<open>summary.get('rows', [])\<close>, its length and its elements.\<close>

definition summary_rows :: "pyval \<Rightarrow> pyval list py" where
  "summary_rows summary = bindE (py_get summary ''rows'' (VList [])) py_iter"

definition truthy_at :: "pyval \<Rightarrow> string \<Rightarrow> bool py" where
  "truthy_at row k = bindE (py_getitem row k) (\<lambda>v. Inr (py_truthy v))"

definition no_exact_tokens :: "pyval \<Rightarrow> bool py" where
  "no_exact_tokens row = bindE (py_get row ''exact_expected_tokens'' VNone) (\<lambda>v. Inr (\<not> py_truthy v))"

text \<open>\<open>row[k] > x\<close> and its kin; \<open>a >= b\<close> is \<open>b <= a\<close> on numbers.\<close>

definition above :: "pyval \<Rightarrow> string \<Rightarrow> pyfloat \<Rightarrow> bool py" where
  "above row k x = bindE (py_getitem row k) (\<lambda>v. py_gt v (VFloat x))"

definition at_least :: "pyval \<Rightarrow> string \<Rightarrow> pyfloat \<Rightarrow> bool py" where
  "at_least row k x = bindE (py_getitem row k) (\<lambda>v. py_le (VFloat x) v)"

definition at_most :: "pyval \<Rightarrow> string \<Rightarrow> pyfloat \<Rightarrow> bool py" where
  "at_most row k x = bindE (py_getitem row k) (\<lambda>v. py_le v (VFloat x))"

definition below :: "pyval \<Rightarrow> string \<Rightarrow> pyfloat \<Rightarrow> bool py" where
  "below row k x = bindE (py_getitem row k) (\<lambda>v. py_lt v (VFloat x))"

definition not_at :: "pyval \<Rightarrow> string \<Rightarrow> pyval \<Rightarrow> bool py" where
  "not_at row k w = bindE (py_getitem row k) (\<lambda>v. Inr (py_ne v w))"

definition experiment_file :: "string \<Rightarrow> string \<Rightarrow> string" where
  "experiment_file number name = ''experiments/'' @ number @ ''-data/'' @ name"

definition when_bad :: "bool py \<Rightarrow> string \<Rightarrow> string list py" where
  "when_bad b message = bindE b (\<lambda>bad. Inr (note_if bad message))"

definition when_bad_model :: "log_files \<Rightarrow> pyval \<Rightarrow> bool py \<Rightarrow> string \<Rightarrow> string list py" where
  "when_bad_model fs row b message = bindE b (\<lambda>bad. note_model fs row bad message)"

text \<open>The messages of one check after another.\<close>

definition in_order :: "string list py list \<Rightarrow> string list py" where
  "in_order checks = bindE (mapM id checks) (\<lambda>ns. Inr (concat ns))"

section \<open>Experiments 030 to 039\<close>

definition ffn_record :: "pyval \<Rightarrow> string list py" where
  "ffn_record row =
     in_order [when_bad (notM (truthy_at row ''accuracy_passed'')) ''BF16 FFN raw record failed accuracy'',
       when_bad (orM (not_at row ''host_to_device_calls_measured'' (VInt 0)) (not_at row ''device_to_host_calls_measured'' (VInt 0)))
         ''BF16 FFN measured region contains a host payload transfer'']"

text \<open>\<open>summary.get('track') != track or len(summary.get('rows', [])) != n\<close>.\<close>

definition wrong_summary :: "pyval \<Rightarrow> string \<Rightarrow> nat \<Rightarrow> bool py" where
  "wrong_summary summary track n =
     orM (bindE (py_get summary ''track'' VNone) (\<lambda>v. Inr (py_ne v (VStr track))))
         (bindE (bindE (py_get summary ''rows'' (VList [])) py_len) (\<lambda>k. Inr (k \<noteq> int n)))"

definition row_count_not :: "pyval \<Rightarrow> nat \<Rightarrow> bool py" where
  "row_count_not summary n = bindE (bindE (py_get summary ''rows'' (VList [])) py_len) (\<lambda>k. Inr (k \<noteq> int n))"

definition validate_bf16_ffn :: "log_files \<Rightarrow> nat noted" where
  "validate_bf16_ffn fs =
     bindE (json_lines fs (experiment_file ''030'' ''raw.jsonl'')) (\<lambda>records.
     bindE (key_count [''model'', ''tokens'', ''path'', ''process_run''] records) (\<lambda>keys.
     bindE (note_rows ffn_record records) (\<lambda>per_record.
     bindE (lf_json fs (experiment_file ''030'' ''summary.json'')) (\<lambda>summary.
     bindE (when_bad (wrong_summary summary ''bf16_ffn'' 4) ''BF16 FFN summary does not contain the fixed four-row matrix'') (\<lambda>last_note.
     Inr (note_if (length records \<noteq> 36) (''BF16 FFN raw record count is '' @ str_nat (length records) @ '', expected 36'') @
          note_if (keys \<noteq> length records) ''BF16 FFN raw records contain duplicate workload/run keys'' @ per_record @ last_note,
          length records))))))"

definition model_summary_row :: "log_files \<Rightarrow> pyval \<Rightarrow> string list py" where
  "model_summary_row fs row =
     when_bad_model fs row (orM (at_least row ''current_memory_ratio'' (Fin 1)) (at_most row ''decode_speedup'' (Fin 1)))
       ''BF16 official-model self-baseline gate failed: ''"

definition preparation_row :: "log_files \<Rightarrow> pyval \<Rightarrow> string list py" where
  "preparation_row fs row =
     bindE (py_getitem row ''fp32_weight_bytes'') (\<lambda>a. bindE (py_getitem row ''bf16_weight_bytes_retained'') (\<lambda>b.
     bindE (py_add a b) (\<lambda>expected_peak.
     in_order [when_bad_model fs row (not_at row ''preparation_peak_bytes'' expected_peak) ''BF16 preparation peak formula changed: '',
       when_bad_model fs row (bindE (py_getitem row ''preparation_current_bytes'') (\<lambda>v. bindE (py_getitem row ''resident_weight_bytes'') (\<lambda>w. Inr (py_ne v w))))
         ''BF16 preparation retained-byte mismatch: ''])))"

definition policy_is :: "string \<Rightarrow> pyval \<Rightarrow> bool py" where
  "policy_is p row = bindE (py_getitem row ''policy'') (\<lambda>v. Inr (py_eq v (VStr p)))"

definition validate_bf16_models :: "log_files \<Rightarrow> nat noted" where
  "validate_bf16_models fs =
     bindE (json_lines fs (experiment_file ''031'' ''raw.jsonl'')) (\<lambda>records.
     bindE (key_count [''model'', ''policy'', ''process_run''] records) (\<lambda>keys.
     bindE (when_bad (anyM no_exact_tokens records) ''BF16 official-model record lacks exact expected token evidence'') (\<lambda>n1.
     bindE (filterM (policy_is ''bf16_ffn'') records) (\<lambda>micro_bf16.
     bindE (when_bad (anyM (\<lambda>row. above row ''max_abs_logit_difference_vs_fp32_run1'' (rnd (2 / 10))) micro_bf16)
              ''BF16 official-model max logit difference exceeds 0.2'') (\<lambda>n2.
     bindE (lf_json fs (experiment_file ''031'' ''summary.json'')) (\<lambda>summary.
     bindE (when_bad (wrong_summary summary ''bf16_ffn_official_models'' 2) ''BF16 official-model summary does not contain two model rows'') (\<lambda>n3.
     bindE (bindE (summary_rows summary) (note_rows (model_summary_row fs))) (\<lambda>n4.
     bindE (json_lines fs (experiment_file ''031'' ''preparation-smoke.jsonl'')) (\<lambda>preparation.
     bindE (note_rows (preparation_row fs) preparation) (\<lambda>n5.
     Inr (note_if (length records \<noteq> 18) (''BF16 official-model record count is '' @ str_nat (length records) @ '', expected 18'') @
          note_if (keys \<noteq> length records) ''BF16 official-model records contain duplicate keys'' @ n1 @ n2 @ n3 @ n4 @
          note_if (length preparation \<noteq> 2) ''BF16 preparation smoke must contain two model rows'' @ n5,
          length records)))))))))))"

text \<open>\<open>{row['model']: row for row in rows}\<close>: a later row of a model replaces an earlier one.\<close>

definition by_model :: "pyval list \<Rightarrow> (pyval \<times> pyval) list py" where
  "by_model rows = mapM (\<lambda>row. bindE (bindE (py_getitem row ''model'') hashable) (\<lambda>m. Inr (m, row))) rows"

definition model_row :: "(pyval \<times> pyval) list \<Rightarrow> pyval \<Rightarrow> pyval py" where
  "model_row table m = need (KeyError ''model'') (case filter (\<lambda>(k, row). py_eq k m) (rev table) of [] \<Rightarrow> None | (k, row) # rest \<Rightarrow> Some row)"

definition scaled :: "pyval \<Rightarrow> string \<Rightarrow> pyfloat \<Rightarrow> pyval py" where
  "scaled row k x = bindE (py_getitem row k) (\<lambda>v. py_mul v (VFloat x))"

definition prefill_row :: "log_files \<Rightarrow> (pyval \<times> pyval) list \<Rightarrow> pyval \<Rightarrow> string list py" where
  "prefill_row fs before row =
     bindE (bindE (bindE (py_getitem row ''model'') hashable) (model_row before)) (\<lambda>old.
     in_order [
       when_bad_model fs row
         (bindE (py_getitem row ''bf16_ffn_prefill_tokens_per_second'') (\<lambda>v.
          bindE (scaled old ''bf16_ffn_prefill_tokens_per_second'' (rnd (14 / 10))) (py_le v))) ''BF16 prefill gain is below retained gate: '',
       when_bad_model fs row
         (bindE (py_getitem row ''bf16_ffn_decode_tokens_per_second'') (\<lambda>v.
          bindE (scaled old ''bf16_ffn_decode_tokens_per_second'' (rnd (95 / 100))) (py_lt v))) ''BF16 decode regressed over 5%: ''])"

definition validate_bf16_prefill :: "log_files \<Rightarrow> nat noted" where
  "validate_bf16_prefill fs =
     bindE (json_lines fs (experiment_file ''032'' ''raw.jsonl'')) (\<lambda>records.
     bindE (key_count [''model'', ''policy'', ''process_run''] records) (\<lambda>keys.
     bindE (when_bad (orM (Inr (keys \<noteq> length records)) (anyM no_exact_tokens records)) ''BF16 prefill records lack unique exact-token keys'') (\<lambda>n1.
     bindE (bindE (lf_json fs (experiment_file ''031'' ''summary.json'')) (\<lambda>before. bindE (bindE (py_getitem before ''rows'') py_iter) by_model)) (\<lambda>before_by_model.
     bindE (lf_json fs (experiment_file ''032'' ''summary.json'')) (\<lambda>after.
     bindE (when_bad (row_count_not after 2) ''BF16 prefill summary must contain two rows'') (\<lambda>n2.
     bindE (bindE (summary_rows after) (note_rows (prefill_row fs before_by_model))) (\<lambda>n3.
     Inr (note_if (length records \<noteq> 12) (''BF16 prefill record count is '' @ str_nat (length records) @ '', expected 12'') @ n1 @ n2 @ n3,
          length records))))))))"

definition call_total :: "table \<Rightarrow> int py" where
  "call_total t = bindE (mapM (\<lambda>row. row_int row ''Calls'') (tb_rows t)) (\<lambda>cs. Inr (sum_list cs))"

text \<open>Both tables of a profile are read before either is added up.\<close>

definition profile_calls :: "log_files \<Rightarrow> string \<Rightarrow> string \<Rightarrow> (int \<times> int) py" where
  "profile_calls fs number folder =
     bindE (lf_table fs (experiment_file number (folder @ ''kernel-stats.csv''))) (\<lambda>kernel_rows.
     bindE (lf_table fs (experiment_file number (folder @ ''hip-api-stats.csv''))) (\<lambda>api_rows.
     bindE (call_total kernel_rows) (\<lambda>kernel_calls.
     bindE (call_total api_rows) (\<lambda>api_calls. Inr (kernel_calls, api_calls)))))"

text \<open>\<open>calls != summary.get(key) or calls != n\<close>.\<close>

definition calls_differ :: "int \<Rightarrow> pyval \<Rightarrow> string \<Rightarrow> int \<Rightarrow> bool py" where
  "calls_differ calls summary k n = bindE (py_get summary k VNone) (\<lambda>v. Inr (py_ne (VInt calls) v \<or> calls \<noteq> n))"

definition gemm_changed :: "pyval \<Rightarrow> bool py" where
  "gemm_changed summary =
     bindE (bindE (py_get summary ''categories'' (VDict [])) (\<lambda>cs. py_get cs ''gemm'' (VDict []))) (\<lambda>gemm.
     orM (bindE (py_get gemm ''calls'' VNone) (\<lambda>c. Inr (py_ne c (VInt 3743))))
         (bindE (py_get gemm ''kernel_time_percent'' (VInt 0)) (\<lambda>p.
          bindE (py_sub p (VFloat (rnd (67638 / 1000)))) (\<lambda>d. bindE (py_abs d) (\<lambda>a. py_gt a (VFloat (rnd (1 / 1000))))))))"

definition validate_decode_profile :: "log_files \<Rightarrow> (int \<times> int) noted" where
  "validate_decode_profile fs =
     bindE (profile_calls fs ''033'' []) (\<lambda>(kernel_calls, api_calls).
     bindE (lf_json fs (experiment_file ''033'' ''profile-summary.json'')) (\<lambda>summary.
     bindE (in_order [
         when_bad (calls_differ kernel_calls summary ''kernel_dispatches'' 10038) ''DeepSeek decode kernel aggregate does not match summary'',
         when_bad (calls_differ api_calls summary ''hip_api_calls'' 147537) ''DeepSeek decode HIP API aggregate does not match summary'',
         when_bad (gemm_changed summary) ''DeepSeek decode GEMM category changed'']) (\<lambda>ns.
     Inr (ns, (kernel_calls, api_calls)))))"

definition attention_candidate :: "pyval \<Rightarrow> bool py" where
  "attention_candidate row = bindE (py_get row ''record_type'' VNone) (\<lambda>v. Inr (py_eq v (VStr ''bf16_attention_candidate'')))"

definition attention_row :: "log_files \<Rightarrow> pyval \<Rightarrow> string list py" where
  "attention_row fs row =
     when_bad_model fs row (orsM [at_most row ''decode_speedup_vs_bf16_ffn'' (Fin 1), below row ''prefill_speedup_vs_bf16_ffn'' (rnd (95 / 100)),
         notM (truthy_at row ''all_exact_expected_tokens'')]) ''BF16 Attention keep gate failed: ''"

definition validate_bf16_attention :: "log_files \<Rightarrow> nat noted" where
  "validate_bf16_attention fs =
     bindE (json_lines fs (experiment_file ''034'' ''raw.jsonl'')) (\<lambda>records.
     bindE (filterM attention_candidate records) (\<lambda>candidates.
     bindE (when_bad (orM (Inr (length candidates \<noteq> 6)) (anyM no_exact_tokens candidates))
              ''BF16 Attention candidate rows lack exact-token evidence'') (\<lambda>n1.
     bindE (key_count [''model'', ''process_run''] candidates) (\<lambda>keys.
     bindE (lf_json fs (experiment_file ''034'' ''summary.json'')) (\<lambda>summary.
     bindE (when_bad (row_count_not summary 2) ''BF16 Attention summary must contain two rows'') (\<lambda>n2.
     bindE (bindE (summary_rows summary) (note_rows (attention_row fs))) (\<lambda>n3.
     bindE (lf_lines fs (experiment_file ''034'' ''naive-pilot.jsonl'')) (\<lambda>pilot.
     Inr (note_if (length records \<noteq> 8) (''BF16 Attention raw count is '' @ str_nat (length records) @ '', expected 8'') @ n1 @
          note_if (keys \<noteq> 6) ''BF16 Attention candidate process keys are not unique'' @ n2 @ n3 @
          note_if (length pilot \<noteq> 2) ''BF16 Attention naive pilot must contain two rows'',
          length records)))))))))"

end
