(* ===== verification/OptLogMore.thy ===== *)
theory OptLogMore imports OptLog begin

text \<open>
  The validators of experiments 035 to 039, and what a ledger without complaints is: experiment numbers
  strictly increase, statuses are known, and metrics are finite and not negative.
\<close>

section \<open>Experiments 035 to 039\<close>

definition path_at :: "pyval \<Rightarrow> string list \<Rightarrow> pyval py" where
  "path_at v ks = foldM py_getitem v ks"

definition calls_changed :: "int \<Rightarrow> pyval \<Rightarrow> string \<Rightarrow> int \<Rightarrow> bool py" where
  "calls_changed calls summary k n =
     orM (Inr (calls \<noteq> n)) (bindE (py_get summary k VNone) (\<lambda>v. Inr (py_ne v (VInt calls))))"

definition validate_post_attention_profile :: "log_files \<Rightarrow> (int \<times> int) noted" where
  "validate_post_attention_profile fs =
     bindE (profile_calls fs ''035'' []) (\<lambda>(kernel_calls, api_calls).
     bindE (lf_json fs (experiment_file ''035'' ''profile-summary.json'')) (\<lambda>summary.
     bindE (in_order [
         when_bad (calls_changed kernel_calls summary ''kernel_dispatches'' 11214) ''post-Attention kernel aggregate mismatch'',
         when_bad (calls_changed api_calls summary ''hip_api_calls'' 152850) ''post-Attention HIP API aggregate mismatch'',
         when_bad (bindE (path_at summary [''categories'', ''gemm'', ''calls'']) (\<lambda>v. Inr (py_ne v (VInt 3743)))) ''post-Attention GEMM count changed''])
       (\<lambda>ns. Inr (ns, (kernel_calls, api_calls)))))"

definition plan_cache_row :: "log_files \<Rightarrow> pyval \<Rightarrow> string list py" where
  "plan_cache_row fs row =
     when_bad_model fs row
       (bindE (mapM (py_getitem row) [''decode_speedup_vs_bf16_attention'', ''prefill_speedup_vs_bf16_attention'',
                ''decode_ratio_vs_pytorch_bf16'', ''prefill_ratio_vs_pytorch_bf16'']) (\<lambda>vs.
        bindE (py_min vs) (\<lambda>m. py_le m (VFloat (Fin 1))))) ''BF16 plan-cache keep gate failed: ''"

definition validate_bf16_plan_cache :: "log_files \<Rightarrow> nat noted" where
  "validate_bf16_plan_cache fs =
     bindE (json_lines fs (experiment_file ''036'' ''raw.jsonl'')) (\<lambda>records.
     bindE (filterM attention_candidate records) (\<lambda>candidates.
     bindE (when_bad (anyM no_exact_tokens candidates) ''BF16 plan-cache candidate lacks exact-token evidence'') (\<lambda>n1.
     bindE (lf_json fs (experiment_file ''036'' ''summary.json'')) (\<lambda>summary.
     bindE (when_bad (row_count_not summary 2) ''BF16 plan-cache summary must contain two rows'') (\<lambda>n2.
     bindE (bindE (summary_rows summary) (note_rows (plan_cache_row fs))) (\<lambda>n3.
     Inr (note_if (length records \<noteq> 8 \<or> length candidates \<noteq> 6) ''BF16 plan-cache raw matrix must contain 8/6 total/candidate rows'' @ n1 @ n2 @ n3,
          length records)))))))"

text \<open>\<open>not row.get('parameter_changed') or not math.isfinite(float(row['final_loss']))\<close>.\<close>

definition no_finite_update :: "pyval \<Rightarrow> bool py" where
  "no_finite_update row =
     orM (bindE (py_get row ''parameter_changed'' VNone) (\<lambda>v. Inr (\<not> py_truthy v)))
         (bindE (row_float row ''final_loss'') (\<lambda>x. Inr (\<not> is_finite_float x)))"

definition training_row :: "log_files \<Rightarrow> pyval \<Rightarrow> string list py" where
  "training_row fs row =
     when_bad_model fs row (orsM [at_most row ''microllm_bf16_ratio_vs_pytorch_bf16_amp'' (Fin 1), at_least row ''bf16_speedup_vs_microllm_fp32'' (Fin 1),
         not_at row ''bf16_peak_ratio_vs_microllm_fp32'' (VFloat (Fin 1)),
         bindE (py_getitem row ''microllm_bf16_final_loss'') (\<lambda>last_loss. bindE (py_getitem row ''microllm_bf16_first_loss'') (\<lambda>first_loss.
           py_le first_loss last_loss))]) ''BF16 training evidence boundary changed: ''"

definition validate_bf16_training :: "log_files \<Rightarrow> nat noted" where
  "validate_bf16_training fs =
     bindE (json_lines fs (experiment_file ''037'' ''raw.jsonl'')) (\<lambda>records.
     bindE (key_count [''model'', ''policy'', ''process_run''] records) (\<lambda>keys.
     bindE (when_bad (anyM no_finite_update records) ''BF16 training record lacks a finite parameter update'') (\<lambda>n1.
     bindE (lf_json fs (experiment_file ''037'' ''summary.json'')) (\<lambda>summary.
     bindE (when_bad (row_count_not summary 2) ''BF16 training summary must contain two rows'') (\<lambda>n2.
     bindE (bindE (summary_rows summary) (note_rows (training_row fs))) (\<lambda>n3.
     bindE (lf_json fs (experiment_file ''037'' ''pytorch-native-bf16-failure.json'')) (\<lambda>failure.
     bindE (when_bad (bindE (py_get failure ''status'' VNone) (\<lambda>v. Inr (py_ne v (VStr ''failed''))))
              ''native PyTorch BF16 parameter failure is missing'') (\<lambda>n4.
     Inr (note_if (length records \<noteq> 18) (''BF16 training raw count is '' @ str_nat (length records) @ '', expected 18'') @
          note_if (keys \<noteq> 18) ''BF16 training process keys are not unique'' @ n1 @ n2 @ n3 @ n4,
          length records)))))))))"

text \<open>One policy of the training profile: its calls, compared with its part of the summary.\<close>

definition profile_policy :: "log_files \<Rightarrow> pyval \<Rightarrow> string \<Rightarrow> (int \<times> int) noted" where
  "profile_policy fs summary policy =
     bindE (profile_calls fs ''038'' (policy @ ''/'')) (\<lambda>(kernel_calls, api_calls).
     bindE (py_getitem summary (if policy = ''bf16'' then ''bf16_fp32_master'' else ''fp32'')) (\<lambda>expected.
     bindE (when_bad (orM (not_at expected ''kernel_dispatches'' (VInt kernel_calls)) (not_at expected ''hip_api_calls'' (VInt api_calls)))
              (''BF16 training '' @ policy @ '' profiler aggregate mismatch'')) (\<lambda>ns.
     Inr (ns, (kernel_calls, api_calls)))))"

definition validate_bf16_training_profile :: "log_files \<Rightarrow> (int \<times> int) noted" where
  "validate_bf16_training_profile fs =
     bindE (lf_json fs (experiment_file ''038'' ''profile-summary.json'')) (\<lambda>summary.
     bindE (profile_policy fs summary ''fp32'') (\<lambda>(n1, k1, a1).
     bindE (profile_policy fs summary ''bf16'') (\<lambda>(n2, k2, a2).
     Inr (n1 @ n2, (k1 + k2, a1 + a2)))))"

text \<open>\<open>math.prod(ratios) ** 0.5 >= 1.0\<close> for the two ratios of the summary.\<close>

definition prod_of :: "pyval list \<Rightarrow> pyval py" where
  "prod_of vs = foldM py_mul (VInt 1) vs"

definition qkv_boundary :: "log_files \<Rightarrow> pyval list \<Rightarrow> bool py" where
  "qkv_boundary fs ratios =
     (if length ratios = 2
      then bindE (prod_of ratios) (\<lambda>p. bindE (bindE (need TypeError (as_num p)) to_float) (\<lambda>x.
           bindE (lf_pow fs x (Fin (1 / 2))) (\<lambda>mean. Inr (fle (Fin 1) mean))))
      else Inr False)"

definition validate_bf16_training_qkv :: "log_files \<Rightarrow> nat noted" where
  "validate_bf16_training_qkv fs =
     bindE (json_lines fs (experiment_file ''039'' ''raw.jsonl'')) (\<lambda>records.
     bindE (when_bad (orM (Inr (length records \<noteq> 6)) (bindE (key_count [''model'', ''process_run''] records) (\<lambda>k. Inr (k \<noteq> 6))))
              ''BF16 training QKV raw matrix must contain six unique rows'') (\<lambda>n1.
     bindE (lf_json fs (experiment_file ''039'' ''summary.json'')) (\<lambda>summary.
     bindE (when_bad (row_count_not summary 2) ''BF16 training QKV summary must contain two rows'') (\<lambda>n2.
     bindE (bindE (summary_rows summary) (mapM (\<lambda>row. py_getitem row ''speedup_vs_bf16_independent_linears''))) (\<lambda>ratios.
     bindE (when_bad (qkv_boundary fs ratios) ''BF16 training QKV discard boundary changed'') (\<lambda>n3.
     Inr (n1 @ n2 @ n3, length records)))))))"

section \<open>A ledger without complaints\<close>

lemma note_if_Nil [simp]: "note_if b m = [] \<longleftrightarrow> \<not> b"
  by (simp add: note_if_def)

definition row_good :: "pyval \<Rightarrow> bool" where
  "row_good row \<longleftrightarrow>
     (\<exists>status values. py_getitem row ''status'' = Inr status \<and> known_status status \<and>
        mapM (row_float row) metric_columns = Inr values \<and> (\<forall>v \<in> set values. is_finite_float v \<and> \<not> flt v (Fin 0)))"

lemma result_row_clean:
  assumes "result_row fs (seen, errors) row = Inr (seen', [])"
  shows "\<exists>e. row_int row ''experiment'' = Inr e \<and> seen' = seen @ [e] \<and> e \<notin> set seen \<and> errors = [] \<and> row_good row"
proof -
  obtain e status vals ratios expected score description where
    p: "row_int row ''experiment'' = Inr e" "py_getitem row ''status'' = Inr status" "mapM (row_float row) metric_columns = Inr vals"
    and r: "(seen @ [e],
          errors @ note_if (e \<in> set seen) (''duplicate experiment: '' @ three_digits e) @
          note_if (\<not> known_status status) (''invalid status in experiment '' @ three_digits e) @
          note_if (list_ex bad_metric vals) (''non-finite/negative metric in experiment '' @ three_digits e) @
          note_if (flt millionth (fabs (fsub score expected))) (''score mismatch in experiment '' @ three_digits e) @
          note_if (CHR 0x09 \<in> set description \<or> strip description = []) (''invalid description in experiment '' @ three_digits e)) = (seen', [])"
    using assms unfolding result_row_def prod.case bindE_Inr_iff sum.inject by blast
  have "list_all (\<lambda>v. is_finite_float v \<and> \<not> flt v (Fin 0)) vals"
    using r by (auto simp: list_all_iff list_ex_iff bad_metric_def)
  then have "row_good row" unfolding row_good_def using p r by (auto simp: list_all_iff)
  then show ?thesis using p(1) r by auto
qed

lemma result_row_grows: "result_row fs (seen, errors) row = Inr (seen', errors') \<Longrightarrow> errors' = [] \<Longrightarrow> errors = []"
  using result_row_clean by blast

lemma results_clean:
  assumes "foldM (result_row fs) (seen, errors) rows = Inr (seen', [])" and "distinct seen"
  shows "errors = [] \<and> distinct seen' \<and> (\<exists>es. mapM (\<lambda>row. row_int row ''experiment'') rows = Inr es \<and> seen' = seen @ es) \<and>
     (\<forall>row \<in> set rows. row_good row)"
  using assms
proof (induction rows arbitrary: seen errors)
  case (Cons row rows)
  obtain s1 e1 where step: "result_row fs (seen, errors) row = Inr (s1, e1)" and rest: "foldM (result_row fs) (s1, e1) rows = Inr (seen', [])"
    using Cons.prems(1) by (auto simp: bindE_Inr_iff)
  show ?case
  proof (cases "e1 = []")
    case True
    obtain e where e: "row_int row ''experiment'' = Inr e" "s1 = seen @ [e]" "e \<notin> set seen" "errors = []" "row_good row"
      using result_row_clean step True by blast
    have "distinct s1" using e Cons.prems(2) by simp
    from Cons.IH [OF rest this] show ?thesis using e by auto
  next
    case False
    have "\<not> (foldM (result_row fs) (s1, e1) rows = Inr (seen', []))"
    proof -
      have "e1 = []" if "foldM (result_row fs) (s1, e1) rows = Inr (seen', [])" for s1 e1
        using that
      proof (induction rows arbitrary: s1 e1)
        case (Cons r rs)
        then show ?case using result_row_grows by (fastforce simp: bindE_Inr_iff)
      qed simp
      then show ?thesis using False by blast
    qed
    then show ?thesis using rest by blast
  qed
qed simp

text \<open>
  C36. When the ledger check has nothing to say, the ledger has the documented columns, its experiment
  numbers strictly increase, every status is one of the five, and every metric is finite and not negative.
  No two checks are redundant: that the numbers are sorted alone would let one repeat.
\<close>

theorem clean_ledger:
  assumes "validate_results fs = Inr ([], n)" and "lf_table fs ''results.tsv'' = Inr t"
  shows "tb_header t = expected_columns \<and> n = length (tb_rows t) \<and>
     (\<exists>es. mapM (\<lambda>row. row_int row ''experiment'') (tb_rows t) = Inr es \<and> sorted_wrt (<) es) \<and> (\<forall>row \<in> set (tb_rows t). row_good row)"
proof -
  have h: "tb_header t = expected_columns" using assms by (auto simp: validate_results_def split: if_splits)
  obtain ordered errors where f: "foldM (result_row fs) ([], []) (tb_rows t) = Inr (ordered, errors)"
    and r: "errors @ note_if (ordered \<noteq> sort ordered) ''experiment numbers are not strictly increasing'' = []" "n = length (tb_rows t)"
    using assms h by (auto simp: validate_results_def bindE_Inr_iff)
  have "foldM (result_row fs) ([], []) (tb_rows t) = Inr (ordered, [])" "sorted ordered" using f r(1) by (auto, metis sorted_sort)
  from results_clean [OF this(1)] this(2) show ?thesis using h r(2) by (auto simp: strict_sorted_iff)
qed

section \<open>Numbers in a table\<close>

lemma digit_not_special: "is_digit c \<Longrightarrow> c \<noteq> CHR ''.'' \<and> c \<noteq> CHR ''e'' \<and> c \<noteq> CHR ''E''"
  by (auto simp: is_digit_def less_eq_char_def)

lemma split_absent: "(\<And>c. c \<in> set s \<Longrightarrow> \<not> p c) \<Longrightarrow> split_at_char p s = (s, None)"
  by (induction s) simp_all

lemma parse_unsigned_nat: "parse_unsigned (str_nat n) = Some (rnd (of_nat n))"
proof -
  have ok: "str_nat n \<noteq> []" "\<forall>c \<in> set (str_nat n). is_digit c" "nat_of_digits (str_nat n) = n" using str_nat_ok by blast+
  obtain c cs where s: "str_nat n = c # cs" using ok(1) by (cases "str_nat n") auto
  have "is_digit c" using ok(2) s by simp
  then have "lower_char c = c" "is_digit (lower_char c)" by (auto simp: lower_char_def is_digit_def less_eq_char_def)
  then have not_name: "map lower_char (str_nat n) \<notin> {''inf'', ''infinity'', ''nan''}"
    using s by (auto simp: is_digit_def less_eq_char_def)
  have e: "split_at_char (\<lambda>c. c = CHR ''e'' \<or> c = CHR ''E'') (str_nat n) = (str_nat n, None)"
    and p: "split_at_char (\<lambda>c. c = CHR ''.'') (str_nat n) = (str_nat n, None)"
    using ok(2) digit_not_special by (auto intro!: split_absent)
  have f: "filter is_digit (str_nat n) = str_nat n" using ok(2) by (simp add: filter_id_conv)
  have "parse_mantissa (str_nat n) = Some (n, 0)"
    using ok by (simp add: parse_mantissa_def p digits_of_def digits_ok_digits f)
  then show ?thesis using not_name by (simp add: parse_unsigned_def e decimal_value_def)
qed

lemma digit_not_sign: "is_digit c \<Longrightarrow> c \<noteq> CHR ''-'' \<and> c \<noteq> CHR ''+''"
  by (auto simp: is_digit_def less_eq_char_def)

text \<open>
  Integers survive the table: the text of an integer a double can hold exactly is read back as that number
  by \<open>float\<close>, as it is by \<open>int\<close>.
\<close>

lemma float_of_str_int: "\<bar>i\<bar> < 2 ^ 53 \<Longrightarrow> float_of_str (str_int i) = Inr (Fin (of_int i))"
proof -
  assume small: "\<bar>i\<bar> < 2 ^ 53"
  obtain c cs where s: "str_nat (nat \<bar>i\<bar>) = c # cs" using str_nat_ok by (cases "str_nat (nat \<bar>i\<bar>)") blast+
  have d: "is_digit c" "is_digit (last (c # cs))" using str_nat_ok [of "nat \<bar>i\<bar>"] s by auto
  have r: "rnd (of_nat (nat \<bar>i\<bar>)) = Fin (of_int \<bar>i\<bar>)" using rnd_of_int [of "\<bar>i\<bar>"] small by simp
  show ?thesis
  proof (cases "i < 0")
    case True
    have t: "str_int i = CHR ''-'' # c # cs" using True s by (simp add: str_int_def)
    have "strip (str_int i) = str_int i"
      unfolding t using d is_digit_not_space by (intro strip_id) (auto simp: is_space_def)
    then show ?thesis using True r by (simp add: float_of_str_def t s [symmetric] parse_unsigned_nat need_def)
  next
    case False
    have t: "str_int i = c # cs" using False s by (simp add: str_int_def)
    have "strip (str_int i) = str_int i" unfolding t using d is_digit_not_space by (intro strip_id) auto
    moreover have "parse_unsigned (c # cs) = Some (Fin (of_int i))"
      using parse_unsigned_nat [of "nat \<bar>i\<bar>"] r False unfolding s by simp
    ultimately show ?thesis using digit_not_sign [OF d(1)] by (simp add: float_of_str_def t need_def)
  qed
qed

section \<open>A clean ledger\<close>

definition zero_row :: "string \<Rightarrow> pyval" where
  "zero_row number =
     VDict (map (\<lambda>k. (k, VStr (if k = ''experiment'' then number else if k = ''status'' then ''keep'' else ''0''))) expected_columns)"

definition sample_log :: log_files where
  "sample_log =
     \<lparr>lf_table = (\<lambda>p. if p = ''results.tsv'' then Inr \<lparr>tb_header = expected_columns, tb_rows = [zero_row ''1'', zero_row ''2'']\<rparr> else Inl (OSError p)),
      lf_lines = (\<lambda>p. Inl (OSError p)), lf_json = (\<lambda>p. Inl (OSError p)), lf_is_file = (\<lambda>p. False), lf_pow = (\<lambda>x y. Inr x), lf_str = (\<lambda>v. [])\<rparr>"

lemma zero_text: "float_of_str ''0'' = Inr (Fin 0)"
proof -
  have "str_int 0 = ''0''" by code_simp
  then show ?thesis using float_of_str_int [of 0] by simp
qed

lemma log_ints: "int_of_str ''1'' = Inr 1" "int_of_str ''2'' = Inr 2"
  by code_simp+

lemma millionth_nonneg: "\<not> flt millionth (Fin 0)"
proof -
  have "fle (Fin 0) (rnd (1 / 1000000))" by (rule rnd_nonneg) simp
  then show ?thesis by (cases "rnd (1 / 1000000)") (auto simp: millionth_def fle_def)
qed

lemma zero_row_clean:
  assumes "int_of_str n = Inr e" and "e \<notin> set seen"
  shows "result_row sample_log (seen, []) (zero_row n) = Inr (seen @ [e], [])"
  using assms millionth_nonneg
  by (simp add: result_row_def row_int_def row_float_def zero_row_def expected_columns_def metric_columns_def py_getitem_def need_def
      py_int_def py_float_def zero_text expected_score_def text_value_def known_status_def statuses_def bad_metric_def strip_def
      is_space_def note_if_def sample_log_def fsub_def)

lemma sample_validates: "validate_results sample_log = Inr ([], 2)"
proof -
  have t: "lf_table sample_log ''results.tsv'' = Inr \<lparr>tb_header = expected_columns, tb_rows = [zero_row ''1'', zero_row ''2'']\<rparr>"
    by (simp add: sample_log_def)
  show ?thesis
    by (simp add: validate_results_def t zero_row_clean [OF log_ints(1), of "[]"] zero_row_clean [OF log_ints(2), of "[1]"] note_if_def)
qed

theorem clean_ledger_witness:
  "\<exists>es. mapM (\<lambda>row. row_int row ''experiment'') [zero_row ''1'', zero_row ''2''] = Inr es \<and> sorted_wrt (<) es \<and> row_good (zero_row ''2'')"
proof -
  have t: "lf_table sample_log ''results.tsv'' = Inr \<lparr>tb_header = expected_columns, tb_rows = [zero_row ''1'', zero_row ''2'']\<rparr>"
    by (simp add: sample_log_def)
  from clean_ledger [OF sample_validates t] show ?thesis by auto
qed

end
