(* ===== verification/LinkCheck.thy ===== *)
theory LinkCheck imports OptLog begin

text \<open>
  \<open>validate_links\<close> of \<open>docs/optimization-log/scripts/validate_log.py\<close>: every relative link of
  every document names a file. \<open>LINK.findall\<close> is the matcher \<open>find_links\<close>: neither repetition of
  the expression can match the character that must follow it, so the matcher never goes back. The documents are
  those \<open>rglob\<close> finds, sorted; \<open>li_unescape\<close> and \<open>li_unquote\<close> are the two library
  decoders, \<open>li_exists\<close> answers whether a path relative to a document's directory names a file. Texts
  are ASCII.
\<close>

section \<open>Links of a text\<close>

text \<open>What follows an opening bracket: a label, then a target in parentheses, and the text after it.\<close>

definition match_target :: "string \<Rightarrow> (string \<times> string) option" where
  "match_target cs =
     (case dropWhile (\<lambda>c. c \<noteq> CHR '']'') cs of
        b # p # rest \<Rightarrow>
          if p = CHR ''('' \<and> takeWhile (\<lambda>c. c \<noteq> CHR '')'') rest \<noteq> []
          then (case dropWhile (\<lambda>c. c \<noteq> CHR '')'') rest of
                  [] \<Rightarrow> None
                | e # after \<Rightarrow> Some (takeWhile (\<lambda>c. c \<noteq> CHR '')'') rest, after))
          else None
      | _ \<Rightarrow> None)"

lemma match_target_shorter: "match_target cs = Some (t, after) \<Longrightarrow> length after < length cs"
proof -
  assume m: "match_target cs = Some (t, after)"
  then obtain b p rest e where d: "dropWhile (\<lambda>c. c \<noteq> CHR '']'') cs = b # p # rest" "dropWhile (\<lambda>c. c \<noteq> CHR '')'') rest = e # after"
    by (auto simp: match_target_def split: list.splits if_splits)
  have "length (b # p # rest) \<le> length cs" "length (e # after) \<le> length rest" using length_dropWhile_le d by metis+
  then show ?thesis by simp
qed

text \<open>\<open>banged\<close>: the character before is an exclamation mark, so a bracket here opens an image.\<close>

function find_links :: "bool \<Rightarrow> string \<Rightarrow> string list" where
  "find_links banged [] = []"
| "find_links banged (c # cs) =
     (if c = CHR ''['' \<and> \<not> banged
      then (case match_target cs of None \<Rightarrow> find_links False cs | Some (t, after) \<Rightarrow> t # find_links False after)
      else find_links (c = CHR ''!'') cs)"
  by pat_completeness auto
termination by (relation "measure (length \<circ> snd)") (auto dest: match_target_shorter)

section \<open>The check\<close>

record link_site =
  li_documents :: "(string \<times> string py) list"
  li_unescape :: "string \<Rightarrow> string"
  li_unquote :: "string \<Rightarrow> string"
  li_exists :: "string \<Rightarrow> string \<Rightarrow> bool"

definition strip_angles :: "string \<Rightarrow> string" where
  "strip_angles s =
     (let angle = (\<lambda>c. c = CHR ''<'' \<or> c = CHR ''>'') in rev (dropWhile angle (rev (dropWhile angle s))))"

text \<open>\<open>raw.strip().split(maxsplit=1)[0]\<close>: a blank text has no first word.\<close>

definition first_word :: "string \<Rightarrow> string py" where
  "first_word raw =
     (let s = strip raw in if s = [] then Inl IndexError else Inr (takeWhile (\<lambda>c. \<not> is_space c) s))"

definition link_target :: "link_site \<Rightarrow> string \<Rightarrow> string py" where
  "link_target li raw = bindE (first_word raw) (\<lambda>w. Inr (li_unescape li (strip_angles w)))"

definition starts_with :: "string \<Rightarrow> string \<Rightarrow> bool" where
  "starts_with p s \<longleftrightarrow> take (length p) s = p"

definition not_a_file :: "string \<Rightarrow> bool" where
  "not_a_file target \<longleftrightarrow> target = [] \<or> list_ex (\<lambda>p. starts_with p target) [''#'', ''http://'', ''https://'', ''mailto:'']"

definition target_path :: "link_site \<Rightarrow> string \<Rightarrow> string" where
  "target_path li target = li_unquote li (takeWhile (\<lambda>c. c \<noteq> CHR ''#'') target)"

text \<open>The messages about one link, and whether it counts as checked.\<close>

definition check_link :: "link_site \<Rightarrow> string \<Rightarrow> string \<Rightarrow> nat noted" where
  "check_link li document raw =
     bindE (link_target li raw) (\<lambda>target.
     Inr (if not_a_file target then ([], 0)
          else (note_if (\<not> li_exists li document (target_path li target)) (''broken link in '' @ document @ '': '' @ target), 1)))"

definition check_document :: "link_site \<Rightarrow> string \<times> string py \<Rightarrow> nat noted" where
  "check_document li entry =
     (case entry of (document, content) \<Rightarrow>
        bindE content (\<lambda>s.
        bindE (mapM (check_link li document) (find_links False s)) (\<lambda>rs. Inr (concat (map fst rs), sum_list (map snd rs)))))"

definition validate_links :: "link_site \<Rightarrow> nat noted" where
  "validate_links li =
     bindE (mapM (check_document li) (li_documents li)) (\<lambda>rs. Inr (concat (map fst rs), sum_list (map snd rs)))"

section \<open>Links as they are printed\<close>

text \<open>A piece of a document: text without brackets, then a link or an image.\<close>

record link_piece =
  pc_before :: string
  pc_image :: bool
  pc_label :: string
  pc_target :: string

definition print_piece :: "link_piece \<Rightarrow> string" where
  "print_piece p =
     pc_before p @ (if pc_image p then ''!'' else []) @ CHR ''['' # pc_label p @ CHR '']'' # CHR ''('' # pc_target p @ [CHR '')'']"

definition piece_ok :: "link_piece \<Rightarrow> bool" where
  "piece_ok p \<longleftrightarrow>
     CHR ''['' \<notin> set (pc_before p) \<and> (pc_before p = [] \<or> last (pc_before p) \<noteq> CHR ''!'') \<and> CHR '']'' \<notin> set (pc_label p) \<and>
     pc_target p \<noteq> [] \<and> CHR '')'' \<notin> set (pc_target p) \<and>
     (pc_image p \<longrightarrow> CHR ''['' \<notin> set (pc_label p) \<and> CHR ''['' \<notin> set (pc_target p))"

lemma dropWhile_to: "c \<notin> set u \<Longrightarrow> dropWhile (\<lambda>x. x \<noteq> c) (u @ c # v) = c # v"
  and takeWhile_to: "c \<notin> set u \<Longrightarrow> takeWhile (\<lambda>x. x \<noteq> c) (u @ c # v) = u"
  by (induction u) auto

lemma match_target_printed:
  "CHR '']'' \<notin> set l \<Longrightarrow> t \<noteq> [] \<Longrightarrow> CHR '')'' \<notin> set t \<Longrightarrow>
   match_target (l @ CHR '']'' # CHR ''('' # t @ CHR '')'' # v) = Some (t, v)"
  by (simp add: match_target_def dropWhile_to takeWhile_to)

lemma find_links_text:
  "CHR ''['' \<notin> set u \<Longrightarrow> find_links b (u @ v) = find_links (if u = [] then b else last u = CHR ''!'') v"
  by (induction u arbitrary: b) auto

lemma find_links_piece:
  assumes "piece_ok p"
  shows "find_links False (print_piece p @ v) = (if pc_image p then [] else [pc_target p]) @ find_links False v"
proof -
  note ok = assms [unfolded piece_ok_def]
  let ?link = "pc_label p @ CHR '']'' # CHR ''('' # pc_target p @ CHR '')'' # v"
  have b: "find_links False (pc_before p @ w) = find_links False w" for w using ok by (subst find_links_text) auto
  show ?thesis
  proof (cases "pc_image p")
    case True
    have "find_links False (pc_label p @ CHR '']'' # CHR ''('' # w) = find_links False w" for w
      using ok True by (subst find_links_text) auto
    moreover have "find_links False (pc_target p @ CHR '')'' # v) = find_links False v"
      using ok True by (subst find_links_text) auto
    ultimately show ?thesis using True by (simp add: print_piece_def b)
  next
    case False
    have "match_target ?link = Some (pc_target p, v)" using ok by (intro match_target_printed) auto
    then show ?thesis using False by (simp add: print_piece_def b)
  qed
qed

lemma links_of_printed:
  assumes "list_all piece_ok ps" and "CHR ''['' \<notin> set tail"
  shows "find_links False (concat (map print_piece ps) @ tail) = map pc_target (filter (\<lambda>p. \<not> pc_image p) ps)"
  using assms(1)
proof (induction ps)
  case Nil
  show ?case using find_links_text [OF assms(2), of False "[]"] by simp
next
  case (Cons p ps)
  then show ?case using find_links_piece [of p "concat (map print_piece ps) @ tail"] by simp
qed

section \<open>What the check shows\<close>

lemma mapM_noted: "mapM f xs = Inr rs \<Longrightarrow> concat (map fst rs) = [] \<Longrightarrow> x \<in> set xs \<Longrightarrow> \<exists>n. f x = Inr ([], n)"
proof -
  assume m: "mapM f xs = Inr rs" and c: "concat (map fst rs) = []" and x: "x \<in> set xs"
  obtain r where r: "f x = Inr r" "r \<in> set rs" using mapM_setI [OF m x] by blast
  then have "fst r = []" using c by simp
  then show ?thesis using r(1) by (cases r) simp
qed



section \<open>A log with a link, an image and an address\<close>

definition sample_pieces :: "link_piece list" where
  "sample_pieces =
     [\<lparr>pc_before = ''see '', pc_image = False, pc_label = ''the plan'', pc_target = ''../PLAN.md#goals''\<rparr>,
      \<lparr>pc_before = '' and '', pc_image = True, pc_label = ''chart'', pc_target = ''missing.svg''\<rparr>,
      \<lparr>pc_before = '', '', pc_image = False, pc_label = ''rocm'', pc_target = ''https://rocm.docs.amd.com/''\<rparr>]"

definition sample_site :: link_site where
  "sample_site =
     \<lparr>li_documents = [(''README.md'', Inr (concat (map print_piece sample_pieces) @ ''.''))], li_unescape = id, li_unquote = id,
      li_exists = (\<lambda>d p. p = ''../PLAN.md'')\<rparr>"

lemma sample_pieces_ok: "list_all piece_ok sample_pieces"
  by (simp add: sample_pieces_def piece_ok_def)

lemma sample_site_checks: "validate_links sample_site = Inr ([], 1)"
proof -
  have f: "find_links False (concat (map print_piece sample_pieces) @ ''.'') = [''../PLAN.md#goals'', ''https://rocm.docs.amd.com/'']"
    by (subst links_of_printed [OF sample_pieces_ok]) (simp_all add: sample_pieces_def)
  have "check_link sample_site d ''../PLAN.md#goals'' = Inr ([], 1)" "check_link sample_site d ''https://rocm.docs.amd.com/'' = Inr ([], 0)" for d
    by (simp_all add: sample_site_def check_link_def link_target_def first_word_def strip_def is_space_def strip_angles_def
        not_a_file_def starts_with_def target_path_def note_if_def)
  then show ?thesis by (simp add: validate_links_def check_document_def f sample_site_def [THEN arg_cong [where f = li_documents]])
qed


end
