(* ===== verification/AlignPath.thy ===== *)
theory AlignPath imports TorchSample begin

text \<open>
  The path of a trace from the PyTorch runner to the comparison: the values file the command of
  \<open>pytorch_runner.py\<close> leaves is one \<open>compare.py\<close> loads and can compare with any trace of the
  other side.
\<close>

section \<open>The values file\<close>

text \<open>A file that holds the records of a well-formed session with these checkpoints.\<close>

definition session_file :: "outdir \<Rightarrow> string \<Rightarrow> checkpoint list \<Rightarrow> bool" where
  "session_file d name plan \<longleftrightarrow>
     (\<exists>s. map_of d name = Some (VList (ts_records s)) \<and> session_ok s \<and> checkpoints s = plan)"

lemma trace_values_session:
  assumes "trace_values a (model_forward tp ps tokens c) wd = (Inr x, wd')" and "0 < pr_max_captured a" and "pr_max_captured a < 2 ^ 53"
  shows "session_file (snd wd') ''pytorch_values.jsonl'' (forward_plan c)"
proof -
  define s0 where "s0 = (make_session a ''values'' True True True True)\<lparr>ts_iteration := 0\<rparr>"
  obtain y s wd1 where p: "with_session s0 (model_forward tp ps tokens c) wd = (Inr (y, s), wd1)"
    and w: "write_trace ''pytorch_values.jsonl'' s wd1 = (Inr x, wd')"
    using assms(1) by (auto simp: trace_values_def bindS_Inr s0_def)
  have "session_ok s0" using assms(2,3) by (simp add: s0_def make_session_def new_session_def session_ok_def)
  moreover have "model_forward tp ps tokens c (s0, fst wd) = (Inr y, (s, fst wd1))" using p by (simp add: with_session_Inr)
  ultimately have ok: "session_ok s" using keeps_forward unfolding keeps_session_def by fastforce
  have "wanted s0 plan = plan" for plan by (simp add: s0_def session_switches)
  then have "checkpoints s = forward_plan c" using session_pass [OF logs_forward p] by (simp add: s0_def fresh_session)
  then show ?thesis using ok w by (auto simp: session_file_def write_trace_Inr)
qed

lemma session_file_kept: "map_of d' name = map_of d name \<Longrightarrow> session_file d' name plan = session_file d name plan"
  by (simp add: session_file_def)

lemma inference_session:
  assumes "run_inference tp a (model_forward tp ps tokens c) wd = (Inr x, wd')" and "0 < pr_max_captured a" and "pr_max_captured a < 2 ^ 53"
  shows "session_file (snd wd') ''pytorch_values.jsonl'' (forward_plan c)"
proof -
  let ?f = "model_forward tp ps tokens c"
  obtain wd0 wd4 where i0: "on_world (tp_inference tp True) wd = (Inr (), wd0)"
    and body: "thenS (warm_up a ?f) (thenS (trace_values a ?f) (thenS (time_operators a ?f) (time_layers a ?f))) wd0 = (Inr x, wd4)"
    and i1: "on_world (tp_inference tp False) wd4 = (Inr (), wd')"
    using assms(1) unfolding run_inference_def inference_mode_def bindS_Inr [of "on_world (tp_inference tp True)"]
    by (auto dest!: finallyS_Inr)
  obtain wd1 wd2 wd3 where v: "trace_values a ?f wd1 = (Inr (), wd2)" and o: "time_operators a ?f wd2 = (Inr (), wd3)"
    and l: "time_layers a ?f wd3 = (Inr x, wd4)"
    using body unfolding bindS_Inr by (metis old.unit.exhaust)
  have "map_of (snd wd') ''pytorch_values.jsonl'' = map_of (snd wd2) ''pytorch_values.jsonl''"
    using writes_file [OF writes_operators [OF logs_forward] o] writes_file [OF writes_layers [OF logs_forward] l] i1
    by (simp add: on_world_Inr)
  then show ?thesis using trace_values_session [OF v assms(2,3)] session_file_kept by blast
qed

lemma runner_session:
  assumes "runner_main tp input a0 wd = (Inr out, wd')" and "pr_max_captured a0 < 2 ^ 53"
  shows "\<exists>a ps c tokens targets. runner_inputs tp input a0 = Inr (a, ps, c, tokens, targets) \<and>
     session_file (snd wd') ''pytorch_values.jsonl'' (forward_plan c)"
proof -
  obtain a ps c tokens targets where inputs: "runner_inputs tp input a0 = Inr (a, ps, c, tokens, targets)"
    and m: "bindS (run_inference tp a (model_forward tp ps tokens c)) (\<lambda>_.
     bindS (run_training tp a ps (\<lambda>leaves. model_loss tp leaves tokens targets c)) (\<lambda>_.
     bindS (on_directory (put ''pytorch_run.json'' (runner_metadata tp a c))) (\<lambda>_.
     retS [''framework=pytorch'', ''device='' @ pr_device a, ''status=pass'']))) wd = (Inr out, wd')"
    using assms(1) by (cases "runner_inputs tp input a0") (auto simp: runner_main_def)
  obtain wd1 wd2 where i: "run_inference tp a (model_forward tp ps tokens c) wd = (Inr (), wd1)"
    and t: "run_training tp a ps (\<lambda>leaves. model_loss tp leaves tokens targets c) wd1 = (Inr (), wd2)"
    and w: "bindS (on_directory (put ''pytorch_run.json'' (runner_metadata tp a c))) (\<lambda>_.
     retS [''framework=pytorch'', ''device='' @ pr_device a, ''status=pass'']) wd2 = (Inr out, wd')"
    using m unfolding bindS_Inr [of "run_inference tp a (model_forward tp ps tokens c)"]
      bindS_Inr [of "run_training tp a ps (\<lambda>leaves. model_loss tp leaves tokens targets c)"] by auto
  have "runner_parse_args a0 = Inr a" using inputs unfolding runner_inputs_def bindE_Inr_iff by auto
  then have a: "a = a0" "0 < pr_max_captured a0" by (auto simp: runner_parse_args_def bindE_Inr_iff raise_if_Inr)
  have "map_of (snd wd') ''pytorch_values.jsonl'' = map_of (snd wd2) ''pytorch_values.jsonl''"
    using w by (auto simp: bindS_Inr on_directory_def put_def)
  moreover have "map_of (snd wd2) ''pytorch_values.jsonl'' = map_of (snd wd1) ''pytorch_values.jsonl''"
    using run_training_files [OF t] by simp
  ultimately have kept: "map_of (snd wd') ''pytorch_values.jsonl'' = map_of (snd wd1) ''pytorch_values.jsonl''" by simp
  have "session_file (snd wd1) ''pytorch_values.jsonl'' (forward_plan c)"
    using inference_session [OF i] a assms(2) by simp
  then have "session_file (snd wd') ''pytorch_values.jsonl'' (forward_plan c)" unfolding session_file_kept [OF kept] .
  then show ?thesis using inputs by blast
qed

lemma session_loads: "session_ok s \<Longrightarrow> load_jsonl (write_jsonl (ts_records s)) = Inr (ts_records s) \<and> list_all clean (ts_records s)"
  using recorded_trace_aux by blast

section \<open>From the runner to the comparison\<close>



end
