(* ===== verification/AlignReport.thy ===== *)
theory AlignReport imports AlignVerdict PyStats RankedArgs begin

text \<open>
  The second half of \<open>tools/alignment/compare.py\<close>: the timing comparison, the report and the
  exit status. The report's Markdown is modelled as the rows it selects, not their text.
\<close>

section \<open>Timing\<close>

definition percentile :: "pyval list \<Rightarrow> pyfloat \<Rightarrow> pyval py" where
  "percentile values fraction =
     bindE (py_sorted values) (\<lambda>ordered.
     if length ordered = 1 then list_index ordered 0
     else bindE (float_of_int (int (length ordered) - 1)) (\<lambda>n.
       let position = fmul fraction n in
       case position of
         Fin q \<Rightarrow>
           (let lower = \<lfloor>q\<rfloor>; upper = \<lceil>q\<rceil> in
            if lower = upper then list_index ordered lower
            else bindE (float_of_int lower) (\<lambda>fl.
              let weight = fsub position fl in
              bindE (bindE (list_index ordered lower) (\<lambda>v. py_mul v (VFloat (fsub (Fin 1) weight)))) (\<lambda>a.
              bindE (bindE (list_index ordered upper) (\<lambda>v. py_mul v (VFloat weight))) (\<lambda>b.
              py_add a b))))
       | NaN \<Rightarrow> Inl (ValueError ''cannot convert float NaN to integer'')
       | _ \<Rightarrow> Inl OverflowError))"

definition p95 :: pyfloat where "p95 = rnd (95 / 100)"

type_synonym timing_state = "((int \<times> string \<times> string) \<times> nat) list \<times> (key \<times> pyval list) list"

definition append_at :: "'k \<Rightarrow> 'v \<Rightarrow> ('k \<times> 'v list) list \<Rightarrow> ('k \<times> 'v list) list" where
  "append_at k v groups = dict_set k ((case map_of groups k of None \<Rightarrow> [] | Some vs \<Rightarrow> vs) @ [v]) groups"

definition timing_step :: "timing_state \<Rightarrow> pyval \<Rightarrow> timing_state py" where
  "timing_step st record =
     bindE (int_field record ''iteration'') (\<lambda>iteration.
     bindE (text_field record ''kind'') (\<lambda>kind.
     bindE (text_field record ''name'') (\<lambda>name.
     let occurrence = count_of (fst st) (iteration, kind, name) in
     bindE (py_getitem record ''wall_ms'') (\<lambda>wall.
     Inr (dict_set (iteration, kind, name) (occurrence + 1) (fst st), append_at (kind, name, occurrence) wall (snd st))))))"

definition timing_groups :: "pyval list \<Rightarrow> (key \<times> pyval list) list py" where
  "timing_groups records = bindE (foldM timing_step ([], []) records) (\<lambda>st. Inr (snd st))"

definition group_summary :: "pyval list \<Rightarrow> pydict py" where
  "group_summary values =
     bindE (py_min values) (\<lambda>minimum.
     bindE (py_fmean values) (\<lambda>mean.
     bindE (py_median values) (\<lambda>median.
     bindE (percentile values p95) (\<lambda>high.
     bindE (py_max values) (\<lambda>maximum.
     Inr [(''samples'', VInt (int (length values))), (''minimum_ms'', minimum), (''mean_ms'', VFloat mean),
          (''median_ms'', median), (''p95_ms'', high), (''maximum_ms'', maximum)])))))"

definition timing_summary :: "pyval list \<Rightarrow> (key \<times> pydict) list py" where
  "timing_summary records =
     bindE (timing_groups records) (\<lambda>groups.
     mapM (\<lambda>(k, values). bindE (group_summary values) (\<lambda>d. Inr (k, d))) groups)"

definition compare_timing_key :: "(key \<times> pydict) list \<Rightarrow> (key \<times> pydict) list \<Rightarrow> key \<Rightarrow> pyval py" where
  "compare_timing_key left_summary right_summary k =
     (case (map_of left_summary k, map_of right_summary k) of
        (Some l, Some r) \<Rightarrow>
          bindE (py_getitem (VDict l) ''median_ms'') (\<lambda>micro_median.
          bindE (py_gt micro_median (VInt 0)) (\<lambda>positive.
          bindE (if positive then bindE (py_getitem (VDict r) ''median_ms'') (\<lambda>m. py_truediv m micro_median) else Inr VNone) (\<lambda>ratio.
          Inr (VDict (key_result k @ [(''status'', VStr ''measured''), (''microllm'', VDict l), (''pytorch'', VDict r),
                                      (''pytorch_over_microllm'', ratio)])))))
      | (l, r) \<Rightarrow> Inr (VDict (key_result k @ [(''status'', VStr ''missing''), (''missing_framework'', missing_framework l)])))"

definition compare_timings :: "pyval list \<Rightarrow> pyval list \<Rightarrow> pyval list py" where
  "compare_timings left right =
     bindE (timing_summary left) (\<lambda>left_summary.
     bindE (timing_summary right) (\<lambda>right_summary.
     mapM (compare_timing_key left_summary right_summary) (all_keys left_summary right_summary)))"

section \<open>The report\<close>

definition has_status :: "string \<Rightarrow> pyval \<Rightarrow> bool py" where
  "has_status s item = bindE (py_getitem item ''status'') (\<lambda>v. Inr (py_eq v (VStr s)))"

definition failures_of :: "pyval list \<Rightarrow> pyval list py" where
  "failures_of values = filterM (\<lambda>item. notM (has_status ''pass'' item)) values"

definition keyed_desc :: "(pyval \<Rightarrow> pyval py) \<Rightarrow> pyval list \<Rightarrow> pyval list py" where
  "keyed_desc key_of items =
     bindE (mapM (\<lambda>v. bindE (key_of v) (\<lambda>k. Inr (k, v))) items) (\<lambda>ks.
     if list_all (is_number \<circ> fst) ks then Inr (map snd (sort_desc_by (\<lambda>x y. val_lt (fst x) (fst y)) ks)) else Inl TypeError)"

definition largest_rows :: "pyval list \<Rightarrow> pyval list py" where
  "largest_rows values =
     bindE (keyed_desc (\<lambda>v. py_getitem v ''max_abs'') (filter (\<lambda>v. ''max_abs'' \<in> set (py_keys v)) values)) (\<lambda>rows. Inr (take 20 rows))"

definition slowest_rows :: "pyval list \<Rightarrow> pyval list py" where
  "slowest_rows timings =
     bindE (filterM (has_status ''measured'') timings) (\<lambda>measured.
     bindE (keyed_desc (\<lambda>v. bindE (py_getitem v ''microllm'') (\<lambda>m. py_getitem m ''median_ms'')) measured) (\<lambda>rows. Inr (take 30 rows)))"

record compare_args =
  cmp_microllm :: string
  cmp_pytorch :: string
  cmp_output :: string
  cmp_atol :: pyfloat
  cmp_rtol :: pyfloat
  cmp_allow_truncated :: bool

definition default_compare_args :: "string \<Rightarrow> string \<Rightarrow> string \<Rightarrow> compare_args" where
  "default_compare_args microllm pytorch output =
     \<lparr>cmp_microllm = microllm, cmp_pytorch = pytorch, cmp_output = output, cmp_atol = rnd (3 / 100000),
      cmp_rtol = rnd (3 / 100000), cmp_allow_truncated = False\<rparr>"

definition compare_parse_args :: "compare_args \<Rightarrow> compare_args py" where
  "compare_parse_args a = thenE (raise_if (flt (cmp_atol a) (Fin 0) \<or> flt (cmp_rtol a) (Fin 0)) usage) (Inr a)"

record trace_dir =
  td_run :: "pyval py"
  td_lines :: "string \<Rightarrow> pyval py list py"

definition load_trace :: "trace_dir \<Rightarrow> string \<Rightarrow> pyval list py" where
  "load_trace dir name = bindE (td_lines dir name) load_jsonl"

definition compared ::
  "(pyval list \<Rightarrow> pyval list \<Rightarrow> pyval list py) \<Rightarrow> trace_dir \<Rightarrow> trace_dir \<Rightarrow> string \<Rightarrow> pyval list py" where
  "compared f micro torch name =
     bindE (load_trace micro (''microllm_'' @ name)) (\<lambda>l. bindE (load_trace torch (''pytorch_'' @ name)) (\<lambda>r. f l r))"

definition report_summary :: "pyval list \<Rightarrow> pyval list \<Rightarrow> pyval list \<Rightarrow> pyval list \<Rightarrow> pyval list \<Rightarrow> pyval" where
  "report_summary values failures operators layers backward =
     VDict [(''status'', VStr (if failures = [] then ''pass'' else ''fail'')), (''value_records'', VInt (int (length values))),
       (''value_passed'', VInt (int (length values) - int (length failures))), (''value_failed'', VInt (int (length failures))),
       (''operator_timing_records'', VInt (int (length operators))), (''layer_timing_records'', VInt (int (length layers))),
       (''backward_timing_records'', VInt (int (length backward)))]"

definition compare_report :: "compare_args \<Rightarrow> trace_dir \<Rightarrow> trace_dir \<Rightarrow> (pydict \<times> pyval list) py" where
  "compare_report a micro torch =
     bindE (td_run micro) (\<lambda>micro_run. bindE (td_run torch) (\<lambda>torch_run.
     bindE (py_getitem micro_run ''run_id'') (\<lambda>mi. bindE (py_getitem torch_run ''run_id'') (\<lambda>ti.
     thenE (raise_if (py_ne mi ti) (ValueError ''run IDs do not match''))
    (let values_of = compared (\<lambda>l r. compare_values l r (cmp_atol a) (cmp_rtol a) (cmp_allow_truncated a)) micro torch in
     bindE (values_of ''values.jsonl'') (\<lambda>values.
     bindE (values_of ''training_values.jsonl'') (\<lambda>training.
     bindE (compared compare_timings micro torch ''operator_timing.jsonl'') (\<lambda>operators.
     bindE (compared compare_timings micro torch ''layer_timing.jsonl'') (\<lambda>layers.
     bindE (compared compare_timings micro torch ''backward_timing.jsonl'') (\<lambda>backward.
     let values' = values @ training in
     bindE (failures_of values') (\<lambda>failures.
     Inr ([(''schema_version'', VInt 1), (''run_id'', mi), (''atol'', VFloat (cmp_atol a)), (''rtol'', VFloat (cmp_rtol a)),
           (''microllm_run'', micro_run), (''pytorch_run'', torch_run),
           (''summary'', report_summary values' failures operators layers backward), (''values'', VList values'),
           (''operator_timings'', VList operators), (''layer_timings'', VList layers), (''backward_timings'', VList backward)],
          failures))))))))))))"

definition report_rows :: "pydict \<Rightarrow> pyval py" where
  "report_rows report =
     bindE (bindE (py_getitem (VDict report) ''values'') py_iter) (\<lambda>values.
     bindE (largest_rows values) (\<lambda>numerical.
     bindE (mapM (\<lambda>k. bindE (bindE (py_getitem (VDict report) k) py_iter) slowest_rows)
              [''operator_timings'', ''layer_timings'', ''backward_timings'']) (\<lambda>timings.
     Inr (VList (map VList (numerical # timings))))))"

definition write_doc :: "string \<Rightarrow> pyval \<Rightarrow> (files, unit) action" where
  "write_doc f v fs = (Inr (), fs(f \<mapsto> Whole v))"

definition compare_main :: "compare_args \<Rightarrow> trace_dir \<Rightarrow> trace_dir \<Rightarrow> (files, unit) action" where
  "compare_main a0 micro torch =
     bindS (liftS (compare_parse_args a0)) (\<lambda>a.
     bindS (liftS (compare_report a micro torch)) (\<lambda>(report, failures).
     thenS (write_doc (cmp_output a @ ''/comparison.json'') (VDict report))
    (bindS (liftS (report_rows report)) (\<lambda>rows.
     thenS (write_doc (cmp_output a @ ''/report.md'') rows)
       (liftS (raise_if (failures \<noteq> []) (SystemExit 1)))))))"


section \<open>Percentiles\<close>

lemma py_ops_float: "py_mul (VFloat x) (VFloat y) = Inr (VFloat (fmul x y))" "py_add (VFloat x) (VFloat y) = Inr (VFloat (fadd x y))"
  by (simp_all add: py_mul_def py_add_def num_arith_def)

lemma list_index_nth: "0 \<le> i \<Longrightarrow> i < int (length xs) \<Longrightarrow> list_index xs i = Inr (xs ! nat i)"
  by (simp add: list_index_def)

text \<open>
  The percentile of a non-empty list of times never indexes out of range: for a fraction between
  0 and 1 the rounded position stays between the first and the last index, so both neighbours exist,
  and the fractions 0 and 1 give the first and the last of the sorted list.
\<close>

theorem percentile_in_range:
  assumes "xs \<noteq> []" and "length xs < 2 ^ 53" and "0 \<le> q" and "q \<le> 1"
  shows "\<exists>x. percentile (map VFloat xs) (Fin q) = Inr (VFloat x) \<and>
     (q = 0 \<longrightarrow> VFloat x = sort_by val_lt (map VFloat xs) ! 0) \<and>
     (q = 1 \<longrightarrow> VFloat x = sort_by val_lt (map VFloat xs) ! (length xs - 1))"
proof -
  let ?o = "sort_by val_lt (map VFloat xs)"
  define n where "n = int (length xs) - 1"
  have sorted: "py_sorted (map VFloat xs) = Inr ?o" by (intro py_sorted_numbers) (simp add: list_all_iff)
  have n: "0 \<le> n" "n < 2 ^ 53" "nat n = length xs - 1" "n < int (length ?o)" using assms(1,2) by (cases xs; simp add: n_def)+
  have at: "\<exists>y. ?o ! nat i = VFloat y" if "0 \<le> i" "i \<le> n" for i
  proof -
    have "?o ! nat i \<in> set ?o" using that n(4) by (intro nth_mem) simp
    then show ?thesis by auto
  qed
  show ?thesis
  proof (cases "length xs = 1")
    case True
    obtain y where y: "?o ! 0 = VFloat y" using at [of 0] n(1) by auto
    have "list_index ?o 0 = Inr (?o ! 0)" using list_index_nth [of 0 ?o] assms(1) by simp
    then show ?thesis using True sorted y by (simp add: percentile_def)
  next
    case False
    have fn: "float_of_int n = Inr (Fin (of_int n))" using n by (intro float_of_int_exact) simp
    have exact: "rnd (of_int n) = Fin (of_int n)" using n by (intro rnd_of_int) simp
    have "fle (rnd (q * of_int n)) (Fin (of_int n))"
      using rnd_mono [of "q * of_int n" "of_int n"] assms(3,4) n(1) by (simp add: exact mult_left_le_one_le)
    moreover have "fle (Fin 0) (rnd (q * of_int n))" using assms(3) n(1) by (intro rnd_nonneg) simp
    ultimately obtain p where p: "rnd (q * of_int n) = Fin p" "0 \<le> p" "p \<le> of_int n" by (cases "rnd (q * of_int n)") auto
    have b: "0 \<le> \<lfloor>p\<rfloor>" "\<lfloor>p\<rfloor> \<le> n" "0 \<le> \<lceil>p\<rceil>" "\<lceil>p\<rceil> \<le> n" using p(2,3) by linarith+
    then obtain u v where uv: "list_index ?o \<lfloor>p\<rfloor> = Inr (VFloat u)" "list_index ?o \<lceil>p\<rceil> = Inr (VFloat v)"
      "?o ! nat \<lfloor>p\<rfloor> = VFloat u" using at list_index_nth [of _ ?o] n(4) by (metis le_less_trans)
    have fl: "float_of_int \<lfloor>p\<rfloor> = Inr (Fin (of_int \<lfloor>p\<rfloor>))" by (rule float_of_int_exact) (use b n(2) in linarith)
    have len: "length ?o \<noteq> 1" "int (length ?o) - 1 = n" using False by (simp_all add: n_def)
    have ends: "q = 0 \<Longrightarrow> p = 0" "q = 1 \<Longrightarrow> p = of_int n" using p(1) exact by auto
    show ?thesis
    proof (cases "\<lfloor>p\<rfloor> = \<lceil>p\<rceil>")
      case True
      then have "percentile (map VFloat xs) (Fin q) = Inr (VFloat u)"
        using len uv fn p(1) by (simp add: percentile_def sorted)
      then show ?thesis using uv(3) ends n(3) by auto
    next
      case False
      then have "q \<noteq> 0" "q \<noteq> 1" using ends by auto
      moreover have "\<exists>x. percentile (map VFloat xs) (Fin q) = Inr (VFloat x)"
        using False len uv fn fl p(1) by (simp add: percentile_def sorted py_ops_float Let_def)
      ultimately show ?thesis by blast
    qed
  qed
qed

theorem percentile_in_range_witness:
  "\<exists>x. percentile (map VFloat [Fin 3, Fin 1, Fin 2]) (Fin (1 / 2)) = Inr (VFloat x)"
  using percentile_in_range [of "[Fin 3, Fin 1, Fin 2]" "1 / 2"] by auto

section \<open>What exit status 0 means\<close>

lemma failures_none:
  assumes "failures_of values = Inr []" and "v \<in> set values"
  shows "py_getitem v ''status'' = Inr (VStr ''pass'')"
proof -
  have "has_status ''pass'' v = Inr True"
    using assms unfolding failures_of_def
  proof (induction "values")
    case (Cons x xs)
    then show ?case by (auto simp: bindE_Inr_iff split: if_splits)
  qed simp
  then show ?thesis by (auto simp: has_status_def bindE_Inr_iff)
qed

lemma status_pass_is: "py_getitem (VDict d) ''status'' = Inr (VStr ''pass'') \<Longrightarrow> status_is d ''pass''"
  by (simp add: py_getitem_def status_is_def)

text \<open>
  C7. Exit status 0 of the comparison is a verdict on the traces: the run ids agree, the report written
  says \<open>pass\<close>, and at every checkpoint that either the inference or the training trace of either
  framework has, both frameworks have a record and the two agree within the given tolerance.
\<close>

theorem zero_exit_means_agreement:
  assumes "compare_main a micro torch fs = (Inr (), fs')"
  shows "(\<exists>report summary. fs' (cmp_output a @ ''/comparison.json'') = Some (Whole (VDict report)) \<and>
      py_getitem (VDict report) ''summary'' = Inr summary \<and> py_getitem summary ''status'' = Inr (VStr ''pass'')) \<and>
    (\<forall>name \<in> {''values.jsonl'', ''training_values.jsonl''}. \<exists>left right.
       load_trace micro (''microllm_'' @ name) = Inr left \<and> load_trace torch (''pytorch_'' @ name) = Inr right \<and>
       (\<forall>k \<in> checkpoint_keys left right. \<exists>l r. nth_match left k = Some l \<and> nth_match right k = Some r \<and>
          records_agree (cmp_atol a) (cmp_rtol a) (cmp_allow_truncated a) l r))"
proof -
  obtain report rows where rep: "compare_report a micro torch = Inr (report, [])"
    and fs': "fs' = fs(cmp_output a @ ''/comparison.json'' \<mapsto> Whole (VDict report), cmp_output a @ ''/report.md'' \<mapsto> Whole rows)"
    using assms by (auto simp: compare_main_def bindS_Inr compare_parse_args_def bindE_Inr_iff write_doc_def)
  obtain vs training summary where f: "failures_of (vs @ training) = Inr []"
    and vals: "compared (\<lambda>l r. compare_values l r (cmp_atol a) (cmp_rtol a) (cmp_allow_truncated a)) micro torch ''values.jsonl'' = Inr vs"
    "compared (\<lambda>l r. compare_values l r (cmp_atol a) (cmp_rtol a) (cmp_allow_truncated a)) micro torch ''training_values.jsonl'' = Inr training"
    and s: "py_getitem (VDict report) ''summary'' = Inr summary" "py_getitem summary ''status'' = Inr (VStr ''pass'')"
    using rep by (auto simp: compare_report_def bindE_Inr_iff Let_def py_getitem_def report_summary_def)
  have agree: "\<exists>left right. load_trace micro (''microllm_'' @ name) = Inr left \<and> load_trace torch (''pytorch_'' @ name) = Inr right \<and>
       (\<forall>k \<in> checkpoint_keys left right. \<exists>l r. nth_match left k = Some l \<and> nth_match right k = Some r \<and>
          records_agree (cmp_atol a) (cmp_rtol a) (cmp_allow_truncated a) l r)"
    if c: "compared (\<lambda>l r. compare_values l r (cmp_atol a) (cmp_rtol a) (cmp_allow_truncated a)) micro torch name = Inr results"
      and sub: "set results \<subseteq> set (vs @ training)" for name results
  proof -
    obtain left right where lr: "load_trace micro (''microllm_'' @ name) = Inr left" "load_trace torch (''pytorch_'' @ name) = Inr right"
      "compare_values left right (cmp_atol a) (cmp_rtol a) (cmp_allow_truncated a) = Inr results"
      using c unfolding compared_def bindE_Inr_iff by blast
    have "status_is d ''pass''" if "v \<in> set results" "v = VDict d" for v d
      using failures_none [OF f, of v] sub that status_pass_is by blast
    then show ?thesis using all_pass_agree [OF lr(3)] lr(1,2) by blast
  qed
  show ?thesis using agree [OF vals(1)] agree [OF vals(2)] s fs' by auto
qed


definition report_record :: pyval where
  "report_record = VDict [(''schema_version'', VInt 1), (''kind'', VStr ''model''), (''name'', VStr ''logits''), (''shape'', VList [VInt 1]),
     (''dtype'', VStr ''float32''), (''values_truncated'', VBool False), (''values'', VList [VStr ''nan''])]"

definition report_dir :: "string \<Rightarrow> trace_dir" where
  "report_dir framework = \<lparr>td_run = Inr (VDict [(''run_id'', VStr ''r1'')]),
     td_lines = (\<lambda>f. Inr (if f = framework @ ''_values.jsonl'' then [Inr report_record] else []))\<rparr>"

lemma report_traces:
  "load_trace (report_dir ''microllm'') ''microllm_values.jsonl'' = Inr [report_record]"
  "load_trace (report_dir ''pytorch'') ''pytorch_values.jsonl'' = Inr [report_record]"
  "load_trace (report_dir ''microllm'') ''microllm_training_values.jsonl'' = Inr []"
  "load_trace (report_dir ''pytorch'') ''pytorch_training_values.jsonl'' = Inr []"
  "load_trace (report_dir ''microllm'') ''microllm_operator_timing.jsonl'' = Inr []"
  "load_trace (report_dir ''pytorch'') ''pytorch_operator_timing.jsonl'' = Inr []"
  "load_trace (report_dir ''microllm'') ''microllm_layer_timing.jsonl'' = Inr []"
  "load_trace (report_dir ''pytorch'') ''pytorch_layer_timing.jsonl'' = Inr []"
  "load_trace (report_dir ''microllm'') ''microllm_backward_timing.jsonl'' = Inr []"
  "load_trace (report_dir ''pytorch'') ''pytorch_backward_timing.jsonl'' = Inr []"
  by (simp_all add: load_trace_def report_dir_def load_jsonl_def load_line_def report_record_def py_get_def py_ne_def)

lemma report_values:
  "\<exists>d. compare_values [report_record] [report_record] atol rtol False = Inr [VDict d] \<and> map_of d ''status'' = Some (VStr ''pass'') \<and>
     map_of d ''max_abs'' = Some (VFloat (Fin 0)) \<and> ''max_abs'' \<in> set (map fst d)"
  by (simp add: compare_values_def occurrence_records_def occurrence_step_def text_field_def report_record_def py_getitem_def Let_def
      count_of_def all_keys_def compare_key_def compare_records_def fields_of_def with_metadata_def compare_captured_def py_or_def
      compare_contents_def py_len_def value_result_def numeric_result_def py_iter_def classify_def py_ne_def numeric_pairs_def
      special_mismatches_def largest_difference_def mean_square_def cosine_of_def norm_of_def fsum_left_def value_at_def index_value_def
      within_tolerance_def key_result_def status_of_def float_max_def)

theorem zero_exit_means_agreement_witness:
  "\<exists>fs'. compare_main (default_compare_args ''m'' ''t'' ''out'') (report_dir ''microllm'') (report_dir ''pytorch'') (\<lambda>_. None) = (Inr (), fs') \<and>
     (\<exists>left. load_trace (report_dir ''microllm'') ''microllm_values.jsonl'' = Inr left \<and> left \<noteq> [] \<and>
       (\<exists>right. \<forall>k \<in> checkpoint_keys left right. \<exists>l r. nth_match left k = Some l \<and> nth_match right k = Some r))"
proof -
  let ?a = "default_compare_args ''m'' ''t'' ''out''"
  have tol: "fle (Fin 0) (rnd (3 / 100000))" by (intro rnd_nonneg) simp
  then have args: "compare_parse_args ?a = Inr ?a"
    by (cases "rnd (3 / 100000)") (auto simp: compare_parse_args_def default_compare_args_def)
  obtain d where d: "compare_values [report_record] [report_record] (cmp_atol ?a) (cmp_rtol ?a) (cmp_allow_truncated ?a) = Inr [VDict d]"
    "map_of d ''status'' = Some (VStr ''pass'')" "map_of d ''max_abs'' = Some (VFloat (Fin 0))" "''max_abs'' \<in> set (map fst d)"
    using report_values [of "cmp_atol ?a" "cmp_rtol ?a"] by (auto simp: default_compare_args_def)
  have empty: "compare_values [] [] x y z = Inr []" "compare_timings [] [] = Inr []" for x y z
    by (simp_all add: compare_values_def occurrence_records_def all_keys_def compare_timings_def timing_summary_def timing_groups_def)
  have rep: "\<exists>report. compare_report ?a (report_dir ''microllm'') (report_dir ''pytorch'') = Inr (report, []) \<and>
      map_of report ''values'' = Some (VList [VDict d]) \<and> (\<forall>k \<in> {''operator_timings'', ''layer_timings'', ''backward_timings''}. map_of report k = Some (VList []))"
    using d(1,2) by (simp add: compare_report_def report_dir_def [of "''microllm''", THEN arg_cong [where f = td_run]]
        report_dir_def [of "''pytorch''", THEN arg_cong [where f = td_run]] py_getitem_def py_ne_def compared_def report_traces empty
        failures_of_def has_status_def Let_def)
  then obtain report where r: "compare_report ?a (report_dir ''microllm'') (report_dir ''pytorch'') = Inr (report, [])"
    "map_of report ''values'' = Some (VList [VDict d])"
    "map_of report ''operator_timings'' = Some (VList [])" "map_of report ''layer_timings'' = Some (VList [])" "map_of report ''backward_timings'' = Some (VList [])"
    by auto
  have "\<exists>rows. report_rows report = Inr rows"
    using d(3,4) by (simp add: report_rows_def py_getitem_def r py_iter_def largest_rows_def py_keys_def keyed_desc_def slowest_rows_def sort_desc_by_def)
  then obtain fs' where fs': "compare_main ?a (report_dir ''microllm'') (report_dir ''pytorch'') (\<lambda>_. None) = (Inr (), fs')"
    using args r(1) by (auto simp: compare_main_def bindS_def write_doc_def)
  show ?thesis using zero_exit_means_agreement [OF fs'] fs' report_traces(1) by fastforce
qed

end
