(* ===== verification/AlignRun.thy ===== *)
theory AlignRun imports PyText RankedArgs begin

text \<open>
  \<open>tools/alignment/run.py\<close>: the pipeline of the C++ trace, the PyTorch trace and the comparison,
  with its manifest. The stages are processes that read and write the output directory: a stage is an
  action on it. What git, the tools on the path, the clock and the interpreter answer is a record;
  \<open>av_repr\<close> is Python's text of a float.
\<close>

record run_args =
  rn_binary :: string
  rn_output :: string
  rn_python :: string
  rn_microllm_device :: string
  rn_pytorch_device :: string
  rn_run_id :: "string option"
  rn_seed :: int
  rn_warmup :: int
  rn_repetitions :: int
  rn_max_captured :: int
  rn_explicit_qk_norm :: bool
  rn_atol :: pyfloat
  rn_rtol :: pyfloat
  rn_overwrite :: bool

definition default_run_args :: "string \<Rightarrow> string \<Rightarrow> string \<Rightarrow> run_args" where
  "default_run_args binary output executable =
     \<lparr>rn_binary = binary, rn_output = output, rn_python = executable, rn_microllm_device = ''cpu'', rn_pytorch_device = ''cpu'',
      rn_run_id = None, rn_seed = 211, rn_warmup = 2, rn_repetitions = 10, rn_max_captured = 4096, rn_explicit_qk_norm = False,
      rn_atol = rnd (3 / 100000), rn_rtol = rnd (3 / 100000), rn_overwrite = False\<rparr>"

definition run_parse_args :: "run_args \<Rightarrow> run_args py" where
  "run_parse_args a =
     thenE (raise_if (rn_microllm_device a \<notin> {''cpu'', ''hip''} \<or> rn_pytorch_device a \<notin> {''cpu'', ''cuda''}) usage)
    (thenE (raise_if (rn_seed a < 0 \<or> rn_warmup a < 0 \<or> rn_repetitions a \<le> 0) usage) (Inr a))"

record run_env =
  av_git :: "string list \<Rightarrow> proc_result"
  av_tool :: "string \<Rightarrow> proc_result option"
  av_resolve :: "string \<Rightarrow> string"
  av_here :: string
  av_project :: string
  av_executable :: string
  av_platform :: string
  av_machine :: string
  av_version :: string
  av_timestamp :: string
  av_created :: string
  av_completed :: string
  av_repr :: "pyfloat \<Rightarrow> string"

definition git_value :: "run_env \<Rightarrow> string list \<Rightarrow> string option" where
  "git_value env arguments = stripped_output (av_git env arguments)"

definition tool_version :: "run_env \<Rightarrow> string \<Rightarrow> string option" where
  "tool_version env command = first_line (av_tool env command)"

section \<open>The manifest\<close>

record manifest =
  mf_head :: pydict
  mf_status :: string
  mf_commands :: "(string \<times> string list) list"
  mf_stages :: "(string \<times> pydict) list"
  mf_tail :: pydict

definition stage_status :: "proc_result \<Rightarrow> string" where
  "stage_status r = (if px_code r = 0 then ''pass'' else ''fail'')"

definition log_name :: "string \<Rightarrow> string \<Rightarrow> string" where
  "log_name name stream = ''logs/'' @ name @ ''.'' @ stream @ ''.txt''"

definition stage_entry :: "string \<Rightarrow> proc_result \<Rightarrow> pydict" where
  "stage_entry name r =
     [(''returncode'', VInt (px_code r)), (''status'', VStr (stage_status r)),
      (''stdout'', VStr (log_name name ''stdout'')), (''stderr'', VStr (log_name name ''stderr''))]"

type_synonym stage = "string list \<Rightarrow> (outdir, proc_result) action"

definition run_stage :: "stage \<Rightarrow> string \<Rightarrow> string list \<Rightarrow> manifest \<Rightarrow> (outdir, int \<times> manifest) action" where
  "run_stage process name command m =
     bindS (process command) (\<lambda>completed.
     thenS (put (log_name name ''stdout'') (VStr (px_out completed)))
    (thenS (put (log_name name ''stderr'') (VStr (px_err completed)))
    (retS (px_code completed,
           m\<lparr>mf_commands := dict_set name command (mf_commands m),
             mf_stages := dict_set name (stage_entry name completed) (mf_stages m)\<rparr>))))"

text \<open>\<open>for name, command in ...: status = run_stage(...); if status != 0: break\<close>.\<close>

fun run_stages :: "stage \<Rightarrow> (string \<times> string list) list \<Rightarrow> int \<Rightarrow> manifest \<Rightarrow> (outdir, int \<times> manifest) action" where
  "run_stages process [] status m = retS (status, m)"
| "run_stages process ((name, command) # stages) status m =
     bindS (run_stage process name command m) (\<lambda>(code, m1).
     if code \<noteq> 0 then retS (code, m1) else run_stages process stages code m1)"

fun base_name :: "string \<Rightarrow> string" where
  "base_name path = last (split_on CHR ''/'' path)"

definition manifest_value :: "manifest \<Rightarrow> string list \<Rightarrow> pyval" where
  "manifest_value m artifacts =
     VDict (mf_head m @ [(''status'', VStr (mf_status m)),
       (''commands'', VDict (map (\<lambda>(n, c). (n, VList (map VStr c))) (mf_commands m))),
       (''stages'', VDict (map (\<lambda>(n, d). (n, VDict d)) (mf_stages m)))] @ mf_tail m @
       [(''artifacts'', VList (map VStr artifacts))])"

definition write_manifest :: "manifest \<Rightarrow> (outdir, unit) action" where
  "write_manifest m d =
     put ''manifest.json'' (manifest_value m (sort (filter (\<lambda>f. base_name f \<noteq> ''manifest.json'') (map fst d)))) d"

section \<open>The run\<close>

definition repository_value :: "run_env \<Rightarrow> pyval" where
  "repository_value env =
     VDict [(''path'', VStr (av_project env)), (''commit'', text_or_none (git_value env [''rev-parse'', ''HEAD''])),
       (''branch'', text_or_none (git_value env [''branch'', ''--show-current''])),
       (''dirty'', VBool (py_truthy (text_or_none (git_value env [''status'', ''--porcelain'']))))]"

definition host_value :: "run_env \<Rightarrow> pyval" where
  "host_value env =
     VDict ([(''platform'', VStr (av_platform env)), (''machine'', VStr (av_machine env)), (''python'', VStr (av_version env))] @
       map (\<lambda>tool. (tool, text_or_none (tool_version env tool))) [''cmake'', ''gcc'', ''g++'', ''hipcc'', ''rocprofv3''])"

definition run_configuration :: "run_env \<Rightarrow> run_args \<Rightarrow> pyval" where
  "run_configuration env a =
     VDict [(''microllm_binary'', VStr (av_resolve env (rn_binary a))), (''pytorch_python'', VStr (av_resolve env (rn_python a))),
       (''microllm_device'', VStr (rn_microllm_device a)), (''pytorch_device'', VStr (rn_pytorch_device a)),
       (''seed'', VInt (rn_seed a)), (''warmup'', VInt (rn_warmup a)), (''repetitions'', VInt (rn_repetitions a)),
       (''max_captured_elements'', VInt (rn_max_captured a)), (''explicit_qk_norm'', VBool (rn_explicit_qk_norm a)),
       (''atol'', VFloat (rn_atol a)), (''rtol'', VFloat (rn_rtol a))]"

definition picked_run_id :: "run_env \<Rightarrow> run_args \<Rightarrow> string" where
  "picked_run_id env a =
     (case rn_run_id a of Some s \<Rightarrow> if s = [] then ''alignment-'' @ av_timestamp env else s
      | None \<Rightarrow> ''alignment-'' @ av_timestamp env)"

definition first_manifest :: "run_env \<Rightarrow> run_args \<Rightarrow> manifest" where
  "first_manifest env a =
     \<lparr>mf_head = [(''schema_version'', VInt 1), (''run_id'', VStr (picked_run_id env a)), (''created_utc'', VStr (av_created env)),
                (''repository'', repository_value env), (''host'', host_value env), (''configuration'', run_configuration env a)],
      mf_status = ''running'', mf_commands = [], mf_stages = [], mf_tail = []\<rparr>"

definition micro_command :: "run_env \<Rightarrow> run_args \<Rightarrow> string list" where
  "micro_command env a =
     [av_resolve env (rn_binary a), ''--output'', av_resolve env (rn_output a), ''--device'', rn_microllm_device a,
      ''--run-id'', picked_run_id env a, ''--seed'', str_int (rn_seed a), ''--warmup'', str_int (rn_warmup a),
      ''--repetitions'', str_int (rn_repetitions a), ''--max-captured-elements'', str_int (rn_max_captured a),
      ''--explicit-qk-norm'', if rn_explicit_qk_norm a then ''true'' else ''false'']"

definition torch_command :: "run_env \<Rightarrow> run_args \<Rightarrow> string list" where
  "torch_command env a =
     [rn_python a, av_here env @ ''/pytorch_runner.py'', ''--input'', av_resolve env (rn_output a),
      ''--output'', av_resolve env (rn_output a), ''--device'', rn_pytorch_device a, ''--run-id'', picked_run_id env a,
      ''--warmup'', str_int (rn_warmup a), ''--repetitions'', str_int (rn_repetitions a),
      ''--max-captured-elements'', str_int (rn_max_captured a)]"

definition compare_command :: "run_env \<Rightarrow> run_args \<Rightarrow> string list" where
  "compare_command env a =
     [av_executable env, av_here env @ ''/compare.py'', ''--microllm'', av_resolve env (rn_output a),
      ''--pytorch'', av_resolve env (rn_output a), ''--output'', av_resolve env (rn_output a),
      ''--atol'', av_repr env (rn_atol a), ''--rtol'', av_repr env (rn_rtol a)]"

definition stage_plan :: "run_env \<Rightarrow> run_args \<Rightarrow> (string \<times> string list) list" where
  "stage_plan env a =
     [(''microllm'', micro_command env a), (''pytorch'', torch_command env a), (''compare'', compare_command env a)]"

definition run_pipeline :: "run_env \<Rightarrow> stage \<Rightarrow> run_args \<Rightarrow> (outdir, unit) action" where
  "run_pipeline env process a =
     bindS (run_stages process (stage_plan env a) 0 (first_manifest env a)) (\<lambda>(status, m).
     thenS (write_manifest (m\<lparr>mf_status := (if status = 0 then ''pass'' else ''fail''),
                              mf_tail := [(''completed_utc'', VStr (av_completed env))]\<rparr>))
       (liftS (raise_if (status \<noteq> 0) (SystemExit status))))"

definition run_main :: "run_env \<Rightarrow> stage \<Rightarrow> run_args \<Rightarrow> outdir option \<Rightarrow> unit py \<times> outdir option" where
  "run_main env process a0 dir =
     (case bindE (run_parse_args a0) (\<lambda>a. bindE (fresh_directory (rn_overwrite a) dir) (\<lambda>d. Inr (a, d))) of
        Inl e \<Rightarrow> (Inl e, dir)
      | Inr (a, d) \<Rightarrow> (case run_pipeline env process a d of (r, d1) \<Rightarrow> (r, Some d1)))"


section \<open>The pipeline as a step relation\<close>

text \<open>
  The contract of the pipeline, without processes, logs or manifests: stages pass one after the other,
  the first one that fails ends the run.
\<close>

record pipe =
  pp_todo :: "string list"
  pp_passed :: "string list"
  pp_failed :: "(string \<times> int) option"

inductive pipeline_step :: "pipe \<Rightarrow> pipe \<Rightarrow> bool" where
  pass_stage: "pipeline_step \<lparr>pp_todo = n # ns, pp_passed = ps, pp_failed = None\<rparr> \<lparr>pp_todo = ns, pp_passed = ps @ [n], pp_failed = None\<rparr>"
| fail_stage: "c \<noteq> 0 \<Longrightarrow>
    pipeline_step \<lparr>pp_todo = n # ns, pp_passed = ps, pp_failed = None\<rparr> \<lparr>pp_todo = ns, pp_passed = ps, pp_failed = Some (n, c)\<rparr>"

inductive_cases pipeline_stepE: "pipeline_step p q"

definition pipe_ended :: "pipe \<Rightarrow> bool" where
  "pipe_ended p \<longleftrightarrow> pp_failed p \<noteq> None \<or> pp_todo p = []"

lemma ended_is_final: "pipe_ended p \<longleftrightarrow> \<not> (\<exists>q. pipeline_step p q)"
proof -
  have "\<exists>q. pipeline_step p q" if e: "\<not> pipe_ended p"
  proof -
    obtain n ns where "pp_todo p = n # ns" "pp_failed p = None" using e by (cases "pp_failed p") (auto simp: pipe_ended_def neq_Nil_conv)
    then have "p = \<lparr>pp_todo = n # ns, pp_passed = pp_passed p, pp_failed = None\<rparr>" by (cases p) simp
    then show ?thesis using pass_stage by metis
  qed
  moreover have "\<not> pipeline_step p q" if "pipe_ended p" for q
    using that by (auto simp: pipe_ended_def elim: pipeline_stepE)
  ultimately show ?thesis by blast
qed

text \<open>What a manifest says of the stages of a plan.\<close>

definition stage_code :: "manifest \<Rightarrow> string \<Rightarrow> int option" where
  "stage_code m name =
     (case map_of (mf_stages m) name of None \<Rightarrow> None
      | Some e \<Rightarrow> (case map_of e ''returncode'' of Some (VInt c) \<Rightarrow> Some c | _ \<Rightarrow> None))"

fun first_failure :: "manifest \<Rightarrow> string list \<Rightarrow> (string \<times> int) option" where
  "first_failure m [] = None"
| "first_failure m (n # ns) =
     (case stage_code m n of None \<Rightarrow> first_failure m ns | Some c \<Rightarrow> if c \<noteq> 0 then Some (n, c) else first_failure m ns)"

definition abs_pipe :: "string list \<Rightarrow> manifest \<Rightarrow> pipe" where
  "abs_pipe names m =
     \<lparr>pp_todo = filter (\<lambda>n. stage_code m n = None) names, pp_passed = filter (\<lambda>n. stage_code m n = Some 0) names,
      pp_failed = first_failure m names\<rparr>"

definition with_stage :: "string \<Rightarrow> string list \<Rightarrow> proc_result \<Rightarrow> manifest \<Rightarrow> manifest" where
  "with_stage name command r m =
     m\<lparr>mf_commands := dict_set name command (mf_commands m), mf_stages := dict_set name (stage_entry name r) (mf_stages m)\<rparr>"

lemma run_stage_ok: "run_stage process name command m d = (Inr (code, m'), d') \<Longrightarrow>
    \<exists>r. code = px_code r \<and> m' = with_stage name command r m"
  by (auto simp: run_stage_def bindS_Inr with_stage_def)

lemma stage_code_with: "stage_code (with_stage name command r m) n = (if n = name then Some (px_code r) else stage_code m n)"
  by (simp add: stage_code_def with_stage_def stage_entry_def)

lemma failure_none: "(\<And>n. n \<in> set names \<Longrightarrow> stage_code m n \<in> {None, Some 0}) \<Longrightarrow> first_failure m names = None"
proof (induction names)
  case (Cons n ns)
  then have "stage_code m n \<in> {None, Some 0}" "first_failure m ns = None" by simp_all
  then show ?case by auto
qed simp

lemma failure_some:
  assumes "\<And>n. n \<in> set done \<Longrightarrow> stage_code m n = Some 0" and "stage_code m x = Some c" and "c \<noteq> 0"
  shows "first_failure m (done @ x # rest) = Some (x, c)"
  using assms by (induction "done") auto

lemma abs_pipe_running:
  assumes "\<And>n. n \<in> set done \<Longrightarrow> stage_code m n = Some 0" and "\<And>n. n \<in> set rest \<Longrightarrow> stage_code m n = None"
  shows "abs_pipe (done @ rest) m = \<lparr>pp_todo = rest, pp_passed = done, pp_failed = None\<rparr>"
proof -
  have "first_failure m (done @ rest) = None" using assms by (intro failure_none) auto
  moreover have "filter (\<lambda>n. stage_code m n = None) done = []" "filter (\<lambda>n. stage_code m n = None) rest = rest"
    "filter (\<lambda>n. stage_code m n = Some 0) done = done" "filter (\<lambda>n. stage_code m n = Some 0) rest = []"
    using assms by (auto simp: filter_empty_conv filter_id_conv)
  ultimately show ?thesis by (simp add: abs_pipe_def)
qed

definition simulated :: "string list \<Rightarrow> manifest \<Rightarrow> manifest \<Rightarrow> int \<Rightarrow> bool" where
  "simulated names m m' status \<longleftrightarrow>
     pipeline_step\<^sup>*\<^sup>* (abs_pipe names m) (abs_pipe names m') \<and> pipe_ended (abs_pipe names m') \<and>
     (status = 0 \<longleftrightarrow> pp_failed (abs_pipe names m') = None) \<and>
     (\<forall>n c. pp_failed (abs_pipe names m') = Some (n, c) \<longrightarrow> status = c)"

lemma run_stages_simulates:
  assumes "run_stages process plan 0 m d = (Inr (status, m'), d')" and "distinct (done @ map fst plan)"
    and "\<And>n. n \<in> set done \<Longrightarrow> stage_code m n = Some 0" and "\<And>n. n \<in> set (map fst plan) \<Longrightarrow> stage_code m n = None"
  shows "simulated (done @ map fst plan) m m' status"
  using assms
proof (induction plan arbitrary: "done" m d)
  case Nil
  have "abs_pipe (done @ []) m = \<lparr>pp_todo = [], pp_passed = done, pp_failed = None\<rparr>"
    using Nil.prems by (intro abs_pipe_running) auto
  then show ?case using Nil.prems(1) by (simp add: pipe_ended_def simulated_def)
next
  case (Cons nc plan)
  obtain x command where nc: "nc = (x, command)" by (cases nc)
  obtain code m1 d1 where st: "run_stage process x command m d = (Inr (code, m1), d1)"
    and rest: "(if code \<noteq> 0 then retS (code, m1) else run_stages process plan code m1) d1 = (Inr (status, m'), d')"
    using Cons.prems(1) by (auto simp: nc bindS_Inr split: prod.splits)
  obtain r where r: "code = px_code r" "m1 = with_stage x command r m" using run_stage_ok [OF st] by blast
  have start: "abs_pipe (done @ map fst (nc # plan)) m = \<lparr>pp_todo = x # map fst plan, pp_passed = done, pp_failed = None\<rparr>"
    using Cons.prems(3,4) abs_pipe_running [of "done" m "x # map fst plan"] by (simp add: nc)
  show ?case
  proof (cases "code = 0")
    case True
    have d1: "stage_code m1 n = Some 0" if "n \<in> set (done @ [x])" for n
      using that Cons.prems(3) True r by (auto simp: stage_code_with)
    have t1: "stage_code m1 n = None" if "n \<in> set (map fst plan)" for n
      using that Cons.prems(2,4) by (auto simp: r stage_code_with nc)
    have run: "run_stages process plan 0 m1 d1 = (Inr (status, m'), d')" using rest True by simp
    have ih: "simulated ((done @ [x]) @ map fst plan) m1 m' status"
      by (rule Cons.IH [OF run]) (use Cons.prems(2) d1 t1 in \<open>auto simp: nc\<close>)
    have next_state: "abs_pipe (done @ map fst (nc # plan)) m1 = \<lparr>pp_todo = map fst plan, pp_passed = done @ [x], pp_failed = None\<rparr>"
      using abs_pipe_running [of "done @ [x]" m1 "map fst plan", OF d1 t1] by (simp add: nc)
    have "pipeline_step (abs_pipe (done @ map fst (nc # plan)) m) (abs_pipe (done @ map fst (nc # plan)) m1)"
      unfolding start next_state by (rule pass_stage)
    then show ?thesis using ih by (auto simp: nc simulated_def intro: converse_rtranclp_into_rtranclp)
  next
    case False
    then have ends: "status = code" "m' = m1" using rest by auto
    have old: "stage_code m1 n = Some 0" if "n \<in> set done" for n
      using that Cons.prems(2,3) by (auto simp: r stage_code_with nc)
    have new: "stage_code m1 x = Some code" by (simp add: r stage_code_with)
    have todo: "stage_code m1 n = None" if "n \<in> set (map fst plan)" for n
      using that Cons.prems(2,4) by (auto simp: r stage_code_with nc)
    have filters: "filter (\<lambda>n. stage_code m1 n = None) (done @ x # map fst plan) = map fst plan"
      "filter (\<lambda>n. stage_code m1 n = Some 0) (done @ x # map fst plan) = done"
      using old new todo False by (auto simp: filter_empty_conv filter_id_conv)
    have last: "abs_pipe (done @ map fst (nc # plan)) m' = \<lparr>pp_todo = map fst plan, pp_passed = done, pp_failed = Some (x, code)\<rparr>"
      using failure_some [of "done" m1 x code "map fst plan", OF old new False] filters by (simp add: abs_pipe_def nc ends)
    have "pipeline_step (abs_pipe (done @ map fst (nc # plan)) m) (abs_pipe (done @ map fst (nc # plan)) m')"
      unfolding start last using False by (rule fail_stage)
    then show ?thesis using False ends(1) unfolding simulated_def last by (auto simp: pipe_ended_def)
  qed
qed


text \<open>
  C8. The stages of the pipeline implement its contract: seen through the manifest, a run makes the
  steps of the abstract pipeline from its initial state to a final one. Stages are run in order, none
  after the first that fails, and the status returned is 0 just when all have passed and otherwise
  the exit code of the stage that failed.
\<close>

theorem pipeline_refines:
  assumes "run_stages process (stage_plan env a) 0 (first_manifest env a) d = (Inr (status, m), d')"
  shows "abs_pipe [''microllm'', ''pytorch'', ''compare''] (first_manifest env a) =
      \<lparr>pp_todo = [''microllm'', ''pytorch'', ''compare''], pp_passed = [], pp_failed = None\<rparr> \<and>
    simulated [''microllm'', ''pytorch'', ''compare''] (first_manifest env a) m status"
proof -
  have none: "stage_code (first_manifest env a) n = None" for n by (simp add: stage_code_def first_manifest_def)
  show ?thesis
    using run_stages_simulates [OF assms, of "[]"] abs_pipe_running [of "[]" _ "[''microllm'', ''pytorch'', ''compare'']"] none
    by (simp add: stage_plan_def)
qed

lemma run_stages_total:
  assumes "\<And>command d. \<exists>r d'. process command d = (Inr r, d')"
  shows "\<exists>status m' d'. run_stages process plan c m d = (Inr (status, m'), d')"
proof (induction plan arbitrary: c m d)
  case (Cons nc plan)
  obtain x command where nc: "nc = (x, command)" by (cases nc)
  obtain r d1 where r: "process command d = (Inr r, d1)" using assms by blast
  then obtain d2 where "run_stage process x command m d = (Inr (px_code r, with_stage x command r m), d2)"
    by (auto simp: run_stage_def bindS_def put_def with_stage_def)
  then show ?case using Cons.IH by (cases "px_code r = 0") (simp_all add: nc bindS_def)
qed simp

text \<open>
  C9. If every stage's process ends, the run ends with a manifest that says how: \<open>pass\<close> with exit
  status 0 when every stage passed, \<open>fail\<close> with the failing stage's exit code otherwise, never the
  initial \<open>running\<close>; the manifest lists every other file of the directory and not itself.
\<close>

theorem pipeline_always_reports:
  assumes "\<And>command d. \<exists>r d'. process command d = (Inr r, d')"
    and "run_parse_args a = Inr a" and "rn_overwrite a \<or> dir \<in> {None, Some []}"
  shows "\<exists>r d m. run_main env process a dir = (r, Some d) \<and>
    (\<exists>files. map_of d ''manifest.json'' = Some (manifest_value m files) \<and> sorted files \<and>
       set files = {f \<in> fst ` set d. base_name f \<noteq> ''manifest.json''}) \<and>
    (mf_status m = ''pass'' \<and> r = Inr () \<and> (\<forall>n \<in> {''microllm'', ''pytorch'', ''compare''}. stage_code m n = Some 0) \<or>
     (\<exists>n c. mf_status m = ''fail'' \<and> r = Inl (SystemExit c) \<and> c \<noteq> 0 \<and> stage_code m n = Some c))"
proof -
  let ?names = "[''microllm'', ''pytorch'', ''compare'']"
  obtain status m0 d1 where run: "run_stages process (stage_plan env a) 0 (first_manifest env a) [] = (Inr (status, m0), d1)"
    using run_stages_total [of process, OF assms(1)] by blast
  define m where "m = m0\<lparr>mf_status := (if status = 0 then ''pass'' else ''fail''), mf_tail := [(''completed_utc'', VStr (av_completed env))]\<rparr>"
  define files where "files = sort (filter (\<lambda>f. base_name f \<noteq> ''manifest.json'') (map fst d1))"
  define d where "d = dict_set ''manifest.json'' (manifest_value m files) d1"
  have sim: "simulated ?names (first_manifest env a) m0 status"
    using run_stages_simulates [OF run, of "[]"] by (simp add: stage_plan_def stage_code_def first_manifest_def)
  have dir: "fresh_directory (rn_overwrite a) dir = Inr []"
    using assms(3) by (auto simp: fresh_directory_def split: option.splits)
  have main: "run_main env process a dir = (if status = 0 then Inr () else Inl (SystemExit status), Some d)"
    using run assms(2) dir by (simp add: run_main_def run_pipeline_def bindS_def write_manifest_def put_def m_def files_def d_def)
  have base: "base_name ''manifest.json'' = ''manifest.json''" by simp
  have doc: "map_of d ''manifest.json'' = Some (manifest_value m files) \<and> sorted files \<and>
       set files = {f \<in> fst ` set d. base_name f \<noteq> ''manifest.json''}"
    using base by (auto simp: d_def files_def)
  have codes: "stage_code m n = stage_code m0 n" for n by (simp add: m_def stage_code_def)
  show ?thesis
  proof (cases "status = 0")
    case True
    then have f: "pp_failed (abs_pipe ?names m0) = None" "pp_todo (abs_pipe ?names m0) = []"
      using sim by (auto simp: simulated_def pipe_ended_def)
    then have "\<forall>n \<in> set ?names. stage_code m0 n = Some 0"
      by (auto simp: abs_pipe_def split: if_splits option.splits)
    then show ?thesis using main doc True codes by (intro exI [of _ "Inr ()"] exI [of _ d] exI [of _ m]) (auto simp: m_def)
  next
    case False
    then obtain n c where f: "pp_failed (abs_pipe ?names m0) = Some (n, c)" and c: "status = c"
      using sim by (auto simp: simulated_def)
    have "stage_code m0 n = Some c" using f by (auto simp: abs_pipe_def split: if_splits option.splits)
    then show ?thesis using main doc False codes c
      by (intro exI [of _ "Inl (SystemExit c)"] exI [of _ d] exI [of _ m]) (auto simp: m_def)
  qed
qed

section \<open>The properties at a concrete run\<close>

definition sample_env :: run_env where
  "sample_env = \<lparr>av_git = (\<lambda>_. \<lparr>px_code = 0, px_out = ''main'', px_err = []\<rparr>), av_tool = (\<lambda>_. None), av_resolve = id, av_here = ''tools'',
     av_project = ''repo'', av_executable = ''python3'', av_platform = ''linux'', av_machine = ''x86'', av_version = ''3.12'',
     av_timestamp = ''t'', av_created = ''c'', av_completed = ''d'', av_repr = (\<lambda>_. ''0'')\<rparr>"

text \<open>The second stage fails.\<close>

definition sample_stage :: stage where
  "sample_stage command d = (Inr \<lparr>px_code = (if command ! 1 = ''tools/pytorch_runner.py'' then 3 else 0), px_out = [], px_err = []\<rparr>, d)"

definition sample_run_args :: run_args where
  "sample_run_args = default_run_args ''bin'' ''out'' ''python3''"

lemma sample_stage_ends: "\<exists>r d'. sample_stage command d = (Inr r, d')"
  by (simp add: sample_stage_def)

theorem pipeline_refines_witness:
  "\<exists>m d'. run_stages sample_stage (stage_plan sample_env sample_run_args) 0 (first_manifest sample_env sample_run_args) [] = (Inr (3, m), d') \<and>
     simulated [''microllm'', ''pytorch'', ''compare''] (first_manifest sample_env sample_run_args) m 3"
proof -
  obtain m d' where run: "run_stages sample_stage (stage_plan sample_env sample_run_args) 0 (first_manifest sample_env sample_run_args) [] = (Inr (3, m), d')"
    by (simp add: stage_plan_def micro_command_def torch_command_def sample_env_def run_stage_def bindS_def sample_stage_def put_def)
  then show ?thesis using pipeline_refines [OF run] by blast
qed

theorem pipeline_always_reports_witness:
  "\<exists>r d m. run_main sample_env sample_stage sample_run_args None = (r, Some d) \<and>
     (mf_status m = ''pass'' \<and> r = Inr () \<or> (\<exists>n c. mf_status m = ''fail'' \<and> r = Inl (SystemExit c) \<and> c \<noteq> 0 \<and> stage_code m n = Some c))"
proof -
  have args: "run_parse_args sample_run_args = Inr sample_run_args"
    by (simp add: run_parse_args_def sample_run_args_def default_run_args_def)
  show ?thesis using pipeline_always_reports [of sample_stage, OF sample_stage_ends args, of None sample_env] by blast
qed

end
