(* ===== verification/DistributedRun.thy ===== *)
theory DistributedRun imports PyText PyStats RankedArgs begin

text \<open>
  \<open>tools/distributed/run.py\<close>: one recorded data-parallel experiment. The trainer is a process on
  the output directory; its lines are parsed by \<open>da_loads\<close>, the \<open>json.loads\<close> of a line. What
  git, the tools and the clock answer is the rest of the record.
\<close>

record dist_args =
  di_binary :: string
  di_output :: string
  di_model :: string
  di_steps :: int
  di_bucket_bytes :: int
  di_check_interval :: int
  di_inplace_average :: string
  di_persistent_buckets :: string
  di_bucket_views :: string
  di_ready_order :: string
  di_overlap :: string
  di_seed :: int
  di_batch :: int
  di_context :: int
  di_overwrite :: bool

definition default_dist_args :: "string \<Rightarrow> string \<Rightarrow> dist_args" where
  "default_dist_args binary output =
     \<lparr>di_binary = binary, di_output = output, di_model = ''tiny'', di_steps = 3, di_bucket_bytes = 4 * 1024 * 1024,
      di_check_interval = 1, di_inplace_average = ''true'', di_persistent_buckets = ''false'', di_bucket_views = ''false'',
      di_ready_order = ''false'', di_overlap = ''false'', di_seed = 601, di_batch = 1, di_context = 0, di_overwrite = False\<rparr>"

definition is_switch :: "string \<Rightarrow> bool" where
  "is_switch s \<longleftrightarrow> s \<in> {''true'', ''false''}"

definition dist_parse_args :: "dist_args \<Rightarrow> dist_args py" where
  "dist_parse_args a =
     thenE (raise_if (di_model a \<notin> {''tiny'', ''model-s''} \<or> \<not> list_all is_switch
              [di_inplace_average a, di_persistent_buckets a, di_bucket_views a, di_ready_order a, di_overlap a]) usage)
    (thenE (raise_if (di_steps a \<le> 0 \<or> di_bucket_bytes a < 4 \<or> di_seed a < 0 \<or> di_check_interval a < 0 \<or>
                      di_batch a \<le> 0 \<or> di_context a < 0) usage)
       (Inr a))"

record dist_env =
  da_command :: "string list \<Rightarrow> proc_result"
  da_tool :: "string \<Rightarrow> proc_result option"
  da_resolve :: "string \<Rightarrow> string"
  da_loads :: "string \<Rightarrow> pyval py"
  da_platform :: string
  da_machine :: string
  da_created :: string

definition command_value :: "dist_env \<Rightarrow> string list \<Rightarrow> string option" where
  "command_value env command = stripped_output (da_command env command)"

definition dist_version :: "dist_env \<Rightarrow> string \<Rightarrow> string option" where
  "dist_version env name = first_line (da_tool env name)"

definition dist_repository :: "dist_env \<Rightarrow> pyval" where
  "dist_repository env =
     VDict [(''commit'', text_or_none (command_value env [''git'', ''rev-parse'', ''HEAD''])),
       (''branch'', text_or_none (command_value env [''git'', ''branch'', ''--show-current''])),
       (''dirty'', VBool (py_truthy (text_or_none (command_value env [''git'', ''status'', ''--porcelain'']))))]"

definition dist_command :: "dist_env \<Rightarrow> dist_args \<Rightarrow> string list" where
  "dist_command env a =
     [da_resolve env (di_binary a), ''--model'', di_model a, ''--steps'', str_int (di_steps a),
      ''--bucket-bytes'', str_int (di_bucket_bytes a), ''--parameter-check-interval'', str_int (di_check_interval a),
      ''--inplace-bucket-average'', di_inplace_average a, ''--persistent-gradient-buckets'', di_persistent_buckets a,
      ''--gradient-bucket-views'', di_bucket_views a, ''--record-gradient-ready-order'', di_ready_order a,
      ''--overlap-gradient-communication'', di_overlap a, ''--seed'', str_int (di_seed a), ''--batch'', str_int (di_batch a),
      ''--context'', str_int (di_context a), ''--trace'', da_resolve env (di_output a) @ ''/trace.jsonl'']"

section \<open>Metrics\<close>

definition parse_lines :: "dist_env \<Rightarrow> string \<Rightarrow> pyval list py" where
  "parse_lines env text = mapM (da_loads env) (filter (\<lambda>line. strip line \<noteq> []) (splitlines text))"

definition median_field :: "pyval list \<Rightarrow> string \<Rightarrow> pyval py" where
  "median_field records k = bindE (mapM (\<lambda>r. py_getitem r k) records) py_median"

definition if_any :: "pyval list \<Rightarrow> pyval py \<Rightarrow> pyval py" where
  "if_any metrics v = (if metrics = [] then Inr VNone else v)"

definition loss_at :: "pyval list \<Rightarrow> int \<Rightarrow> pyval py" where
  "loss_at metrics i = if_any metrics (bindE (list_index metrics i) (\<lambda>r. py_getitem r ''mean_loss''))"

definition count_checks :: "pyval list \<Rightarrow> pyval py" where
  "count_checks metrics =
     bindE (filterM (\<lambda>r. bindE (py_getitem r ''parameter_check_performed'') (\<lambda>v. Inr (py_truthy v))) metrics)
       (\<lambda>checked. Inr (VInt (int (length checked))))"

definition dist_summary :: "int \<Rightarrow> pyval list \<Rightarrow> pydict py" where
  "dist_summary code metrics =
     bindE (loss_at metrics 0) (\<lambda>initial.
     bindE (loss_at metrics (- 1)) (\<lambda>final.
     bindE (bindE (mapM (\<lambda>r. py_getitem r ''parameter_max_difference'') metrics) (py_max_default VNone)) (\<lambda>largest.
     bindE (mapM (\<lambda>k. if_any metrics (median_field metrics k))
              [''forward_backward_ms'', ''communication_ms'', ''optimizer_ms'', ''verification_ms'']) (\<lambda>medians.
     bindE (count_checks metrics) (\<lambda>checks.
     bindE (if_any metrics (median_field metrics ''total_ms'')) (\<lambda>total.
     Inr ([(''schema_version'', VInt 1), (''status'', VStr (if code = 0 then ''pass'' else ''fail'')),
           (''steps'', VInt (int (length metrics))), (''initial_loss'', initial), (''final_loss'', final),
           (''maximum_parameter_difference'', largest)] @
          zip [''median_forward_backward_ms'', ''median_communication_ms'', ''median_optimizer_ms'', ''median_verification_ms''] medians @
          [(''parameter_checks'', checks), (''median_total_ms'', total)])))))))"

section \<open>The run\<close>

definition dist_configuration :: "dist_env \<Rightarrow> dist_args \<Rightarrow> pyval" where
  "dist_configuration env a =
     VDict [(''binary'', VStr (da_resolve env (di_binary a))), (''model'', VStr (di_model a)), (''steps'', VInt (di_steps a)),
       (''bucket_bytes'', VInt (di_bucket_bytes a)), (''parameter_check_interval'', VInt (di_check_interval a)),
       (''inplace_bucket_average'', VBool (di_inplace_average a = ''true'')),
       (''persistent_gradient_buckets'', VBool (di_persistent_buckets a = ''true'')),
       (''gradient_bucket_views'', VBool (di_bucket_views a = ''true'')),
       (''record_gradient_ready_order'', VBool (di_ready_order a = ''true'')),
       (''overlap_gradient_communication'', VBool (di_overlap a = ''true'')),
       (''seed'', VInt (di_seed a)), (''batch'', VInt (di_batch a)), (''context'', VInt (di_context a)),
       (''devices'', VList [VInt 0, VInt 1])]"

definition dist_manifest :: "dist_env \<Rightarrow> dist_args \<Rightarrow> int \<Rightarrow> pyval \<Rightarrow> pyval" where
  "dist_manifest env a code status =
     VDict [(''schema_version'', VInt 1), (''created_utc'', VStr (da_created env)), (''status'', status),
       (''repository'', dist_repository env),
       (''host'', VDict ([(''platform'', VStr (da_platform env)), (''machine'', VStr (da_machine env))] @
          map (\<lambda>tool. (tool, text_or_none (dist_version env tool))) [''cmake'', ''gcc'', ''g++'', ''hipcc'', ''rocprofv3''])),
       (''configuration'', dist_configuration env a), (''command'', VList (map VStr (dist_command env a))),
       (''returncode'', VInt code),
       (''artifacts'', VList (map VStr [''metrics.jsonl'', ''stderr.txt'', ''summary.json'', ''trace.jsonl'']))]"

text \<open>Every line of the trace, if there is one, must parse.\<close>

definition check_trace :: "dist_env \<Rightarrow> outdir \<Rightarrow> unit py" where
  "check_trace env d =
     (case map_of d ''trace.jsonl'' of Some (VStr text) \<Rightarrow> bindE (parse_lines env text) (\<lambda>_. Inr ()) | _ \<Rightarrow> Inr ())"

definition dist_run :: "dist_env \<Rightarrow> (string list \<Rightarrow> (outdir, proc_result) action) \<Rightarrow> dist_args \<Rightarrow> (outdir, unit) action" where
  "dist_run env process a =
     bindS (process (dist_command env a)) (\<lambda>completed.
     thenS (put ''metrics.jsonl'' (VStr (px_out completed)))
    (thenS (put ''stderr.txt'' (VStr (px_err completed)))
    (bindS (liftS (parse_lines env (px_out completed))) (\<lambda>metrics.
     thenS (liftS (raise_if (px_code completed = 0 \<and> int (length metrics) \<noteq> di_steps a)
                     (RuntimeError ''distributed CLI did not emit one metric record per step'')))
    (thenS (\<lambda>d. (check_trace env d, d))
    (bindS (liftS (dist_summary (px_code completed) metrics)) (\<lambda>summary.
     thenS (put ''summary.json'' (VDict summary))
    (bindS (liftS (py_getitem (VDict summary) ''status'')) (\<lambda>status.
     thenS (put ''manifest.json'' (dist_manifest env a (px_code completed) status))
       (liftS (raise_if (px_code completed \<noteq> 0) (SystemExit (px_code completed)))))))))))))"

definition dist_main ::
  "dist_env \<Rightarrow> (string list \<Rightarrow> (outdir, proc_result) action) \<Rightarrow> dist_args \<Rightarrow> outdir option \<Rightarrow> unit py \<times> outdir option" where
  "dist_main env process a0 dir =
     (case bindE (dist_parse_args a0) (\<lambda>a. bindE (fresh_directory (di_overwrite a) dir) (\<lambda>d. Inr (a, d))) of
        Inl e \<Rightarrow> (Inl e, dir)
      | Inr (a, d) \<Rightarrow> (case dist_run env process a d of (r, d1) \<Rightarrow> (r, Some d1)))"

section \<open>What a completed run recorded\<close>

definition summary_of_metrics :: "pyval list \<Rightarrow> pydict \<Rightarrow> bool" where
  "summary_of_metrics metrics s \<longleftrightarrow>
     map_of s ''steps'' = Some (VInt (int (length metrics))) \<and>
     map_of s ''initial_loss'' = (case py_getitem (hd metrics) ''mean_loss'' of Inr v \<Rightarrow> Some v | Inl _ \<Rightarrow> None) \<and>
     map_of s ''final_loss'' = (case py_getitem (last metrics) ''mean_loss'' of Inr v \<Rightarrow> Some v | Inl _ \<Rightarrow> None) \<and>
     (\<exists>largest. map_of s ''maximum_parameter_difference'' = Some largest \<and>
        (\<forall>ds. mapM (\<lambda>r. py_getitem r ''parameter_max_difference'') metrics = Inr ds \<longrightarrow> largest \<in> set ds \<and>
           ((\<forall>x \<in> set ds. val_num x \<noteq> NaN) \<longrightarrow> (\<forall>x \<in> set ds. fle (val_num x) (val_num largest)))))"

lemma loss_first: "metrics \<noteq> [] \<Longrightarrow> loss_at metrics 0 = py_getitem (hd metrics) ''mean_loss''"
  by (cases metrics) (simp_all add: loss_at_def if_any_def)

lemma loss_last: "metrics \<noteq> [] \<Longrightarrow> loss_at metrics (- 1) = py_getitem (last metrics) ''mean_loss''"
proof -
  assume m: "metrics \<noteq> []"
  then have "list_index metrics (- 1) = Inr (last metrics)"
    by (cases metrics) (auto simp: list_index_def last_conv_nth nat_diff_distrib)
  then show ?thesis using m by (simp add: loss_at_def if_any_def)
qed

lemma dist_summary_ok:
  assumes "dist_summary code metrics = Inr s" and "metrics \<noteq> []"
  shows "map_of s ''status'' = Some (VStr (if code = 0 then ''pass'' else ''fail'')) \<and> summary_of_metrics metrics s"
proof -
  obtain initial final ds largest medians checks total where
    l: "py_getitem (hd metrics) ''mean_loss'' = Inr initial" "py_getitem (last metrics) ''mean_loss'' = Inr final"
    and ds: "mapM (\<lambda>r. py_getitem r ''parameter_max_difference'') metrics = Inr ds" "py_max_default VNone ds = Inr largest"
    and s: "s = [(''schema_version'', VInt 1), (''status'', VStr (if code = 0 then ''pass'' else ''fail'')),
           (''steps'', VInt (int (length metrics))), (''initial_loss'', initial), (''final_loss'', final),
           (''maximum_parameter_difference'', largest)] @
          zip [''median_forward_backward_ms'', ''median_communication_ms'', ''median_optimizer_ms'', ''median_verification_ms''] medians @
          [(''parameter_checks'', checks), (''median_total_ms'', total)]"
    using assms(1) unfolding dist_summary_def bindE_Inr_iff loss_first [OF assms(2)] loss_last [OF assms(2)] by blast
  have "length ds = length metrics" using mapM_length [OF ds(1)] .
  then obtain y ys where y: "ds = y # ys" using assms(2) by (cases ds) auto
  then have m: "py_max_from y ys = Inr largest" using ds(2) by (simp add: py_max_default_def)
  have "largest \<in> set ds" using py_max_from_in [OF m] y by simp
  moreover have "\<forall>x \<in> set ds. fle (val_num x) (val_num largest)" if "\<forall>x \<in> set ds. val_num x \<noteq> NaN"
    using py_max_from_upper [OF m] that y by auto
  ultimately show ?thesis using l ds(1) by (simp add: s summary_of_metrics_def)
qed

text \<open>
  C31. A data-parallel run that returns has recorded one metric per step: the trainer exited with 0, its
  output parsed to exactly \<open>steps\<close> records, and summary and manifest both say \<open>pass\<close>. The
  summary's losses are those of the first and the last step, and its parameter difference is one of the
  steps' and the largest of them.
\<close>

theorem completed_run_has_every_step:
  assumes "dist_run env process a d = (Inr (), d')" and "0 < di_steps a"
  shows "\<exists>completed d1 metrics s. process (dist_command env a) d = (Inr completed, d1) \<and> px_code completed = 0 \<and>
    parse_lines env (px_out completed) = Inr metrics \<and> int (length metrics) = di_steps a \<and>
    map_of d' ''metrics.jsonl'' = Some (VStr (px_out completed)) \<and> map_of d' ''summary.json'' = Some (VDict s) \<and>
    map_of s ''status'' = Some (VStr ''pass'') \<and> summary_of_metrics metrics s \<and>
    map_of d' ''manifest.json'' = Some (dist_manifest env a 0 (VStr ''pass''))"
proof -
  obtain completed d1 metrics s status where p: "process (dist_command env a) d = (Inr completed, d1)"
    "parse_lines env (px_out completed) = Inr metrics" "\<not> (px_code completed = 0 \<and> int (length metrics) \<noteq> di_steps a)"
    "dist_summary (px_code completed) metrics = Inr s" "py_getitem (VDict s) ''status'' = Inr status" "px_code completed = 0"
    and d': "d' = dict_set ''manifest.json'' (dist_manifest env a (px_code completed) status) (dict_set ''summary.json'' (VDict s)
        (dict_set ''stderr.txt'' (VStr (px_err completed)) (dict_set ''metrics.jsonl'' (VStr (px_out completed)) d1)))"
    using assms(1) unfolding dist_run_def by (auto simp: bindS_Inr)
  have "metrics \<noteq> []" using p(3,6) assms(2) by auto
  note s = dist_summary_ok [OF p(4) this]
  have "status = VStr ''pass''" using s p(5,6) by (simp add: py_getitem_def)
  then show ?thesis using p s d' by (intro exI [of _ completed] exI [of _ d1] exI [of _ metrics] exI [of _ s]) simp
qed

section \<open>The property at a concrete run\<close>

definition step_metric :: pyval where
  "step_metric = VDict [(''mean_loss'', VFloat (Fin 2)), (''parameter_max_difference'', VFloat (Fin 0)), (''forward_backward_ms'', VInt 4),
     (''communication_ms'', VInt 1), (''optimizer_ms'', VInt 1), (''verification_ms'', VInt 1), (''total_ms'', VInt 7),
     (''parameter_check_performed'', VBool True)]"

definition dist_sample_env :: dist_env where
  "dist_sample_env = \<lparr>da_command = (\<lambda>_. \<lparr>px_code = 0, px_out = ''main'', px_err = []\<rparr>), da_tool = (\<lambda>_. None), da_resolve = id,
     da_loads = (\<lambda>_. Inr step_metric), da_platform = ''linux'', da_machine = ''x86'', da_created = ''now''\<rparr>"

theorem completed_run_has_every_step_witness:
  "\<exists>d' s. dist_run dist_sample_env (\<lambda>_ d. (Inr \<lparr>px_code = 0, px_out = ''x'', px_err = []\<rparr>, d))
       ((default_dist_args ''bin'' ''out'')\<lparr>di_steps := 1\<rparr>) [] = (Inr (), d') \<and> map_of d' ''summary.json'' = Some (VDict s) \<and>
     map_of s ''steps'' = Some (VInt 1)"
proof -
  let ?a = "(default_dist_args ''bin'' ''out'')\<lparr>di_steps := 1\<rparr>"
  have m: "parse_lines dist_sample_env ''x'' = Inr [step_metric]"
    by (simp add: parse_lines_def splitlines_def is_line_break_def strip_def is_space_def dist_sample_env_def)
  obtain s where s: "dist_summary 0 [step_metric] = Inr s" "map_of s ''status'' = Some (VStr ''pass'')"
    by (simp add: dist_summary_def loss_at_def if_any_def step_metric_def py_getitem_def list_index_def py_max_default_def py_max_from_def
        median_field_def py_median_def py_sorted_def sort_by_def count_checks_def Let_def)
  obtain d' where run: "dist_run dist_sample_env (\<lambda>_ d. (Inr \<lparr>px_code = 0, px_out = ''x'', px_err = []\<rparr>, d)) ?a [] = (Inr (), d')"
    using m s by (simp add: dist_run_def bindS_def put_def check_trace_def py_getitem_def default_dist_args_def)
  obtain metrics s' where c: "int (length metrics) = di_steps ?a" "map_of d' ''summary.json'' = Some (VDict s')" "summary_of_metrics metrics s'"
    using completed_run_has_every_step [OF run] by auto
  then have "map_of s' ''steps'' = Some (VInt 1)" by (simp add: summary_of_metrics_def)
  then show ?thesis using run c(2) by blast
qed

end
