(* ===== verification/HfFixture.thy ===== *)
theory HfFixture imports PyText PyStats RankedArgs "HOL-Library.Word" begin

text \<open>
  \<open>tools/prepare_hf_fixture.py\<close>: the registry of pinned fixtures, the inspection of safetensors
  files and sharded weight sets, the manifest entry of one fixture, and the validation of a manifest.
  The file system maps paths to bytes; \<open>fe_loads\<close> and \<open>fe_dumps\<close> are the JSON codec,
  \<open>fe_resolve\<close> is \<open>Path.resolve\<close>, \<open>fe_toml\<close> what \<open>tomllib\<close> gives for the
  registry, and \<open>fe_snapshot\<close> the download of the Hugging Face hub.
\<close>

type_synonym bytes = "8 word list"

type_synonym fsys = "string \<Rightarrow> bytes option"

record fixture_env =
  fe_loads :: "bytes \<Rightarrow> pyval py"
  fe_dumps :: "pyval \<Rightarrow> bytes"
  fe_resolve :: "string \<Rightarrow> string"
  fe_snapshot :: "string \<Rightarrow> string \<Rightarrow> string \<Rightarrow> (fsys, unit) action"

definition path_join :: "string \<Rightarrow> string \<Rightarrow> string" where
  "path_join base name = (if take 1 name = ''/'' then name else base @ ''/'' @ name)"

definition parent_of :: "string \<Rightarrow> string" where
  "parent_of path = rev (drop 1 (dropWhile (\<lambda>c. c \<noteq> CHR ''/'') (rev path)))"

definition is_file :: "fsys \<Rightarrow> string \<Rightarrow> bool" where
  "is_file fs path \<longleftrightarrow> fs path \<noteq> None"

definition read_bytes :: "fsys \<Rightarrow> string \<Rightarrow> bytes py" where
  "read_bytes fs path = need (OSError ''no such file'') (fs path)"

definition read_json :: "fixture_env \<Rightarrow> fsys \<Rightarrow> string \<Rightarrow> pyval py" where
  "read_json env fs path = bindE (read_bytes fs path) (fe_loads env)"

definition file_size :: "fsys \<Rightarrow> string \<Rightarrow> int py" where
  "file_size fs path = bindE (read_bytes fs path) (\<lambda>b. Inr (int (length b)))"

section \<open>The registry\<close>

definition required_fields :: "string list" where
  "required_fields = [''repo_id'', ''source'', ''revision'', ''license'', ''license_url'', ''parameter_count'', ''tensor_count'',
     ''tokenizer_family'', ''inference_token_ids'', ''expected_generated_tokens'', ''training_tokens'']"

text \<open>\<open>character not in "0123456789abcdef"\<close>: a substring test, an error on anything but a string.\<close>

definition is_substring :: "string \<Rightarrow> string \<Rightarrow> bool" where
  "is_substring p s \<longleftrightarrow> (\<exists>i \<in> set [0..<Suc (length s)]. take (length p) (drop i s) = p)"

definition not_hex :: "pyval \<Rightarrow> bool py" where
  "not_hex v = (case v of VStr p \<Rightarrow> Inr (\<not> is_substring p ''0123456789abcdef'') | _ \<Rightarrow> Inl TypeError)"

definition revision_bad :: "pyval \<Rightarrow> bool py" where
  "revision_bad row =
     bindE (py_getitem row ''revision'') (\<lambda>revision.
     orM (bindE (py_len revision) (\<lambda>n. Inr (n \<noteq> 40)))
         (bindE (py_iter revision) (anyM not_hex)))"

definition not_positive_int :: "pyval \<Rightarrow> bool" where
  "not_positive_int v \<longleftrightarrow> (case v of VInt i \<Rightarrow> i \<le> 0 | _ \<Rightarrow> True)"

definition check_registry_row :: "pyval \<Rightarrow> unit py" where
  "check_registry_row row =
     thenE (raise_if (lacks required_fields row) (RuntimeError ''registry fields missing''))
    (thenE (raise_ifM (revision_bad row) (RuntimeError ''revision must be a pinned 40-character commit''))
    (bindE (py_getitem row ''parameter_count'') (\<lambda>stored.
     thenE (raise_if (not_positive_int stored) (RuntimeError ''stored parameter count must be positive''))
    (bindE (py_get row ''runtime_parameter_count'' stored) (\<lambda>runtime.
     thenE (raise_if (not_positive_int runtime) (RuntimeError ''runtime parameter count must be positive''))
    (bindE (py_gt runtime stored) (\<lambda>b.
     raise_if b (RuntimeError ''runtime parameter count cannot exceed stored count''))))))))"

type_synonym registry = "(string \<times> pyval) list"

definition load_registry :: "pyval py \<Rightarrow> registry py" where
  "load_registry toml =
     bindE toml (\<lambda>document.
     bindE (py_get document ''schema_version'' VNone) (\<lambda>version.
     thenE (raise_if (py_ne version (VInt 1)) (RuntimeError ''model fixture registry schema is unsupported''))
    (bindE (bindE (py_get document ''model'' (VList [])) py_iter) (\<lambda>rows.
     bindE (foldM (\<lambda>d row. bindE (text_field row ''id'') (\<lambda>i. Inr (dict_set i row d))) [] rows) (\<lambda>result.
     thenE (raise_if (length result \<noteq> length rows \<or> result = []) (RuntimeError ''model fixture ids must be unique and non-empty''))
    (thenE (checksE (map (\<lambda>(_, row). check_registry_row row) result))
    (Inr result)))))))"

text \<open>\<open>value.split("=", 1)\<close> at the first equals sign.\<close>

definition assignment :: "fixture_env \<Rightarrow> (string \<times> string) list \<Rightarrow> string \<Rightarrow> (string \<times> string) list py" where
  "assignment env result v =
     (let identifier = takeWhile (\<lambda>c. c \<noteq> CHR ''='') v; path = drop 1 (dropWhile (\<lambda>c. c \<noteq> CHR ''='') v) in
      thenE (raise_if (CHR ''='' \<notin> set v) (RuntimeError ''must use MODEL=/path syntax''))
     (thenE (raise_if (identifier = [] \<or> path = [] \<or> identifier \<in> set (map fst result)) (RuntimeError ''invalid duplicate''))
     (Inr (dict_set identifier (fe_resolve env path) result))))"

definition assignments :: "fixture_env \<Rightarrow> string list \<Rightarrow> (string \<times> string) list py" where
  "assignments env values = foldM (assignment env) [] values"

section \<open>One safetensors file\<close>

text \<open>\<open>struct.unpack("<Q", prefix)\<close>: the first byte is the least significant.\<close>

fun little_endian :: "bytes \<Rightarrow> nat" where
  "little_endian [] = 0"
| "little_endian (b # bs) = unat b + 256 * little_endian bs"

definition header_limit :: nat where "header_limit = 100000000"

definition int_of_val :: "pyval \<Rightarrow> int" where
  "int_of_val v = (case as_num v of Some (NI i) \<Rightarrow> i | _ \<Rightarrow> 0)"

definition dimension_bad :: "pyval \<Rightarrow> bool" where
  "dimension_bad v \<longleftrightarrow> \<not> is_int v \<or> int_of_val v < 0"

definition list_items :: "pyval \<Rightarrow> pyval list" where
  "list_items v = (case v of VList xs \<Rightarrow> xs | _ \<Rightarrow> [])"

definition metadata_bad :: "pyval \<Rightarrow> pyval \<Rightarrow> pyval \<Rightarrow> bool py" where
  "metadata_bad shape dtype offsets =
     (if \<not> is_list shape \<or> \<not> is_str dtype \<or> \<not> is_list offsets \<or> length (list_items offsets) \<noteq> 2 \<or>
         (\<exists>v \<in> set (list_items shape). dimension_bad v)
      then Inr True
      else orM (bindE (py_index offsets 0) (\<lambda>a. py_lt a (VInt 0)))
               (bindE (py_index offsets 1) (\<lambda>b. bindE (py_index offsets 0) (\<lambda>a. py_lt b a))))"

type_synonym tensors = "(string \<times> int list \<times> string) list"

definition str_of :: "pyval \<Rightarrow> string" where
  "str_of v = (case v of VStr s \<Rightarrow> s | _ \<Rightarrow> [])"

definition header_step :: "tensors \<Rightarrow> string \<times> pyval \<Rightarrow> tensors py" where
  "header_step tensors item =
     (case item of (name, row) \<Rightarrow>
        if name = ''__metadata__'' then Inr tensors
        else
          bindE (py_get row ''shape'' VNone) (\<lambda>shape.
          bindE (py_get row ''dtype'' VNone) (\<lambda>dtype.
          bindE (py_get row ''data_offsets'' VNone) (\<lambda>offsets.
          thenE (raise_ifM (metadata_bad shape dtype offsets) (RuntimeError ''invalid tensor metadata''))
         (thenE (raise_if (name \<in> set (map fst tensors)) (RuntimeError ''duplicate tensor''))
         (Inr (dict_set name (map int_of_val (list_items shape), str_of dtype) tensors)))))))"

definition read_header :: "bytes \<Rightarrow> bytes py" where
  "read_header content =
     (let prefix = take 8 content; n = little_endian prefix; payload = take n (drop 8 content) in
      thenE (raise_if (length prefix \<noteq> 8) (RuntimeError ''safetensors prefix is truncated''))
     (thenE (raise_if (n = 0 \<or> header_limit < n) (RuntimeError ''safetensors header length is invalid''))
     (thenE (raise_if (length payload \<noteq> n) (RuntimeError ''safetensors header is truncated''))
     (Inr payload))))"

definition dict_pairs :: "pyval \<Rightarrow> pydict py" where
  "dict_pairs v = (case v of VDict d \<Rightarrow> Inr d | _ \<Rightarrow> Inl AttributeError)"

definition inspect_safetensors :: "fixture_env \<Rightarrow> fsys \<Rightarrow> string \<Rightarrow> tensors py" where
  "inspect_safetensors env fs path =
     bindE (read_bytes fs path) (\<lambda>content.
     bindE (read_header content) (\<lambda>payload.
     bindE (bindE (fe_loads env payload) dict_pairs) (\<lambda>document.
     bindE (foldM header_step [] document) (\<lambda>tensors.
     thenE (raise_if (tensors = []) (RuntimeError ''safetensors contains no tensors''))
       (Inr tensors)))))"

section \<open>A weight set\<close>

definition unsafe_name :: "pyval \<Rightarrow> bool" where
  "unsafe_name v \<longleftrightarrow>
     (case v of VStr name \<Rightarrow> take 1 name = ''/'' \<or> ''..'' \<in> set (split_on CHR ''/'' name) | _ \<Rightarrow> True)"

definition shard_names :: "pydict \<Rightarrow> string list py" where
  "shard_names weight_map =
     (let names = map snd weight_map in
      thenE (raise_if (\<exists>v \<in> set names. is_list v \<or> is_dict v) TypeError)
     (bindE (py_sorted (remdups names)) (\<lambda>ordered.
      thenE (raise_if (\<exists>v \<in> set ordered. unsafe_name v) (RuntimeError ''weight index contains an unsafe shard path''))
        (Inr (map str_of ordered)))))"

text \<open>Each tensor of a shard joins the tensors seen so far with the name of its shard.\<close>

type_synonym placed = "(string \<times> (int list \<times> string) \<times> string) list"

definition place_tensor :: "string \<Rightarrow> placed \<Rightarrow> string \<times> int list \<times> string \<Rightarrow> placed py" where
  "place_tensor shard_name tensors item =
     thenE (raise_if (fst item \<in> set (map fst tensors)) (RuntimeError ''tensor occurs in multiple shards''))
       (Inr (dict_set (fst item) (snd item, shard_name) tensors))"

definition add_shard :: "fixture_env \<Rightarrow> fsys \<Rightarrow> string \<Rightarrow> placed \<times> string list \<Rightarrow> string \<Rightarrow> (placed \<times> string list) py" where
  "add_shard env fs base st shard_name =
     (let shard = fe_resolve env (path_join base shard_name) in
      thenE (raise_if (\<not> is_file fs shard) (RuntimeError ''weight shard is missing''))
     (bindE (inspect_safetensors env fs shard) (\<lambda>found.
      bindE (foldM (place_tensor shard_name) (fst st) found) (\<lambda>tensors.
      Inr (tensors, snd st @ [shard])))))"

definition wrong_shard :: "pydict \<Rightarrow> placed \<Rightarrow> bool" where
  "wrong_shard weight_map tensors \<longleftrightarrow>
     (\<exists>(name, v) \<in> set weight_map. v \<noteq> VStr (case map_of tensors name of None \<Rightarrow> [] | Some (_, s) \<Rightarrow> s))"

definition inspect_index :: "fixture_env \<Rightarrow> fsys \<Rightarrow> string \<Rightarrow> string \<Rightarrow> (string \<times> tensors \<times> string list) py" where
  "inspect_index env fs base index =
     bindE (read_json env fs index) (\<lambda>document.
     bindE (py_get document ''weight_map'' VNone) (\<lambda>wm.
     thenE (raise_if (\<not> is_dict wm \<or> \<not> py_truthy wm) (RuntimeError ''weight index has no weight_map''))
    (bindE (dict_pairs wm) (\<lambda>weight_map.
     bindE (shard_names weight_map) (\<lambda>names.
     bindE (foldM (add_shard env fs base) ([], []) names) (\<lambda>(tensors, shards).
     thenE (raise_if (set (map fst weight_map) \<noteq> set (map fst tensors)) (RuntimeError ''weight index membership differs from shard tensors''))
    (thenE (raise_if (wrong_shard weight_map tensors) (RuntimeError ''weight index maps a tensor to the wrong shard''))
    (Inr (fe_resolve env index, map (\<lambda>(n, m, s). (n, m)) tensors, shards)))))))))"

definition inspect_weight_set :: "fixture_env \<Rightarrow> fsys \<Rightarrow> string \<Rightarrow> (string \<times> tensors \<times> string list) py" where
  "inspect_weight_set env fs base =
     (let single = path_join base ''model.safetensors''; index = path_join base ''model.safetensors.index.json'' in
      if is_file fs single
      then bindE (inspect_safetensors env fs single) (\<lambda>t. Inr (fe_resolve env single, t, [fe_resolve env single]))
      else thenE (raise_if (\<not> is_file fs index) (RuntimeError ''no model.safetensors or index''))
             (inspect_index env fs base index))"

end
