(* ===== verification/HfPrepare.thy ===== *)
theory HfPrepare imports HfFixture begin

text \<open>
  The second half of \<open>tools/prepare_hf_fixture.py\<close>: the manifest entry and the evidence of one
  fixture, the validation of a manifest against the files, and \<open>main\<close> with its two commands.
\<close>

section \<open>One fixture\<close>

text \<open>\<open>json.loads(...)\<close> for its error only.\<close>

definition check_json :: "fixture_env \<Rightarrow> fsys \<Rightarrow> string \<Rightarrow> unit py" where
  "check_json env fs path = bindE (read_json env fs path) (\<lambda>_. Inr ())"

definition optional_names :: "string list" where
  "optional_names = [''tokenizer'', ''tokenizer_config'', ''special_tokens_map'', ''generation_config'', ''added_tokens'']"

definition optional_file :: "fixture_env \<Rightarrow> fsys \<Rightarrow> string \<Rightarrow> string \<Rightarrow> string \<Rightarrow> pydict" where
  "optional_file env fs model_root tokenizer_root name =
     (case filter (is_file fs) [path_join tokenizer_root (name @ ''.json''), path_join model_root (name @ ''.json'')] of
        [] \<Rightarrow> [] | path # _ \<Rightarrow> [(name, VStr (fe_resolve env path))])"

definition stored_count :: "tensors \<Rightarrow> int" where
  "stored_count tensors = sum_list (map (\<lambda>(n, shape, d). prod_list shape) tensors)"

definition count_int :: "'a list \<Rightarrow> pyval" where
  "count_int xs = VInt (int (length xs))"

definition fixture_manifest ::
  "fixture_env \<Rightarrow> fsys \<Rightarrow> pyval \<Rightarrow> string \<Rightarrow> string \<Rightarrow> string \<Rightarrow> tensors \<Rightarrow> pyval \<Rightarrow> pyval py" where
  "fixture_manifest env fs row model_root tokenizer_root weight_entry tensors runtime =
     bindE (mapM (\<lambda>k. bindE (py_getitem row k) (\<lambda>v. Inr v))
        [''id'', ''repo_id'', ''source'', ''revision'', ''license'', ''license_url'', ''tokenizer_family'', ''inference_token_ids'',
         ''expected_generated_tokens'']) (\<lambda>fields.
     bindE (py_len (fields ! 8)) (\<lambda>new_tokens.
     bindE (py_getitem row ''training_tokens'') (\<lambda>training.
     Inr (VDict (dict_update
       [(''name'', fields ! 0), (''repo_id'', fields ! 1), (''source'', fields ! 2), (''revision'', fields ! 3),
        (''license'', fields ! 4), (''license_url'', fields ! 5), (''state'', VStr ''fixture-ready''),
        (''parameter_count'', runtime), (''runtime_parameter_count'', runtime),
        (''stored_parameter_count'', VInt (stored_count tensors)), (''loaded_tensors'', count_int tensors),
        (''config'', VStr (fe_resolve env (path_join model_root ''config.json''))), (''weights'', VStr weight_entry),
        (''vocab'', VStr (fe_resolve env (path_join tokenizer_root ''vocab.json''))),
        (''merges'', VStr (fe_resolve env (path_join tokenizer_root ''merges.txt''))), (''tokenizer_family'', fields ! 6),
        (''inference'', VDict [(''token_ids'', fields ! 7), (''new_tokens'', VInt new_tokens),
                               (''expected_generated_tokens'', fields ! 8)]),
        (''training'', VDict [(''tokens'', training)])]
       (concat (map (optional_file env fs model_root tokenizer_root) optional_names)))))))"

definition fixture_evidence ::
  "fsys \<Rightarrow> pyval \<Rightarrow> string \<Rightarrow> tensors \<Rightarrow> string list \<Rightarrow> pyval \<Rightarrow> pyval py" where
  "fixture_evidence fs row tokenizer_root tensors shards runtime =
     bindE (mapM (\<lambda>k. py_getitem row k) [''id'', ''repo_id'', ''revision'', ''license'']) (\<lambda>fields.
     bindE (mapM (file_size fs) shards) (\<lambda>sizes.
     bindE (file_size fs (path_join tokenizer_root ''vocab.json'')) (\<lambda>vocab_bytes.
     bindE (file_size fs (path_join tokenizer_root ''merges.txt'')) (\<lambda>merges_bytes.
     Inr (VDict [(''name'', fields ! 0), (''repo_id'', fields ! 1), (''revision'', fields ! 2), (''license'', fields ! 3),
       (''state'', VStr ''fixture-ready''), (''parameter_count'', VInt (stored_count tensors)), (''runtime_parameter_count'', runtime),
       (''stored_parameter_count'', VInt (stored_count tensors)), (''tensor_count'', count_int tensors),
       (''weight_file_count'', count_int shards), (''weight_bytes'', VInt (sum_list sizes)),
       (''vocab_bytes'', VInt vocab_bytes), (''merges_bytes'', VInt merges_bytes),
       (''weight_dtypes'', VList (map VStr (sort (remdups (map (snd \<circ> snd) tensors))))),
       (''required_files_present'', VBool True)])))))"

definition prepare_one :: "fixture_env \<Rightarrow> fsys \<Rightarrow> pyval \<Rightarrow> string \<Rightarrow> string \<Rightarrow> (pyval \<times> pyval) py" where
  "prepare_one env fs row model_root tokenizer_root =
     (let config = path_join model_root ''config.json''; vocab = path_join tokenizer_root ''vocab.json'';
          merges = path_join tokenizer_root ''merges.txt'' in
      thenE (raise_if (\<exists>p \<in> set [config, vocab, merges]. \<not> is_file fs p) (RuntimeError ''required fixture file is missing''))
     (thenE (check_json env fs config)
     (thenE (check_json env fs vocab)
     (bindE (inspect_weight_set env fs model_root) (\<lambda>(weight_entry, tensors, shards).
      bindE (py_getitem row ''parameter_count'') (\<lambda>count.
      thenE (raise_if (py_ne (VInt (stored_count tensors)) count) (RuntimeError ''parameter count differs''))
     (bindE (py_get row ''runtime_parameter_count'' (VInt (stored_count tensors))) (\<lambda>runtime.
      bindE (py_getitem row ''tensor_count'') (\<lambda>tensor_count.
      thenE (raise_if (py_ne (count_int tensors) tensor_count) (RuntimeError ''tensor count differs''))
     (bindE (fixture_manifest env fs row model_root tokenizer_root weight_entry tensors runtime) (\<lambda>manifest.
      bindE (fixture_evidence fs row tokenizer_root tensors shards runtime) (\<lambda>evidence.
      Inr (manifest, evidence)))))))))))))"

section \<open>Validation\<close>

definition drift_keys :: "string list" where
  "drift_keys = [''revision'', ''parameter_count'', ''runtime_parameter_count'', ''stored_parameter_count'', ''loaded_tensors'',
     ''config'', ''weights'', ''vocab'', ''merges'', ''tokenizer_family'', ''license'']"

definition drifted :: "pyval \<Rightarrow> pyval \<Rightarrow> string \<Rightarrow> bool py" where
  "drifted model prepared k =
     bindE (py_get model k VNone) (\<lambda>a. bindE (py_get prepared k VNone) (\<lambda>b. Inr (py_ne a b)))"

text \<open>\<open>Path(v)\<close> of anything but a string is a \<open>TypeError\<close>.\<close>

definition directory_of :: "fixture_env \<Rightarrow> pyval \<Rightarrow> string \<Rightarrow> string py" where
  "directory_of env model k = bindE (text_field model k) (\<lambda>p. Inr (parent_of (fe_resolve env p)))"

definition registered :: "registry \<Rightarrow> pyval \<Rightarrow> (string \<times> pyval) option" where
  "registered reg v = (case v of VStr s \<Rightarrow> map_option (Pair s) (map_of reg s) | _ \<Rightarrow> None)"

definition validate_model ::
  "fixture_env \<Rightarrow> fsys \<Rightarrow> registry \<Rightarrow> string list \<times> pyval list \<Rightarrow> pyval \<Rightarrow> (string list \<times> pyval list) py" where
  "validate_model env fs reg st model =
     bindE (py_get model ''name'' VNone) (\<lambda>name.
     thenE (raise_if (is_list name \<or> is_dict name) TypeError)
    (bindE (need (RuntimeError ''fixture manifest model is duplicate or unknown'') (registered reg name)) (\<lambda>(identifier, row).
     thenE (raise_if (identifier \<in> set (fst st)) (RuntimeError ''fixture manifest model is duplicate or unknown''))
    (bindE (directory_of env model ''config'') (\<lambda>model_root.
     bindE (directory_of env model ''vocab'') (\<lambda>tokenizer_root.
     bindE (prepare_one env fs row model_root tokenizer_root) (\<lambda>(prepared, evidence).
     thenE (raise_ifM (anyM (drifted model prepared) drift_keys) (RuntimeError ''fixture manifest drift''))
    (Inr (identifier # fst st, snd st @ [evidence])))))))))"

definition validate_models :: "fixture_env \<Rightarrow> fsys \<Rightarrow> registry \<Rightarrow> pyval list \<Rightarrow> pyval list py" where
  "validate_models env fs reg models = bindE (foldM (validate_model env fs reg) ([], []) models) (\<lambda>st. Inr (snd st))"

definition validate_manifest :: "fixture_env \<Rightarrow> fsys \<Rightarrow> string \<Rightarrow> registry \<Rightarrow> pyval py" where
  "validate_manifest env fs path reg =
     bindE (read_json env fs path) (\<lambda>document.
     bindE (py_get document ''schema_version'' VNone) (\<lambda>version.
     bindE (if py_ne version (VInt 1) then Inr VNone else py_get document ''models'' VNone) (\<lambda>models.
     thenE (raise_if (py_ne version (VInt 1) \<or> \<not> is_list models) (RuntimeError ''fixture manifest schema is invalid''))
    (bindE (validate_models env fs reg (list_items models)) (\<lambda>evidence.
     Inr (VDict [(''schema_version'', VInt 1), (''status'', VStr ''pass''), (''models'', VList evidence)]))))))"

section \<open>Preparation\<close>

record fixture_args =
  fa_command :: string
  fa_toml :: "pyval py"
  fa_manifest :: string
  fa_evidence :: "string option"
  fa_models :: "string option"
  fa_download_root :: "string option"
  fa_model_source :: "string list"
  fa_tokenizer_source :: "string list"

definition selected_models :: "fixture_args \<Rightarrow> registry \<Rightarrow> string list py" where
  "selected_models a reg =
     (let selected = (case fa_models a of Some (c # s) \<Rightarrow> split_on CHR '','' (c # s) | _ \<Rightarrow> map fst reg) in
      thenE (raise_if (\<not> distinct selected \<or> (\<exists>n \<in> set selected. n \<notin> set (map fst reg)))
               (RuntimeError ''selected fixture model ids are duplicate or unknown''))
        (Inr selected))"

definition download_model :: "fixture_env \<Rightarrow> pyval \<Rightarrow> string \<Rightarrow> (fsys, string) action" where
  "download_model env row download_root =
     bindS (liftS (text_field row ''id'')) (\<lambda>identifier.
     let destination = fe_resolve env (path_join download_root identifier) in
     bindS (liftS (text_field row ''repo_id'')) (\<lambda>repo_id.
     bindS (liftS (text_field row ''revision'')) (\<lambda>revision.
     thenS (fe_snapshot env repo_id revision destination) (retS destination))))"

definition model_root_of :: "fixture_env \<Rightarrow> fixture_args \<Rightarrow> (string \<times> string) list \<Rightarrow> string \<Rightarrow> pyval \<Rightarrow> (fsys, string) action" where
  "model_root_of env a sources identifier row =
     (case map_of sources identifier of
        Some r \<Rightarrow> retS r
      | None \<Rightarrow>
          (case fa_download_root a of
             None \<Rightarrow> liftS (Inl (RuntimeError ''needs --model-source or --download-root''))
           | Some d \<Rightarrow> download_model env row d))"

definition prepare_selected ::
  "fixture_env \<Rightarrow> fixture_args \<Rightarrow> registry \<Rightarrow> (string \<times> string) list \<Rightarrow> (string \<times> string) list \<Rightarrow> string \<Rightarrow> (fsys, pyval \<times> pyval) action" where
  "prepare_selected env a reg model_sources tokenizer_sources identifier =
     bindS (liftS (need (KeyError identifier) (map_of reg identifier))) (\<lambda>row.
     bindS (model_root_of env a model_sources identifier row) (\<lambda>model_root.
     (\<lambda>fs. (prepare_one env fs row model_root
              (case map_of tokenizer_sources identifier of None \<Rightarrow> model_root | Some t \<Rightarrow> t), fs))))"

definition save_json :: "fixture_env \<Rightarrow> string \<Rightarrow> pyval \<Rightarrow> (fsys, unit) action" where
  "save_json env path v fs = (Inr (), fs(path \<mapsto> fe_dumps env v))"

definition prepare_fixtures :: "fixture_env \<Rightarrow> fixture_args \<Rightarrow> registry \<Rightarrow> (fsys, pyval) action" where
  "prepare_fixtures env a reg =
     bindS (liftS (selected_models a reg)) (\<lambda>selected.
     bindS (liftS (assignments env (fa_model_source a))) (\<lambda>model_sources.
     bindS (liftS (assignments env (fa_tokenizer_source a))) (\<lambda>tokenizer_sources.
     bindS (mapS (prepare_selected env a reg model_sources tokenizer_sources) selected) (\<lambda>prepared.
     thenS (save_json env (fa_manifest a) (VDict [(''schema_version'', VInt 1), (''models'', VList (map fst prepared))]))
    (let evidence = VDict [(''schema_version'', VInt 1), (''status'', VStr ''pass''), (''models'', VList (map snd prepared)),
       (''boundary'', VStr ''pinned local fixture metadata; model/tokenizer payloads stay outside Git'')] in
     thenS (case fa_evidence a of None \<Rightarrow> retS () | Some path \<Rightarrow> save_json env path evidence)
       (retS evidence))))))"

text \<open>What \<open>main\<close> prints, for either command.\<close>

definition fixture_main :: "fixture_env \<Rightarrow> fixture_args \<Rightarrow> (fsys, pyval) action" where
  "fixture_main env a =
     bindS (liftS (load_registry (fa_toml a))) (\<lambda>reg.
     if fa_command a = ''validate'' then (\<lambda>fs. (validate_manifest env fs (fa_manifest a) reg, fs))
     else prepare_fixtures env a reg)"

end
