(* ===== verification/HfVerdict.thy ===== *)
theory HfVerdict imports HfPrepare begin

text \<open>
  What the fixture tool guarantees: a registry it accepts is pinned and consistent, a header it reads
  is bounded by the file, a sharded weight set is partitioned by its index, and a manifest it prepared
  validates against the same files.
\<close>

section \<open>The registry\<close>

definition pinned :: "string \<Rightarrow> pyval \<Rightarrow> bool" where
  "pinned identifier row \<longleftrightarrow> text_field row ''id'' = Inr identifier \<and>
     bindE (py_getitem row ''revision'') py_len = Inr 40 \<and> revision_bad row = Inr False \<and>
     (\<exists>stored runtime. py_getitem row ''parameter_count'' = Inr (VInt stored) \<and>
        py_get row ''runtime_parameter_count'' (VInt stored) = Inr (VInt runtime) \<and> 0 < runtime \<and> runtime \<le> stored)"

lemma check_registry_row_ok:
  assumes "check_registry_row row = Inr ()"
  shows "bindE (py_getitem row ''revision'') py_len = Inr 40 \<and> revision_bad row = Inr False \<and>
     (\<exists>stored runtime. py_getitem row ''parameter_count'' = Inr (VInt stored) \<and>
        py_get row ''runtime_parameter_count'' (VInt stored) = Inr (VInt runtime) \<and> 0 < runtime \<and> runtime \<le> stored)"
proof -
  obtain stored runtime where r: "revision_bad row = Inr False" "py_getitem row ''parameter_count'' = Inr stored"
    "\<not> not_positive_int stored" "py_get row ''runtime_parameter_count'' stored = Inr runtime" "\<not> not_positive_int runtime"
    "py_gt runtime stored = Inr False"
    using assms by (auto simp: check_registry_row_def bindE_Inr_iff)
  obtain i j where ij: "stored = VInt i" "runtime = VInt j" "0 < i" "0 < j"
    using r(3,5) by (auto simp: not_positive_int_def split: pyval.splits)
  then have "j \<le> i" using r(6) by (simp add: py_gt_def py_lt_def not_less)
  moreover have "bindE (py_getitem row ''revision'') py_len = Inr 40"
    using r(1) by (auto simp: revision_bad_def bindE_Inr_iff)
  ultimately show ?thesis using r ij by auto
qed

lemma registry_ids:
  assumes "foldM (\<lambda>d row. bindE (text_field row ''id'') (\<lambda>i. Inr (dict_set i row d))) [] rows = Inr reg"
  shows "distinct (map fst reg) \<and> (\<forall>(i, row) \<in> set reg. text_field row ''id'' = Inr i \<and> row \<in> set rows)"
proof (rule foldM_invariant [OF assms])
  show "distinct (map fst []) \<and> (\<forall>(i, row) \<in> set []. text_field row ''id'' = Inr i \<and> row \<in> set rows)" by simp
next
  have in_set: "p = (k, v) \<or> p \<in> set d" if "p \<in> set (dict_set k v d)" for p k v d
    using that by (induction d) (auto split: if_splits)
  fix u x v
  assume "x \<in> set rows" "distinct (map fst u) \<and> (\<forall>(i, row) \<in> set u. text_field row ''id'' = Inr i \<and> row \<in> set rows)"
    "bindE (text_field x ''id'') (\<lambda>i. Inr (dict_set i x u)) = Inr v"
  then show "distinct (map fst v) \<and> (\<forall>(i, row) \<in> set v. text_field row ''id'' = Inr i \<and> row \<in> set rows)"
    by (auto simp: bindE_Inr_iff dest!: in_set)
qed

lemma load_registry_ok:
  assumes "load_registry toml = Inr reg"
  shows "reg \<noteq> [] \<and> distinct (map fst reg) \<and> (\<forall>(i, row) \<in> set reg. pinned i row)"
proof -
  obtain rows where f: "foldM (\<lambda>d row. bindE (text_field row ''id'') (\<lambda>i. Inr (dict_set i row d))) [] rows = Inr reg"
    and ne: "reg \<noteq> []" and c: "\<forall>c \<in> set reg. (case c of (_, row) \<Rightarrow> check_registry_row row) = Inr ()"
    using assms by (auto simp: load_registry_def bindE_Inr_iff)
  show ?thesis using registry_ids [OF f] ne c check_registry_row_ok by (fastforce simp: pinned_def)
qed

text \<open>
  A registry that loads is pinned and consistent: it is not empty, its ids are unique and are those of
  its rows, every revision has 40 characters, all hexadecimal, and the parameters a model runs with
  are a positive number no larger than the number it stores.
\<close>

theorem registry_is_pinned:
  assumes "load_registry toml = Inr reg"
  shows "reg \<noteq> [] \<and> distinct (map fst reg) \<and> (\<forall>(i, row) \<in> set reg. pinned i row)"
  using assms by (rule load_registry_ok)

section \<open>A safetensors header\<close>

lemma header_step_ok: "header_step ts item = Inr ts' \<Longrightarrow>
    ts' = ts \<or> (\<exists>n shape d. ts' = ts @ [(n, shape, d)] \<and> n \<notin> set (map fst ts) \<and> (\<forall>x \<in> set shape. 0 \<le> x) \<and> n = fst item \<and> n \<noteq> ''__metadata__'')"
proof -
  have new: "dict_set k v d = d @ [(k, v)]" if "k \<notin> set (map fst d)" for k v and d :: "('a \<times> 'b) list"
    using that by (induction d) auto
  assume a: "header_step ts item = Inr ts'"
  show ?thesis
  proof (cases "fst item = ''__metadata__''")
    case True
    then show ?thesis using a by (auto simp: header_step_def split: prod.splits)
  next
    case False
    then obtain shape dtype offsets where s: "metadata_bad shape dtype offsets = Inr False" "fst item \<notin> set (map fst ts)"
      and ts': "ts' = dict_set (fst item) (map int_of_val (list_items shape), str_of dtype) ts"
      using a by (auto simp: header_step_def bindE_Inr_iff split: prod.splits)
    have "\<forall>x \<in> set (map int_of_val (list_items shape)). 0 \<le> x"
      using s(1) by (auto simp: metadata_bad_def dimension_bad_def split: if_splits)
    then show ?thesis using ts' s(2) False new [OF s(2)] by auto
  qed
qed

definition tensors_ok :: "tensors \<Rightarrow> bool" where
  "tensors_ok ts \<longleftrightarrow> distinct (map fst ts) \<and> (\<forall>(n, shape, d) \<in> set ts. n \<noteq> ''__metadata__'' \<and> (\<forall>x \<in> set shape. 0 \<le> x))"

lemma header_fold_ok: "foldM header_step [] document = Inr ts \<Longrightarrow> tensors_ok ts"
proof (erule foldM_invariant)
  show "tensors_ok []" by (simp add: tensors_ok_def)
next
  fix u x v assume u: "tensors_ok u" and "header_step u x = Inr v"
  from header_step_ok [OF this(2)] show "tensors_ok v"
  proof (elim disjE exE conjE)
    fix n shape d assume "v = u @ [(n, shape, d)]" "n \<notin> set (map fst u)" "\<forall>x \<in> set shape. 0 \<le> x" "n \<noteq> ''__metadata__''"
    then show ?thesis using u by (simp add: tensors_ok_def)
  qed (use u in simp)
qed

lemma read_header_ok:
  "read_header content = Inr payload \<Longrightarrow> payload = take (little_endian (take 8 content)) (drop 8 content) \<and>
     0 < length payload \<and> length payload \<le> header_limit \<and> 8 + length payload \<le> length content \<and>
     length payload = little_endian (take 8 content)"
  by (auto simp: read_header_def Let_def bindE_Inr_iff header_limit_def min_def split: if_splits)

lemma inspect_ok: "inspect_safetensors env fs path = Inr ts \<Longrightarrow> ts \<noteq> [] \<and> tensors_ok ts"
  unfolding inspect_safetensors_def bindE_Inr_iff raise_if_Inr using header_fold_ok by auto

text \<open>
  C32. The inspection of a safetensors file reads no more than the file has and no more than 100 million
  bytes, whatever 64-bit length its first eight bytes state: it succeeds only if that length is positive
  and within both bounds. The tensors it returns have distinct names and non-negative dimensions.
\<close>

theorem safetensors_header_bounds:
  assumes "inspect_safetensors env fs path = Inr tensors"
  shows "\<exists>content. fs path = Some content \<and> 0 < little_endian (take 8 content) \<and>
    little_endian (take 8 content) \<le> 100000000 \<and> 8 + little_endian (take 8 content) \<le> length content \<and>
    tensors \<noteq> [] \<and> tensors_ok tensors"
proof -
  obtain content payload where "fs path = Some content" "read_header content = Inr payload"
    using assms by (auto simp: inspect_safetensors_def bindE_Inr_iff read_bytes_def)
  note h = this read_header_ok [OF this(2)]
  have n: "length payload = little_endian (take 8 content)" using h by blast
  then have "0 < little_endian (take 8 content)" "little_endian (take 8 content) \<le> 100000000"
    "8 + little_endian (take 8 content) \<le> length content" using h(3) unfolding header_limit_def by (auto simp only: n)
  then show ?thesis using h(1) inspect_ok [OF assms] by blast
qed

section \<open>A sharded weight set\<close>

definition shard_path :: "fixture_env \<Rightarrow> string \<Rightarrow> string \<Rightarrow> string" where
  "shard_path env base name = fe_resolve env (path_join base name)"

definition labelled :: "string \<Rightarrow> tensors \<Rightarrow> placed" where
  "labelled s ts = map (\<lambda>(n, m). (n, m, s)) ts"

lemma dict_set_new: "k \<notin> set (map fst d) \<Longrightarrow> dict_set k v d = d @ [(k, v)]"
  by (induction d) auto

lemma place_fold: "foldM (place_tensor s) p ts = Inr q \<Longrightarrow> distinct (map fst p) \<Longrightarrow> q = p @ labelled s ts \<and> distinct (map fst q)"
proof (induction ts arbitrary: p)
  case (Cons t ts)
  obtain p1 where p1: "place_tensor s p t = Inr p1" "foldM (place_tensor s) p1 ts = Inr q" using Cons.prems(1) by (auto simp: bindE_Inr_iff)
  then have new: "fst t \<notin> set (map fst p)" "p1 = p @ [(fst t, snd t, s)]"
    by (auto simp: place_tensor_def bindE_Inr_iff dict_set_new)
  then have "distinct (map fst p1)" using Cons.prems(2) by simp
  then have ih: "q = p1 @ labelled s ts" "distinct (map fst q)" using Cons.IH [OF p1(2)] by blast+
  show ?case
  proof
    show "q = p @ labelled s (t # ts)" using ih(1) new(2) by (simp add: labelled_def split_beta)
  qed (rule ih(2))
qed (simp add: labelled_def)

lemma shards_fold:
  assumes "foldM (add_shard env fs base) (p0, s0) names = Inr (p, shards)" and "distinct (map fst p0)"
  shows "\<exists>tss. mapM (\<lambda>s. inspect_safetensors env fs (shard_path env base s)) names = Inr tss \<and>
     p = p0 @ concat (map (\<lambda>(s, ts). labelled s ts) (zip names tss)) \<and> distinct (map fst p) \<and>
     shards = s0 @ map (shard_path env base) names \<and> (\<forall>s \<in> set names. is_file fs (shard_path env base s))"
  using assms
proof (induction names arbitrary: p0 s0)
  case (Cons n names)
  obtain st where st: "add_shard env fs base (p0, s0) n = Inr st" "foldM (add_shard env fs base) st names = Inr (p, shards)"
    using Cons.prems(1) by (auto simp: bindE_Inr_iff)
  obtain ts p1 where ts: "is_file fs (shard_path env base n)" "inspect_safetensors env fs (shard_path env base n) = Inr ts"
    "foldM (place_tensor n) p0 ts = Inr p1" "st = (p1, s0 @ [shard_path env base n])"
    using st(1) by (auto simp: add_shard_def Let_def bindE_Inr_iff shard_path_def)
  have p1: "p1 = p0 @ labelled n ts" "distinct (map fst p1)" using place_fold [OF ts(3) Cons.prems(2)] by blast+
  obtain tss where tss: "mapM (\<lambda>s. inspect_safetensors env fs (shard_path env base s)) names = Inr tss"
     "p = p1 @ concat (map (\<lambda>(s, ts). labelled s ts) (zip names tss))" "distinct (map fst p)"
     "shards = (s0 @ [shard_path env base n]) @ map (shard_path env base) names" "\<forall>s \<in> set names. is_file fs (shard_path env base s)"
    using Cons.IH [OF st(2) [unfolded ts(4)] p1(2)] by blast
  show ?case
    by (intro exI [of _ "ts # tss"] conjI) (use tss ts(1,2) p1(1) in simp_all)
qed simp

text \<open>
  C33. A weight index that is accepted partitions the tensors: every shard it names is a file under the
  model directory, the tensors of the shards together are the set's tensors with no name occurring
  twice, and the index lists exactly those names, each with the shard that holds it.
\<close>

theorem weight_index_partitions:
  assumes "inspect_index env fs base index = Inr (entry, tensors, shards)"
  shows "\<exists>wm names tss. bindE (read_json env fs index) (\<lambda>d. py_get d ''weight_map'' VNone) = Inr (VDict wm) \<and>
    mapM (\<lambda>s. inspect_safetensors env fs (shard_path env base s)) names = Inr tss \<and>
    tensors = concat tss \<and> distinct (map fst tensors) \<and> fst ` set wm = fst ` set tensors \<and>
    (\<forall>i < length names. \<forall>n \<in> fst ` set (tss ! i). \<forall>v. (n, v) \<in> set wm \<longrightarrow> v = VStr (names ! i)) \<and>
    shards = map (shard_path env base) names \<and> (\<forall>s \<in> set names. \<not> unsafe_name (VStr s) \<and> is_file fs (shard_path env base s))"
proof -
  obtain document wmv wm names p where d: "read_json env fs index = Inr document" "py_get document ''weight_map'' VNone = Inr wmv"
    "dict_pairs wmv = Inr wm" "shard_names wm = Inr names" "foldM (add_shard env fs base) ([], []) names = Inr (p, shards)"
    "set (map fst wm) = set (map fst p)" "\<not> wrong_shard wm p" "tensors = map (\<lambda>(n, m, s). (n, m)) p"
    using assms unfolding inspect_index_def by (auto simp: bindE_Inr_iff split: prod.splits)
  have wmv: "wmv = VDict wm" using d(3) by (cases wmv) (auto simp: dict_pairs_def)
  obtain tss where t: "mapM (\<lambda>s. inspect_safetensors env fs (shard_path env base s)) names = Inr tss"
    "p = concat (map (\<lambda>(s, ts). labelled s ts) (zip names tss))" "distinct (map fst p)" "shards = map (shard_path env base) names"
    "\<forall>s \<in> set names. is_file fs (shard_path env base s)"
    using shards_fold [OF d(5)] by auto
  have len: "length tss = length names" using mapM_length [OF t(1)] .
  have "map (\<lambda>(n, m, s). (n, m)) (labelled s ts) = ts" for s ts by (simp add: labelled_def split_beta comp_def)
  then have "map (\<lambda>(n, m, s). (n, m)) p = concat (map snd (zip names tss))"
    unfolding t(2) map_concat map_map by (simp add: comp_def split_beta)
  then have cat: "tensors = concat tss" using len d(8) by simp
  have keys: "map fst tensors = map fst p" by (simp add: d(8) split_beta comp_def)
  have shard: "v = VStr (names ! i)" if i: "i < length names" and n: "n \<in> fst ` set (tss ! i)" and v: "(n, v) \<in> set wm" for i n v
  proof -
    obtain m where m: "(n, m) \<in> set (tss ! i)" using n by auto
    have "(names ! i, tss ! i) \<in> set (zip names tss)" using i len by (auto simp: set_zip)
    then have "(n, m, names ! i) \<in> set p" using m unfolding t(2) by (fastforce simp: labelled_def)
    then have "map_of p n = Some (m, names ! i)" using t(3) by (simp add: map_of_eq_Some_iff)
    then show ?thesis using d(7) v by (auto simp: wrong_shard_def)
  qed
  have safe: "\<forall>s \<in> set names. \<not> unsafe_name (VStr s)"
  proof -
    obtain ordered where o: "\<forall>v \<in> set ordered. \<not> unsafe_name v" "names = map str_of ordered"
      using d(4) by (auto simp: shard_names_def Let_def bindE_Inr_iff)
    have "VStr (str_of v) = v" if "\<not> unsafe_name v" for v using that by (cases v) (auto simp: unsafe_name_def str_of_def)
    then show ?thesis using o by auto
  qed
  have "fst ` set wm = fst ` set tensors" using d(6) keys by (metis list.set_map)
  then show ?thesis using d(1,2) wmv t(1,3,4,5) cat keys shard safe by (intro exI [of _ wm] exI [of _ names] exI [of _ tss]) auto
qed

end
