(* ===== verification/HfRound.thy ===== *)
theory HfRound imports HfVerdict begin

text \<open>
  Preparing fixtures and then validating the manifest that was prepared. The directories are taken to
  be resolved: the three files the manifest names are not symbolic links. Where one is, as in the
  snapshot directories of the hub's cache, validation looks beside the link's target and fails.
\<close>

definition resolved_files :: "fixture_env \<Rightarrow> string \<Rightarrow> string list \<Rightarrow> bool" where
  "resolved_files env base names \<longleftrightarrow> (\<forall>n \<in> set names. fe_resolve env (path_join base n) = path_join base n)"

lemma parent_of_join:
  assumes "CHR ''/'' \<notin> set name" and "name \<noteq> []"
  shows "parent_of (path_join base name) = base"
proof -
  have "take 1 name \<noteq> ''/''" using assms by (cases name) auto
  then have "rev (path_join base name) = rev name @ CHR ''/'' # rev base" by (simp add: path_join_def)
  moreover have "dropWhile (\<lambda>c. c \<noteq> CHR ''/'') (rev name @ CHR ''/'' # rev base) = CHR ''/'' # rev base"
    using assms(1) by (subst dropWhile_append2) auto
  ultimately show ?thesis by (simp add: parent_of_def)
qed

section \<open>The entry of a fixture\<close>

lemma optional_keys: "fst ` set (concat (map (optional_file env fs mr tr) optional_names)) \<subseteq> set optional_names"
  by (auto simp: optional_file_def optional_names_def split: list.splits)

lemma map_of_update_other: "k \<notin> fst ` set e \<Longrightarrow> map_of (dict_update d e) k = map_of d k"
  by (induction e arbitrary: d) auto

definition entry_ok :: "fixture_env \<Rightarrow> pyval \<Rightarrow> string \<Rightarrow> string \<Rightarrow> pyval \<Rightarrow> bool" where
  "entry_ok env row mr tr entry \<longleftrightarrow>
     py_get entry ''name'' VNone = py_getitem row ''id'' \<and>
     py_getitem entry ''config'' = Inr (VStr (fe_resolve env (path_join mr ''config.json''))) \<and>
     py_getitem entry ''vocab'' = Inr (VStr (fe_resolve env (path_join tr ''vocab.json''))) \<and>
     (plain row \<longrightarrow> (\<forall>k \<in> set drift_keys. \<exists>v. py_get entry k VNone = Inr v \<and> plain v))"

lemma plain_item: "plain row \<Longrightarrow> py_getitem row k = Inr v \<Longrightarrow> plain v"
  by (cases row) (auto simp: py_getitem_def list_all_iff need_Inr dest: map_of_SomeD)

lemma plain_get: "plain row \<Longrightarrow> plain d \<Longrightarrow> py_get row k d = Inr v \<Longrightarrow> plain v"
  by (cases row) (auto simp: py_get_def list_all_iff dest: map_of_SomeD split: option.splits)

lemma fixture_manifest_entry:
  assumes "fixture_manifest env fs row mr tr weights tensors runtime = Inr entry" and "plain row \<Longrightarrow> plain runtime"
  shows "entry_ok env row mr tr entry"
proof -
  define opt where "opt = concat (map (optional_file env fs mr tr) optional_names)"
  obtain fields new_tokens training where f: "mapM (\<lambda>k. bindE (py_getitem row k) (\<lambda>v. Inr v))
        [''id'', ''repo_id'', ''source'', ''revision'', ''license'', ''license_url'', ''tokenizer_family'', ''inference_token_ids'',
         ''expected_generated_tokens''] = Inr fields"
    and e: "entry = VDict (dict_update
       [(''name'', fields ! 0), (''repo_id'', fields ! 1), (''source'', fields ! 2), (''revision'', fields ! 3),
        (''license'', fields ! 4), (''license_url'', fields ! 5), (''state'', VStr ''fixture-ready''),
        (''parameter_count'', runtime), (''runtime_parameter_count'', runtime),
        (''stored_parameter_count'', VInt (stored_count tensors)), (''loaded_tensors'', count_int tensors),
        (''config'', VStr (fe_resolve env (path_join mr ''config.json''))), (''weights'', VStr weights),
        (''vocab'', VStr (fe_resolve env (path_join tr ''vocab.json''))),
        (''merges'', VStr (fe_resolve env (path_join tr ''merges.txt''))), (''tokenizer_family'', fields ! 6),
        (''inference'', VDict [(''token_ids'', fields ! 7), (''new_tokens'', VInt new_tokens),
                               (''expected_generated_tokens'', fields ! 8)]),
        (''training'', VDict [(''tokens'', training)])] opt)"
    using assms(1) unfolding fixture_manifest_def bindE_Inr_iff opt_def by blast
  have other: "map_of (dict_update d opt) k = map_of d k" if "k \<notin> set optional_names" for d k
    using optional_keys [of env fs mr tr] that unfolding opt_def by (intro map_of_update_other) blast
  have field: "py_getitem row ''id'' = Inr (fields ! 0)" "py_getitem row ''revision'' = Inr (fields ! 3)"
    "py_getitem row ''license'' = Inr (fields ! 4)" "py_getitem row ''tokenizer_family'' = Inr (fields ! 6)"
    using mapM_nth [OF f, of 0] mapM_nth [OF f, of 3] mapM_nth [OF f, of 4] mapM_nth [OF f, of 6] by simp_all
  have p: "plain (fields ! 3)" "plain (fields ! 4)" "plain (fields ! 6)" if "plain row"
    using plain_item [OF that] field by blast+
  show ?thesis unfolding entry_ok_def
  proof (intro conjI impI ballI)
    fix k assume r: "plain row" and "k \<in> set drift_keys"
    then show "\<exists>v. py_get entry k VNone = Inr v \<and> plain v"
      using p [OF r] assms(2) [OF r] unfolding e drift_keys_def py_get_def
      by (auto simp: other optional_names_def count_int_def)
  qed (use field(1) in \<open>simp_all add: e py_get_def py_getitem_def [of "VDict _"] other optional_names_def\<close>)
qed

lemma prepare_one_entry: "prepare_one env fs row mr tr = Inr (entry, evidence) \<Longrightarrow> entry_ok env row mr tr entry"
proof -
  assume "prepare_one env fs row mr tr = Inr (entry, evidence)"
  then obtain weights tensors runtime where m: "fixture_manifest env fs row mr tr weights tensors runtime = Inr entry"
    and r: "py_get row ''runtime_parameter_count'' (VInt (stored_count tensors)) = Inr runtime"
    by (auto simp: prepare_one_def Let_def bindE_Inr_iff)
  show ?thesis by (rule fixture_manifest_entry [OF m]) (rule plain_get [OF _ _ r], simp_all)
qed

section \<open>Validating what was prepared\<close>

definition plain_registry :: "registry \<Rightarrow> bool" where
  "plain_registry reg \<longleftrightarrow> list_all (\<lambda>(i, row). plain row \<and> text_field row ''id'' = Inr i) reg"

lemma validate_entry:
  assumes prep: "prepare_one env fs row mr tr = Inr (entry, evidence)" and reg: "map_of reg i = Some row" "plain_registry reg"
    and new: "i \<notin> set (fst st)" and files: "resolved_files env mr [''config.json'']" "resolved_files env tr [''vocab.json'']"
  shows "validate_model env fs reg st entry = Inr (i # fst st, snd st @ [evidence])"
proof -
  have e: "entry_ok env row mr tr entry" by (rule prepare_one_entry [OF prep])
  have row: "plain row" "text_field row ''id'' = Inr i" using reg by (auto simp: plain_registry_def list_all_iff dest: map_of_SomeD)
  have "py_getitem row ''id'' = Inr (VStr i)" using row(2) by (cases "py_getitem row ''id''") (auto simp: text_field_def split: pyval.splits)
  then have name: "py_get entry ''name'' VNone = Inr (VStr i)" using e by (simp add: entry_ok_def)
  have dirs: "directory_of env entry ''config'' = Inr mr" "directory_of env entry ''vocab'' = Inr tr"
    using e files by (simp_all add: entry_ok_def directory_of_def text_field_def resolved_files_def parent_of_join)
  have "drifted entry entry k = Inr False" if "k \<in> set drift_keys" for k
    using e row(1) that py_eq_refl by (fastforce simp: entry_ok_def drifted_def py_ne_def)
  then have drift: "anyM (drifted entry entry) drift_keys = Inr False" by simp
  show ?thesis using name dirs prep reg(1) new by (simp add: validate_model_def registered_def drift del: anyM_Inr_False)
qed

definition prepared_at ::
  "fixture_env \<Rightarrow> fsys \<Rightarrow> registry \<Rightarrow> (string \<times> string) list \<Rightarrow> (string \<times> string) list \<Rightarrow> string \<Rightarrow> pyval \<times> pyval \<Rightarrow> bool" where
  "prepared_at env fs reg ms ts i pe \<longleftrightarrow>
     (\<exists>row mr. map_of reg i = Some row \<and> map_of ms i = Some mr \<and>
        prepare_one env fs row mr (case map_of ts i of None \<Rightarrow> mr | Some t \<Rightarrow> t) = Inr pe)"

lemma prepare_selected_local:
  assumes "prepare_selected env a reg ms ts i fs = (Inr pe, fs')" and "fa_download_root a = None"
  shows "fs' = fs \<and> prepared_at env fs reg ms ts i pe"
proof -
  obtain row mr where row: "map_of reg i = Some row" and mr: "model_root_of env a ms i row fs = (Inr mr, fs')"
    and p: "prepare_one env fs' row mr (case map_of ts i of None \<Rightarrow> mr | Some t \<Rightarrow> t) = Inr pe"
    using assms(1) by (auto simp: prepare_selected_def bindS_Inr)
  have "map_of ms i = Some mr" "fs' = fs" using mr assms(2) by (auto simp: model_root_of_def split: option.splits)
  then show ?thesis using row p by (auto simp: prepared_at_def)
qed

lemma prepare_all_local:
  assumes "mapS (prepare_selected env a reg ms ts) selected fs = (Inr prepared, fs')" and "fa_download_root a = None"
  shows "fs' = fs \<and> list_all2 (prepared_at env fs reg ms ts) selected prepared"
  using assms
proof (induction selected arbitrary: prepared)
  case (Cons i rest)
  then show ?case by (fastforce simp: bindS_Inr dest!: prepare_selected_local)
qed simp

definition sources_resolved :: "fixture_env \<Rightarrow> (string \<times> string) list \<Rightarrow> (string \<times> string) list \<Rightarrow> bool" where
  "sources_resolved env ms ts \<longleftrightarrow>
     (\<forall>r \<in> snd ` set ms. resolved_files env r [''config.json'', ''vocab.json'']) \<and> (\<forall>r \<in> snd ` set ts. resolved_files env r [''vocab.json''])"

lemma validate_all:
  assumes "list_all2 (prepared_at env fs reg ms ts) selected prepared" and "plain_registry reg" and "sources_resolved env ms ts"
    and "distinct selected" and "set selected \<inter> set seen = {}"
  shows "foldM (validate_model env fs reg) (seen, done) (map fst prepared) = Inr (rev selected @ seen, done @ map snd prepared)"
  using assms
proof (induction selected prepared arbitrary: seen "done" rule: list_all2_induct)
  case (Cons i rest pe prepared)
  obtain row mr where p: "map_of reg i = Some row" "map_of ms i = Some mr"
    "prepare_one env fs row mr (case map_of ts i of None \<Rightarrow> mr | Some t \<Rightarrow> t) = Inr (fst pe, snd pe)"
    using Cons.hyps(1) by (auto simp: prepared_at_def)
  have in_ms: "(i, mr) \<in> set ms" using p(2) by (rule map_of_SomeD)
  have files: "resolved_files env mr [''config.json'']" "resolved_files env (case map_of ts i of None \<Rightarrow> mr | Some t \<Rightarrow> t) [''vocab.json'']"
    using Cons.prems(2) in_ms by (force simp: sources_resolved_def resolved_files_def split: option.splits dest: map_of_SomeD)+
  have "i \<notin> set (fst (seen, done))" using Cons.prems(4) by simp
  from validate_entry [OF p(3,1) Cons.prems(1) this files]
  have "validate_model env fs reg (seen, done) (fst pe) = Inr (i # seen, done @ [snd pe])" by simp
  then show ?case using Cons.IH [of "i # seen" "done @ [snd pe]"] Cons.prems by simp
qed simp

text \<open>
  C34. A manifest that \<open>prepare\<close> builds from local directories passes \<open>validate\<close> on the same
  files, with the same evidence: each entry is found again from its own paths and shows no drift in
  any of the compared fields. The directories must be resolved, and the registry free of NaN.
\<close>

theorem prepared_manifest_validates:
  assumes "mapS (prepare_selected env a reg ms ts) selected fs = (Inr prepared, fs')" and "fa_download_root a = None"
    and "plain_registry reg" and "sources_resolved env ms ts" and "distinct selected"
  shows "fs' = fs \<and> validate_models env fs reg (map fst prepared) = Inr (map snd prepared)"
proof -
  have p: "fs' = fs" "list_all2 (prepared_at env fs reg ms ts) selected prepared" using prepare_all_local [OF assms(1,2)] by blast+
  from validate_all [OF p(2) assms(3,4,5), of "[]" "[]"] show ?thesis using p(1) by (simp add: validate_models_def)
qed

end
