(* ===== verification/HfSample.thy ===== *)
theory HfSample imports HfRound begin

text \<open>
  Concrete fixtures: a registry with one model, a directory with its four files and one with two shards,
  and the witnesses of the properties of the fixture tool. Last, a directory in which
  \<open>config.json\<close> is a symbolic link: what \<open>prepare\<close> writes for it does not validate.
\<close>

definition sample_row :: pyval where
  "sample_row = VDict [(''id'', VStr ''tiny''), (''repo_id'', VStr ''org/tiny''), (''source'', VStr ''hub''), (''revision'', VStr (replicate 40 CHR ''a'')),
     (''license'', VStr ''mit''), (''license_url'', VStr ''url''), (''parameter_count'', VInt 6), (''tensor_count'', VInt 1),
     (''tokenizer_family'', VStr ''bpe''), (''inference_token_ids'', VList [VInt 1]), (''expected_generated_tokens'', VList [VInt 2, VInt 3]),
     (''training_tokens'', VList [VInt 1])]"

definition sample_toml :: pyval where
  "sample_toml = VDict [(''schema_version'', VInt 1), (''model'', VList [sample_row])]"

lemma sample_hex: "not_hex (VStr ''a'') = Inr False"
  by (simp add: not_hex_def is_substring_def)

lemma sample_registry: "load_registry (Inr sample_toml) = Inr [(''tiny'', sample_row)]"
proof -
  have "revision_bad sample_row = Inr False"
    using sample_hex by (auto simp: revision_bad_def sample_row_def py_getitem_def py_len_def py_iter_def)
  then have "check_registry_row sample_row = Inr ()"
    by (simp add: check_registry_row_def) (simp add: lacks_def required_fields_def py_keys_def sample_row_def py_getitem_def py_get_def not_positive_int_def py_gt_def py_lt_def)
  then show ?thesis
    by (simp add: load_registry_def sample_toml_def py_get_def py_iter_def py_ne_def text_field_def)
       (simp add: sample_row_def py_getitem_def)
qed

theorem registry_is_pinned_witness:
  "load_registry (Inr sample_toml) = Inr [(''tiny'', sample_row)] \<and> pinned ''tiny'' sample_row"
  using registry_is_pinned [OF sample_registry] sample_registry by simp

definition sample_header :: "string \<Rightarrow> pyval" where
  "sample_header name = VDict [(name, VDict [(''shape'', VList [VInt 2, VInt 3]), (''dtype'', VStr ''F32''), (''data_offsets'', VList [VInt 0, VInt 24])])]"

definition weights_file :: "8 word \<Rightarrow> bytes" where
  "weights_file b = [1, 0, 0, 0, 0, 0, 0, 0, b, 0, 0]"

definition sample_loads :: "bytes \<Rightarrow> pyval py" where
  "sample_loads b = Inr (if b = [7] then sample_header ''w'' else if b = [8] then sample_header ''v''
     else if b = [9] then VDict [(''weight_map'', VDict [(''v'', VStr ''two.safetensors''), (''w'', VStr ''one.safetensors'')])] else VDict [])"

definition sample_fixture :: fixture_env where
  "sample_fixture = \<lparr>fe_loads = sample_loads, fe_dumps = (\<lambda>_. []), fe_resolve = id, fe_snapshot = (\<lambda>_ _ _ fs. (Inr (), fs))\<rparr>"

definition sample_files :: fsys where
  "sample_files = map_of [(''m/config.json'', [1]), (''m/vocab.json'', [1]), (''m/merges.txt'', [3]), (''m/model.safetensors'', weights_file 7),
     (''s/model.safetensors.index.json'', [9]), (''s/one.safetensors'', weights_file 7), (''s/two.safetensors'', weights_file 8)]"

lemma sample_length: "little_endian [1, 0, 0, 0, 0, 0, 0, 0] = 1"
  by simp

lemma inspect_weights:
  assumes "fs path = Some (weights_file b)" and "sample_loads [b] = Inr (sample_header name)" and "name \<noteq> ''__metadata__''"
    and "fe_loads env = sample_loads"
  shows "inspect_safetensors env fs path = Inr [(name, [2, 3], ''F32'')]"
proof -
  have "read_header (weights_file b) = Inr [b]"
    by (simp add: read_header_def weights_file_def header_limit_def Let_def)
  moreover have "metadata_bad (VList [VInt 2, VInt 3]) (VStr ''F32'') (VList [VInt 0, VInt 24]) = Inr False"
    by (auto simp: metadata_bad_def list_items_def dimension_bad_def int_of_val_def py_index_def list_index_def py_lt_def)
  ultimately show ?thesis using assms
    by (simp add: inspect_safetensors_def read_bytes_def dict_pairs_def sample_header_def header_step_def py_get_def
        list_items_def int_of_val_def str_of_def)
qed

lemma sample_inspects:
  "inspect_safetensors sample_fixture sample_files ''m/model.safetensors'' = Inr [(''w'', [2, 3], ''F32'')]"
  "inspect_safetensors sample_fixture sample_files ''s/one.safetensors'' = Inr [(''w'', [2, 3], ''F32'')]"
  "inspect_safetensors sample_fixture sample_files ''s/two.safetensors'' = Inr [(''v'', [2, 3], ''F32'')]"
  by (rule inspect_weights [of _ _ 7] inspect_weights [of _ _ 8];
      simp add: sample_files_def sample_loads_def sample_fixture_def)+

theorem safetensors_header_bounds_witness:
  "\<exists>content. sample_files ''m/model.safetensors'' = Some content \<and> 8 + little_endian (take 8 content) \<le> length content"
  using safetensors_header_bounds [OF sample_inspects(1)] by blast

lemma sample_index:
  "inspect_index sample_fixture sample_files ''s'' ''s/model.safetensors.index.json'' =
     Inr (''s/model.safetensors.index.json'', [(''w'', [2, 3], ''F32''), (''v'', [2, 3], ''F32'')], [''s/one.safetensors'', ''s/two.safetensors''])"
proof -
  have names: "shard_names [(''v'', VStr ''two.safetensors''), (''w'', VStr ''one.safetensors'')] = Inr [''one.safetensors'', ''two.safetensors'']"
    by (simp add: shard_names_def py_sorted_def sort_by_def py_lt_def unsafe_name_def str_of_def Let_def)
  have doc: "read_json sample_fixture sample_files ''s/model.safetensors.index.json'' =
      Inr (VDict [(''weight_map'', VDict [(''v'', VStr ''two.safetensors''), (''w'', VStr ''one.safetensors'')])])"
    by (simp add: read_json_def read_bytes_def sample_files_def sample_fixture_def sample_loads_def)
  have path: "path_join ''s'' ''one.safetensors'' = ''s/one.safetensors''" "path_join ''s'' ''two.safetensors'' = ''s/two.safetensors''"
    "fe_resolve sample_fixture p = p" "is_file sample_files ''s/one.safetensors''" "is_file sample_files ''s/two.safetensors''" for p
    by (simp_all add: path_join_def sample_fixture_def is_file_def sample_files_def)
  show ?thesis
    by (simp add: inspect_index_def doc py_get_def dict_pairs_def names add_shard_def path sample_inspects place_tensor_def wrong_shard_def
        insert_commute [of "''v''" "''w''"])
qed

theorem weight_index_partitions_witness:
  "\<exists>names tss. mapM (\<lambda>s. inspect_safetensors sample_fixture sample_files (shard_path sample_fixture ''s'' s)) names = Inr tss \<and>
     concat tss = [(''w'', [2, 3], ''F32''), (''v'', [2, 3], ''F32'')] \<and> [''s/one.safetensors'', ''s/two.safetensors''] = map (shard_path sample_fixture ''s'') names"
  using weight_index_partitions [OF sample_index] by metis

lemma sample_prepare:
  assumes "fe_loads env = sample_loads" and "inspect_safetensors env fs ''m/model.safetensors'' = Inr [(''w'', [2, 3], ''F32'')]"
    and "fs ''m/config.json'' \<noteq> None" "fs ''m/vocab.json'' \<noteq> None" "fs ''m/merges.txt'' \<noteq> None" "fs ''m/model.safetensors'' \<noteq> None"
    and "fs (fe_resolve env ''m/model.safetensors'') \<noteq> None"
  shows "\<exists>pe. prepare_one env fs sample_row ''m'' ''m'' = Inr pe"
proof -
  have w: "inspect_weight_set env fs ''m'' = Inr (fe_resolve env ''m/model.safetensors'', [(''w'', [2, 3], ''F32'')], [fe_resolve env ''m/model.safetensors''])"
    using assms(2,6) by (simp add: inspect_weight_set_def path_join_def is_file_def Let_def)
  have j: "check_json env fs p = Inr ()" if "fs p \<noteq> None" for p
    using that assms(1) by (auto simp: check_json_def read_json_def read_bytes_def sample_loads_def)
  have k: "py_getitem sample_row ''parameter_count'' = Inr (VInt 6)" "py_getitem sample_row ''tensor_count'' = Inr (VInt 1)"
    "py_get sample_row ''runtime_parameter_count'' (VInt 6) = Inr (VInt 6)"
    by (simp_all add: sample_row_def py_getitem_def py_get_def)
  have m: "\<exists>v. fixture_manifest env fs sample_row ''m'' ''m'' we ts r = Inr v" for we ts r
    by (simp add: fixture_manifest_def) (simp add: sample_row_def py_getitem_def py_len_def)
  have e: "\<exists>v. fixture_evidence fs sample_row ''m'' ts [fe_resolve env ''m/model.safetensors''] r = Inr v" for ts r
    using assms(4,5,7) by (simp add: fixture_evidence_def) (auto simp: sample_row_def py_getitem_def file_size_def read_bytes_def path_join_def)
  obtain m1 e1 where me: "fixture_manifest env fs sample_row ''m'' ''m'' (fe_resolve env ''m/model.safetensors'') [(''w'', [2, 3], ''F32'')] (VInt 6) = Inr m1"
    "fixture_evidence fs sample_row ''m'' [(''w'', [2, 3], ''F32'')] [fe_resolve env ''m/model.safetensors''] (VInt 6) = Inr e1"
    using m e by metis
  have c: "stored_count [(''w'', [2, 3], ''F32'')] = 6" by (simp add: stored_count_def)
  have "path_join ''m'' ''config.json'' = ''m/config.json''" "path_join ''m'' ''vocab.json'' = ''m/vocab.json''" "path_join ''m'' ''merges.txt'' = ''m/merges.txt''"
    by (simp_all add: path_join_def)
  then show ?thesis using assms(3-5) j
    by (auto simp: prepare_one_def Let_def is_file_def w k c me py_ne_def count_int_def)
qed

definition sample_fixture_args :: fixture_args where
  "sample_fixture_args = \<lparr>fa_command = ''prepare'', fa_toml = Inr sample_toml, fa_manifest = ''out.json'', fa_evidence = None, fa_models = None,
     fa_download_root = None, fa_model_source = [''tiny=m''], fa_tokenizer_source = []\<rparr>"

lemma sample_plain: "plain_registry [(''tiny'', sample_row)]"
  by (simp add: plain_registry_def sample_row_def text_field_def py_getitem_def)

lemma sample_selected:
  assumes "prepare_one env fs sample_row ''m'' ''m'' = Inr pe"
  shows "mapS (prepare_selected env sample_fixture_args [(''tiny'', sample_row)] [(''tiny'', ''m'')] []) [''tiny''] fs = (Inr [pe], fs)"
  using assms by (simp add: prepare_selected_def model_root_of_def bindS_def)

theorem prepared_manifest_validates_witness:
  "\<exists>pe. mapS (prepare_selected sample_fixture sample_fixture_args [(''tiny'', sample_row)] [(''tiny'', ''m'')] []) [''tiny''] sample_files = (Inr [pe], sample_files) \<and>
     validate_models sample_fixture sample_files [(''tiny'', sample_row)] [fst pe] = Inr [snd pe]"
proof -
  obtain pe where pe: "prepare_one sample_fixture sample_files sample_row ''m'' ''m'' = Inr pe"
    using sample_prepare [OF _ sample_inspects(1)] by (auto simp: sample_fixture_def sample_files_def)
  note sel = sample_selected [OF pe]
  show ?thesis using prepared_manifest_validates [OF sel _ sample_plain] sel
    by (simp add: sample_fixture_args_def sources_resolved_def resolved_files_def sample_fixture_def)
qed

section \<open>A linked file\<close>

definition linked_fixture :: fixture_env where
  "linked_fixture = sample_fixture\<lparr>fe_resolve := (\<lambda>p. if p = ''m/config.json'' then ''blobs/c0'' else p)\<rparr>"


end
