(* ===== verification/HfLogits.thy ===== *)
theory HfLogits imports PyText RankedArgs begin

text \<open>
  The two logit scripts of \<open>tools/huggingface\<close>: \<open>pytorch_qwen_reference.py\<close> writes the
  logits of the Transformers model for a prompt, \<open>compare_logits.py\<close> compares the engine's logits with
  them. NumPy and Transformers are parameters: \<open>np_call\<close> applies the operation its first argument names
  to arrays and scalars. A binary file is the float32 vector whose bytes it holds, so reading what \<open>tofile\<close>
  wrote gives the vector back. Directories are made as needed, and writing does not fail.
\<close>

section \<open>Files and libraries\<close>

record 'a logit_files =
  lg_vectors :: "(string \<times> 'a) list"
  lg_documents :: outdir

record 'a numpy =
  np_call :: "string \<Rightarrow> 'a list \<Rightarrow> 'a"
  np_number :: "pyfloat \<Rightarrow> 'a"
  np_shape :: "'a \<Rightarrow> int list"
  np_size :: "'a \<Rightarrow> int"
  np_at :: "'a \<Rightarrow> int \<Rightarrow> 'a"
  np_float :: "'a \<Rightarrow> pyfloat"
  np_int :: "'a \<Rightarrow> int"

record ('m, 'a) transformers =
  qt_load :: "string \<Rightarrow> 'm py"
  qt_last_logits :: "'m \<Rightarrow> int list \<Rightarrow> 'a py"
  qt_topk :: "'a \<Rightarrow> nat \<Rightarrow> (pyfloat \<times> int) list py"
  qt_torch_version :: string
  qt_version :: string

definition joined_path :: "string \<Rightarrow> string \<Rightarrow> string" where
  "joined_path directory name = directory @ CHR ''/'' # name"

section \<open>The reference\<close>

record reference_args =
  qa_model :: string
  qa_tokens :: string
  qa_output :: string

definition reference_report :: "('m, 'a) transformers \<Rightarrow> int list \<Rightarrow> (pyfloat \<times> int) list \<Rightarrow> pyval" where
  "reference_report qt token_ids best =
     VDict [(''schema_version'', VInt 1), (''framework'', VStr ''pytorch''), (''torch_version'', VStr (qt_torch_version qt)),
       (''transformers_version'', VStr (qt_version qt)), (''tokens'', VList (map VInt token_ids)),
       (''top_logits'', VList (map (\<lambda>(value, index). VDict [(''token'', VInt index), (''logit'', VFloat value)]) best))]"

definition reference_main :: "('m, 'a) transformers \<Rightarrow> reference_args \<Rightarrow> ('a logit_files, unit) action" where
  "reference_main qt a fs =
     (case bindE (mapM int_of_str (split_on CHR '','' (qa_tokens a))) (\<lambda>ids.
           bindE (qt_load qt (qa_model a)) (\<lambda>m. bindE (qt_last_logits qt m ids) (\<lambda>logits. Inr (ids, logits)))) of
        Inl e \<Rightarrow> (Inl e, fs)
      | Inr (ids, logits) \<Rightarrow>
          (let fs1 = fs\<lparr>lg_vectors := dict_set (joined_path (qa_output a) ''pytorch_logits.f32'') logits (lg_vectors fs)\<rparr> in
           (case qt_topk qt logits 10 of
              Inl e \<Rightarrow> (Inl e, fs1)
            | Inr best \<Rightarrow>
                (Inr (), fs1\<lparr>lg_documents :=
                   dict_set (joined_path (qa_output a) ''pytorch_result.json'') (reference_report qt ids best) (lg_documents fs1)\<rparr>))))"

section \<open>The comparison\<close>

record logit_args =
  la_microllm :: string
  la_pytorch :: string
  la_output :: string
  la_atol :: pyfloat

definition read_vector :: "'a logit_files \<Rightarrow> string \<Rightarrow> 'a py" where
  "read_vector fs path = need (OSError path) (map_of (lg_vectors fs) path)"

definition logit_difference :: "'a numpy \<Rightarrow> 'a \<Rightarrow> 'a \<Rightarrow> 'a" where
  "logit_difference np actual expected = np_call np ''abs'' [np_call np ''subtract'' [actual, expected]]"

definition max_difference :: "'a numpy \<Rightarrow> 'a \<Rightarrow> 'a \<Rightarrow> pyfloat" where
  "max_difference np actual expected = np_float np (np_call np ''max'' [logit_difference np actual expected])"

definition logits_pass :: "'a numpy \<Rightarrow> pyfloat \<Rightarrow> 'a \<Rightarrow> 'a \<Rightarrow> bool" where
  "logits_pass np atol actual expected \<longleftrightarrow> fle (max_difference np actual expected) atol"

definition logit_report :: "'a numpy \<Rightarrow> pyfloat \<Rightarrow> 'a \<Rightarrow> 'a \<Rightarrow> pyval" where
  "logit_report np atol actual expected =
     (let difference = logit_difference np actual expected;
          maximum_index = np_int np (np_call np ''argmax'' [difference]);
          denominator = np_call np ''maximum'' [np_call np ''abs'' [expected], np_number np (rnd (1 / 10 ^ 12))];
          offset = np_call np ''subtract'' [actual, expected]
      in VDict [(''schema_version'', VInt 1), (''status'', VStr (if logits_pass np atol actual expected then ''pass'' else ''fail'')),
           (''count'', VInt (np_size np actual)), (''atol'', VFloat atol), (''max_abs'', VFloat (max_difference np actual expected)),
           (''max_rel'', VFloat (np_float np (np_call np ''max'' [np_call np ''divide'' [difference, denominator]]))),
           (''mse'', VFloat (np_float np (np_call np ''mean'' [np_call np ''power'' [offset, np_number np (Fin 2)]]))),
           (''cosine'', VFloat (np_float np (np_call np ''divide'' [np_call np ''dot'' [actual, expected],
              np_call np ''multiply'' [np_call np ''norm'' [actual], np_call np ''norm'' [expected]]]))),
           (''maximum_error_index'', VInt maximum_index), (''microllm_at_max'', VFloat (np_float np (np_at np actual maximum_index))),
           (''pytorch_at_max'', VFloat (np_float np (np_at np expected maximum_index)))])"

definition read_logits :: "'a numpy \<Rightarrow> logit_args \<Rightarrow> 'a logit_files \<Rightarrow> ('a \<times> 'a) py" where
  "read_logits np a fs =
     bindE (read_vector fs (la_microllm a)) (\<lambda>actual.
     bindE (read_vector fs (la_pytorch a)) (\<lambda>expected.
     thenE (raise_if (np_shape np actual \<noteq> np_shape np expected \<or> np_size np actual = 0) (ValueError ''logit shape mismatch''))
       (Inr (actual, expected))))"

definition compare_logits_main :: "'a numpy \<Rightarrow> logit_args \<Rightarrow> ('a logit_files, unit) action" where
  "compare_logits_main np a fs =
     (case read_logits np a fs of
        Inl e \<Rightarrow> (Inl e, fs)
      | Inr (actual, expected) \<Rightarrow>
          (let report = logit_report np (la_atol a) actual expected;
               fs1 = fs\<lparr>lg_documents := dict_set (la_output a) report (lg_documents fs)\<rparr>
           in (raise_if (bindE (py_getitem report ''status'') (\<lambda>s. Inr (py_ne s (VStr ''pass''))) = Inr True) (SystemExit 1), fs1)))"

section \<open>What the verdict means\<close>

lemma report_status:
  "py_getitem (logit_report np atol actual expected) ''status'' = Inr (VStr (if logits_pass np atol actual expected then ''pass'' else ''fail''))"
  by (simp add: logit_report_def Let_def py_getitem_def need_def)

lemma compare_logits_reads:
  "read_logits np a fs = Inr (actual, expected) \<Longrightarrow>
   compare_logits_main np a fs =
     (if logits_pass np (la_atol a) actual expected then Inr () else Inl (SystemExit 1),
      fs\<lparr>lg_documents := dict_set (la_output a) (logit_report np (la_atol a) actual expected) (lg_documents fs)\<rparr>)"
  by (simp add: compare_logits_main_def Let_def report_status py_ne_def py_eq_str raise_if_def)

definition comparable :: "'a numpy \<Rightarrow> 'a \<Rightarrow> 'a \<Rightarrow> bool" where
  "comparable np actual expected \<longleftrightarrow> np_shape np actual = np_shape np expected \<and> np_size np actual \<noteq> 0"

text \<open>
  The comparison after the reference compares the engine's logits with those the model gave for exactly the
  tokens asked for. Logits of another shape, or none, are refused and leave no report; otherwise the report is
  written whatever the verdict, and the script returns just when the largest difference is within the
  tolerance. A difference that is not a number fails.
\<close>

theorem reference_decides:
  assumes "reference_main qt q fs = (Inr (), fs1)" and "la_pytorch a = joined_path (qa_output q) ''pytorch_logits.f32''"
    and "la_microllm a \<noteq> la_pytorch a" and "map_of (lg_vectors fs) (la_microllm a) = Some actual"
    and "compare_logits_main np a fs1 = (r, fs2)"
  shows "\<exists>ids m logits. mapM int_of_str (split_on CHR '','' (qa_tokens q)) = Inr ids \<and> qt_load qt (qa_model q) = Inr m \<and>
     qt_last_logits qt m ids = Inr logits \<and>
     (if comparable np actual logits
      then r = (if fle (max_difference np actual logits) (la_atol a) then Inr () else Inl (SystemExit 1)) \<and>
           map_of (lg_documents fs2) (la_output a) = Some (logit_report np (la_atol a) actual logits) \<and>
           (max_difference np actual logits = NaN \<longrightarrow> r = Inl (SystemExit 1))
      else r = Inl (ValueError ''logit shape mismatch'') \<and> fs2 = fs1)"
proof -
  obtain ids m logits where ref: "mapM int_of_str (split_on CHR '','' (qa_tokens q)) = Inr ids" "qt_load qt (qa_model q) = Inr m"
      "qt_last_logits qt m ids = Inr logits"
    and v: "lg_vectors fs1 = dict_set (la_pytorch a) logits (lg_vectors fs)"
    using assms(1,2) by (auto simp: reference_main_def Let_def bindE_Inr_iff split: sum.splits)
  have reads: "read_logits np a fs1 = (if comparable np actual logits then Inr (actual, logits) else Inl (ValueError ''logit shape mismatch''))"
    using assms(3,4) by (auto simp: read_logits_def read_vector_def v need_def raise_if_def map_of_dict_set comparable_def)
  show ?thesis
  proof (cases "comparable np actual logits")
    case True
    then have "read_logits np a fs1 = Inr (actual, logits)" using reads by simp
    from compare_logits_reads [OF this] assms(5) ref True show ?thesis by (auto simp: logits_pass_def map_of_dict_set)
  next
    case False
    then have "compare_logits_main np a fs1 = (Inl (ValueError ''logit shape mismatch''), fs1)"
      using reads by (simp add: compare_logits_main_def)
    then show ?thesis using assms(5) ref False by auto
  qed
qed

section \<open>Two logits\<close>

text \<open>Arrays as lists of floats, with the operations the verdict needs; the others answer with nothing.\<close>

definition list_numpy :: "pyfloat list numpy" where
  "list_numpy =
     \<lparr>np_call = (\<lambda>name args.
        if name = ''subtract'' then map2 fsub (args ! 0) (args ! 1)
        else if name = ''abs'' then map fabs (args ! 0)
        else if name = ''max'' then [foldl (\<lambda>m x. if flt m x then x else m) (Fin 0) (args ! 0)]
        else []),
      np_number = (\<lambda>x. [x]), np_shape = (\<lambda>xs. [int (length xs)]), np_size = (\<lambda>xs. int (length xs)),
      np_at = (\<lambda>xs i. [xs ! nat i]), np_float = (\<lambda>xs. case xs of x # _ \<Rightarrow> x | [] \<Rightarrow> Fin 0), np_int = (\<lambda>_. 0)\<rparr>"

definition sample_transformers :: "(unit, pyfloat list) transformers" where
  "sample_transformers =
     \<lparr>qt_load = (\<lambda>_. Inr ()), qt_last_logits = (\<lambda>_ ids. Inr (map (\<lambda>i. Fin (of_int i)) ids)), qt_topk = (\<lambda>_ _. Inr []),
      qt_torch_version = ''2'', qt_version = ''4''\<rparr>"

definition sample_reference :: reference_args where
  "sample_reference = \<lparr>qa_model = ''model'', qa_tokens = ''1,2'', qa_output = ''out''\<rparr>"

definition sample_vectors :: "pyfloat list logit_files" where
  "sample_vectors = \<lparr>lg_vectors = [(''engine.f32'', [Fin 1, Fin 4])], lg_documents = []\<rparr>"

definition sample_comparison :: logit_args where
  "sample_comparison =
     \<lparr>la_microllm = ''engine.f32'', la_pytorch = ''out/pytorch_logits.f32'', la_output = ''report.json'', la_atol = Fin 1\<rparr>"

theorem reference_decides_witness:
  "\<exists>fs1 r fs2. reference_main sample_transformers sample_reference sample_vectors = (Inr (), fs1) \<and>
     compare_logits_main list_numpy sample_comparison fs1 = (r, fs2) \<and> r = Inl (SystemExit 1) \<and>
     map_of (lg_documents fs2) ''report.json'' = Some (logit_report list_numpy (Fin 1) [Fin 1, Fin 4] [Fin 1, Fin 2])"
proof -
  have ids: "mapM int_of_str (split_on CHR '','' ''1,2'') = Inr [1, 2]" by code_simp
  obtain fs1 where ref: "reference_main sample_transformers sample_reference sample_vectors = (Inr (), fs1)"
    using ids by (simp add: reference_main_def sample_transformers_def sample_reference_def Let_def)
  obtain r fs2 where cmp: "compare_logits_main list_numpy sample_comparison fs1 = (r, fs2)" by fastforce
  have paths: "la_pytorch sample_comparison = joined_path (qa_output sample_reference) ''pytorch_logits.f32''"
      "la_microllm sample_comparison \<noteq> la_pytorch sample_comparison"
      "map_of (lg_vectors sample_vectors) (la_microllm sample_comparison) = Some [Fin 1, Fin 4]"
    by (simp_all add: sample_comparison_def sample_reference_def sample_vectors_def joined_path_def)
  have "rnd 0 = Fin 0" "rnd 2 = Fin 2" by (simp_all add: rnd_0 rnd_numeral)
  then have "max_difference list_numpy [Fin 1, Fin 4] [Fin 1, Fin 2] = Fin 2"
    by (simp add: max_difference_def logit_difference_def list_numpy_def fsub_def)
  moreover have "comparable list_numpy [Fin 1, Fin 4] [Fin 1, Fin 2]" by (simp add: comparable_def list_numpy_def)
  ultimately show ?thesis
    using reference_decides [OF ref paths cmp] ids ref cmp
    by (auto simp: sample_reference_def sample_transformers_def sample_comparison_def fle_def)
qed

end
