(* ===== verification/RocprofStats.thy ===== *)
theory RocprofStats imports PyText ProfileTrace begin

text \<open>
  \<open>scripts/summarize_rocprof.py\<close>: the aggregation of a rocprofv3 trace CSV by name. A CSV file is
  the list of the dicts of \<open>csv.DictReader\<close>; \<open>write\<close> puts the rows under the columns of its
  header.
\<close>

section \<open>Aggregation\<close>

definition row_duration :: "pyval \<Rightarrow> int py" where
  "row_duration row =
     bindE (item_int row ''End_Timestamp'') (\<lambda>e. bindE (item_int row ''Start_Timestamp'') (\<lambda>s. Inr (e - s)))"

definition group_add :: "string \<Rightarrow> int \<Rightarrow> (string \<times> int list) list \<Rightarrow> (string \<times> int list) list" where
  "group_add name duration groups =
     dict_set name ((case map_of groups name of None \<Rightarrow> [] | Some ds \<Rightarrow> ds) @ [duration]) groups"

definition group_row :: "string \<Rightarrow> (string \<times> int list) list \<Rightarrow> pyval \<Rightarrow> (string \<times> int list) list py" where
  "group_row column groups row =
     bindE (row_duration row) (\<lambda>duration.
     thenE (raise_if (duration < 0) (RuntimeError ''negative duration''))
    (bindE (text_field row column) (\<lambda>name. Inr (group_add name duration groups))))"

definition square_from :: "pyfloat \<Rightarrow> int \<Rightarrow> pyfloat py" where
  "square_from mean i = bindE (float_of_int i) (\<lambda>x. fsquare (fsub x mean))"

definition variance_of :: "int list \<Rightarrow> pyfloat \<Rightarrow> pyfloat py" where
  "variance_of ds mean =
     bindE (mapM (square_from mean) ds) (\<lambda>squares.
     bindE (float_of_int (int (length ds))) (\<lambda>n. fdiv (foldl fadd (Fin 0) squares) n))"

definition percentage :: "int \<Rightarrow> int \<Rightarrow> pyfloat py" where
  "percentage part total_ns =
     (if total_ns = 0 then Inr (Fin 0)
      else bindE (float_of_int part) (\<lambda>p. bindE (float_of_int total_ns) (\<lambda>t. fdiv (fmul (Fin 100) p) t)))"

record stat_row =
  sr_name :: string
  sr_calls :: nat
  sr_total :: int
  sr_average :: pyfloat
  sr_percentage :: pyfloat
  sr_min :: int
  sr_max :: int
  sr_deviation :: pyfloat

definition stat_of :: "int \<Rightarrow> string \<times> int list \<Rightarrow> stat_row py" where
  "stat_of total_ns named =
     (case named of (name, ds) \<Rightarrow>
        bindE (int_truediv (sum_list ds) (int (length ds))) (\<lambda>mean.
        bindE (variance_of ds mean) (\<lambda>variance.
        bindE (percentage (sum_list ds) total_ns) (\<lambda>share.
        bindE (fsqrt variance) (\<lambda>deviation.
        Inr \<lparr>sr_name = name, sr_calls = length ds, sr_total = sum_list ds, sr_average = mean, sr_percentage = share,
             sr_min = min_by (<) (hd ds) (tl ds), sr_max = max_by (<) (hd ds) (tl ds), sr_deviation = deviation\<rparr>)))))"

definition aggregate :: "string \<Rightarrow> pyval list \<Rightarrow> stat_row list py" where
  "aggregate column csv =
     bindE (foldM (group_row column) [] csv) (\<lambda>groups.
     let total_ns = sum_list (map (\<lambda>(name, ds). sum_list ds) groups) in
     bindE (mapM (stat_of total_ns) groups) (\<lambda>rows.
     Inr (sort_desc_by (\<lambda>x y. sr_total x < sr_total y) rows)))"

section \<open>The report\<close>

definition stat_columns :: "string list" where
  "stat_columns = [''Name'', ''Calls'', ''TotalDurationNs'', ''AverageNs'', ''Percentage'', ''MinNs'', ''MaxNs'', ''StdDev'']"

definition stat_values :: "stat_row \<Rightarrow> pyval list" where
  "stat_values r =
     [VStr (sr_name r), VInt (int (sr_calls r)), VInt (sr_total r), VFloat (sr_average r), VFloat (sr_percentage r),
      VInt (sr_min r), VInt (sr_max r), VFloat (sr_deviation r)]"

definition write_stats :: "string \<Rightarrow> stat_row list \<Rightarrow> (outdir, unit) action" where
  "write_stats name rows = put name (VList (VList (map VStr stat_columns) # map (VList \<circ> stat_values) rows))"

text \<open>The two numbers \<open>main\<close> prints.\<close>

definition summarize_rocprof :: "pyval list option \<Rightarrow> pyval list option \<Rightarrow> (outdir, nat \<times> nat) action" where
  "summarize_rocprof kernel_trace hip_api_trace =
     (case (kernel_trace, hip_api_trace) of
        (Some kernel_csv, Some hip_csv) \<Rightarrow>
          bindS (liftS (aggregate ''Kernel_Name'' kernel_csv)) (\<lambda>kernels.
          bindS (liftS (aggregate ''Function'' hip_csv)) (\<lambda>hip_api.
          thenS (write_stats ''kernel-stats.csv'' kernels)
         (thenS (write_stats ''hip-api-stats.csv'' hip_api)
         (retS (sum_list (map sr_calls kernels), sum_list (map sr_calls hip_api))))))
      | _ \<Rightarrow> liftS (Inl (SystemExit 2)))"

interpretation total_order: keyed_comparison "(<) :: int \<Rightarrow> int \<Rightarrow> bool" "\<lambda>_. True" sr_total
  by unfold_locales

section \<open>What aggregation keeps\<close>

definition durations_of :: "string \<Rightarrow> string \<Rightarrow> pyval list \<Rightarrow> int list" where
  "durations_of column name csv =
     [d. row \<leftarrow> csv, Inr d \<leftarrow> [row_duration row], text_field row column = Inr name]"

lemma group_fold:
  assumes "foldM (group_row column) [] csv = Inr groups"
  shows "distinct (map fst groups) \<and> (\<forall>name. durations_of column name csv = (case map_of groups name of None \<Rightarrow> [] | Some ds \<Rightarrow> ds)) \<and>
    (\<forall>(name, ds) \<in> set groups. ds \<noteq> [] \<and> (\<forall>d \<in> set ds. 0 \<le> d)) \<and>
    sum_list (map (length \<circ> snd) groups) = length csv"
  using assms
proof (induction csv arbitrary: groups rule: rev_induct)
  case Nil
  then show ?case by (simp add: durations_of_def)
next
  case (snoc row csv)
  obtain g0 where g0: "foldM (group_row column) [] csv = Inr g0" and step: "group_row column g0 row = Inr groups"
    using snoc.prems by (auto simp: foldM_append bindE_Inr_iff)
  from step obtain d name where d: "row_duration row = Inr d" "\<not> d < 0" "text_field row column = Inr name"
    and g: "groups = group_add name d g0" by (auto simp: bindE_Inr_iff group_row_def)
  note ih = snoc.IH [OF g0]
  have len: "sum_list (map (length \<circ> snd) (dict_set name (ds @ [d]) g)) = Suc (sum_list (map (length \<circ> snd) g))"
    if "distinct (map fst g)" "ds = (case map_of g name of None \<Rightarrow> [] | Some ds \<Rightarrow> ds)" for g ds
    using that by (induction g) (auto split: if_splits)
  have mem: "p = (name, ds) \<or> p \<in> set g" if "p \<in> set (dict_set name ds g)" for p ds and g :: "(string \<times> int list) list"
    using that by (induction g) (auto split: if_splits)
  let ?old = "case map_of g0 name of None \<Rightarrow> [] | Some ds \<Rightarrow> ds"
  have old: "\<forall>x \<in> set ?old. 0 \<le> x" using ih by (auto split: option.splits dest!: map_of_SomeD)
  have snoc_durations: "durations_of column n (csv @ [row]) = durations_of column n csv @ (if n = name then [d] else [])" for n
    using d by (auto simp: durations_of_def)
  show ?case
  proof (intro conjI)
    show "distinct (map fst groups)" using ih by (simp add: g group_add_def)
    show "\<forall>n. durations_of column n (csv @ [row]) = (case map_of groups n of None \<Rightarrow> [] | Some ds \<Rightarrow> ds)"
      using ih by (simp add: g group_add_def snoc_durations)
    show "\<forall>(n, ds) \<in> set groups. ds \<noteq> [] \<and> (\<forall>d \<in> set ds. 0 \<le> d)"
    proof
      fix p assume "p \<in> set groups"
      then have "p = (name, ?old @ [d]) \<or> p \<in> set g0" unfolding g group_add_def by (rule mem)
      then show "case p of (n, ds) \<Rightarrow> ds \<noteq> [] \<and> (\<forall>d \<in> set ds. 0 \<le> d)"
      proof
        assume p: "p = (name, ?old @ [d])"
        have "\<forall>x \<in> set (?old @ [d]). 0 \<le> x" using old d(2) by simp
        then show ?thesis unfolding p prod.case by blast
      next
        assume "p \<in> set g0"
        then show ?thesis using ih by blast
      qed
    qed
    show "sum_list (map (length \<circ> snd) groups) = length (csv @ [row])"
      using ih len [of g0 ?old] by (simp add: g group_add_def comp_def)
  qed
qed


definition stat_ok :: "int list \<Rightarrow> stat_row \<Rightarrow> bool" where
  "stat_ok ds r \<longleftrightarrow> ds \<noteq> [] \<and> sr_calls r = length ds \<and> sr_total r = sum_list ds \<and>
     sr_min r \<in> set ds \<and> sr_max r \<in> set ds \<and> (\<forall>d \<in> set ds. sr_min r \<le> d \<and> d \<le> sr_max r)"

lemma stat_of_ok:
  assumes "stat_of t (name, ds) = Inr r" and "ds \<noteq> []"
  shows "sr_name r = name \<and> stat_ok ds r"
proof -
  obtain x xs where ds: "ds = x # xs" using assms(2) by (cases ds) auto
  have r: "sr_name r = name" "sr_calls r = length ds" "sr_total r = sum_list ds" "sr_min r = min_by (<) x xs" "sr_max r = max_by (<) x xs"
    using assms(1) by (auto simp: stat_of_def bindE_Inr_iff ds)
  have "\<forall>d \<in> set ds. \<not> d < min_by (<) x xs" "\<forall>d \<in> set ds. \<not> max_by (<) x xs < d"
    using int_order.min_by_lower [where x = x and xs = xs] int_order.max_by_upper [where x = x and xs = xs] by (auto simp: ds)
  then show ?thesis using r min_by_in [of "(<)" x xs] max_by_in [of "(<)" x xs] ds by (auto simp: stat_ok_def not_less)
qed

text \<open>
  The aggregation of a trace loses and invents nothing: it has one row per name, the calls add up to
  the rows of the CSV file, each row counts, sums and bounds exactly the durations recorded under its
  name, and the rows are in order of falling total duration.
\<close>

theorem aggregate_conserves:
  assumes "aggregate column csv = Inr rows"
  shows "distinct (map sr_name rows) \<and> sum_list (map sr_calls rows) = length csv \<and>
    (\<forall>r \<in> set rows. stat_ok (durations_of column (sr_name r) csv) r) \<and> sorted_wrt (\<lambda>x y. sr_total y \<le> sr_total x) rows"
proof -
  obtain groups t unsorted where g: "foldM (group_row column) [] csv = Inr groups" and u: "mapM (stat_of t) groups = Inr unsorted"
    and rows: "rows = sort_desc_by (\<lambda>x y. sr_total x < sr_total y) unsorted"
    using assms by (auto simp: aggregate_def Let_def bindE_Inr_iff)
  note gf = group_fold [OF g]
  have each: "list_all2 (\<lambda>p r. sr_name r = fst p \<and> stat_ok (snd p) r) groups unsorted"
  proof (rule list_all2_all_nthI)
    show "length groups = length unsorted" using mapM_length [OF u] by simp
    fix i assume i: "i < length groups"
    obtain name ds where nd: "groups ! i = (name, ds)" by (cases "groups ! i")
    have "ds \<noteq> []" using gf nth_mem [OF i] nd by auto
    then show "sr_name (unsorted ! i) = fst (groups ! i) \<and> stat_ok (snd (groups ! i)) (unsorted ! i)"
      using stat_of_ok mapM_nth [OF u i] nd by simp
  qed
  then have names: "map sr_name unsorted = map fst groups" and calls: "map sr_calls unsorted = map (length \<circ> snd) groups"
    by (induction rule: list_all2_induct) (simp_all add: stat_ok_def)
  have m: "mset rows = mset unsorted" by (simp add: rows)
  have "mset (map sr_name rows) = mset (map fst groups)" using m names by (metis mset_map)
  then have d: "distinct (map sr_name rows)" using gf by (metis mset_eq_imp_distinct_iff)
  have "sum_list (map sr_calls rows) = sum_list (map sr_calls unsorted)" using m by (metis (no_types) mset_map sum_mset_sum_list)
  then have c: "sum_list (map sr_calls rows) = length csv" using calls gf by simp
  have ok: "stat_ok (durations_of column (sr_name r) csv) r" if r: "r \<in> set rows" for r
  proof -
    have "r \<in> set unsorted" using r by (simp add: rows)
    then obtain i where i: "i < length unsorted" "r = unsorted ! i" by (auto simp: in_set_conv_nth)
    define p where "p = groups ! i"
    have p: "p \<in> set groups" "sr_name r = fst p" "stat_ok (snd p) r"
      using list_all2_nthD2 [OF each i(1)] list_all2_lengthD [OF each] i by (simp_all add: p_def)
    then have "map_of groups (sr_name r) = Some (snd p)" using gf by (simp add: map_of_eq_Some_iff)
    then show ?thesis using gf p(3) by simp
  qed
  have "sorted_wrt (\<lambda>x y. \<not> sr_total x < sr_total y) rows"
    unfolding rows by (rule total_order.keyed.sort_desc_by_sorted) simp
  then have "sorted_wrt (\<lambda>x y. sr_total y \<le> sr_total x) rows" by (simp add: not_less)
  then show ?thesis using d c ok by blast
qed

section \<open>The property at a concrete trace\<close>

definition sample_csv :: "pyval list" where
  "sample_csv = map (\<lambda>(n, s, e). VDict [(''Kernel_Name'', VStr n), (''Start_Timestamp'', VStr s), (''End_Timestamp'', VStr e)])
     [(''gemm'', ''10'', ''14''), (''add'', ''20'', ''21''), (''gemm'', ''30'', ''34'')]"

lemma csv_ints: "int_of_str ''10'' = Inr 10" "int_of_str ''14'' = Inr 14" "int_of_str ''20'' = Inr 20" "int_of_str ''21'' = Inr 21"
  "int_of_str ''30'' = Inr 30" "int_of_str ''34'' = Inr 34"
  by code_simp+

lemma sample_groups: "foldM (group_row ''Kernel_Name'') [] sample_csv = Inr [(''gemm'', [4, 4]), (''add'', [1])]"
  by (simp add: sample_csv_def group_row_def row_duration_def item_int_def py_getitem_def py_int_def csv_ints text_field_def group_add_def)

theorem aggregate_conserves_witness:
  "\<exists>rows. aggregate ''Kernel_Name'' sample_csv = Inr rows \<and> sum_list (map sr_calls rows) = 3 \<and>
     (\<forall>r \<in> set rows. stat_ok (durations_of ''Kernel_Name'' (sr_name r) sample_csv) r)"
proof -
  have stat: "\<exists>r. stat_of 9 p = Inr r" if p: "p \<in> {(''gemm'', [4, 4]), (''add'', [1])}" for p
  proof -
    have share: "\<exists>x. percentage i 9 = Inr x" if "i \<in> {8, 1}" for i using that by (auto simp: percentage_def)
    have mean: "int_truediv 8 2 = Inr (Fin 4)" "int_truediv 1 1 = Inr (Fin 1)" by (simp_all add: int_truediv_def)
    have var: "variance_of [4, 4] (Fin 4) = Inr (Fin 0)" "variance_of [1] (Fin 1) = Inr (Fin 0)"
      by (simp_all add: variance_of_def square_from_def fsub_def finite_or_overflow_def)
    show ?thesis using p share [of 8] share [of 1] mean var by (auto simp: stat_of_def)
  qed
  obtain r1 r2 where "stat_of 9 (''gemm'', [4, 4]) = Inr r1" "stat_of 9 (''add'', [1]) = Inr r2"
    using stat [of "(''gemm'', [4, 4])"] stat [of "(''add'', [1])"] by auto
  then obtain rows where rows: "aggregate ''Kernel_Name'' sample_csv = Inr rows"
    by (simp add: aggregate_def sample_groups)
  then show ?thesis using aggregate_conserves [OF rows] by (simp add: sample_csv_def)
qed

end
