(* ===== verification/Spec2Isabelle.thy ===== *)
theory Spec2Isabelle imports TraceMerge ProfileEvents CapiLife CapiSig RankedSample RankedCheckpoint TorchSample TorchOps CoverageAudit PackageInit OptLogMore LinkCheck AlignPath AlignReport AlignRun DistributedRun HfSample HfLogits RocprofStats begin

text \<open>
  A model of the Python layer of microLLM, the code around the native engine: what it computes, what
  it writes, and when it refuses to.

  \<^bold>\<open>The program.\<close> The engine itself is C++ and HIP; Python reaches it through a C interface. Around it
  stand tools that run it, measure it and decide whether a run counts:

  \<^item> \<open>python/microllm\<close>: the ctypes binding \<open>_capi.py\<close>, the span profiler \<open>profiling.py\<close> (which
    uses the binding's events for GPU spans), the custom operators \<open>torch_ops.py\<close> and the package's exports.
  \<^item> \<open>tools/alignment\<close>: \<open>run.py\<close> starts the C++ trace, then \<open>pytorch_runner.py\<close>, then
    \<open>compare.py\<close>; both sides write trace files in the format of \<open>common.py\<close>, and the exit status of the
    comparison is the verdict of the pipeline.
  \<^item> \<open>tools/distributed\<close>: \<open>run.py\<close> records one data-parallel experiment; \<open>run_ranked.py\<close> and
    \<open>run_ranked_checkpoint.py\<close> launch a group of rank processes, supervise it, and hold the records, the
    parameters and the checkpoints of the ranks to a contract.
  \<^item> \<open>tools/prepare_hf_fixture.py\<close>: pinned model fixtures, prepared and validated;
    \<open>tools/huggingface\<close>: reference logits and their comparison with the engine's.
  \<^item> \<open>scripts\<close>: the statistics of a rocprof trace and the audit of test coverage;
    \<open>docs/optimization-log/scripts\<close>: the validator of the experiment ledger.

  The parts meet in data. A span file goes from \<open>ProfileScope\<close> to the Perfetto export and the merge with
  rocprof's CSV files; a trace file goes from the trace session to the comparison; a manifest goes from
  \<open>prepare\<close> to \<open>validate\<close>; the reference logits go to the logit comparison. The properties follow these paths.

  \<^bold>\<open>How Python is modelled.\<close> A call that may raise has the type \<open>'a py\<close>, a sum with the exception on the
  left; statements stop at the first exception by \<open>bindE\<close>. A statement that changes state is an
  \<open>action\<close>, which returns the outcome with the state it left: changes made before a raise stay. A JSON value
  is a \<open>pyval\<close>, with the operators of the language as they are, \<open>TypeError\<close> included. A float is an IEEE
  double with its one rounding per operation, kept as an exact rational, an infinity or \<open>NaN\<close>; the sign of
  zero is dropped. An integer is unbounded, and is masked to its C width where ctypes does so. \<open>max\<close>,
  \<open>min\<close> and \<open>sorted\<close> run over the comparison they are given, \<open>NaN\<close> and all; the laws of their results
  are proved once in the locale \<open>comparison\<close>, for the values the comparison does order.

  \<^bold>\<open>The theories.\<close>

  \<^item> Shared: \<open>PyBase\<close> (exceptions, dicts, decimal text), \<open>PyOrder\<close>, \<open>PyFloat\<close>,
    \<open>PyFloatBounds\<close>, \<open>PyVal\<close>, \<open>PyState\<close>, \<open>PyText\<close>, \<open>PyStats\<close>.
  \<^item> \<open>profiling.py\<close>: \<open>ProfileScopes\<close> (\<open>_roctx_runtime\<close>, \<open>ProfileScope\<close>, \<open>profile\<close>),
    \<open>ProfileEvents\<close> (\<open>HipEventProfileScope\<close>), \<open>ProfileTrace\<close> (reading and exporting spans, the clock
    calibration), \<open>TraceMerge\<close> (\<open>merge_rocprof_perfetto\<close>).
  \<^item> \<open>_capi.py\<close>: \<open>Capi\<close> (enums, argument conversion, \<open>Tensor\<close>, \<open>Event\<close>, \<open>Stream\<close>),
    \<open>CapiOps\<close> (the operators), \<open>CapiLife\<close> (handles over a session), \<open>CapiSig\<close> (declared signatures).
  \<^item> \<open>run_ranked.py\<close>: \<open>RankedArgs\<close> (\<open>options\<close>, command lines), \<open>RankedGroup\<close>
    (\<open>terminate\<close>, \<open>wait_group\<close>), \<open>RankedCheck\<close> (the checks of \<open>main\<close> on the records),
    \<open>RankedMain\<close> (\<open>main\<close>), \<open>RankedVerdict\<close> and \<open>RankedSample\<close> (what a passing run means).
    \<open>run_ranked_checkpoint.py\<close>: \<open>RankedCheckpoint\<close>. \<open>distributed/run.py\<close>: \<open>DistributedRun\<close>.
  \<^item> Alignment: \<open>AlignCommon\<close> (\<open>common.py\<close>), \<open>AlignCompare\<close> and \<open>AlignReport\<close>
    (\<open>compare.py\<close>), \<open>AlignVerdict\<close> and \<open>AlignSelf\<close> (what a verdict means), \<open>AlignRun\<close>
    (\<open>run.py\<close>), \<open>AlignPath\<close> (from the runner to the comparison), \<open>TorchRunner\<close>,
    \<open>TorchTrace\<close>, \<open>TorchMain\<close>, \<open>TorchProps\<close> and \<open>TorchSample\<close> (\<open>pytorch_runner.py\<close>).
  \<^item> \<open>prepare_hf_fixture.py\<close>: \<open>HfFixture\<close>, \<open>HfPrepare\<close>, \<open>HfVerdict\<close>, \<open>HfRound\<close>,
    \<open>HfSample\<close>. \<open>tools/huggingface\<close>: \<open>HfLogits\<close>. \<open>summarize_rocprof.py\<close>: \<open>RocprofStats\<close>. \<open>torch_ops.py\<close>: \<open>TorchOps\<close>.
    \<open>audit_test_coverage.py\<close>: \<open>HeaderScan\<close>, \<open>CoverageAudit\<close>. \<open>__init__.py\<close>:
    \<open>PackageInit\<close>. \<open>validate_log.py\<close>: \<open>OptLog\<close>, \<open>OptLogMore\<close>, \<open>LinkCheck\<close>.

  A method is a definition named after it, in the order of the file; an object is a record of its fields; a
  module global (\<open>_DEPTH\<close>, \<open>_ROCTX_RUNTIME\<close>, \<open>_FORMULAS_REGISTERED\<close>, the package's lazy attributes)
  is a field of the state the operations pass on. An output directory is a dict of documents by relative path.

  \<^bold>\<open>Interfaces.\<close> \<open>comparison\<close> and \<open>keyed_comparison\<close> (with the order of integers, floats and JSON
  numbers as instances), \<open>depth_guard\<close> (a context manager that moves a nesting depth and moves it back
  whatever its body does; the plain and the HIP scope are instances), and \<open>resource\<close> (an object that gives a
  handle back once; tensors, events and streams are instances).

  \<^bold>\<open>What is shown.\<close>

  \<^item> Profiling: the decorator passes results and exceptions through and restores the depth; nested scopes
    are logged inside out with ordered stamps; an event scope writes one record however often it is waited for;
    records written are accepted by the exporter; the calibration's gates bound its error and its map is
    monotone; every kernel is paired with the tightest enclosing marker, and no merged time is negative.
  \<^item> Binding: over any session of calls on live objects no handle is used after it was freed and none is
    freed twice; every call conforms to the declared signature.
  \<^item> Ranked runs: \<open>wait_group\<close> returns, and with the right outcome, whatever the processes do; a passing
    run bounds the parameter differences between ranks and reference; a failed one leaves no summary; what the
    accepted counters imply; the checkpoint run certifies byte equality.
  \<^item> Alignment: what each verdict of a checkpoint means for the values; the comparison returns on
    well-formed traces; a zero exit status means agreement; a trace agrees with itself; the runner's files hold
    the traces of its sessions, a pass that fails leaves a prefix, and the run record is written last;
    its values file loads and can be compared with any well-formed trace of the other side; the pipeline refines
    one that runs its stages in order and stops at the first failure, and always leaves its manifest.
  \<^item> Fixtures: an accepted header lies within the file, shards are partitioned by the index, and what
    \<open>prepare\<close> wrote \<open>validate\<close> accepts, unless files are symbolic links; the
    logit comparison passes just within its tolerance.
  \<^item> The scripts: aggregation loses no call and no time, the header scanner finds every declaration as
    printed, an audit without errors covers every name, a ledger without complaints is ordered and finite, and a
    log whose links pass has no link to a missing file.

  \<^bold>\<open>Termination.\<close> Every function is total. Only the polling loops of \<open>terminate\<close> and
  \<open>wait_group\<close> may run forever, against a process that never exits and a clock that never moves; they take
  fuel, and \<open>wait_group_returns\<close> proves that enough fuel exists as soon as the clock advances.

  \<^bold>\<open>Assumptions.\<close> \<open>sum\<close> adds floats from left to right (as CPython does before version 3.12), and the
  square root and \<open>** 0.5\<close> are correctly rounded. Text is ASCII where a character class matters. JSON, TOML
  and CSV are met at the level of their documents: the standard library's parsers turn a file into the value the
  code works on. A write of a text file succeeds unless its failure is part of what is modelled. The engine, the
  ROCTX library, the operating system, PyTorch, NumPy, Transformers, the Hugging Face hub and the tools on the
  path are parameters: arbitrary functions of the calls made to them, with what a property relies on as a named hypothesis (\<open>tame\<close>, \<open>fresh_engine\<close>, that the
  clock advances).

  \<^bold>\<open>Not modelled.\<close> The engine, its headers, bindings, applications and examples: another language, behind the
  C interface. The text of \<open>argparse\<close>, console output and Markdown tables: only the selected rows and the
  status. The SVG renderers and the validators of later experiments in \<open>docs/optimization-log/scripts\<close>: each
  draws or compares the recorded numbers of one experiment. The benchmark scripts and their results: command
  lines around the programs above, and data. Tests, build files and shell scripts.
\<close>

end
